(* ===== verification/Prelude.thy ===== *)
theory Prelude
  imports Main "HOL-Library.AList"
begin

text \<open>
  Shared vocabulary of the development: Go maps, Go's zero-valued lookups, the error
  values, results of fallible calls, and the interface of a keyed store with its generic
  client lemmas.

  A Go map that is only read and written is a HOL map. A Go map over which the code
  ranges, or whose length it tests, is an association list with distinct keys: the order
  of the list is one iteration order, and since the theorems hold for every list, they
  hold for every order the Go runtime may choose.
\<close>

named_theorems go_defs \<open>definitions of handlers, unfolded to follow one branch\<close>
named_theorems store_simps \<open>lookups after updates of keyed stores\<close>

subsection \<open>Strings and maps\<close>

type_synonym strmap = "string \<rightharpoonup> string"

text \<open>The Go expression m[k] on a map of strings: a missing key reads as the empty string.\<close>

definition mget :: "('k \<rightharpoonup> string) \<Rightarrow> 'k \<Rightarrow> string" where
  "mget m k = (case m k of None \<Rightarrow> [] | Some v \<Rightarrow> v)"

text \<open>The loop that deletes every key of a slice from a map.\<close>

primrec mdelete_all :: "('k \<rightharpoonup> 'v) \<Rightarrow> 'k list \<Rightarrow> ('k \<rightharpoonup> 'v)" where
  "mdelete_all m [] = m"
| "mdelete_all m (k # ks) = mdelete_all (m(k := None)) ks"

lemma mget_simps [simp]:
  "mget Map.empty k = []"
  "mget (m(k \<mapsto> v)) k = v"
  "mget (m(k := None)) k = []"
  "k \<noteq> k' \<Longrightarrow> mget (m(k' := x)) k = mget m k"
  by (simp_all add: mget_def)

lemma mget_Some [simp]: "m k = Some v \<Longrightarrow> mget m k = v"
  by (simp add: mget_def)

lemma mget_nonempty: "mget m k \<noteq> [] \<Longrightarrow> m k = Some (mget m k)"
  by (simp add: mget_def split: option.splits)

lemma mdelete_all_apply [simp]:
  "mdelete_all m ks k = (if k \<in> set ks then None else m k)"
  by (induction ks arbitrary: m) auto

lemma mget_mdelete_all [simp]:
  "mget (mdelete_all m ks) k = (if k \<in> set ks then [] else mget m k)"
  by (simp add: mget_def)

lemma map_add_left [simp]: "n k = None \<Longrightarrow> (m ++ n) k = m k"
  by (simp add: map_add_def)

lemma mget_map_add:
  "mget (m ++ n) k = (case n k of None \<Rightarrow> mget m k | Some v \<Rightarrow> v)"
  by (simp add: mget_def map_add_def split: option.splits)

subsection \<open>Errors and results\<close>

text \<open>
  The error values the code can meet. \<open>StatusError\<close> is an error of the Kubernetes API,
  \<open>ErrorString\<close> one made by errors.New or errors.Errorf, \<open>PermanentError\<close> the
  repository's own wrapper, \<open>Annotated\<close> any wrapper of the errors package, and the last two
  are the error types of the cluster metadata detectors.
\<close>

datatype api_reason = ReasonNotFound | ReasonAlreadyExists | ReasonConflict | ReasonOther

datatype gerror =
    StatusError api_reason string
  | ErrorString string
  | PermanentError gerror
  | Annotated string gerror
  | UnknownProviderError
  | UnknownDistributionError

type_synonym 'a result = "gerror + 'a"

subsection \<open>Keyed stores\<close>

text \<open>
  The contract that the registries of the program share (the clusters of a manager, the
  features, the pending and the active controllers of a cluster): what a lookup returns
  after an entry is stored or deleted, and the well-formedness every operation keeps.
\<close>

datatype ('k, 'v) store_op = Put 'k 'v | Del 'k

primrec last_put :: "'k \<Rightarrow> ('k, 'v) store_op list \<Rightarrow> 'v option \<Rightarrow> 'v option" where
  "last_put k [] acc = acc"
| "last_put k (x # xs) acc =
     last_put k xs
       (case x of Put k' v \<Rightarrow> (if k' = k then Some v else acc)
        | Del k' \<Rightarrow> (if k' = k then None else acc))"

locale keyed_store =
  fixes wf :: "'s \<Rightarrow> bool"
    and get :: "'s \<Rightarrow> 'k \<Rightarrow> 'v option"
    and put :: "'k \<Rightarrow> 'v \<Rightarrow> 's \<Rightarrow> 's"
    and del :: "'k \<Rightarrow> 's \<Rightarrow> 's"
  assumes get_put: "wf s \<Longrightarrow> get (put k v s) k' = (if k' = k then Some v else get s k')"
    and get_del: "wf s \<Longrightarrow> get (del k s) k' = (if k' = k then None else get s k')"
    and wf_put: "wf s \<Longrightarrow> wf (put k v s)"
    and wf_del: "wf s \<Longrightarrow> wf (del k s)"
begin

primrec run_ops :: "('k, 'v) store_op list \<Rightarrow> 's \<Rightarrow> 's" where
  "run_ops [] s = s"
| "run_ops (x # xs) s = run_ops xs (case x of Put k v \<Rightarrow> put k v s | Del k \<Rightarrow> del k s)"

lemma wf_run_ops: "wf s \<Longrightarrow> wf (run_ops xs s)"
  by (induction xs arbitrary: s) (auto simp: wf_put wf_del split: store_op.split)

lemma get_run_ops: "wf s \<Longrightarrow> get (run_ops xs s) k = last_put k xs (get s k)"
proof (induction xs arbitrary: s)
  case Nil
  then show ?case by simp
next
  case (Cons x xs)
  then show ?case
    by (cases x) (auto simp: wf_put wf_del get_put get_del)
qed

end

text \<open>Association lists with distinct keys are such a store.\<close>

definition alist_wf :: "('k \<times> 'v) list \<Rightarrow> bool" where
  "alist_wf m \<longleftrightarrow> distinct (map fst m)"

lemma map_of_AList_update [store_simps, simp]:
  "map_of (AList.update k v m) k' = (if k' = k then Some v else map_of m k')"
  by (simp add: update_conv')

lemma map_of_AList_delete [store_simps, simp]:
  "map_of (AList.delete k m) k' = (if k' = k then None else map_of m k')"
  by (simp add: delete_conv')

lemma alist_wf_Nil [simp]: "alist_wf []"
  by (simp add: alist_wf_def)

lemma alist_wf_update [simp, intro]: "alist_wf m \<Longrightarrow> alist_wf (AList.update k v m)"
  by (simp add: alist_wf_def distinct_update)

lemma alist_wf_delete [simp, intro]: "alist_wf m \<Longrightarrow> alist_wf (AList.delete k m)"
  by (simp add: alist_wf_def distinct_delete)

lemma alist_wf_map_of: "alist_wf m \<Longrightarrow> (k, v) \<in> set m \<longleftrightarrow> map_of m k = Some v"
  unfolding alist_wf_def by (metis map_of_SomeD map_of_is_SomeI)

interpretation al: keyed_store alist_wf map_of AList.update AList.delete
  by unfold_locales auto

end
