(* ===== verification/ApiTypes.thy ===== *)
theory ApiTypes
  imports Prelude
begin

text \<open>
  The API types of the registry (src/api/v1alpha1): cluster, cluster feature and resource
  sync rule resources, with the metadata every Kubernetes object carries. Struct embedding
  is record extension, so the metadata selectors apply to every resource. Times are
  seconds, 0 is the zero time. Enumerations that reach the program as strings stay strings,
  since an unset value reads as the empty string.
\<close>

subsection \<open>Objects\<close>

record GroupVersionKind =
  gvk_Group :: string
  gvk_Version :: string
  gvk_Kind :: string

definition gvk_zero :: GroupVersionKind where
  "gvk_zero = \<lparr>gvk_Group = '''', gvk_Version = '''', gvk_Kind = ''''\<rparr>"

record NamespacedName =
  nn_Name :: string
  nn_Namespace :: string

record ObjectMeta =
  m_Name :: string
  m_Namespace :: string
  m_Labels :: strmap
  m_Annotations :: strmap
  m_UID :: string
  m_ResourceVersion :: string
  m_Generation :: int
  m_SelfLink :: string
  m_CreationTimestamp :: nat
  m_DeletionTimestamp :: nat
  m_Finalizers :: "string list"
  m_OwnerReferences :: "string list"
  m_ManagedFields :: "string list"

text \<open>
  An object handled through the generic client interface: the type its TypeMeta names, its
  metadata, and the serialised rest (spec, data, status), which this code passes on without
  reading it. \<open>o_GoType\<close> is the registered type of a Go struct and None for an unstructured
  object; a change of the TypeMeta does not change it.
\<close>

record k8s_object = ObjectMeta +
  o_GVK :: GroupVersionKind
  o_Rest :: string
  o_GoType :: "GroupVersionKind option"

definition object_zero :: k8s_object where
  "object_zero = \<lparr>m_Name = '''', m_Namespace = '''', m_Labels = Map.empty, m_Annotations = Map.empty,
     m_UID = '''', m_ResourceVersion = '''', m_Generation = 0, m_SelfLink = '''',
     m_CreationTimestamp = 0, m_DeletionTimestamp = 0, m_Finalizers = [], m_OwnerReferences = [],
     m_ManagedFields = [], o_GVK = gvk_zero, o_Rest = '''', o_GoType = None\<rparr>"

subsection \<open>Cluster (cluster\_types.go, cluster\_metadata.go)\<close>

record KubernetesAPIEndpoint =
  ep_ClientNetwork :: string
  ep_ServerAddress :: string
  ep_CABundle :: string

record ClusterSpec =
  sp_ClusterID :: string
  sp_SecretRef :: NamespacedName
  sp_KubernetesAPIEndpoints :: "KubernetesAPIEndpoint list"

record Locality =
  loc_Region :: string
  loc_Regions :: "string list"
  loc_Zones :: "string list"

record ClusterMetadata =
  cm_Provider :: string
  cm_Distribution :: string
  cm_KubeProxyVersions :: "string list"
  cm_KubeletVersions :: "string list"
  cm_Version :: string
  cm_Locality :: "Locality option"

definition ClusterMetadata_zero :: ClusterMetadata where
  "ClusterMetadata_zero = \<lparr>cm_Provider = '''', cm_Distribution = '''', cm_KubeProxyVersions = [],
     cm_KubeletVersions = [], cm_Version = '''', cm_Locality = None\<rparr>"

record ClusterCondition =
  cc_Type :: string
  cc_Status :: string
  cc_LastHeartbeatTime :: nat
  cc_LastTransitionTime :: nat
  cc_Reason :: string
  cc_Message :: string
  cc_TrueIsFailure :: bool

definition ClusterCondition_zero :: ClusterCondition where
  "ClusterCondition_zero = \<lparr>cc_Type = '''', cc_Status = '''', cc_LastHeartbeatTime = 0,
     cc_LastTransitionTime = 0, cc_Reason = '''', cc_Message = '''', cc_TrueIsFailure = False\<rparr>"

record ClusterStatus =
  st_State :: string
  st_Message :: string
  st_Type :: string
  st_Leader :: bool
  st_ClusterMetadata :: ClusterMetadata
  st_Conditions :: "ClusterCondition list"

record Cluster = ObjectMeta +
  c_Spec :: ClusterSpec
  c_Status :: ClusterStatus

definition SecretTypeClusterRegistry :: string where
  "SecretTypeClusterRegistry = ''k8s.cisco.com/cluster-registry-secret''"

definition KubeconfigKey :: string where
  "KubeconfigKey = ''kubeconfig''"

definition ClusterTypeLocal :: string where "ClusterTypeLocal = ''Local''"
definition ClusterTypePeer :: string where "ClusterTypePeer = ''Peer''"

definition ClusterStateReady :: string where "ClusterStateReady = ''Ready''"
definition ClusterStateFailed :: string where "ClusterStateFailed = ''Failed''"
definition ClusterStateDisabled :: string where "ClusterStateDisabled = ''Disabled''"
definition ClusterStateMissingAuthInfo :: string where
  "ClusterStateMissingAuthInfo = ''MissingAuthInfo''"
definition ClusterStateInvalidAuthInfo :: string where
  "ClusterStateInvalidAuthInfo = ''InvalidAuthInfo''"

definition ClusterConditionTypeLocalCluster :: string where
  "ClusterConditionTypeLocalCluster = ''LocalCluster''"
definition ClusterConditionTypeLocalConflict :: string where
  "ClusterConditionTypeLocalConflict = ''LocalConflict''"
definition ClusterConditionTypeClusterMetadata :: string where
  "ClusterConditionTypeClusterMetadata = ''ClusterMetadataSet''"
definition ClusterConditionTypeReady :: string where
  "ClusterConditionTypeReady = ''Ready''"
definition ClusterConditionTypeClustersSynced :: string where
  "ClusterConditionTypeClustersSynced = ''ClustersSynced''"

lemmas condition_type_defs =
  ClusterConditionTypeLocalCluster_def ClusterConditionTypeLocalConflict_def
  ClusterConditionTypeClusterMetadata_def ClusterConditionTypeReady_def
  ClusterConditionTypeClustersSynced_def

lemmas cluster_state_defs =
  ClusterStateReady_def ClusterStateFailed_def ClusterStateDisabled_def
  ClusterStateMissingAuthInfo_def ClusterStateInvalidAuthInfo_def

lemma cluster_type_distinct [simp]:
  "ClusterTypePeer \<noteq> ClusterTypeLocal" "ClusterTypeLocal \<noteq> ClusterTypePeer"
  by (simp_all add: ClusterTypeLocal_def ClusterTypePeer_def)

text \<open>The values of the condition status type of the Kubernetes core API.\<close>

definition ConditionTrue :: string where "ConditionTrue = ''True''"
definition ConditionFalse :: string where "ConditionFalse = ''False''"
definition ConditionUnknown :: string where "ConditionUnknown = ''Unknown''"

lemmas condition_status_defs = ConditionTrue_def ConditionFalse_def ConditionUnknown_def

definition ClusterStatus_Reset :: "ClusterStatus \<Rightarrow> ClusterStatus" where
  "ClusterStatus_Reset s =
     \<lparr>st_State = ClusterStateReady, st_Message = '''', st_Type = ClusterTypePeer,
      st_Leader = False, st_ClusterMetadata = ClusterMetadata_zero,
      st_Conditions = st_Conditions s\<rparr>"

subsection \<open>ClusterFeature (cluster\_feature\_types.go)\<close>

record ClusterFeatureCR = ObjectMeta +
  cf_FeatureName :: string

subsection \<open>ResourceSyncRule (resourcesyncrule\_types.go)\<close>

definition OwnershipAnnotation :: string where
  "OwnershipAnnotation = ''cluster-registry.k8s.cisco.com/resource-owner-cluster-id''"
definition OriginalGVKAnnotation :: string where
  "OriginalGVKAnnotation = ''cluster-registry.k8s.cisco.com/original-group-version-kind''"
definition ClusterDisabledAnnotation :: string where
  "ClusterDisabledAnnotation = ''cluster-registry.k8s.cisco.com/cluster-disabled''"
definition SyncDisabledAnnotation :: string where
  "SyncDisabledAnnotation = ''cluster-registry.k8s.cisco.com/resource-sync-disabled''"

lemmas annotation_defs =
  OwnershipAnnotation_def OriginalGVKAnnotation_def ClusterDisabledAnnotation_def
  SyncDisabledAnnotation_def

lemma annotation_distinct [simp]:
  "OwnershipAnnotation \<noteq> OriginalGVKAnnotation" "OriginalGVKAnnotation \<noteq> OwnershipAnnotation"
  "OwnershipAnnotation \<noteq> SyncDisabledAnnotation" "SyncDisabledAnnotation \<noteq> OwnershipAnnotation"
  "OriginalGVKAnnotation \<noteq> SyncDisabledAnnotation" "SyncDisabledAnnotation \<noteq> OriginalGVKAnnotation"
  by (simp_all add: annotation_defs)

text \<open>
  A label selector as the Kubernetes API has it; a requirement's operator is one of the
  strings In, NotIn, Exists and DoesNotExist. The maps of a selector are association lists,
  because the code tests their length.
\<close>

record LabelSelectorRequirement =
  lr_Key :: string
  lr_Operator :: string
  lr_Values :: "string list"

record LabelSelector =
  ls_MatchLabels :: "(string \<times> string) list"
  ls_MatchExpressions :: "LabelSelectorRequirement list"

record ClusterFeatureMatch =
  fm_FeatureName :: string
  fm_MatchLabels :: "(string \<times> string) list"
  fm_MatchExpressions :: "LabelSelectorRequirement list"

record K8SResourceOverlayPatch =
  op_Path :: "string option"
  op_Type :: string
  op_Value :: "string option"

record AnnotationMutations =
  am_Add :: strmap
  am_Remove :: "string list"

record LabelMutations =
  lm_Add :: strmap
  lm_Remove :: "string list"

record Mutations =
  mu_Annotations :: "AnnotationMutations option"
  mu_GVK :: "GroupVersionKind option"
  mu_Labels :: "LabelMutations option"
  mu_Overrides :: "K8SResourceOverlayPatch list"
  mu_SyncStatus :: bool

record AnnotationSelectorRequirement =
  ar_Key :: string
  ar_Operator :: string
  ar_Values :: "string list"

record AnnotationSelector =
  as_MatchAnnotations :: "(string \<times> string) list"
  as_MatchExpressions :: "AnnotationSelectorRequirement list"

text \<open>The value of a content selector is an integer or a string (intstr.IntOrString).\<close>

datatype IntOrString = IntVal int | StrVal string

record ContentSelector =
  cs_Key :: string
  cs_Value :: IntOrString

record SyncRuleMatch =
  sm_Annotations :: "AnnotationSelector list"
  sm_Content :: "ContentSelector list"
  sm_Labels :: "LabelSelector list"
  sm_Namespaces :: "string list"
  sm_ObjectKey :: NamespacedName

record SyncRule =
  sr_Matches :: "SyncRuleMatch list"
  sr_Mutations :: Mutations

record ResourceSyncRuleSpec =
  rs_ClusterFeatureMatches :: "ClusterFeatureMatch list"
  rs_GVK :: GroupVersionKind
  rs_Rules :: "SyncRule list"

record ResourceSyncRule = ObjectMeta +
  rsr_Spec :: ResourceSyncRuleSpec

type_synonym MatchedRules = "SyncRule list"

definition Mutations_GetGVK :: "Mutations \<Rightarrow> GroupVersionKind" where
  "Mutations_GetGVK m = (case mu_GVK m of Some g \<Rightarrow> g | None \<Rightarrow> gvk_zero)"

definition Mutations_GetAnnotations :: "Mutations \<Rightarrow> AnnotationMutations" where
  "Mutations_GetAnnotations m =
     (case mu_Annotations m of Some a \<Rightarrow> a | None \<Rightarrow> \<lparr>am_Add = Map.empty, am_Remove = []\<rparr>)"

definition Mutations_GetLabels :: "Mutations \<Rightarrow> LabelMutations" where
  "Mutations_GetLabels m =
     (case mu_Labels m of Some a \<Rightarrow> a | None \<Rightarrow> \<lparr>lm_Add = Map.empty, lm_Remove = []\<rparr>)"

end
