(* ===== verification/External.thy ===== *)
theory External
  imports ApiTypes
begin

text \<open>
  The code outside this repository, as the parameter of the model. A handler interacts with
  the Kubernetes API servers, the event recorder, the work queue and the rate limiter by
  calls; the model keeps the calls made so far as a list, in the order they were made, and
  the answer to a call may depend on everything that happened before it. Theorems quantify
  over all answer functions, so they also hold when other actors change the clusters
  between two calls of one handler. The remaining fields of \<open>ext\<close> are the pure library
  functions the code relies on.
\<close>

text \<open>The API server a call goes to: the local one, or that of a peer, named by its resource.\<close>

datatype site = LocalSite | RemoteSite string

datatype event_type = EventTypeNormal | EventTypeWarning

text \<open>A secret, with the fields the code reads; a key without a value is a nil byte slice.\<close>

record Secret = ObjectMeta +
  sec_Type :: string
  sec_Data :: strmap

text \<open>A node, with the fields the code reads.\<close>

record Node = ObjectMeta +
  node_ProviderID :: string
  node_KubeProxyVersion :: string
  node_KubeletVersion :: string

text \<open>
  A mutating or validating webhook configuration, with the fields the code reads or writes.
  The service of a webhook's client configuration is a pointer, its name comes before its
  namespace.
\<close>

datatype webhook_kind = MutatingWebhook | ValidatingWebhook

record Webhook =
  wh_FailurePolicy :: string
  wh_CABundle :: string
  wh_Service :: "(string \<times> string) option"

record WebhookConfiguration = ObjectMeta +
  wc_Kind :: webhook_kind
  wc_Webhooks :: "Webhook list"

text \<open>The objects the cluster reconciler creates for itself.\<close>

datatype owned_object = OwnedFeature ClusterFeatureCR | OwnedRule ResourceSyncRule

datatype call =
    GetObject site GroupVersionKind NamespacedName
  | GetNamespace site string
  | ListObjects site GroupVersionKind string "(string \<times> string) list"
  | CreateObject site k8s_object
  | UpdateObject site k8s_object k8s_object
  | DeleteObject site k8s_object
  | UpdateObjectStatus site k8s_object
  | AccessReview site string string string string
  | GetCluster site NamespacedName
  | ListClusters site
  | UpdateClusterStatusCall site Cluster
  | GetSecret site NamespacedName
  | GetRule NamespacedName
  | ListRules
  | GetFeature site NamespacedName
  | ListNodes site
  | ReconcileOwned owned_object bool
  | ReconcileSecret Secret
  | GetServiceAccount NamespacedName
  | ListSecrets string
  | CreateSecret Secret
  | DiscoverServerAddresses
  | CreateCluster Cluster
  | GetWebhook webhook_kind NamespacedName
  | UpdateWebhook WebhookConfiguration
  | ReadFile string
  | WriteFile string string
  | MkdirAll string
  | GenerateKey nat
  | SetupController string string
  | ManagerCall string
  | InitInformer string
  | RateLimitCall string
  | RecordEvent event_type string string
  | QueueAdd NamespacedName
  | ControllerStart string string
  | ControllerStop string string
  | ProbeNamespace string
  | ManagerStart string
  | ManagerStop string
  | ClusterStop string
  | ClusterStart string

type_synonym history = "call list"

text \<open>Whether a call changes the state of the API server it goes to.\<close>

fun write_site :: "call \<Rightarrow> site option" where
  "write_site (CreateObject s _) = Some s"
| "write_site (UpdateObject s _ _) = Some s"
| "write_site (DeleteObject s _) = Some s"
| "write_site (UpdateObjectStatus s _) = Some s"
| "write_site (UpdateClusterStatusCall s _) = Some s"
| "write_site (ReconcileOwned _ _) = Some LocalSite"
| "write_site (ReconcileSecret _) = Some LocalSite"
| "write_site (CreateSecret _) = Some LocalSite"
| "write_site (CreateCluster _) = Some LocalSite"
| "write_site (UpdateWebhook _) = Some LocalSite"
| "write_site _ = None"

definition is_write :: "call \<Rightarrow> bool" where
  "is_write c \<longleftrightarrow> write_site c \<noteq> None"

text \<open>
  The callbacks a sync controller hands to the generic resource reconciler. They read the
  state of the cluster manager, so they depend on when they are called.
\<close>

record DynamicDesiredState =
  ds_BeforeUpdateFunc :: "k8s_object \<Rightarrow> k8s_object \<Rightarrow> k8s_object result"
  ds_ShouldCreateFunc :: "history \<Rightarrow> k8s_object \<Rightarrow> bool result"
  ds_ShouldUpdateFunc :: "history \<Rightarrow> k8s_object \<Rightarrow> k8s_object \<Rightarrow> bool result"

text \<open>The result of a query on a JSON document (gjson.Result).\<close>

record gjson_result =
  gj_Exists :: bool
  gj_Int :: int
  gj_String :: string

text \<open>Kubeconfig files, their overrides, and the REST configuration of the local manager.\<close>

record NamedCluster =
  nc_Name :: string
  nc_CAData :: string
  nc_Server :: string

record NamedContext =
  nx_Name :: string
  nx_Cluster :: string
  nx_AuthInfo :: string

record NamedAuthInfo =
  na_Name :: string
  na_Token :: string

record Kubeconfig =
  kc_APIVersion :: string
  kc_Kind :: string
  kc_Clusters :: "NamedCluster list"
  kc_Contexts :: "NamedContext list"
  kc_CurrentContext :: string
  kc_AuthInfos :: "NamedAuthInfo list"

record ConfigOverrides =
  ov_Server :: string
  ov_CAData :: string

record rest_Config =
  rc_Host :: string
  rc_CAData :: string

text \<open>A certificate template of crypto/x509, with the fields the code sets.\<close>

record x509_Certificate =
  xc_DNSNames :: "string list"
  xc_SerialNumber :: int
  xc_CommonName :: string
  xc_NotBefore :: nat
  xc_NotAfter :: nat
  xc_IsCA :: bool
  xc_BasicConstraintsValid :: bool
  xc_SubjectKeyId :: "int list"
  xc_ExtKeyUsage :: "string list"
  xc_KeyUsage :: "string list"

text \<open>The packages emperror.dev/errors and apimachinery/api/errors.\<close>

record ext_errors =
  x_WithStack :: "gerror \<Rightarrow> gerror"
  x_WithStackIf :: "gerror \<Rightarrow> gerror"
  x_Wrap :: "gerror \<Rightarrow> string \<Rightarrow> gerror"
  x_WrapIf :: "gerror \<Rightarrow> string \<Rightarrow> gerror"
  x_WithDetails :: "gerror \<Rightarrow> gerror"
  x_Cause :: "gerror \<Rightarrow> gerror"
  x_Append :: "gerror option \<Rightarrow> gerror \<Rightarrow> gerror"
  x_Combine :: "gerror list \<Rightarrow> gerror"
  x_Error :: "gerror \<Rightarrow> string"
  x_IsNotFound :: "gerror \<Rightarrow> bool"
  x_IsAlreadyExists :: "gerror \<Rightarrow> bool"
  x_IsConflict :: "gerror \<Rightarrow> bool"

text \<open>Apimachinery, gjson, and the JSON encoding of API types.\<close>

record ext_api = ext_errors +
  x_Accessor :: "k8s_object \<Rightarrow> gerror option"
  x_ConvertGVK :: "GroupVersionKind \<Rightarrow> GroupVersionKind"
  x_GVKString :: "GroupVersionKind \<Rightarrow> string"
  x_RequestString :: "NamespacedName \<Rightarrow> string"
  x_SchemeNew :: "GroupVersionKind \<Rightarrow> k8s_object result"
  x_GVKForObject :: "k8s_object \<Rightarrow> GroupVersionKind"
  x_LabelSelectorAsSelector :: "LabelSelector \<Rightarrow> (strmap \<Rightarrow> bool) result"
  x_Marshal :: "k8s_object \<Rightarrow> string result"
  x_gjson :: "string \<Rightarrow> string \<Rightarrow> gjson_result"

text \<open>Operator-tools, objectmatcher, pluralize and the template functions.\<close>

record ext_tools = ext_api +
  x_BanzaiCloudManagedComponent :: string
  x_BanzaiCloudRelatedTo :: string
  x_LastAppliedConfig :: string
  x_LastAppliedConfigAnnotation :: string
  x_PointerToString :: "string option \<Rightarrow> string"
  x_Template :: "string \<Rightarrow> k8s_object \<Rightarrow> Cluster \<Rightarrow> Cluster \<Rightarrow> string result"
  x_PatchYAMLModifier ::
    "GroupVersionKind \<Rightarrow> K8SResourceOverlayPatch list \<Rightarrow> (k8s_object \<Rightarrow> k8s_object option result) result"
  x_PatchIsEmpty :: "k8s_object \<Rightarrow> k8s_object \<Rightarrow> bool result"
  x_ServiceIPModifier :: "k8s_object \<Rightarrow> k8s_object \<Rightarrow> k8s_object result"
  x_Plural :: "string \<Rightarrow> string"
  x_ReconcileResource :: "DynamicDesiredState \<Rightarrow> k8s_object \<Rightarrow> history \<Rightarrow> gerror option \<times> history"
  x_SetControllerReference :: "Cluster \<Rightarrow> owned_object \<Rightarrow> owned_object result"
  x_WebhookPatchIsEmpty :: "WebhookConfiguration \<Rightarrow> WebhookConfiguration \<Rightarrow> bool result"
  x_SetLastAppliedAnnotation :: "WebhookConfiguration \<Rightarrow> WebhookConfiguration result"

text \<open>
  Client-go's kubeconfig handling, the admission decoder, the cryptographic packages, and of
  net/url the treatment of what follows the scheme: for a scheme and the text after it, the
  error of parsing or the text that printing the URL gives for it.
\<close>

record ext_crypto = ext_tools +
  x_LoadKubeconfig :: "string \<Rightarrow> gerror option"
  x_ClientConfig :: "string \<Rightarrow> ConfigOverrides \<Rightarrow> gerror option"
  x_MarshalKubeconfig :: "Kubeconfig \<Rightarrow> string result"
  x_RestConfig :: rest_Config
  x_UrlRest :: "string \<Rightarrow> string \<Rightarrow> string result"
  x_Decode :: "string \<Rightarrow> Cluster result"
  x_AddDate :: "nat \<Rightarrow> nat \<Rightarrow> nat \<Rightarrow> nat \<Rightarrow> nat"
  x_GenerateKey :: "history \<Rightarrow> nat \<Rightarrow> string result"
  x_MarshalPrivateKey :: "string \<Rightarrow> string"
  x_PublicKey :: "string \<Rightarrow> string"
  x_CreateCertificate ::
    "x509_Certificate \<Rightarrow> x509_Certificate \<Rightarrow> string \<Rightarrow> string \<Rightarrow> string result"
  x_PemEncode :: "string \<Rightarrow> string \<Rightarrow> string option"
  x_PemDecode :: "string \<Rightarrow> string option"
  x_X509KeyPair :: "string \<Rightarrow> string \<Rightarrow> gerror option"
  x_AppendCertsFromPEM :: "string \<Rightarrow> bool"
  x_ParseCertificate :: "string \<Rightarrow> gerror option"
  x_VerifyCertificate :: "string \<Rightarrow> string \<Rightarrow> string \<Rightarrow> nat \<Rightarrow> gerror option"

text \<open>
  Clocks and services. The backoff function of apimachinery runs a condition that may assign
  variables of its caller; it occurs at two types, since one of its callers has two byte slices
  assigned. \<open>x_CtxDone\<close> tells whether the context of the running handler is done, and
  \<open>x_MapOrder\<close> is the order in which the Go runtime ranges over the keys of a map.
\<close>

type_synonym byte_vars = "string option \<times> string option"

record ext = ext_crypto +
  x_Now :: "history \<Rightarrow> nat"
  x_CtxDone :: "history \<Rightarrow> bool"
  x_MapOrder :: "string list \<Rightarrow> string list"
  x_GetObject :: "history \<Rightarrow> site \<Rightarrow> GroupVersionKind \<Rightarrow> NamespacedName \<Rightarrow> k8s_object result"
  x_GetNamespace :: "history \<Rightarrow> site \<Rightarrow> string \<Rightarrow> string result"
  x_ListObjects ::
    "history \<Rightarrow> site \<Rightarrow> GroupVersionKind \<Rightarrow> string \<Rightarrow> (string \<times> string) list \<Rightarrow> k8s_object list result"
  x_DeleteObject :: "history \<Rightarrow> site \<Rightarrow> k8s_object \<Rightarrow> gerror option"
  x_UpdateObjectStatus :: "history \<Rightarrow> site \<Rightarrow> k8s_object \<Rightarrow> gerror option"
  x_AccessReview :: "history \<Rightarrow> site \<Rightarrow> string \<Rightarrow> string \<Rightarrow> string \<Rightarrow> string \<Rightarrow> bool result"
  x_GetCluster :: "history \<Rightarrow> site \<Rightarrow> NamespacedName \<Rightarrow> Cluster result"
  x_ListClusters :: "history \<Rightarrow> site \<Rightarrow> Cluster list result"
  x_UpdateClusterStatus :: "history \<Rightarrow> site \<Rightarrow> Cluster \<Rightarrow> gerror option"
  x_GetSecret :: "history \<Rightarrow> site \<Rightarrow> NamespacedName \<Rightarrow> Secret result"
  x_GetRule :: "history \<Rightarrow> NamespacedName \<Rightarrow> ResourceSyncRule result"
  x_ListRules :: "history \<Rightarrow> ResourceSyncRule list result"
  x_GetFeature :: "history \<Rightarrow> site \<Rightarrow> NamespacedName \<Rightarrow> ClusterFeatureCR result"
  x_RateLimit :: "history \<Rightarrow> string \<Rightarrow> bool result"
  x_NewClient :: "history \<Rightarrow> gerror option"
  x_GetInformer :: "history \<Rightarrow> string \<Rightarrow> gerror option"
  x_Watch :: "history \<Rightarrow> string \<Rightarrow> gerror option"
  x_ListNodes :: "history \<Rightarrow> site \<Rightarrow> Node list result"
  x_ExponentialBackoff ::
    "nat \<Rightarrow> (history \<Rightarrow> bool result \<times> history) \<Rightarrow> history \<Rightarrow> gerror option \<times> history"
  x_ExponentialBackoffBytes ::
    "nat \<Rightarrow> (byte_vars \<Rightarrow> history \<Rightarrow> bool result \<times> byte_vars \<times> history) \<Rightarrow> byte_vars \<Rightarrow> history
      \<Rightarrow> gerror option \<times> byte_vars \<times> history"
  x_NewClientset :: "history \<Rightarrow> string \<Rightarrow> gerror option"
  x_ProbeNamespace :: "history \<Rightarrow> string \<Rightarrow> string result"
  x_NewManager :: "history \<Rightarrow> string \<Rightarrow> gerror option"
  x_PerSec :: "int \<Rightarrow> bool"
  x_NewMemStore :: "int \<Rightarrow> gerror option"
  x_NewGCRARateLimiter :: "int \<Rightarrow> int \<Rightarrow> gerror option"
  x_ReconcileOwned :: "history \<Rightarrow> owned_object \<Rightarrow> bool \<Rightarrow> gerror option"
  x_ReconcileSecret :: "history \<Rightarrow> Secret \<Rightarrow> gerror option"
  x_GetServiceAccount :: "history \<Rightarrow> NamespacedName \<Rightarrow> string result"
  x_ListSecrets :: "history \<Rightarrow> string \<Rightarrow> Secret list result"
  x_CreateSecret :: "history \<Rightarrow> Secret \<Rightarrow> gerror option"
  x_NewDiscoveryClient :: "rest_Config \<Rightarrow> gerror option"
  x_ServerAddresses :: "history \<Rightarrow> (string \<times> string) list result"
  x_CreateCluster :: "history \<Rightarrow> Cluster \<Rightarrow> gerror option"
  x_GetWebhook :: "history \<Rightarrow> webhook_kind \<Rightarrow> NamespacedName \<Rightarrow> WebhookConfiguration result"
  x_UpdateWebhook :: "history \<Rightarrow> WebhookConfiguration \<Rightarrow> gerror option"
  x_ReadFile :: "history \<Rightarrow> string \<Rightarrow> string result"
  x_WriteFile :: "history \<Rightarrow> string \<Rightarrow> string \<Rightarrow> gerror option"
  x_MkdirAll :: "history \<Rightarrow> string \<Rightarrow> gerror option"
  x_SetupController :: "history \<Rightarrow> string \<Rightarrow> string \<Rightarrow> gerror option"
  x_ManagerCall :: "history \<Rightarrow> string \<Rightarrow> gerror option"

subsection \<open>Calls\<close>

text \<open>
  Get fills in the object it is given: the client finds the type to ask for from that object,
  and what comes back is of the same Go type.
\<close>

definition getObject ::
  "ext \<Rightarrow> site \<Rightarrow> k8s_object \<Rightarrow> NamespacedName \<Rightarrow> history \<Rightarrow> k8s_object result \<times> history" where
  "getObject X s target n h =
     (let g = x_GVKForObject X target in
      (case x_GetObject X h s g n of
         Inl e \<Rightarrow> Inl e
       | Inr ob \<Rightarrow> Inr (ob\<lparr>o_GoType := o_GoType target\<rparr>), h @ [GetObject s g n]))"

definition getNamespace :: "ext \<Rightarrow> site \<Rightarrow> string \<Rightarrow> history \<Rightarrow> string result \<times> history" where
  "getNamespace X s n h = (x_GetNamespace X h s n, h @ [GetNamespace s n])"

definition listObjects ::
  "ext \<Rightarrow> site \<Rightarrow> GroupVersionKind \<Rightarrow> string \<Rightarrow> (string \<times> string) list \<Rightarrow> history
    \<Rightarrow> k8s_object list result \<times> history" where
  "listObjects X s g ns ls h = (x_ListObjects X h s g ns ls, h @ [ListObjects s g ns ls])"

definition deleteObject :: "ext \<Rightarrow> site \<Rightarrow> k8s_object \<Rightarrow> history \<Rightarrow> gerror option \<times> history" where
  "deleteObject X s ob h = (x_DeleteObject X h s ob, h @ [DeleteObject s ob])"

definition updateObjectStatus :: "ext \<Rightarrow> site \<Rightarrow> k8s_object \<Rightarrow> history \<Rightarrow> gerror option \<times> history" where
  "updateObjectStatus X s ob h = (x_UpdateObjectStatus X h s ob, h @ [UpdateObjectStatus s ob])"

definition getCluster :: "ext \<Rightarrow> site \<Rightarrow> NamespacedName \<Rightarrow> history \<Rightarrow> Cluster result \<times> history" where
  "getCluster X s n h = (x_GetCluster X h s n, h @ [GetCluster s n])"

definition listClusters :: "ext \<Rightarrow> site \<Rightarrow> history \<Rightarrow> Cluster list result \<times> history" where
  "listClusters X s h = (x_ListClusters X h s, h @ [ListClusters s])"

definition updateClusterStatusCall :: "ext \<Rightarrow> site \<Rightarrow> Cluster \<Rightarrow> history \<Rightarrow> gerror option \<times> history" where
  "updateClusterStatusCall X s c h =
     (x_UpdateClusterStatus X h s c, h @ [UpdateClusterStatusCall s c])"

definition getSecret :: "ext \<Rightarrow> site \<Rightarrow> NamespacedName \<Rightarrow> history \<Rightarrow> Secret result \<times> history" where
  "getSecret X s n h = (x_GetSecret X h s n, h @ [GetSecret s n])"

definition accessReview ::
  "ext \<Rightarrow> site \<Rightarrow> string \<Rightarrow> string \<Rightarrow> string \<Rightarrow> string \<Rightarrow> history \<Rightarrow> bool result \<times> history" where
  "accessReview X s verb grp ver res h =
     (x_AccessReview X h s verb grp ver res, h @ [AccessReview s verb grp ver res])"

definition rateLimit :: "ext \<Rightarrow> string \<Rightarrow> history \<Rightarrow> bool result \<times> history" where
  "rateLimit X k h = (x_RateLimit X h k, h @ [RateLimitCall k])"

definition recordEvent :: "event_type \<Rightarrow> string \<Rightarrow> string \<Rightarrow> history \<Rightarrow> history" where
  "recordEvent t reason msg h = h @ [RecordEvent t reason msg]"

definition queueAdd :: "NamespacedName \<Rightarrow> history \<Rightarrow> history" where
  "queueAdd n h = h @ [QueueAdd n]"

definition getRule :: "ext \<Rightarrow> NamespacedName \<Rightarrow> history \<Rightarrow> ResourceSyncRule result \<times> history" where
  "getRule X n h = (x_GetRule X h n, h @ [GetRule n])"

definition listRules :: "ext \<Rightarrow> history \<Rightarrow> ResourceSyncRule list result \<times> history" where
  "listRules X h = (x_ListRules X h, h @ [ListRules])"

definition getFeature ::
  "ext \<Rightarrow> site \<Rightarrow> NamespacedName \<Rightarrow> history \<Rightarrow> ClusterFeatureCR result \<times> history" where
  "getFeature X s n h = (x_GetFeature X h s n, h @ [GetFeature s n])"

definition listNodes :: "ext \<Rightarrow> site \<Rightarrow> history \<Rightarrow> Node list result \<times> history" where
  "listNodes X s h = (x_ListNodes X h s, h @ [ListNodes s])"

definition reconcileOwned :: "ext \<Rightarrow> owned_object \<Rightarrow> bool \<Rightarrow> history \<Rightarrow> gerror option \<times> history" where
  "reconcileOwned X ob present h = (x_ReconcileOwned X h ob present, h @ [ReconcileOwned ob present])"

definition reconcileSecret :: "ext \<Rightarrow> Secret \<Rightarrow> history \<Rightarrow> gerror option \<times> history" where
  "reconcileSecret X s h = (x_ReconcileSecret X h s, h @ [ReconcileSecret s])"

definition getWebhook ::
  "ext \<Rightarrow> webhook_kind \<Rightarrow> NamespacedName \<Rightarrow> history \<Rightarrow> WebhookConfiguration result \<times> history" where
  "getWebhook X k n h = (x_GetWebhook X h k n, h @ [GetWebhook k n])"

definition updateWebhook :: "ext \<Rightarrow> WebhookConfiguration \<Rightarrow> history \<Rightarrow> gerror option \<times> history" where
  "updateWebhook X w h = (x_UpdateWebhook X h w, h @ [UpdateWebhook w])"

definition setupController :: "ext \<Rightarrow> string \<Rightarrow> string \<Rightarrow> history \<Rightarrow> gerror option \<times> history" where
  "setupController X name what h = (x_SetupController X h name what, h @ [SetupController name what])"

definition managerCall :: "ext \<Rightarrow> string \<Rightarrow> history \<Rightarrow> gerror option \<times> history" where
  "managerCall X what h = (x_ManagerCall X h what, h @ [ManagerCall what])"

lemmas call_defs =
  getObject_def getNamespace_def listObjects_def deleteObject_def updateObjectStatus_def
  getCluster_def listClusters_def updateClusterStatusCall_def getSecret_def accessReview_def
  rateLimit_def recordEvent_def queueAdd_def getRule_def listRules_def getFeature_def listNodes_def
  reconcileOwned_def reconcileSecret_def getWebhook_def updateWebhook_def setupController_def
  managerCall_def

subsection \<open>Handlers only extend the history\<close>

text \<open>
  \<open>extends P h h'\<close>: a handler started at history \<open>h\<close> and left at \<open>h'\<close> made only calls
  that satisfy \<open>P\<close>. The rules compose: one per call, one for sequencing, one for weakening.
\<close>

definition extends :: "(call \<Rightarrow> bool) \<Rightarrow> history \<Rightarrow> history \<Rightarrow> bool" where
  "extends P h h' \<longleftrightarrow> (\<exists>cs. h' = h @ cs \<and> list_all P cs)"

lemma extends_refl [simp, intro]: "extends P h h"
  by (simp add: extends_def)

lemma extends_snoc [simp]: "extends P h (h @ [c]) \<longleftrightarrow> P c"
  by (auto simp: extends_def)

lemma extends_append [simp]: "extends P h (h @ cs) \<longleftrightarrow> list_all P cs"
  by (auto simp: extends_def)

lemma extends_trans: "extends P h h' \<Longrightarrow> extends P h' h'' \<Longrightarrow> extends P h h''"
  by (auto simp: extends_def)

lemma extends_mono: "extends P h h' \<Longrightarrow> (\<And>c. P c \<Longrightarrow> Q c) \<Longrightarrow> extends Q h h'"
  by (auto simp: extends_def list_all_iff)

lemma extends_snocI: "extends P h h' \<Longrightarrow> P c \<Longrightarrow> extends P h (h' @ [c])"
  by (erule extends_trans) simp

lemma extendsD: "extends P h h' \<Longrightarrow> c \<in> set h' \<Longrightarrow> c \<in> set h \<or> P c"
  by (auto simp: extends_def list_all_iff)

end
