(* ===== verification/Samples.thy ===== *)
theory Samples
  imports External
begin

text \<open>
  A concrete instance of the external code, used to show that the hypotheses of the theorems
  can hold together. Errors classify by their status reason, label selectors follow the
  matching rules of the Kubernetes API for the operators In, NotIn, Exists and DoesNotExist,
  and every service answers "not found", an empty list or success.
\<close>

primrec sample_cause :: "gerror \<Rightarrow> gerror" where
  "sample_cause (StatusError r m) = StatusError r m"
| "sample_cause (ErrorString m) = ErrorString m"
| "sample_cause (PermanentError e) = sample_cause e"
| "sample_cause (Annotated s e) = sample_cause e"
| "sample_cause UnknownProviderError = UnknownProviderError"
| "sample_cause UnknownDistributionError = UnknownDistributionError"

primrec sample_error :: "gerror \<Rightarrow> string" where
  "sample_error (StatusError r m) = m"
| "sample_error (ErrorString m) = m"
| "sample_error (PermanentError e) = sample_error e"
| "sample_error (Annotated s e) = s @ '': '' @ sample_error e"
| "sample_error UnknownProviderError = ''unknown provider''"
| "sample_error UnknownDistributionError = ''unknown distribution''"

definition sample_requirement :: "LabelSelectorRequirement \<Rightarrow> strmap \<Rightarrow> bool" where
  "sample_requirement r ls =
     (if lr_Operator r = ''In'' then (case ls (lr_Key r) of None \<Rightarrow> False | Some v \<Rightarrow> v \<in> set (lr_Values r))
      else if lr_Operator r = ''NotIn''
      then (case ls (lr_Key r) of None \<Rightarrow> True | Some v \<Rightarrow> v \<notin> set (lr_Values r))
      else if lr_Operator r = ''Exists'' then ls (lr_Key r) \<noteq> None
      else ls (lr_Key r) = None)"

definition sample_selector :: "LabelSelector \<Rightarrow> (strmap \<Rightarrow> bool) result" where
  "sample_selector s =
     (if list_all (\<lambda>r. lr_Operator r \<in> {''In'', ''NotIn'', ''Exists'', ''DoesNotExist''})
           (ls_MatchExpressions s)
      then Inr (\<lambda>ls. list_all (\<lambda>(k, v). ls k = Some v) (ls_MatchLabels s) \<and>
                     list_all (\<lambda>r. sample_requirement r ls) (ls_MatchExpressions s))
      else Inl (ErrorString ''not a valid label selector operator''))"

definition sample_object :: k8s_object where
  "sample_object =
     \<lparr>m_Name = ''demo'', m_Namespace = ''default'', m_Labels = [''app'' \<mapsto> ''demo''],
      m_Annotations = Map.empty, m_UID = ''uid-1'', m_ResourceVersion = ''7'', m_Generation = 1,
      m_SelfLink = '''', m_CreationTimestamp = 5, m_DeletionTimestamp = 0, m_Finalizers = [],
      m_OwnerReferences = [], m_ManagedFields = [],
      o_GVK = \<lparr>gvk_Group = '''', gvk_Version = ''v1'', gvk_Kind = ''Secret''\<rparr>, o_Rest = '''',
      o_GoType = None\<rparr>"

definition not_found :: gerror where
  "not_found = StatusError ReasonNotFound ''not found''"

text \<open>A resource reconciler on an empty cluster: it creates the object if the callback permits it.\<close>

definition sample_reconcile :: "DynamicDesiredState \<Rightarrow> k8s_object \<Rightarrow> history \<Rightarrow> gerror option \<times> history" where
  "sample_reconcile ds ob h =
     (case ds_ShouldCreateFunc ds h ob of
        Inl e \<Rightarrow> (Some e, h)
      | Inr b \<Rightarrow> (None, if b then h @ [CreateObject LocalSite ob] else h))"

primrec sample_backoff ::
  "nat \<Rightarrow> (byte_vars \<Rightarrow> history \<Rightarrow> bool result \<times> byte_vars \<times> history) \<Rightarrow> byte_vars \<Rightarrow> history
    \<Rightarrow> gerror option \<times> byte_vars \<times> history" where
  "sample_backoff 0 f v h = (Some (ErrorString ''timed out waiting for the condition''), v, h)"
| "sample_backoff (Suc n) f v h =
     (case f v h of
        (Inl e, v, h) \<Rightarrow> (Some e, v, h)
      | (Inr b, v, h) \<Rightarrow> if b then (None, v, h) else sample_backoff n f v h)"

definition sample_ext :: ext where
  "sample_ext =
     \<lparr>x_WithStack = (\<lambda>e. e), x_WithStackIf = (\<lambda>e. e), x_Wrap = (\<lambda>e s. Annotated s e), x_WrapIf = (\<lambda>e s. Annotated s e), x_WithDetails = (\<lambda>e. e),
      x_Cause = sample_cause, x_Append = (\<lambda>_ e. e), x_Combine = hd, x_Error = sample_error,
      x_IsNotFound = (\<lambda>e. case sample_cause e of StatusError ReasonNotFound _ \<Rightarrow> True | _ \<Rightarrow> False),
      x_IsAlreadyExists =
        (\<lambda>e. case sample_cause e of StatusError ReasonAlreadyExists _ \<Rightarrow> True | _ \<Rightarrow> False),
      x_IsConflict = (\<lambda>e. case sample_cause e of StatusError ReasonConflict _ \<Rightarrow> True | _ \<Rightarrow> False),
      x_Accessor = (\<lambda>_. None), x_ConvertGVK = (\<lambda>g. g), x_GVKString = gvk_Kind,
      x_RequestString = (\<lambda>n. nn_Namespace n @ ''/'' @ nn_Name n),
      x_SchemeNew = (\<lambda>g. Inl (ErrorString ''no kind is registered'')),
      x_GVKForObject = (\<lambda>ob. case o_GoType ob of None \<Rightarrow> o_GVK ob | Some g \<Rightarrow> g),
      x_LabelSelectorAsSelector = sample_selector, x_Marshal = (\<lambda>ob. Inr (o_Rest ob)),
      x_gjson = (\<lambda>_ _. \<lparr>gj_Exists = False, gj_Int = 0, gj_String = ''''\<rparr>),
      x_BanzaiCloudManagedComponent = ''banzaicloud.io/managed-component'',
      x_BanzaiCloudRelatedTo = ''banzaicloud.io/related-to'',
      x_LastAppliedConfig = ''banzaicloud.com/last-applied'',
      x_LastAppliedConfigAnnotation = ''kubectl.kubernetes.io/last-applied-configuration'',
      x_PointerToString = (\<lambda>p. case p of None \<Rightarrow> '''' | Some s \<Rightarrow> s),
      x_Template = (\<lambda>s _ _ _. Inr s),
      x_PatchYAMLModifier = (\<lambda>_ _. Inr (\<lambda>ob. Inr (Some ob))),
      x_PatchIsEmpty = (\<lambda>_ _. Inr False), x_ServiceIPModifier = (\<lambda>_ d. Inr d),
      x_Plural = (\<lambda>s. s @ ''s''), x_ReconcileResource = sample_reconcile,
      x_SetControllerReference = (\<lambda>_ ob. Inr ob), x_WebhookPatchIsEmpty = (\<lambda>c d. Inr (c = d)),
      x_SetLastAppliedAnnotation = Inr, x_LoadKubeconfig = (\<lambda>_. None),
      x_ClientConfig = (\<lambda>_ _. None),
      x_MarshalKubeconfig = (\<lambda>k. Inr (concat (map nc_Server (kc_Clusters k) @ map na_Token (kc_AuthInfos k)))),
      x_RestConfig = \<lparr>rc_Host = ''https://10.0.0.1:443'', rc_CAData = ''ca''\<rparr>,
      x_UrlRest = (\<lambda>_ r. Inr r), x_Decode = (\<lambda>_. Inl (ErrorString ''no content'')),
      x_AddDate = (\<lambda>t y m d. t + 31536000 * y + 2592000 * m + 86400 * d),
      x_GenerateKey = (\<lambda>_ n. Inr (if n = 2048 then ''key-2048'' else ''key'')),
      x_MarshalPrivateKey = (\<lambda>k. k), x_PublicKey = (\<lambda>k. ''pub-'' @ k),
      x_CreateCertificate = (\<lambda>_ _ p k. Inr (p @ ''/'' @ k)), x_PemEncode = (\<lambda>_ b. Some b),
      x_PemDecode = Some, x_X509KeyPair = (\<lambda>_ _. None), x_AppendCertsFromPEM = (\<lambda>_. True),
      x_ParseCertificate = (\<lambda>_. None), x_VerifyCertificate = (\<lambda>_ _ _ _. None),
      x_Now = (\<lambda>h. Suc (length h)), x_CtxDone = (\<lambda>_. False), x_MapOrder = (\<lambda>ks. ks), x_GetObject = (\<lambda>_ _ _ _. Inl not_found),
      x_GetNamespace = (\<lambda>_ _ n. Inr n), x_ListObjects = (\<lambda>_ _ _ _ _. Inr []),
      x_DeleteObject = (\<lambda>_ _ _. None), x_UpdateObjectStatus = (\<lambda>_ _ _. None),
      x_AccessReview = (\<lambda>_ _ _ _ _ _. Inr True), x_GetCluster = (\<lambda>_ _ _. Inl not_found),
      x_ListClusters = (\<lambda>_ _. Inr []), x_UpdateClusterStatus = (\<lambda>_ _ _. None),
      x_GetSecret = (\<lambda>_ _ _. Inl not_found), x_GetRule = (\<lambda>_ _. Inl not_found),
      x_ListRules = (\<lambda>_. Inr []), x_GetFeature = (\<lambda>_ _ _. Inl not_found),
      x_RateLimit = (\<lambda>_ _. Inr False), x_NewClient = (\<lambda>_. None), x_GetInformer = (\<lambda>_ _. None),
      x_Watch = (\<lambda>_ _. None),
      x_ListNodes = (\<lambda>_ _. Inr []),
      x_ExponentialBackoff = (\<lambda>n f h. case f h of (Inl e, h') \<Rightarrow> (Some e, h') | (Inr b, h') \<Rightarrow>
         (if b then None else Some (ErrorString ''timed out waiting for the condition''), h')),
      x_ExponentialBackoffBytes = sample_backoff,
      x_NewClientset = (\<lambda>_ _. None), x_ProbeNamespace = (\<lambda>_ n. Inr (''id-'' @ n)),
      x_NewManager = (\<lambda>_ _. None),
      x_PerSec = (\<lambda>n. n \<noteq> 0), x_NewMemStore = (\<lambda>_. None), x_NewGCRARateLimiter = (\<lambda>_ _. None),
      x_ReconcileOwned = (\<lambda>_ _ _. None), x_ReconcileSecret = (\<lambda>_ _. None),
      x_GetServiceAccount = (\<lambda>_ n. Inr (nn_Namespace n)), x_ListSecrets = (\<lambda>_ _. Inr []),
      x_CreateSecret = (\<lambda>_ _. None), x_NewDiscoveryClient = (\<lambda>_. None),
      x_ServerAddresses = (\<lambda>_. Inr []), x_CreateCluster = (\<lambda>_ _. None),
      x_GetWebhook = (\<lambda>_ _ _. Inl not_found), x_UpdateWebhook = (\<lambda>_ _. None),
      x_ReadFile = (\<lambda>_ _. Inl (ErrorString ''no such file'')), x_WriteFile = (\<lambda>_ _ _. None),
      x_MkdirAll = (\<lambda>_ _. None), x_SetupController = (\<lambda>_ _ _. None),
      x_ManagerCall = (\<lambda>_ _. None)\<rparr>"

definition no_mutations :: Mutations where
  "no_mutations = \<lparr>mu_Annotations = None, mu_GVK = None, mu_Labels = None, mu_Overrides = [],
     mu_SyncStatus = False\<rparr>"

definition no_criteria :: SyncRuleMatch where
  "no_criteria = \<lparr>sm_Annotations = [], sm_Content = [], sm_Labels = [], sm_Namespaces = [],
     sm_ObjectKey = \<lparr>nn_Name = '''', nn_Namespace = ''''\<rparr>\<rparr>"

definition label_match :: SyncRuleMatch where
  "label_match = no_criteria\<lparr>sm_Labels :=
     [\<lparr>ls_MatchLabels = [(''app'', ''demo'')], ls_MatchExpressions = []\<rparr>]\<rparr>"

definition sample_spec :: ResourceSyncRuleSpec where
  "sample_spec =
     \<lparr>rs_ClusterFeatureMatches = [],
      rs_GVK = \<lparr>gvk_Group = '''', gvk_Version = ''v1'', gvk_Kind = ''Secret''\<rparr>,
      rs_Rules = [\<lparr>sr_Matches = [label_match], sr_Mutations = no_mutations\<rparr>]\<rparr>"

lemmas sample_defs =
  sample_ext_def sample_object_def sample_spec_def label_match_def no_criteria_def no_mutations_def
  sample_selector_def sample_requirement_def not_found_def sample_reconcile_def

end
