(* ===== verification/Features.thy ===== *)
theory Features
  imports Samples
begin

text \<open>
  Cluster features and the requirements a controller places on them
  (src/pkg/clusters/cluster\_features.go). The features of a cluster are an association list
  from feature UID to feature; the loop of \<open>Requirement_Match\<close> visits it in list order, and
  \<open>requirement_met\<close> shows that the order does not matter.
\<close>

record clusterFeature =
  f_UID :: string
  f_Name :: string
  f_Labels :: strmap

definition NewClusterFeature :: "string \<Rightarrow> string \<Rightarrow> strmap \<Rightarrow> clusterFeature" where
  "NewClusterFeature uid name labels = \<lparr>f_UID = uid, f_Name = name, f_Labels = labels\<rparr>"

record ClusterFeatureRequirement =
  fr_Name :: string
  fr_MatchLabels :: "(string \<times> string) list"
  fr_MatchExpressions :: "LabelSelectorRequirement list"

type_synonym features = "(string \<times> clusterFeature) list"

fun Requirement_Match :: "ext \<Rightarrow> ClusterFeatureRequirement \<Rightarrow> features \<Rightarrow> bool" where
  "Requirement_Match X r [] = False"
| "Requirement_Match X r ((_, feature) # fs) =
     (if fr_Name r \<noteq> '''' \<and> fr_Name r \<noteq> f_Name feature then Requirement_Match X r fs
      else if length (fr_MatchLabels r) = 0 \<and> length (fr_MatchExpressions r) = 0 then True
      else case x_LabelSelectorAsSelector X
                 \<lparr>ls_MatchLabels = fr_MatchLabels r, ls_MatchExpressions = fr_MatchExpressions r\<rparr> of
          Inl e \<Rightarrow> False
        | Inr matcher \<Rightarrow>
            if matcher (f_Labels feature) then True else Requirement_Match X r fs)"

text \<open>A requirement is met by one feature: its name fits, and so do its labels.\<close>

definition meets :: "ext \<Rightarrow> ClusterFeatureRequirement \<Rightarrow> clusterFeature \<Rightarrow> bool" where
  "meets X r f \<longleftrightarrow>
     fr_Name r \<in> {'''', f_Name f} \<and>
     (fr_MatchLabels r = [] \<and> fr_MatchExpressions r = [] \<or>
      (case x_LabelSelectorAsSelector X
              \<lparr>ls_MatchLabels = fr_MatchLabels r, ls_MatchExpressions = fr_MatchExpressions r\<rparr> of
         Inl _ \<Rightarrow> False | Inr matcher \<Rightarrow> matcher (f_Labels f)))"

lemma Requirement_Match_bad_selector:
  assumes "x_LabelSelectorAsSelector X
      \<lparr>ls_MatchLabels = fr_MatchLabels r, ls_MatchExpressions = fr_MatchExpressions r\<rparr> = Inl e"
    and "\<not> (fr_MatchLabels r = [] \<and> fr_MatchExpressions r = [])"
  shows "\<not> Requirement_Match X r fs" and "\<not> list_ex (\<lambda>p. meets X r (snd p)) fs"
  using assms by (induction fs) (auto simp: meets_def split: if_splits)

lemma Requirement_Match_list_ex: "Requirement_Match X r fs = list_ex (\<lambda>p. meets X r (snd p)) fs"
proof (cases "fr_MatchLabels r = [] \<and> fr_MatchExpressions r = []")
  case True
  then show ?thesis
    by (induction fs) (auto simp: meets_def split: if_splits)
next
  case False
  show ?thesis
  proof (cases "x_LabelSelectorAsSelector X
      \<lparr>ls_MatchLabels = fr_MatchLabels r, ls_MatchExpressions = fr_MatchExpressions r\<rparr>")
    case (Inl e)
    with False show ?thesis by (simp add: Requirement_Match_bad_selector)
  next
    case (Inr matcher)
    with False show ?thesis
      by (induction fs) (auto simp: meets_def split: if_splits)
  qed
qed

lemma Requirement_Match_iff:
  "Requirement_Match X r fs \<longleftrightarrow> (\<exists>uid f. (uid, f) \<in> set fs \<and> meets X r f)"
  by (simp add: Requirement_Match_list_ex list_ex_iff Bex_def split_paired_Ex)

lemma Requirement_Match_map_of:
  assumes "alist_wf fs"
  shows "Requirement_Match X r fs \<longleftrightarrow> (\<exists>uid f. map_of fs uid = Some f \<and> meets X r f)"
  using assms by (simp add: Requirement_Match_iff alist_wf_map_of)

definition features_meet ::
  "ext \<Rightarrow> ClusterFeatureRequirement list \<Rightarrow> (string \<rightharpoonup> clusterFeature) \<Rightarrow> bool" where
  "features_meet X rs F \<longleftrightarrow> (\<forall>r \<in> set rs. \<exists>uid f. F uid = Some f \<and> meets X r f)"

lemma features_meet_mono: "features_meet X rs F \<Longrightarrow> F \<subseteq>\<^sub>m G \<Longrightarrow> features_meet X rs G"
  unfolding features_meet_def map_le_def by (metis domI)

lemma features_meet_insert:
  "features_meet X rs F \<Longrightarrow> F uid = None \<Longrightarrow> features_meet X rs (F(uid \<mapsto> f))"
  by (erule features_meet_mono) (auto simp: map_le_def)

lemma features_meet_remove:
  "\<not> features_meet X rs F \<Longrightarrow> \<not> features_meet X rs (F(uid := None))"
  using features_meet_mono [of X rs "F(uid := None)" F] by (auto simp: map_le_def)

end
