(* ===== verification/Controllers.thy ===== *)
theory Controllers
  imports Features
begin

text \<open>
  Managed controllers (src/pkg/clusters/managed\_controller.go): their registration data and
  the part of their life cycle that the methods Start and Stop change. The fields
  \<open>mc_cancelSet\<close> and \<open>mc_contextSet\<close> say whether ctrlContextCancel and ctrlContext are
  non-nil; \<open>mc_rule\<close> is the rule of the controller's reconciler when that is a sync
  reconciler.
\<close>

record managedController =
  mc_name :: string
  mc_rule :: "ResourceSyncRule option"
  mc_requiredClusterFeatures :: "ClusterFeatureRequirement list"
  mc_cancelSet :: bool
  mc_contextSet :: bool

definition WithRequiredClusterFeatures ::
  "ClusterFeatureRequirement list \<Rightarrow> managedController \<Rightarrow> managedController" where
  "WithRequiredClusterFeatures fs c =
     c\<lparr>mc_requiredClusterFeatures := mc_requiredClusterFeatures c @ fs\<rparr>"

definition NewManagedController ::
  "string \<Rightarrow> ResourceSyncRule option \<Rightarrow> (managedController \<Rightarrow> managedController) list \<Rightarrow> managedController" where
  "NewManagedController name rule options =
     fold (\<lambda>opt c. opt c) options
       \<lparr>mc_name = name, mc_rule = rule, mc_requiredClusterFeatures = [],
        mc_cancelSet = False, mc_contextSet = False\<rparr>"

text \<open>
  Start returns at once when the controller was started before. Otherwise it makes a context
  and leaves the pre-checks to a background loop; it never reports an error.
\<close>

definition controller_Start ::
  "string \<Rightarrow> managedController \<Rightarrow> history \<Rightarrow> managedController \<times> history" where
  "controller_Start cl c h =
     (if mc_cancelSet c then (c, h)
      else (c\<lparr>mc_cancelSet := True, mc_contextSet := True\<rparr>, h @ [ControllerStart cl (mc_name c)]))"

definition controller_Stop ::
  "string \<Rightarrow> managedController \<Rightarrow> history \<Rightarrow> managedController \<times> history" where
  "controller_Stop cl c h =
     (c\<lparr>mc_cancelSet := False\<rparr>,
      if mc_cancelSet c then h @ [ControllerStop cl (mc_name c)] else h)"

text \<open>Stopped reads the Done channel of the context: on a nil context this is a nil dereference.\<close>

definition controller_Stopped :: "managedController \<Rightarrow> unit option" where
  "controller_Stopped c = (if mc_contextSet c then Some () else None)"

text \<open>What identifies a controller, apart from its life cycle: its rule and its requirements.\<close>

definition registration ::
  "managedController \<Rightarrow> ResourceSyncRule option \<times> ClusterFeatureRequirement list" where
  "registration c = (mc_rule c, mc_requiredClusterFeatures c)"

lemma controller_Start_fields [simp]:
  "mc_name (fst (controller_Start cl c h)) = mc_name c"
  "mc_requiredClusterFeatures (fst (controller_Start cl c h)) = mc_requiredClusterFeatures c"
  "registration (fst (controller_Start cl c h)) = registration c"
  by (simp_all add: controller_Start_def registration_def)

lemma controller_Stop_fields [simp]:
  "mc_name (fst (controller_Stop cl c h)) = mc_name c"
  "mc_requiredClusterFeatures (fst (controller_Stop cl c h)) = mc_requiredClusterFeatures c"
  "registration (fst (controller_Stop cl c h)) = registration c"
  by (simp_all add: controller_Stop_def registration_def)

end
