(* ===== verification/ClusterCore.thy ===== *)
theory ClusterCore
  imports Controllers
begin

text \<open>
  A peer cluster (src/pkg/clusters/cluster.go): its features, its active and its pending
  controllers, and its life cycle. Mutex-protected sections are atomic. A callback is a
  function of the cluster's name and the history that may fail. The field \<open>cl_mgrCtx\<close> is
  None for a nil manager context and tells otherwise whether it is cancelled;
  \<open>cl_mgr\<close> says whether the manager is non-nil, and \<open>cl_mgrRoutine\<close> whether the
  goroutine that runs the manager is there.
\<close>

type_synonym ClusterFunc = "string \<Rightarrow> history \<Rightarrow> gerror option \<times> history"
type_synonym controllers = "(string \<times> managedController) list"

record clusters_Cluster =
  cl_name :: string
  cl_alive :: bool
  cl_started :: bool
  cl_mgrStopped :: bool
  cl_secretID :: "string option"
  cl_clusterID :: string
  cl_onAliveFuncs :: "ClusterFunc list"
  cl_onDeadFuncs :: "ClusterFunc list"
  cl_features :: features
  cl_kubeconfig :: string
  cl_controllers :: controllers
  cl_pendingControllers :: controllers
  cl_ctxDone :: bool
  cl_mgrCtx :: "bool option"
  cl_mgr :: bool
  cl_mgrRoutine :: bool

definition NewCluster ::
  "string \<Rightarrow> (clusters_Cluster \<Rightarrow> clusters_Cluster) list \<Rightarrow> clusters_Cluster" where
  "NewCluster name opts =
     fold (\<lambda>opt c. opt c) opts
       \<lparr>cl_name = name, cl_alive = False, cl_started = False, cl_mgrStopped = False,
        cl_secretID = None, cl_clusterID = '''', cl_onAliveFuncs = [], cl_onDeadFuncs = [],
        cl_features = [], cl_kubeconfig = '''', cl_controllers = [], cl_pendingControllers = [],
        cl_ctxDone = False, cl_mgrCtx = None, cl_mgr = False, cl_mgrRoutine = False\<rparr>"

definition WithSecretID :: "string \<Rightarrow> clusters_Cluster \<Rightarrow> clusters_Cluster" where
  "WithSecretID s c = c\<lparr>cl_secretID := Some s\<rparr>"

definition WithKubeconfig :: "string \<Rightarrow> clusters_Cluster \<Rightarrow> clusters_Cluster" where
  "WithKubeconfig k c = c\<lparr>cl_kubeconfig := k\<rparr>"

subsection \<open>Controllers and features\<close>

fun check_requirements :: "ext \<Rightarrow> features \<Rightarrow> ClusterFeatureRequirement list \<Rightarrow> bool" where
  "check_requirements X fs [] = True"
| "check_requirements X fs (rf # rfs) =
     (if \<not> Requirement_Match X rf fs then False else check_requirements X fs rfs)"

definition checkRequiredClusterFeatures ::
  "ext \<Rightarrow> clusters_Cluster \<Rightarrow> managedController \<Rightarrow> bool" where
  "checkRequiredClusterFeatures X c ctrl =
     (if length (mc_requiredClusterFeatures ctrl) = 0 then True
      else check_requirements X (cl_features c) (mc_requiredClusterFeatures ctrl))"

definition IsManagerRunning :: "clusters_Cluster \<Rightarrow> bool" where
  "IsManagerRunning c \<longleftrightarrow> \<not> cl_mgrStopped c \<and> cl_mgr c"

definition addPendingController :: "managedController \<Rightarrow> clusters_Cluster \<Rightarrow> clusters_Cluster" where
  "addPendingController ctrl c =
     c\<lparr>cl_pendingControllers := AList.update (mc_name ctrl) ctrl (cl_pendingControllers c)\<rparr>"

definition removePendingControllerByName :: "string \<Rightarrow> clusters_Cluster \<Rightarrow> clusters_Cluster" where
  "removePendingControllerByName name c =
     c\<lparr>cl_pendingControllers := AList.delete name (cl_pendingControllers c)\<rparr>"

definition GetController :: "clusters_Cluster \<Rightarrow> string \<Rightarrow> managedController option" where
  "GetController c name = map_of (cl_controllers c) name"

definition HasController :: "clusters_Cluster \<Rightarrow> string \<Rightarrow> bool" where
  "HasController c name \<longleftrightarrow> map_of (cl_controllers c) name \<noteq> None"

text \<open>
  The lookup by type ranges over the active controllers and compares their names with the group
  of the type.
\<close>

primrec by_gvk_loop :: "clusters_Cluster \<Rightarrow> GroupVersionKind \<Rightarrow> string list \<Rightarrow> managedController option" where
  "by_gvk_loop c gvk [] = None"
| "by_gvk_loop c gvk (name # names) =
     (if name = gvk_Group gvk then map_of (cl_controllers c) name else by_gvk_loop c gvk names)"

definition GetControllerByGVK :: "ext \<Rightarrow> clusters_Cluster \<Rightarrow> GroupVersionKind \<Rightarrow> managedController option" where
  "GetControllerByGVK X c gvk = by_gvk_loop c gvk (x_MapOrder X (map fst (cl_controllers c)))"

definition addController ::
  "managedController \<Rightarrow> clusters_Cluster \<Rightarrow> history \<Rightarrow> clusters_Cluster \<times> history" where
  "addController ctrl c h =
     (if GetController c (mc_name ctrl) \<noteq> None then (c, h)
      else let c1 = removePendingControllerByName (mc_name ctrl) c;
               (ctrl', h') = (if IsManagerRunning c1 then controller_Start (cl_name c1) ctrl h
                              else (ctrl, h))
           in (c1\<lparr>cl_controllers := AList.update (mc_name ctrl) ctrl' (cl_controllers c1)\<rparr>, h'))"

definition AddController ::
  "ext \<Rightarrow> managedController \<Rightarrow> clusters_Cluster \<Rightarrow> history \<Rightarrow> clusters_Cluster \<times> history" where
  "AddController X ctrl c h =
     (if checkRequiredClusterFeatures X c ctrl then addController ctrl c h
      else (addPendingController ctrl c, h))"

definition RemoveControllerByName ::
  "string \<Rightarrow> clusters_Cluster \<Rightarrow> history \<Rightarrow> clusters_Cluster \<times> history" where
  "RemoveControllerByName name c h =
     (let c1 = removePendingControllerByName name c in
      case GetController c1 name of
        None \<Rightarrow> (c1, h)
      | Some ctrl \<Rightarrow>
          (c1\<lparr>cl_controllers := AList.delete name (cl_controllers c1)\<rparr>,
           snd (controller_Stop (cl_name c1) ctrl h)))"

text \<open>
  The lookup by type is a lookup by name, of the group: version and kind do not matter, and the
  controllers of rules, which are named after the rule, are not found by the type they handle.
\<close>

lemma GetControllerByGVK_name:
  assumes "\<And>ks. set (x_MapOrder X ks) = set ks"
  shows "GetControllerByGVK X c gvk = GetController c (gvk_Group gvk)"
proof -
  have "by_gvk_loop c gvk ns = (if gvk_Group gvk \<in> set ns then map_of (cl_controllers c) (gvk_Group gvk) else None)" for ns
    by (induction ns) auto
  then show ?thesis
    using map_of_eq_None_iff [of "cl_controllers c" "gvk_Group gvk"]
    by (simp add: GetControllerByGVK_def GetController_def assms eq_commute [of None])
qed

text \<open>
  The loop of AddFeature over the pending controllers. AddController touches no pending entry
  but the visited one, so ranging over the map is ranging over the entries it had before.
\<close>

primrec add_pending_loop ::
  "ext \<Rightarrow> managedController list \<Rightarrow> clusters_Cluster \<Rightarrow> history \<Rightarrow> clusters_Cluster \<times> history" where
  "add_pending_loop X [] c h = (c, h)"
| "add_pending_loop X (ctrl # ctrls) c h =
     (case AddController X ctrl c h of (c', h') \<Rightarrow> add_pending_loop X ctrls c' h')"

definition AddFeature ::
  "ext \<Rightarrow> clusterFeature \<Rightarrow> clusters_Cluster \<Rightarrow> history \<Rightarrow> clusters_Cluster \<times> history" where
  "AddFeature X f c h =
     (let c1 = c\<lparr>cl_features := AList.update (f_UID f) f (cl_features c)\<rparr> in
      add_pending_loop X (map snd (cl_pendingControllers c1)) c1 h)"

primrec remove_unmet_loop ::
  "ext \<Rightarrow> managedController list \<Rightarrow> clusters_Cluster \<Rightarrow> history \<Rightarrow> clusters_Cluster \<times> history" where
  "remove_unmet_loop X [] c h = (c, h)"
| "remove_unmet_loop X (ctrl # ctrls) c h =
     (if \<not> checkRequiredClusterFeatures X c ctrl
      then let (c1, h1) = RemoveControllerByName (mc_name ctrl) c h;
               stopped = fst (controller_Stop (cl_name c) ctrl h)
           in remove_unmet_loop X ctrls (addPendingController stopped c1) h1
      else remove_unmet_loop X ctrls c h)"

definition RemoveFeature ::
  "ext \<Rightarrow> string \<Rightarrow> clusters_Cluster \<Rightarrow> history \<Rightarrow> clusters_Cluster \<times> history" where
  "RemoveFeature X uid c h =
     (let c1 = c\<lparr>cl_features := AList.delete uid (cl_features c)\<rparr> in
      remove_unmet_loop X (map snd (cl_controllers c1)) c1 h)"

end
