(* ===== verification/FeatureGate.thy ===== *)
theory FeatureGate
  imports ClusterCore
begin

text \<open>
  The feature gate of a cluster: AddController, RemoveController, AddFeature and
  RemoveFeature of src/pkg/clusters/cluster.go keep every registered controller either
  active or pending, active exactly when the cluster's features meet its requirements. The
  contract is the locale \<open>feature_gate\<close> over an abstract state (the features and the
  registrations); its interpretation \<open>gate\<close> shows that the code implements it.
\<close>

type_synonym gate_state =
  "(string \<rightharpoonup> clusterFeature) \<times>
   (string \<rightharpoonup> ResourceSyncRule option \<times> ClusterFeatureRequirement list)"

datatype gate_op =
    GateAddController managedController
  | GateRemoveController string
  | GateAddFeature clusterFeature
  | GateRemoveFeature string

fun gate_step :: "ext \<Rightarrow> gate_op \<Rightarrow> clusters_Cluster \<times> history \<Rightarrow> clusters_Cluster \<times> history" where
  "gate_step X (GateAddController ctrl) (c, h) = AddController X ctrl c h"
| "gate_step X (GateRemoveController name) (c, h) = RemoveControllerByName name c h"
| "gate_step X (GateAddFeature f) (c, h) = AddFeature X f c h"
| "gate_step X (GateRemoveFeature uid) (c, h) = RemoveFeature X uid c h"

text \<open>The abstract gate: a controller is active when it is registered and its requirements are met.\<close>

definition spec_active :: "ext \<Rightarrow> gate_state \<Rightarrow> string \<Rightarrow> bool" where
  "spec_active X s name \<longleftrightarrow>
     (case snd s name of None \<Rightarrow> False | Some (_, rs) \<Rightarrow> features_meet X rs (fst s))"

fun spec_step :: "gate_op \<Rightarrow> gate_state \<Rightarrow> gate_state" where
  "spec_step (GateAddController ctrl) (F, R) = (F, R(mc_name ctrl \<mapsto> registration ctrl))"
| "spec_step (GateRemoveController name) (F, R) = (F, R(name := None))"
| "spec_step (GateAddFeature f) (F, R) = (F(f_UID f \<mapsto> f), R)"
| "spec_step (GateRemoveFeature uid) (F, R) = (F(uid := None), R)"

text \<open>
  What the gate relies on: a controller is not added under the name of an active one, and a
  feature is not replaced by a different one with the same UID.
\<close>

fun spec_ok :: "ext \<Rightarrow> gate_op \<Rightarrow> gate_state \<Rightarrow> bool" where
  "spec_ok X (GateAddController ctrl) s = (\<not> spec_active X s (mc_name ctrl))"
| "spec_ok X (GateAddFeature f) s = (fst s (f_UID f) = None \<or> fst s (f_UID f) = Some f)"
| "spec_ok X _ s = True"

subsection \<open>The contract\<close>

primrec admissible :: "('op \<Rightarrow> 'a \<Rightarrow> bool) \<Rightarrow> ('op \<Rightarrow> 'a \<Rightarrow> 'a) \<Rightarrow> 'op list \<Rightarrow> 'a \<Rightarrow> bool" where
  "admissible ok stp [] a \<longleftrightarrow> True"
| "admissible ok stp (x # xs) a \<longleftrightarrow> ok x a \<and> admissible ok stp xs (stp x a)"

locale feature_gate =
  fixes step :: "'op \<Rightarrow> 's \<Rightarrow> 's"
    and inv :: "'s \<Rightarrow> bool"
    and abs :: "'s \<Rightarrow> 'a"
    and sstep :: "'op \<Rightarrow> 'a \<Rightarrow> 'a"
    and sok :: "'op \<Rightarrow> 'a \<Rightarrow> bool"
    and active :: "'s \<Rightarrow> string \<Rightarrow> bool"
    and sactive :: "'a \<Rightarrow> string \<Rightarrow> bool"
  assumes step_inv: "inv s \<Longrightarrow> sok x (abs s) \<Longrightarrow> inv (step x s)"
    and step_abs: "inv s \<Longrightarrow> sok x (abs s) \<Longrightarrow> abs (step x s) = sstep x (abs s)"
    and active_abs: "inv s \<Longrightarrow> active s n \<longleftrightarrow> sactive (abs s) n"
begin

lemma run_refines:
  assumes "inv s" and "admissible sok sstep xs (abs s)"
  shows "inv (fold step xs s) \<and> abs (fold step xs s) = fold sstep xs (abs s)"
  using assms
proof (induction xs arbitrary: s)
  case Nil
  then show ?case by simp
next
  case (Cons x xs)
  then have "inv (step x s)" and "abs (step x s) = sstep x (abs s)"
    using step_inv step_abs by auto
  with Cons show ?case by simp
qed

lemma run_active:
  "inv s \<Longrightarrow> admissible sok sstep xs (abs s) \<Longrightarrow>
   active (fold step xs s) n \<longleftrightarrow> sactive (fold sstep xs (abs s)) n"
  using run_refines active_abs by metis

end

subsection \<open>The cluster's state\<close>

text \<open>The registrations of a cluster: its active controllers, then its pending ones.\<close>

definition gate_abs :: "clusters_Cluster \<Rightarrow> gate_state" where
  "gate_abs c =
     (map_of (cl_features c),
      \<lambda>n. map_option registration
            (case map_of (cl_controllers c) n of
               None \<Rightarrow> map_of (cl_pendingControllers c) n | Some ctrl \<Rightarrow> Some ctrl))"

definition ctrl_met :: "ext \<Rightarrow> clusters_Cluster \<Rightarrow> managedController \<Rightarrow> bool" where
  "ctrl_met X c ctrl \<longleftrightarrow> features_meet X (mc_requiredClusterFeatures ctrl) (map_of (cl_features c))"

text \<open>The registries are maps, an entry is stored under its name, and no name is in both.\<close>

definition registries_wf :: "clusters_Cluster \<Rightarrow> bool" where
  "registries_wf c \<longleftrightarrow>
     alist_wf (cl_features c) \<and> alist_wf (cl_controllers c) \<and> alist_wf (cl_pendingControllers c) \<and>
     (\<forall>n ctrl. map_of (cl_controllers c) n = Some ctrl \<longrightarrow> mc_name ctrl = n) \<and>
     (\<forall>n ctrl. map_of (cl_pendingControllers c) n = Some ctrl \<longrightarrow> mc_name ctrl = n) \<and>
     (\<forall>n. map_of (cl_controllers c) n = None \<or> map_of (cl_pendingControllers c) n = None)"

definition active_met :: "ext \<Rightarrow> clusters_Cluster \<Rightarrow> bool" where
  "active_met X c \<longleftrightarrow> (\<forall>n ctrl. map_of (cl_controllers c) n = Some ctrl \<longrightarrow> ctrl_met X c ctrl)"

definition pending_unmet :: "ext \<Rightarrow> clusters_Cluster \<Rightarrow> bool" where
  "pending_unmet X c \<longleftrightarrow>
     (\<forall>n ctrl. map_of (cl_pendingControllers c) n = Some ctrl \<longrightarrow> \<not> ctrl_met X c ctrl)"

definition gate_inv :: "ext \<Rightarrow> clusters_Cluster \<Rightarrow> bool" where
  "gate_inv X c \<longleftrightarrow> registries_wf c \<and> active_met X c \<and> pending_unmet X c"

lemma check_requirements_iff:
  "check_requirements X fs rs \<longleftrightarrow> (\<forall>r \<in> set rs. Requirement_Match X r fs)"
  by (induction rs) auto

lemma checkRequired_iff:
  "alist_wf (cl_features c) \<Longrightarrow> checkRequiredClusterFeatures X c ctrl \<longleftrightarrow> ctrl_met X c ctrl"
  by (simp add: checkRequiredClusterFeatures_def check_requirements_iff ctrl_met_def
      features_meet_def Requirement_Match_map_of)

lemma registration_requirements:
  "registration c = registration d \<Longrightarrow> mc_requiredClusterFeatures c = mc_requiredClusterFeatures d"
  by (simp add: registration_def)

subsection \<open>Single controllers\<close>

lemma addController_effect:
  assumes "map_of (cl_controllers c) (mc_name ctrl) = None"
  obtains ctrl' h' where
    "addController ctrl c h =
       (c\<lparr>cl_pendingControllers := AList.delete (mc_name ctrl) (cl_pendingControllers c),
          cl_controllers := AList.update (mc_name ctrl) ctrl' (cl_controllers c)\<rparr>, h')"
    and "mc_name ctrl' = mc_name ctrl" and "registration ctrl' = registration ctrl"
proof
  let ?c1 = "removePendingControllerByName (mc_name ctrl) c"
  let ?p = "if IsManagerRunning ?c1 then controller_Start (cl_name ?c1) ctrl h else (ctrl, h)"
  show "addController ctrl c h =
       (c\<lparr>cl_pendingControllers := AList.delete (mc_name ctrl) (cl_pendingControllers c),
          cl_controllers := AList.update (mc_name ctrl) (fst ?p) (cl_controllers c)\<rparr>, snd ?p)"
    using assms
    by (simp add: addController_def GetController_def removePendingControllerByName_def
        Let_def split_beta)
  show "mc_name (fst ?p) = mc_name ctrl" and "registration (fst ?p) = registration ctrl"
    by simp_all
qed

text \<open>A registered controller moves to the other registry without a change of the abstract state.\<close>

lemma addController_gate:
  assumes wf: "registries_wf c" and na: "map_of (cl_controllers c) (mc_name ctrl) = None"
    and eq: "addController ctrl c h = (c', h')"
  shows "registries_wf c'"
    and "gate_abs c' = spec_step (GateAddController ctrl) (gate_abs c)"
    and "cl_features c' = cl_features c"
    and "\<And>n. n \<noteq> mc_name ctrl \<Longrightarrow> map_of (cl_controllers c') n = map_of (cl_controllers c) n"
    and "\<And>n. map_of (cl_pendingControllers c') n =
              (if n = mc_name ctrl then None else map_of (cl_pendingControllers c) n)"
    and "\<exists>d. map_of (cl_controllers c') (mc_name ctrl) = Some d \<and> registration d = registration ctrl"
proof -
  obtain d k where c': "addController ctrl c h =
       (c\<lparr>cl_pendingControllers := AList.delete (mc_name ctrl) (cl_pendingControllers c),
          cl_controllers := AList.update (mc_name ctrl) d (cl_controllers c)\<rparr>, k)"
    and d: "mc_name d = mc_name ctrl" "registration d = registration ctrl"
    using na by (rule addController_effect)
  with eq have c'_eq: "c' = c\<lparr>cl_pendingControllers := AList.delete (mc_name ctrl) (cl_pendingControllers c),
          cl_controllers := AList.update (mc_name ctrl) d (cl_controllers c)\<rparr>" by simp
  show "registries_wf c'" using wf d by (auto simp: c'_eq registries_wf_def)
  show "gate_abs c' = spec_step (GateAddController ctrl) (gate_abs c)"
    using d by (auto simp: c'_eq gate_abs_def fun_eq_iff split: option.split)
  show "cl_features c' = cl_features c" by (simp add: c'_eq)
  show "\<exists>d. map_of (cl_controllers c') (mc_name ctrl) = Some d \<and> registration d = registration ctrl"
    using d by (simp add: c'_eq)
  show "map_of (cl_controllers c') n = map_of (cl_controllers c) n" if "n \<noteq> mc_name ctrl" for n
    using that by (simp add: c'_eq)
  show "map_of (cl_pendingControllers c') n =
      (if n = mc_name ctrl then None else map_of (cl_pendingControllers c) n)" for n
    by (simp add: c'_eq)
qed

lemma addPendingController_gate:
  assumes wf: "registries_wf c" and na: "map_of (cl_controllers c) (mc_name ctrl) = None"
  shows "registries_wf (addPendingController ctrl c)"
    and "gate_abs (addPendingController ctrl c) = spec_step (GateAddController ctrl) (gate_abs c)"
proof -
  show "registries_wf (addPendingController ctrl c)"
    using assms by (auto simp: addPendingController_def registries_wf_def)
  show "gate_abs (addPendingController ctrl c) = spec_step (GateAddController ctrl) (gate_abs c)"
    using na by (auto simp: addPendingController_def gate_abs_def fun_eq_iff split: option.split)
qed

lemma RemoveControllerByName_effect:
  "fst (RemoveControllerByName name c h) =
     c\<lparr>cl_pendingControllers := AList.delete name (cl_pendingControllers c),
       cl_controllers := AList.delete name (cl_controllers c)\<rparr>"
proof (cases "map_of (cl_controllers c) name")
  case None
  then have "name \<notin> fst ` set (cl_controllers c)" by (simp add: map_of_eq_None_iff)
  then have "AList.delete name (cl_controllers c) = cl_controllers c" by (rule delete_id)
  with None show ?thesis
    by (simp add: RemoveControllerByName_def GetController_def removePendingControllerByName_def Let_def)
next
  case Some
  then show ?thesis
    by (simp add: RemoveControllerByName_def GetController_def removePendingControllerByName_def Let_def)
qed

lemma RemoveControllerByName_gate:
  "registries_wf c \<Longrightarrow> registries_wf (fst (RemoveControllerByName name c h))"
  "gate_abs (fst (RemoveControllerByName name c h)) =
     spec_step (GateRemoveController name) (gate_abs c)"
proof -
  show "registries_wf c \<Longrightarrow> registries_wf (fst (RemoveControllerByName name c h))"
    by (auto simp: RemoveControllerByName_effect registries_wf_def)
  show "gate_abs (fst (RemoveControllerByName name c h)) =
      spec_step (GateRemoveController name) (gate_abs c)"
    by (auto simp: RemoveControllerByName_effect gate_abs_def fun_eq_iff split: option.split)
qed

lemma addController_active_met:
  assumes wf: "registries_wf c" and na: "map_of (cl_controllers c) (mc_name ctrl) = None"
    and eq: "addController ctrl c h = (c', h')" and act: "active_met X c" and met: "ctrl_met X c ctrl"
  shows "active_met X c'"
  unfolding active_met_def
proof (intro allI impI)
  note g = addController_gate [OF wf na eq]
  fix n q assume q: "map_of (cl_controllers c') n = Some q"
  show "ctrl_met X c' q"
  proof (cases "n = mc_name ctrl")
    case True
    with q g(6) have "registration q = registration ctrl" by auto
    then have "mc_requiredClusterFeatures q = mc_requiredClusterFeatures ctrl"
      by (rule registration_requirements)
    with met g(3) show ?thesis by (simp add: ctrl_met_def)
  next
    case False
    with q g(4) have "map_of (cl_controllers c) n = Some q" by simp
    with act have "ctrl_met X c q" by (auto simp: active_met_def)
    with g(3) show ?thesis by (simp add: ctrl_met_def)
  qed
qed

lemma AddController_gate:
  assumes inv: "gate_inv X c" and na: "map_of (cl_controllers c) (mc_name ctrl) = None"
  shows "gate_inv X (fst (AddController X ctrl c h))"
    and "gate_abs (fst (AddController X ctrl c h)) = spec_step (GateAddController ctrl) (gate_abs c)"
proof -
  have wf: "registries_wf c" and "alist_wf (cl_features c)"
    using inv by (auto simp: gate_inv_def registries_wf_def)
  then have chk: "checkRequiredClusterFeatures X c ctrl = ctrl_met X c ctrl"
    by (simp add: checkRequired_iff)
  obtain c' h' where eq: "addController ctrl c h = (c', h')" by fastforce
  note g = addController_gate [OF wf na eq]
  have "gate_inv X c'" if "ctrl_met X c ctrl"
  proof -
    have "active_met X c'"
      using that inv addController_active_met [OF wf na eq] by (simp add: gate_inv_def)
    moreover have "pending_unmet X c'"
      using inv g(3,5) by (auto simp: gate_inv_def pending_unmet_def ctrl_met_def)
    ultimately show ?thesis using g(1) by (simp add: gate_inv_def)
  qed
  moreover have "gate_inv X (addPendingController ctrl c)" if "\<not> ctrl_met X c ctrl"
    using that inv addPendingController_gate(1) [OF wf na]
    by (auto simp: gate_inv_def active_met_def pending_unmet_def ctrl_met_def addPendingController_def)
  ultimately show "gate_inv X (fst (AddController X ctrl c h))"
    by (simp add: AddController_def chk eq)
  show "gate_abs (fst (AddController X ctrl c h)) = spec_step (GateAddController ctrl) (gate_abs c)"
    using g(2) addPendingController_gate(2) [OF wf na] by (simp add: AddController_def eq)
qed

lemma RemoveController_inv:
  "gate_inv X c \<Longrightarrow> gate_inv X (fst (RemoveControllerByName name c h))"
  using RemoveControllerByName_gate(1) [of c name h]
  by (auto simp: gate_inv_def RemoveControllerByName_effect active_met_def pending_unmet_def ctrl_met_def)

subsection \<open>The loops over the registries\<close>

text \<open>Re-registering a pending controller does not change the abstract state.\<close>

lemma pending_not_active:
  "registries_wf c \<Longrightarrow> map_of (cl_pendingControllers c) n = Some p \<Longrightarrow> map_of (cl_controllers c) n = None"
  unfolding registries_wf_def by (metis option.distinct(1))

lemma spec_step_pending:
  assumes "map_of (cl_pendingControllers c) (mc_name ctrl) = Some ctrl" and "registries_wf c"
  shows "spec_step (GateAddController ctrl) (gate_abs c) = gate_abs c"
proof -
  have "map_of (cl_controllers c) (mc_name ctrl) = None"
    using assms by (blast intro: pending_not_active)
  with assms show ?thesis by (auto simp: gate_abs_def fun_eq_iff)
qed

definition pending_done :: "ext \<Rightarrow> managedController list \<Rightarrow> clusters_Cluster \<Rightarrow> clusters_Cluster \<Rightarrow> bool" where
  "pending_done X ctrls c c' \<longleftrightarrow>
     registries_wf c' \<and> active_met X c' \<and> gate_abs c' = gate_abs c \<and> cl_features c' = cl_features c \<and>
     (\<forall>n p. map_of (cl_pendingControllers c') n = Some p \<longrightarrow>
        map_of (cl_pendingControllers c) n = Some p \<and> (p \<in> set ctrls \<longrightarrow> \<not> ctrl_met X c p))"

lemma AddController_pending:
  assumes wf: "registries_wf c" and act: "active_met X c"
    and p: "map_of (cl_pendingControllers c) (mc_name ctrl) = Some ctrl"
  shows "pending_done X [ctrl] c (fst (AddController X ctrl c h))"
    and "\<And>n. n \<noteq> mc_name ctrl \<Longrightarrow>
      map_of (cl_pendingControllers (fst (AddController X ctrl c h))) n = map_of (cl_pendingControllers c) n"
proof -
  have na: "map_of (cl_controllers c) (mc_name ctrl) = None"
    using wf p by (rule pending_not_active)
  have chk: "checkRequiredClusterFeatures X c ctrl = ctrl_met X c ctrl"
    using wf by (simp add: checkRequired_iff registries_wf_def)
  obtain c' h' where eq: "addController ctrl c h = (c', h')" by fastforce
  note g = addController_gate [OF wf na eq]
  note pe = addPendingController_gate [OF wf na]
  have abs: "spec_step (GateAddController ctrl) (gate_abs c) = gate_abs c"
    using p wf by (rule spec_step_pending)
  show "pending_done X [ctrl] c (fst (AddController X ctrl c h))"
  proof (cases "ctrl_met X c ctrl")
    case True
    then have "active_met X c'" by (rule addController_active_met [OF wf na eq act])
    moreover have "gate_abs c' = gate_abs c" using g(2) abs by simp
    moreover have "\<forall>n p. map_of (cl_pendingControllers c') n = Some p \<longrightarrow>
        map_of (cl_pendingControllers c) n = Some p \<and> p \<noteq> ctrl"
      using g(5) wf by (auto simp: registries_wf_def split: if_splits)
    ultimately have "pending_done X [ctrl] c c'" using g(1,3) by (simp add: pending_done_def)
    then show ?thesis using True by (simp add: AddController_def chk eq)
  next
    case False
    have "active_met X (addPendingController ctrl c)"
      using act by (simp add: addPendingController_def active_met_def ctrl_met_def)
    moreover have "\<forall>n q. map_of (cl_pendingControllers (addPendingController ctrl c)) n = Some q \<longrightarrow>
        map_of (cl_pendingControllers c) n = Some q"
      using p by (simp add: addPendingController_def)
    ultimately have "pending_done X [ctrl] c (addPendingController ctrl c)"
      using pe abs False by (simp add: pending_done_def) (simp add: addPendingController_def)
    then show ?thesis using False by (simp add: AddController_def chk)
  qed
  show "map_of (cl_pendingControllers (fst (AddController X ctrl c h))) n = map_of (cl_pendingControllers c) n"
    if "n \<noteq> mc_name ctrl" for n
    using that g(5) by (simp add: AddController_def eq addPendingController_def)
qed

lemma add_pending_loop_gate:
  assumes "registries_wf c" and "active_met X c" and "distinct (map mc_name ctrls)"
    and "\<And>p. p \<in> set ctrls \<Longrightarrow> map_of (cl_pendingControllers c) (mc_name p) = Some p"
  shows "pending_done X ctrls c (fst (add_pending_loop X ctrls c h))"
  using assms
proof (induction ctrls arbitrary: c h)
  case Nil
  then show ?case by (simp add: pending_done_def)
next
  case (Cons ctrl ctrls)
  obtain c1 h1 where c1: "AddController X ctrl c h = (c1, h1)" by fastforce
  have one: "pending_done X [ctrl] c c1"
    and other: "\<And>n. n \<noteq> mc_name ctrl \<Longrightarrow>
      map_of (cl_pendingControllers c1) n = map_of (cl_pendingControllers c) n"
    using AddController_pending [where h = h, OF Cons.prems(1,2), of ctrl] Cons.prems(4) c1 by simp_all
  have "pending_done X ctrls c1 (fst (add_pending_loop X ctrls c1 h1))"
  proof (rule Cons.IH)
    show "registries_wf c1" and "active_met X c1" using one by (auto simp: pending_done_def)
    show "distinct (map mc_name ctrls)" using Cons.prems by simp
    fix p assume "p \<in> set ctrls"
    with Cons.prems(3,4) other show "map_of (cl_pendingControllers c1) (mc_name p) = Some p"
      by (metis image_eqI list.set_map distinct.simps(2) list.set_intros(2) list.simps(9))
  qed
  with one show ?case
    by (auto simp: c1 pending_done_def ctrl_met_def)
qed

text \<open>Ranging over a registry visits each entry once, under its own name.\<close>

lemma named_values:
  assumes wf: "alist_wf m" and named: "\<forall>n p. map_of m n = Some p \<longrightarrow> mc_name p = n"
  shows "p \<in> set (map snd m) \<longleftrightarrow> map_of m (mc_name p) = Some p"
    and "distinct (map mc_name (map snd m))"
proof -
  have nm: "mc_name q = n" if "(n, q) \<in> set m" for n q
    using that wf named by (simp add: alist_wf_map_of)
  show "p \<in> set (map snd m) \<longleftrightarrow> map_of m (mc_name p) = Some p"
  proof
    assume "p \<in> set (map snd m)"
    then obtain n where "(n, p) \<in> set m" by auto
    with nm have "(mc_name p, p) \<in> set m" by blast
    with wf show "map_of m (mc_name p) = Some p" by (simp add: alist_wf_map_of)
  next
    assume "map_of m (mc_name p) = Some p"
    then have "(mc_name p, p) \<in> set m" by (rule map_of_SomeD)
    then show "p \<in> set (map snd m)" by force
  qed
  have "map mc_name (map snd m) = map fst m" using nm by auto
  then show "distinct (map mc_name (map snd m))" using wf by (simp only: alist_wf_def)
qed

lemma AddFeature_gate:
  assumes inv: "gate_inv X c" and ok: "spec_ok X (GateAddFeature f) (gate_abs c)"
  shows "gate_inv X (fst (AddFeature X f c h))"
    and "gate_abs (fst (AddFeature X f c h)) = spec_step (GateAddFeature f) (gate_abs c)"
proof -
  let ?c = "c\<lparr>cl_features := AList.update (f_UID f) f (cl_features c)\<rparr>"
  let ?ps = "map snd (cl_pendingControllers c)"
  let ?c' = "fst (AddFeature X f c h)"
  have wf: "registries_wf ?c" using inv by (simp add: gate_inv_def registries_wf_def)
  have "map_of (cl_features c) \<subseteq>\<^sub>m map_of (cl_features ?c)"
    using ok by (auto simp: gate_abs_def map_le_def)
  then have "ctrl_met X c p \<Longrightarrow> ctrl_met X ?c p" for p
    unfolding ctrl_met_def by (rule features_meet_mono [rotated])
  then have act: "active_met X ?c"
    using inv by (simp add: gate_inv_def active_met_def)
  have mem: "p \<in> set ?ps \<longleftrightarrow> map_of (cl_pendingControllers c) (mc_name p) = Some p" for p
    using wf by (intro named_values(1)) (simp_all add: registries_wf_def)
  have "distinct (map mc_name ?ps)"
    using wf by (intro named_values(2)) (simp_all add: registries_wf_def)
  then have d: "pending_done X ?ps ?c ?c'"
    unfolding AddFeature_def Let_def using add_pending_loop_gate [OF wf act, of ?ps h] mem by simp
  have "\<not> ctrl_met X ?c' p" if p: "map_of (cl_pendingControllers ?c') n = Some p" for n p
  proof -
    have q: "map_of (cl_pendingControllers c) n = Some p" "p \<in> set ?ps \<Longrightarrow> \<not> ctrl_met X ?c p"
      using d p by (simp_all add: pending_done_def)
    then have "mc_name p = n" using wf by (simp add: registries_wf_def)
    then have "p \<in> set ?ps" using q(1) mem by simp
    then show ?thesis using d q(2) by (simp add: pending_done_def ctrl_met_def)
  qed
  then show "gate_inv X ?c'" using d by (simp add: gate_inv_def pending_done_def pending_unmet_def)
  have "gate_abs ?c = spec_step (GateAddFeature f) (gate_abs c)"
    by (simp add: gate_abs_def fun_eq_iff split: option.split)
  then show "gate_abs ?c' = spec_step (GateAddFeature f) (gate_abs c)"
    using d by (simp add: pending_done_def)
qed

lemma RemoveFeature_step:
  assumes wf: "registries_wf c" and un: "pending_unmet X c"
    and a: "map_of (cl_controllers c) (mc_name ctrl) = Some ctrl" and unmet: "\<not> ctrl_met X c ctrl"
    and c': "c' = addPendingController (fst (controller_Stop (cl_name c) ctrl h))
                    (fst (RemoveControllerByName (mc_name ctrl) c h))"
  shows "registries_wf c'" and "pending_unmet X c'" and "gate_abs c' = gate_abs c"
    and "cl_features c' = cl_features c"
    and "\<And>n. map_of (cl_controllers c') n =
              (if n = mc_name ctrl then None else map_of (cl_controllers c) n)"
proof -
  let ?s = "fst (controller_Stop (cl_name c) ctrl h)"
  let ?c1 = "fst (RemoveControllerByName (mc_name ctrl) c h)"
  have c1: "registries_wf ?c1" using wf by (rule RemoveControllerByName_gate)
  have na: "map_of (cl_controllers ?c1) (mc_name ?s) = None"
    by (simp add: RemoveControllerByName_effect)
  note pe = addPendingController_gate [OF c1 na]
  show "registries_wf c'" using pe(1) by (simp add: c')
  show f: "cl_features c' = cl_features c"
    by (simp add: c' addPendingController_def RemoveControllerByName_effect)
  show "\<And>n. map_of (cl_controllers c') n =
              (if n = mc_name ctrl then None else map_of (cl_controllers c) n)"
    by (simp add: c' addPendingController_def RemoveControllerByName_effect)
  show "pending_unmet X c'"
    using un unmet f
    by (auto simp: pending_unmet_def c' addPendingController_def RemoveControllerByName_effect ctrl_met_def)
  have "gate_abs c' = (fst (gate_abs c), (snd (gate_abs c))(mc_name ctrl \<mapsto> registration ctrl))"
    using pe(2) RemoveControllerByName_gate(2) [of "mc_name ctrl" c h]
    by (simp add: c' prod_eq_iff gate_abs_def)
  also have "\<dots> = gate_abs c" using a by (simp add: gate_abs_def fun_eq_iff)
  finally show "gate_abs c' = gate_abs c" .
qed

definition active_done :: "ext \<Rightarrow> managedController list \<Rightarrow> clusters_Cluster \<Rightarrow> clusters_Cluster \<Rightarrow> bool" where
  "active_done X ctrls c c' \<longleftrightarrow>
     registries_wf c' \<and> pending_unmet X c' \<and> gate_abs c' = gate_abs c \<and> cl_features c' = cl_features c \<and>
     (\<forall>n p. map_of (cl_controllers c') n = Some p \<longrightarrow>
        map_of (cl_controllers c) n = Some p \<and> (p \<in> set ctrls \<longrightarrow> ctrl_met X c p))"

lemma active_done_Cons:
  assumes wf: "registries_wf c" and d: "active_done X ctrls c1 c'"
    and "gate_abs c1 = gate_abs c" and f: "cl_features c1 = cl_features c"
    and m: "\<And>n. map_of (cl_controllers c1) n =
              (if n = mc_name ctrl then None else map_of (cl_controllers c) n)"
  shows "active_done X (ctrl # ctrls) c c'"
proof -
  have "map_of (cl_controllers c) n = Some p \<and> p \<noteq> ctrl \<and> (p \<in> set ctrls \<longrightarrow> ctrl_met X c p)"
    if p: "map_of (cl_controllers c') n = Some p" for n p
  proof -
    have q: "map_of (cl_controllers c1) n = Some p" and "p \<in> set ctrls \<longrightarrow> ctrl_met X c1 p"
      using d p by (simp_all add: active_done_def)
    moreover from q m have "n \<noteq> mc_name ctrl" and "map_of (cl_controllers c) n = Some p"
      by (auto split: if_splits)
    moreover then have "mc_name p = n" using wf by (simp add: registries_wf_def)
    ultimately show ?thesis using f by (auto simp: ctrl_met_def)
  qed
  then show ?thesis using d assms(3,4) by (simp add: active_done_def)
qed

lemma remove_unmet_loop_gate:
  assumes "registries_wf c" and "pending_unmet X c" and "distinct (map mc_name ctrls)"
    and "\<And>p. p \<in> set ctrls \<Longrightarrow> map_of (cl_controllers c) (mc_name p) = Some p"
  shows "active_done X ctrls c (fst (remove_unmet_loop X ctrls c h))"
  using assms
proof (induction ctrls arbitrary: c h)
  case Nil
  then show ?case by (simp add: active_done_def)
next
  case (Cons ctrl ctrls)
  have chk: "checkRequiredClusterFeatures X c ctrl = ctrl_met X c ctrl"
    using Cons.prems(1) by (simp add: checkRequired_iff registries_wf_def)
  have names: "mc_name p \<noteq> mc_name ctrl" if "p \<in> set ctrls" for p
    using Cons.prems(3) that by (metis distinct.simps(2) image_eqI list.set_map list.simps(9))
  show ?case
  proof (cases "ctrl_met X c ctrl")
    case True
    have "active_done X ctrls c (fst (remove_unmet_loop X ctrls c h))"
      using Cons.prems by (intro Cons.IH) auto
    then show ?thesis using True by (auto simp: chk active_done_def)
  next
    case False
    let ?c = "addPendingController (fst (controller_Stop (cl_name c) ctrl h))
                (fst (RemoveControllerByName (mc_name ctrl) c h))"
    let ?h = "snd (RemoveControllerByName (mc_name ctrl) c h)"
    have "map_of (cl_controllers c) (mc_name ctrl) = Some ctrl" using Cons.prems(4) by simp
    note st = RemoveFeature_step [OF Cons.prems(1,2) this False refl, where h = h]
    have "active_done X ctrls ?c (fst (remove_unmet_loop X ctrls ?c ?h))"
      by (rule Cons.IH [OF st(1,2)]) (use Cons.prems(3,4) in \<open>simp_all add: st(5) names\<close>)
    moreover have "fst (remove_unmet_loop X (ctrl # ctrls) c h) = fst (remove_unmet_loop X ctrls ?c ?h)"
      using False by (simp add: chk Let_def split_beta)
    ultimately show ?thesis
      using active_done_Cons [OF Cons.prems(1) _ st(3,4,5)] by simp
  qed
qed

lemma RemoveFeature_gate:
  assumes inv: "gate_inv X c"
  shows "gate_inv X (fst (RemoveFeature X uid c h))"
    and "gate_abs (fst (RemoveFeature X uid c h)) = spec_step (GateRemoveFeature uid) (gate_abs c)"
proof -
  let ?c = "c\<lparr>cl_features := AList.delete uid (cl_features c)\<rparr>"
  let ?ps = "map snd (cl_controllers c)"
  let ?c' = "fst (RemoveFeature X uid c h)"
  have wf: "registries_wf ?c" using inv by (simp add: gate_inv_def registries_wf_def)
  have "map_of (cl_features ?c) = (map_of (cl_features c))(uid := None)" by (simp add: fun_eq_iff)
  then have "ctrl_met X ?c p \<Longrightarrow> ctrl_met X c p" for p
    unfolding ctrl_met_def using features_meet_remove by metis
  then have un: "pending_unmet X ?c"
    using inv by (auto simp: gate_inv_def pending_unmet_def)
  have mem: "p \<in> set ?ps \<longleftrightarrow> map_of (cl_controllers c) (mc_name p) = Some p" for p
    using wf by (intro named_values(1)) (simp_all add: registries_wf_def)
  have "distinct (map mc_name ?ps)"
    using wf by (intro named_values(2)) (simp_all add: registries_wf_def)
  then have d: "active_done X ?ps ?c ?c'"
    unfolding RemoveFeature_def Let_def using remove_unmet_loop_gate [OF wf un, of ?ps h] mem by simp
  have "ctrl_met X ?c' p" if p: "map_of (cl_controllers ?c') n = Some p" for n p
  proof -
    have q: "map_of (cl_controllers c) n = Some p" "p \<in> set ?ps \<Longrightarrow> ctrl_met X ?c p"
      using d p by (simp_all add: active_done_def)
    then have "mc_name p = n" using wf by (simp add: registries_wf_def)
    then have "p \<in> set ?ps" using q(1) mem by simp
    then show ?thesis using d q(2) by (simp add: active_done_def ctrl_met_def)
  qed
  then show "gate_inv X ?c'" using d by (simp add: gate_inv_def active_done_def active_met_def)
  have "gate_abs ?c = spec_step (GateRemoveFeature uid) (gate_abs c)"
    by (simp add: gate_abs_def fun_eq_iff split: option.split)
  then show "gate_abs ?c' = spec_step (GateRemoveFeature uid) (gate_abs c)"
    using d by (simp add: active_done_def)
qed

subsection \<open>The code implements the contract\<close>

lemma gate_inv_active:
  assumes inv: "gate_inv X c"
  shows "HasController c n \<longleftrightarrow> spec_active X (gate_abs c) n"
proof (cases "map_of (cl_controllers c) n")
  case None
  with inv show ?thesis
    by (auto simp: HasController_def spec_active_def gate_abs_def gate_inv_def pending_unmet_def
        ctrl_met_def registration_def split: option.split)
next
  case (Some ctrl)
  with inv show ?thesis
    by (auto simp: HasController_def spec_active_def gate_abs_def gate_inv_def active_met_def
        ctrl_met_def registration_def)
qed

lemma gate_step_gate:
  assumes inv: "gate_inv X (fst s)" and ok: "spec_ok X x (gate_abs (fst s))"
  shows "gate_inv X (fst (gate_step X x s))
    \<and> gate_abs (fst (gate_step X x s)) = spec_step x (gate_abs (fst s))"
proof (cases s)
  case (Pair c h)
  show ?thesis
  proof (cases x)
    case (GateAddController ctrl)
    with ok inv Pair have "map_of (cl_controllers c) (mc_name ctrl) = None"
      by (simp flip: gate_inv_active add: HasController_def)
    with inv Pair GateAddController AddController_gate show ?thesis by simp
  next
    case (GateAddFeature f)
    with inv ok Pair AddFeature_gate show ?thesis by simp
  qed (use inv Pair RemoveController_inv RemoveControllerByName_gate(2) RemoveFeature_gate in simp_all)
qed

interpretation gate: feature_gate "gate_step X" "\<lambda>s. gate_inv X (fst s)" "\<lambda>s. gate_abs (fst s)"
  spec_step "spec_ok X" "\<lambda>s. HasController (fst s)" "spec_active X" for X
  by unfold_locales (use gate_step_gate gate_inv_active in blast)+

lemma gate_inv_pending:
  assumes inv: "gate_inv X c"
  shows "map_of (cl_pendingControllers c) n \<noteq> None \<longleftrightarrow>
     snd (gate_abs c) n \<noteq> None \<and> \<not> spec_active X (gate_abs c) n"
proof -
  have "map_of (cl_controllers c) n = None \<or> map_of (cl_pendingControllers c) n = None"
    using inv by (simp add: gate_inv_def registries_wf_def)
  moreover have "snd (gate_abs c) n = map_option registration
      (case map_of (cl_controllers c) n of None \<Rightarrow> map_of (cl_pendingControllers c) n | Some p \<Rightarrow> Some p)"
    by (simp add: gate_abs_def)
  moreover note gate_inv_active [OF inv, of n]
  ultimately show ?thesis by (auto simp: HasController_def split: option.splits)
qed

lemma NewCluster_gate [simp]:
  "gate_inv X (NewCluster name [])" "gate_abs (NewCluster name []) = (Map.empty, Map.empty)"
  by (simp_all add: gate_inv_def registries_wf_def active_met_def pending_unmet_def gate_abs_def
      NewCluster_def)

subsection \<open>Properties\<close>

text \<open>
  C5. Whatever sequence of AddController, RemoveController, AddFeature and RemoveFeature runs on
  a new cluster, as long as no controller is added under the name of an active one and no
  feature UID is reused for a different feature, the cluster ends with exactly the
  registrations and features the abstract gate has; a controller is active if and only if it
  is registered and each of its requirements is met by some feature, and a registered
  controller that is not active is pending.
\<close>

theorem feature_gate_refines:
  assumes "admissible (spec_ok X) spec_step ops (Map.empty, Map.empty)"
    and "s = fold spec_step ops (Map.empty, Map.empty)"
    and "c = fst (fold (gate_step X) ops (NewCluster name [], h))"
  shows "gate_abs c = s \<and> (HasController c n \<longleftrightarrow> spec_active X s n) \<and>
    (map_of (cl_pendingControllers c) n \<noteq> None \<longleftrightarrow> snd s n \<noteq> None \<and> \<not> spec_active X s n)"
proof -
  have "gate_inv X c \<and> gate_abs c = s"
    using gate.run_refines [of X "(NewCluster name [], h)" ops] assms by simp
  then show ?thesis using gate_inv_active gate_inv_pending by blast
qed

definition gate_requirement :: "string \<Rightarrow> ClusterFeatureRequirement" where
  "gate_requirement n = \<lparr>fr_Name = n, fr_MatchLabels = [], fr_MatchExpressions = []\<rparr>"

definition gate_controller :: managedController where
  "gate_controller = NewManagedController ''sync'' None
     [WithRequiredClusterFeatures [gate_requirement ''mesh'']]"

definition gate_feature :: "string \<Rightarrow> string \<Rightarrow> clusterFeature" where
  "gate_feature uid n = NewClusterFeature uid n Map.empty"

lemmas gate_sample_defs = gate_requirement_def gate_controller_def gate_feature_def
  NewManagedController_def WithRequiredClusterFeatures_def NewClusterFeature_def

theorem feature_gate_refines_witness:
  "HasController (fst (fold (gate_step sample_ext)
     [GateAddController gate_controller, GateAddFeature (gate_feature ''u1'' ''mesh'')]
     (NewCluster ''peer'' [], []))) ''sync''"
proof -
  let ?ops = "[GateAddController gate_controller, GateAddFeature (gate_feature ''u1'' ''mesh'')]"
  have "admissible (spec_ok sample_ext) spec_step ?ops (Map.empty, Map.empty)"
    by (simp add: gate_sample_defs spec_active_def)
  from feature_gate_refines [OF this refl refl, of "''peer''" "[]" "''sync''"] show ?thesis
    by (simp add: spec_active_def gate_sample_defs registration_def features_meet_def meets_def)
qed

lemma AddController_keeps_active:
  assumes "GetController c n = Some ctrl"
  shows "GetController (fst (AddController X p c h)) n = Some ctrl"
    and "extends (\<lambda>e. \<forall>cl m. e \<noteq> ControllerStop cl m) h (snd (AddController X p c h))"
  using assms
  by (auto simp: AddController_def addController_def addPendingController_def GetController_def
      removePendingControllerByName_def controller_Start_def Let_def split_beta)

lemma add_pending_loop_keeps_active:
  assumes "GetController c n = Some ctrl"
  shows "GetController (fst (add_pending_loop X ps c h)) n = Some ctrl
    \<and> extends (\<lambda>e. \<forall>cl m. e \<noteq> ControllerStop cl m) h (snd (add_pending_loop X ps c h))"
  using assms
proof (induction ps arbitrary: c h)
  case (Cons p ps)
  from AddController_keeps_active [OF Cons.prems, where X = X and p = p and h = h] Cons.IH show ?case
    by (auto simp: split_beta intro: extends_trans)
qed simp

text \<open>
  AddFeature never stops or drops an active controller, also when it replaces a feature by
  one with other labels under the same UID: a controller whose requirements the new version
  of the feature no longer meets stays active.
\<close>

theorem AddFeature_keeps_active:
  assumes "GetController c n = Some ctrl"
  shows "GetController (fst (AddFeature X f c h)) n = Some ctrl \<and>
    extends (\<lambda>e. \<forall>cl m. e \<noteq> ControllerStop cl m) h (snd (AddFeature X f c h))"
  unfolding AddFeature_def Let_def
  by (rule add_pending_loop_keeps_active) (use assms in \<open>simp add: GetController_def\<close>)

definition gate_cluster :: clusters_Cluster where
  "gate_cluster = fst (fold (gate_step sample_ext)
     [GateAddController gate_controller, GateAddFeature (gate_feature ''u1'' ''mesh'')]
     (NewCluster ''peer'' [], []))"

theorem AddFeature_keeps_active_witness:
  "GetController (fst (AddFeature sample_ext (gate_feature ''u1'' ''other'') gate_cluster [])) ''sync''
     = Some gate_controller
   \<and> \<not> checkRequiredClusterFeatures sample_ext
        (fst (AddFeature sample_ext (gate_feature ''u1'' ''other'') gate_cluster [])) gate_controller"
proof -
  have "GetController gate_cluster ''sync'' = Some gate_controller"
    by (simp add: gate_cluster_def gate_sample_defs NewCluster_def AddController_def
        checkRequiredClusterFeatures_def addPendingController_def AddFeature_def addController_def
        GetController_def removePendingControllerByName_def IsManagerRunning_def)
  from AddFeature_keeps_active [OF this, of sample_ext "gate_feature ''u1'' ''other''" "[]"]
  show ?thesis
    by (simp add: gate_cluster_def gate_sample_defs NewCluster_def AddController_def
        checkRequiredClusterFeatures_def addPendingController_def AddFeature_def addController_def
        GetController_def removePendingControllerByName_def IsManagerRunning_def)
qed

end
