(* ===== verification/Lifecycle.thy ===== *)
theory Lifecycle
  imports FeatureGate
begin

text \<open>
  The life cycle of a peer cluster (src/pkg/clusters/cluster.go): the liveness check, the
  callbacks it runs, and the controller manager it starts and stops. Each method is a
  function; the goroutines (the liveness loop started by Start and the goroutine that runs the
  manager) are rules of the step relation \<open>cluster_step\<close>, so its runs are the possible
  interleavings of the methods and the goroutines.
\<close>

subsection \<open>Callbacks\<close>

text \<open>wait.ExponentialBackoff with five steps: a failing callback is asked again, its error is only logged.\<close>

definition runClusterFunc :: "ext \<Rightarrow> ClusterFunc \<Rightarrow> string \<Rightarrow> history \<Rightarrow> history" where
  "runClusterFunc X f name h =
     snd (x_ExponentialBackoff X 5
       (\<lambda>h. case f name h of (Some e, h') \<Rightarrow> (Inr False, h') | (None, h') \<Rightarrow> (Inr True, h')) h)"

primrec run_cluster_funcs :: "ext \<Rightarrow> ClusterFunc list \<Rightarrow> string \<Rightarrow> history \<Rightarrow> history" where
  "run_cluster_funcs X [] name h = h"
| "run_cluster_funcs X (f # fs) name h = run_cluster_funcs X fs name (runClusterFunc X f name h)"

definition IsAlive :: "clusters_Cluster \<Rightarrow> bool" where
  "IsAlive c = cl_alive c"

definition AddOnAliveFunc ::
  "ext \<Rightarrow> ClusterFunc \<Rightarrow> clusters_Cluster \<Rightarrow> history \<Rightarrow> clusters_Cluster \<times> history" where
  "AddOnAliveFunc X f c h =
     (let c1 = c\<lparr>cl_onAliveFuncs := cl_onAliveFuncs c @ [f]\<rparr> in
      (c1, if IsAlive c1 then runClusterFunc X f (cl_name c1) h else h))"

definition AddOnDeadFunc :: "ClusterFunc \<Rightarrow> clusters_Cluster \<Rightarrow> clusters_Cluster" where
  "AddOnDeadFunc f c = c\<lparr>cl_onDeadFuncs := cl_onDeadFuncs c @ [f]\<rparr>"

definition WithOnDeadFunc :: "ClusterFunc \<Rightarrow> clusters_Cluster \<Rightarrow> clusters_Cluster" where
  "WithOnDeadFunc f c = AddOnDeadFunc f c"

subsection \<open>The manager\<close>

definition stopManager :: "clusters_Cluster \<Rightarrow> history \<Rightarrow> clusters_Cluster \<times> history" where
  "stopManager c h =
     (if cl_mgrCtx c \<noteq> None then (c\<lparr>cl_mgrCtx := Some True\<rparr>, h @ [ManagerStop (cl_name c)])
      else (c, h))"

definition StopManager :: "clusters_Cluster \<Rightarrow> history \<Rightarrow> clusters_Cluster \<times> history" where
  "StopManager c h = (case stopManager c h of (c1, h1) \<Rightarrow> (c1\<lparr>cl_mgrStopped := True\<rparr>, h1))"

text \<open>Cancelling the cluster's context also cancels the manager's, which is derived from it.\<close>

definition cluster_Stop :: "clusters_Cluster \<Rightarrow> history \<Rightarrow> clusters_Cluster \<times> history" where
  "cluster_Stop c h =
     (c\<lparr>cl_ctxDone := True, cl_mgrCtx := map_option (\<lambda>_. True) (cl_mgrCtx c)\<rparr>,
      h @ [ClusterStop (cl_name c)])"

primrec start_controllers ::
  "string \<Rightarrow> controllers \<Rightarrow> history \<Rightarrow> controllers \<times> history" where
  "start_controllers cl [] h = ([], h)"
| "start_controllers cl (p # ps) h =
     (let (ctrl, h1) = controller_Start cl (snd p) h;
          (ps', h2) = start_controllers cl ps h1
      in ((fst p, ctrl) # ps', h2))"

definition StartManager ::
  "ext \<Rightarrow> clusters_Cluster \<Rightarrow> history \<Rightarrow> gerror option \<times> clusters_Cluster \<times> history" where
  "StartManager X c h =
     (if cl_mgrCtx c \<noteq> None then (None, c, h)
      else let c1 = c\<lparr>cl_mgrStopped := False, cl_mgrCtx := Some (cl_ctxDone c)\<rparr> in
        case x_NewManager X h (cl_name c) of
          Some e \<Rightarrow> (Some (x_WrapIf X e ''could not create manager''), c1\<lparr>cl_mgr := False\<rparr>, h)
        | None \<Rightarrow>
            let (ctrls, h1) = start_controllers (cl_name c) (cl_controllers c1)
                                (h @ [ManagerStart (cl_name c)])
            in (None, c1\<lparr>cl_mgr := True, cl_mgrRoutine := True, cl_controllers := ctrls\<rparr>, h1))"

text \<open>The end of the goroutine that runs the manager, once the manager context is cancelled.\<close>

definition manager_goroutine_end :: "clusters_Cluster \<Rightarrow> clusters_Cluster" where
  "manager_goroutine_end c = c\<lparr>cl_mgrCtx := None, cl_mgr := False, cl_mgrRoutine := False\<rparr>"

text \<open>
  The clean-up at the end of the goroutine that runs an active controller
  (managed\_controller.go): it resets the controller's context and cancel function. A goroutine
  that returns earlier, in the retry loop or on an error of its cache or reconciler, leaves both
  as they are.
\<close>

definition controller_goroutine_end :: "string \<Rightarrow> clusters_Cluster \<Rightarrow> clusters_Cluster" where
  "controller_goroutine_end n c =
     c\<lparr>cl_controllers := map (\<lambda>p. if fst p = n
         then (fst p, (snd p)\<lparr>mc_cancelSet := False, mc_contextSet := False\<rparr>) else p) (cl_controllers c)\<rparr>"

subsection \<open>Liveness\<close>

definition setAlive :: "ext \<Rightarrow> clusters_Cluster \<Rightarrow> history \<Rightarrow> clusters_Cluster \<times> history" where
  "setAlive X c h =
     (if cl_alive c then (c, h)
      else let (c1, h1) = (if \<not> cl_mgrStopped c then snd (StartManager X c h) else (c, h));
               h2 = run_cluster_funcs X (cl_onAliveFuncs c1) (cl_name c1) h1
           in (c1\<lparr>cl_alive := True\<rparr>, h2))"

definition setDead :: "ext \<Rightarrow> clusters_Cluster \<Rightarrow> history \<Rightarrow> clusters_Cluster \<times> history" where
  "setDead X c h =
     (if \<not> cl_alive c then (c, h)
      else let (c1, h1) = stopManager c h;
               h2 = run_cluster_funcs X (cl_onDeadFuncs c1) (cl_name c1) h1
           in (c1\<lparr>cl_alive := False\<rparr>, h2))"

definition livenessCheck ::
  "ext \<Rightarrow> clusters_Cluster \<Rightarrow> history \<Rightarrow> gerror option \<times> clusters_Cluster \<times> history" where
  "livenessCheck X c h =
     (case x_NewClientset X h (cl_name c) of
        Some e \<Rightarrow> (Some (x_WrapIf X e ''could not get cluster ID''), setDead X c h)
      | None \<Rightarrow>
          let h1 = h @ [ProbeNamespace (cl_name c)] in
          case x_ProbeNamespace X h (cl_name c) of
            Inl e \<Rightarrow> (Some (x_WrapIf X e ''could not get cluster ID''), setDead X c h1)
          | Inr uid \<Rightarrow> let (c2, h2) = setAlive X c h1 in (None, c2\<lparr>cl_clusterID := uid\<rparr>, h2))"

definition cluster_Start ::
  "ext \<Rightarrow> clusters_Cluster \<Rightarrow> history \<Rightarrow> gerror option \<times> clusters_Cluster \<times> history" where
  "cluster_Start X c h =
     (case livenessCheck X c h of
        (Some e, c1, h1) \<Rightarrow> (Some e, c1, h1)
      | (None, c1, h1) \<Rightarrow> (None, c1\<lparr>cl_started := True\<rparr>, h1))"

text \<open>The branch of the liveness loop that is taken when the cluster's context is done.\<close>

definition liveness_loop_end :: "ext \<Rightarrow> clusters_Cluster \<Rightarrow> history \<Rightarrow> clusters_Cluster \<times> history" where
  "liveness_loop_end X c h = (case setDead X c h of (c1, h1) \<Rightarrow> (c1\<lparr>cl_started := False\<rparr>, h1))"

lemmas life_defs =
  stopManager_def StopManager_def cluster_Stop_def StartManager_def manager_goroutine_end_def
  setAlive_def setDead_def livenessCheck_def cluster_Start_def liveness_loop_end_def

subsection \<open>Runs\<close>

datatype cluster_opt =
    OptSecretID string
  | OptKubeconfig string
  | OptOnDead ClusterFunc

fun apply_opt :: "cluster_opt \<Rightarrow> clusters_Cluster \<Rightarrow> clusters_Cluster" where
  "apply_opt (OptSecretID s) = WithSecretID s"
| "apply_opt (OptKubeconfig k) = WithKubeconfig k"
| "apply_opt (OptOnDead f) = WithOnDeadFunc f"

text \<open>
  The steps of the life cycle: the methods that change it and the steps of the goroutines. A
  controller's goroutine ends when the context of its start is done; that context may be one
  of an earlier manager, so the step has no condition on the present one.
\<close>

inductive life_step :: "ext \<Rightarrow> clusters_Cluster \<times> history \<Rightarrow> clusters_Cluster \<times> history \<Rightarrow> bool" for X where
  step_start: "life_step X (c, h) (snd (cluster_Start X c h))"
| step_tick: "cl_started c \<Longrightarrow> life_step X (c, h) (snd (livenessCheck X c h))"
| step_done: "cl_started c \<Longrightarrow> cl_ctxDone c \<Longrightarrow> life_step X (c, h) (liveness_loop_end X c h)"
| step_routine: "cl_mgrRoutine c \<Longrightarrow> cl_mgrCtx c = Some True \<Longrightarrow>
    life_step X (c, h) (manager_goroutine_end c, h)"
| step_controller: "life_step X (c, h) (controller_goroutine_end n c, h)"
| step_stop: "life_step X (c, h) (cluster_Stop c h)"
| step_startManager: "life_step X (c, h) (snd (StartManager X c h))"
| step_stopManager: "life_step X (c, h) (StopManager c h)"

text \<open>
  Go ranges over a map in an order that may differ from one time to the next. The loops of the
  model range over association lists from left to right, so the order is covered by allowing
  any other association lists for the same maps in between.
\<close>

definition same_maps :: "clusters_Cluster \<Rightarrow> clusters_Cluster \<Rightarrow> bool" where
  "same_maps c d \<longleftrightarrow>
     (\<exists>fs cs ps. d = c\<lparr>cl_features := fs, cl_controllers := cs, cl_pendingControllers := ps\<rparr> \<and>
        alist_wf fs \<and> alist_wf cs \<and> alist_wf ps \<and> map_of fs = map_of (cl_features c) \<and>
        map_of cs = map_of (cl_controllers c) \<and> map_of ps = map_of (cl_pendingControllers c))"

text \<open>
  \<open>cluster_run X ops s\<close>: a new cluster reaches \<open>s\<close> by the feature gate operations \<open>ops\<close>, each
  admissible when it ran, interleaved with life cycle steps in any way.
\<close>

inductive cluster_run :: "ext \<Rightarrow> gate_op list \<Rightarrow> clusters_Cluster \<times> history \<Rightarrow> bool" for X where
  run_new: "cluster_run X [] (NewCluster name (map apply_opt os), h)"
| run_life: "cluster_run X ops s \<Longrightarrow> life_step X s s' \<Longrightarrow> cluster_run X ops s'"
| run_order: "cluster_run X ops (c, h) \<Longrightarrow> same_maps c d \<Longrightarrow> cluster_run X ops (d, h)"
| run_gate: "cluster_run X ops s \<Longrightarrow> spec_ok X x (gate_abs (fst s)) \<Longrightarrow>
    cluster_run X (ops @ [x]) (gate_step X x s)"

subsection \<open>The life cycle keeps the feature gate\<close>

text \<open>Two clusters whose controllers differ only in their own life cycle.\<close>

definition same_gate :: "clusters_Cluster \<Rightarrow> clusters_Cluster \<Rightarrow> bool" where
  "same_gate c d \<longleftrightarrow>
     cl_features d = cl_features c \<and> cl_pendingControllers d = cl_pendingControllers c \<and>
     list_all2 (\<lambda>p q. fst q = fst p \<and> mc_name (snd q) = mc_name (snd p)
                    \<and> registration (snd q) = registration (snd p))
       (cl_controllers c) (cl_controllers d)"

lemma start_controllers_same:
  "list_all2 (\<lambda>p q. fst q = fst p \<and> mc_name (snd q) = mc_name (snd p)
                  \<and> registration (snd q) = registration (snd p))
     ps (fst (start_controllers cl ps h))"
  by (induction ps arbitrary: h) (auto simp: Let_def split_beta)

lemma same_gate_refl [simp]: "same_gate c c"
  by (simp add: same_gate_def list_all2_same)

lemma same_gate_fields:
  assumes "cl_features d = cl_features c" and "cl_pendingControllers d = cl_pendingControllers c"
    and "cl_controllers d = cl_controllers c"
  shows "same_gate c d"
  using assms by (simp add: same_gate_def list_all2_same)

lemma same_gate_StartManager: "same_gate c (fst (snd (StartManager X c h)))"
  using start_controllers_same [of "cl_controllers c"]
  by (auto simp: StartManager_def Let_def split_beta same_gate_def list_all2_same split: option.split)

lemma same_gate_update:
  "same_gate c (d\<lparr>cl_alive := a\<rparr>) = same_gate c d"
  "same_gate c (d\<lparr>cl_started := a\<rparr>) = same_gate c d"
  "same_gate c (d\<lparr>cl_clusterID := i\<rparr>) = same_gate c d"
  by (simp_all add: same_gate_def)

lemma same_gate_setDead: "same_gate c (fst (setDead X c h))"
  by (auto simp: setDead_def stopManager_def Let_def intro: same_gate_fields)

lemma same_gate_setAlive: "same_gate c (fst (setAlive X c h))"
  by (simp add: setAlive_def Let_def split_beta same_gate_update same_gate_StartManager)

lemma same_gate_livenessCheck: "same_gate c (fst (snd (livenessCheck X c h)))"
  by (auto simp: livenessCheck_def Let_def split_beta same_gate_update same_gate_setAlive
      same_gate_setDead split: option.split sum.split)

lemma same_gate_controller: "same_gate c (controller_goroutine_end n c)"
  by (simp add: controller_goroutine_end_def same_gate_def list_all2_conv_all_nth registration_def)

lemma life_step_same_gate: "life_step X s s' \<Longrightarrow> same_gate (fst s) (fst s')"
proof (induction rule: life_step.induct)
  case (step_start c h)
  show ?case using same_gate_livenessCheck [of c X h]
    by (auto simp: cluster_Start_def same_gate_update split: option.split prod.split)
next
  case (step_done c h)
  show ?case using same_gate_setDead [of c X h]
    by (simp add: liveness_loop_end_def split_beta same_gate_update)
qed (auto simp: same_gate_livenessCheck same_gate_StartManager same_gate_controller
    manager_goroutine_end_def cluster_Stop_def
    StopManager_def stopManager_def intro: same_gate_fields)

lemma same_gate_map_of:
  assumes "same_gate c d"
  shows "map_of (cl_controllers d) n = None \<longleftrightarrow> map_of (cl_controllers c) n = None"
    and "map_of (cl_controllers d) n = Some q \<Longrightarrow>
      \<exists>p. map_of (cl_controllers c) n = Some p \<and> mc_name q = mc_name p \<and> registration q = registration p"
    and "map_option registration (map_of (cl_controllers d) n) =
      map_option registration (map_of (cl_controllers c) n)"
proof -
  have "list_all2 (\<lambda>p q. fst q = fst p \<and> mc_name (snd q) = mc_name (snd p)
                  \<and> registration (snd q) = registration (snd p)) (cl_controllers c) (cl_controllers d)"
    using assms by (simp add: same_gate_def)
  then show "map_of (cl_controllers d) n = None \<longleftrightarrow> map_of (cl_controllers c) n = None"
    and "map_of (cl_controllers d) n = Some q \<Longrightarrow>
      \<exists>p. map_of (cl_controllers c) n = Some p \<and> mc_name q = mc_name p \<and> registration q = registration p"
    and "map_option registration (map_of (cl_controllers d) n) =
      map_option registration (map_of (cl_controllers c) n)"
    by (induction rule: list_all2_induct) (auto split: if_splits)
qed

lemma same_gate_abs:
  assumes s: "same_gate c d"
  shows "gate_abs d = gate_abs c"
proof -
  have "map_option registration (case map_of (cl_controllers d) n of None \<Rightarrow> P | Some q \<Rightarrow> Some q) =
      map_option registration (case map_of (cl_controllers c) n of None \<Rightarrow> P | Some q \<Rightarrow> Some q)" for n P
    using same_gate_map_of(3) [OF s, of n] by (auto split: option.splits)
  moreover have f: "cl_features d = cl_features c" and p: "cl_pendingControllers d = cl_pendingControllers c"
    using s by (simp_all add: same_gate_def)
  ultimately show ?thesis unfolding gate_abs_def f p by simp
qed

lemma same_gate_inv:
  assumes s: "same_gate c d" and inv: "gate_inv X c"
  shows "gate_inv X d"
proof -
  have f: "cl_features d = cl_features c" and p: "cl_pendingControllers d = cl_pendingControllers c"
    using s by (simp_all add: same_gate_def)
  have "map fst (cl_controllers d) = map fst (cl_controllers c)"
    using s unfolding same_gate_def by (auto simp: list_all2_conv_all_nth intro: nth_equalityI)
  then have "alist_wf (cl_controllers d)"
    using inv by (simp add: alist_wf_def gate_inv_def registries_wf_def)
  moreover have "mc_name q = n" "ctrl_met X d q" if q: "map_of (cl_controllers d) n = Some q" for n q
  proof -
    obtain r where r: "map_of (cl_controllers c) n = Some r" "mc_name q = mc_name r"
      "registration q = registration r" using same_gate_map_of(2) [OF s q] by blast
    then show "mc_name q = n" using inv by (simp add: gate_inv_def registries_wf_def)
    have "ctrl_met X c r" using inv r(1) by (simp add: gate_inv_def active_met_def)
    then show "ctrl_met X d q" using f registration_requirements [OF r(3)] by (simp add: ctrl_met_def)
  qed
  ultimately show ?thesis
    using inv f p same_gate_map_of(1) [OF s]
    by (simp add: gate_inv_def registries_wf_def active_met_def pending_unmet_def ctrl_met_def)
qed

subsection \<open>Invariants of the manager\<close>

text \<open>
  The goroutine of a manager is there exactly while the manager is; a manager has a context;
  and once the cluster's context is cancelled, so is the manager's.
\<close>

definition life_inv :: "clusters_Cluster \<Rightarrow> bool" where
  "life_inv c \<longleftrightarrow>
     cl_mgrRoutine c = cl_mgr c \<and> (cl_mgr c \<longrightarrow> cl_mgrCtx c \<noteq> None) \<and>
     (cl_ctxDone c \<longrightarrow> cl_mgrCtx c \<noteq> Some False)"

text \<open>A manager context without a manager: what a failed manager creation leaves behind.\<close>

definition manager_lost :: "clusters_Cluster \<Rightarrow> bool" where
  "manager_lost c \<longleftrightarrow> cl_mgrCtx c \<noteq> None \<and> \<not> cl_mgr c \<and> \<not> cl_mgrRoutine c"

text \<open>The part of a cluster that the life cycle invariants speak about.\<close>

definition mgr_view :: "clusters_Cluster \<Rightarrow> bool \<times> bool \<times> bool option \<times> bool" where
  "mgr_view c = (cl_mgrRoutine c, cl_mgr c, cl_mgrCtx c, cl_ctxDone c)"

lemma mgr_view_inv:
  "mgr_view c = mgr_view d \<Longrightarrow> life_inv c = life_inv d"
  "mgr_view c = mgr_view d \<Longrightarrow> manager_lost c = manager_lost d"
  by (simp_all add: mgr_view_def life_inv_def manager_lost_def)

lemma mgr_view_gate_parts:
  "mgr_view (c\<lparr>cl_features := fs\<rparr>) = mgr_view c"
  "mgr_view (addPendingController p c) = mgr_view c"
  "mgr_view (fst (AddController X p c h)) = mgr_view c"
  "mgr_view (fst (RemoveControllerByName n c h)) = mgr_view c"
  by (simp_all add: mgr_view_def AddController_def addController_def addPendingController_def
      removePendingControllerByName_def RemoveControllerByName_effect Let_def split_beta)

lemma mgr_view_loops:
  "mgr_view (fst (add_pending_loop X ps c h)) = mgr_view c"
  "mgr_view (fst (remove_unmet_loop X ps c h)) = mgr_view c"
  by (induction ps arbitrary: c h) (simp_all add: split_beta Let_def mgr_view_gate_parts)

lemma mgr_view_gate_step: "mgr_view (fst (gate_step X x s)) = mgr_view (fst s)"
  by (cases s; cases x)
    (simp_all add: mgr_view_gate_parts AddFeature_def RemoveFeature_def Let_def mgr_view_loops)

lemma life_inv_update [simp]:
  "life_inv (d\<lparr>cl_alive := a\<rparr>) = life_inv d" "life_inv (d\<lparr>cl_started := a\<rparr>) = life_inv d"
  "life_inv (d\<lparr>cl_clusterID := i\<rparr>) = life_inv d" "life_inv (d\<lparr>cl_mgrStopped := a\<rparr>) = life_inv d"
  "manager_lost (d\<lparr>cl_alive := a\<rparr>) = manager_lost d"
  "manager_lost (d\<lparr>cl_started := a\<rparr>) = manager_lost d"
  "manager_lost (d\<lparr>cl_clusterID := i\<rparr>) = manager_lost d"
  "manager_lost (d\<lparr>cl_mgrStopped := a\<rparr>) = manager_lost d"
  by (simp_all add: life_inv_def manager_lost_def)

text \<open>A property of the manager that its two transitions keep is kept by the whole life cycle.\<close>

lemma life_step_keeps:
  assumes "life_step X s s'" and "P (fst s)"
    and start: "\<And>c h. P c \<Longrightarrow> P (fst (snd (StartManager X c h)))"
    and stop: "\<And>c h. P c \<Longrightarrow> P (fst (stopManager c h))"
    and cancel: "\<And>c h. P c \<Longrightarrow> P (fst (cluster_Stop c h))"
    and fin: "\<And>c. P c \<Longrightarrow> cl_mgrRoutine c \<Longrightarrow> cl_mgrCtx c = Some True \<Longrightarrow> P (manager_goroutine_end c)"
    and ctl: "\<And>c n. P c \<Longrightarrow> P (controller_goroutine_end n c)"
    and upd: "\<And>c a. P (c\<lparr>cl_alive := a\<rparr>) = P c" "\<And>c a. P (c\<lparr>cl_started := a\<rparr>) = P c"
      "\<And>c i. P (c\<lparr>cl_clusterID := i\<rparr>) = P c" "\<And>c a. P (c\<lparr>cl_mgrStopped := a\<rparr>) = P c"
  shows "P (fst s')"
proof -
  have dead: "P (fst (setDead X c h))" if "P c" for c h
    using that stop by (simp add: setDead_def Let_def split_beta upd)
  have "P (fst (setAlive X c h))" if "P c" for c h
    using that start by (simp add: setAlive_def Let_def split_beta upd)
  then have live: "P (fst (snd (livenessCheck X c h)))" if "P c" for c h
    using that dead
    by (auto simp: livenessCheck_def Let_def split_beta upd split: option.split sum.split)
  show ?thesis using assms(1,2)
  proof (induction rule: life_step.induct)
    case (step_start c h)
    with live [of c h] show ?case by (auto simp: cluster_Start_def upd split: option.split prod.split)
  next
    case (step_stopManager c h)
    with stop [of c h] show ?case by (simp add: StopManager_def split_beta upd)
  qed (use live dead start cancel fin ctl in \<open>auto simp: liveness_loop_end_def split_beta upd\<close>)
qed

lemma life_step_inv: "life_step X s s' \<Longrightarrow> life_inv (fst s) \<Longrightarrow> life_inv (fst s')"
  by (erule life_step_keeps)
    (auto simp: life_inv_def StartManager_def stopManager_def cluster_Stop_def
      manager_goroutine_end_def controller_goroutine_end_def Let_def split_beta split: option.splits)

lemma life_step_lost: "life_step X s s' \<Longrightarrow> manager_lost (fst s) \<Longrightarrow> manager_lost (fst s')"
  by (erule life_step_keeps)
    (auto simp: manager_lost_def StartManager_def stopManager_def cluster_Stop_def
      controller_goroutine_end_def)

lemma NewCluster_opts:
  fixes os :: "cluster_opt list"
  shows "same_gate (NewCluster name []) (NewCluster name (map apply_opt os))"
    and "mgr_view (NewCluster name (map apply_opt os)) = (False, False, None, False)"
proof -
  have "cl_features (fold (\<lambda>opt c. opt c) (map apply_opt os) d) = cl_features d \<and>
    cl_pendingControllers (fold (\<lambda>opt c. opt c) (map apply_opt os) d) = cl_pendingControllers d \<and>
    cl_controllers (fold (\<lambda>opt c. opt c) (map apply_opt os) d) = cl_controllers d \<and>
    mgr_view (fold (\<lambda>opt c. opt c) (map apply_opt os) d) = mgr_view d" for d
  proof (induction os arbitrary: d)
    case (Cons x os)
    then show ?case
      by (cases x) (simp_all add: WithSecretID_def WithKubeconfig_def WithOnDeadFunc_def
          AddOnDeadFunc_def mgr_view_def)
  qed simp
  then show "same_gate (NewCluster name []) (NewCluster name (map apply_opt os))"
    and "mgr_view (NewCluster name (map apply_opt os)) = (False, False, None, False)"
    by (auto simp: NewCluster_def mgr_view_def intro: same_gate_fields)
qed

lemma same_maps_inv:
  assumes "same_maps c d"
  shows "gate_abs d = gate_abs c" and "gate_inv X c \<Longrightarrow> gate_inv X d" and "life_inv d = life_inv c"
proof -
  have m: "map_of (cl_features d) = map_of (cl_features c)" "map_of (cl_controllers d) = map_of (cl_controllers c)"
    "map_of (cl_pendingControllers d) = map_of (cl_pendingControllers c)"
    and wf: "alist_wf (cl_features d)" "alist_wf (cl_controllers d)" "alist_wf (cl_pendingControllers d)"
    using assms by (auto simp: same_maps_def)
  show "gate_abs d = gate_abs c" unfolding gate_abs_def m ..
  show "gate_inv X d" if "gate_inv X c"
    using that wf unfolding gate_inv_def registries_wf_def active_met_def pending_unmet_def ctrl_met_def m
    by (elim conjE, intro conjI) assumption+
  show "life_inv d = life_inv c" using assms by (auto simp: same_maps_def life_inv_def)
qed

lemma cluster_run_inv:
  "cluster_run X ops s \<Longrightarrow>
   gate_inv X (fst s) \<and> gate_abs (fst s) = fold spec_step ops (Map.empty, Map.empty) \<and> life_inv (fst s)"
proof (induction rule: cluster_run.induct)
  case (run_new name os h)
  have "life_inv (NewCluster name (map apply_opt os))"
    using NewCluster_opts(2) [of name os] by (simp add: life_inv_def mgr_view_def)
  with same_gate_inv [OF NewCluster_opts(1) NewCluster_gate(1)] same_gate_abs [OF NewCluster_opts(1)]
  show ?case by simp
next
  case (run_life ops s s')
  with same_gate_inv [OF life_step_same_gate] same_gate_abs [OF life_step_same_gate] life_step_inv
  show ?case by metis
next
  case (run_order ops c h d)
  with same_maps_inv [of c d] show ?case by simp
next
  case (run_gate ops s x)
  with gate_step_gate [of X s x] mgr_view_inv(1) [OF mgr_view_gate_step] show ?case by simp
qed

subsection \<open>Properties\<close>

text \<open>
  C4. Along every interleaving of the life cycle (start, liveness ticks, stop, manager start and
  stop, the end of the goroutines) with admissible feature gate operations, and for every order
  in which the loops range over the maps of the cluster, a controller is active exactly when it
  is registered and its requirements are met: going down and coming back never loses, drops or
  wrongly activates a controller.
\<close>

theorem cluster_run_gate:
  assumes "cluster_run X ops (c, h)" and "s = fold spec_step ops (Map.empty, Map.empty)"
  shows "(HasController c n \<longleftrightarrow> spec_active X s n) \<and>
    (map_of (cl_pendingControllers c) n \<noteq> None \<longleftrightarrow> snd s n \<noteq> None \<and> \<not> spec_active X s n)"
proof -
  have "gate_inv X c" and "gate_abs c = s" using cluster_run_inv [OF assms(1)] assms(2) by simp_all
  then show ?thesis using gate_inv_active gate_inv_pending by blast
qed

theorem cluster_run_gate_witness:
  "HasController (fst (snd (cluster_Start sample_ext
     (fst (AddController sample_ext (NewManagedController ''remote-cluster'' None [])
        (NewCluster ''peer'' []) [])) []))) ''remote-cluster''"
proof -
  let ?ctrl = "NewManagedController ''remote-cluster'' None []"
  let ?s = "AddController sample_ext ?ctrl (NewCluster ''peer'' []) []"
  have new: "cluster_run sample_ext [] (NewCluster ''peer'' [], [])"
    using run_new [of sample_ext "''peer''" "[]"] by simp
  have "cluster_run sample_ext [GateAddController ?ctrl] ?s"
    using run_gate [OF new, of "GateAddController ?ctrl"] by (simp add: spec_active_def)
  moreover have "snd ?s = []"
    by (simp add: AddController_def addController_def GetController_def NewCluster_def
        NewManagedController_def removePendingControllerByName_def IsManagerRunning_def
        checkRequiredClusterFeatures_def)
  ultimately have "cluster_run sample_ext [GateAddController ?ctrl] (fst ?s, [])"
    by (metis prod.collapse)
  from run_life [OF this step_start]
  have "cluster_run sample_ext [GateAddController ?ctrl]
      (fst (snd (cluster_Start sample_ext (fst ?s) [])), snd (snd (cluster_Start sample_ext (fst ?s) [])))"
    by simp
  from cluster_run_gate [OF this refl, of "''remote-cluster''"] show ?thesis
    by (simp add: spec_active_def registration_def NewManagedController_def features_meet_def)
qed

text \<open>
  A failed creation of the controller manager is final: in every later run of the cluster,
  whatever is called on it, no manager runs again, and a call of StartManager reports no
  error.
\<close>

theorem manager_never_restarts:
  assumes "manager_lost (fst s)"
    and "(\<lambda>a b. life_step X a b \<or> (\<exists>x. b = gate_step X x a))\<^sup>*\<^sup>* s s'"
  shows "\<not> IsManagerRunning (fst s') \<and> fst (StartManager X (fst s') h) = None"
proof -
  from assms(2,1) have "manager_lost (fst s')"
  proof (induction rule: rtranclp_induct)
    case (step y z)
    then show ?case using life_step_lost mgr_view_inv(2) [OF mgr_view_gate_step] by metis
  qed
  then show ?thesis by (simp add: manager_lost_def IsManagerRunning_def StartManager_def)
qed

definition failing_manager :: ext where
  "failing_manager = sample_ext\<lparr>x_NewManager :=
     (\<lambda>h _. if h = [ProbeNamespace ''peer''] then Some (ErrorString ''no route'') else None)\<rparr>"

definition lost_cluster :: "clusters_Cluster \<times> history" where
  "lost_cluster = snd (cluster_Start failing_manager (NewCluster ''peer'' []) [])"

lemma lost_cluster_simp:
  "lost_cluster = ((NewCluster ''peer'' [])\<lparr>cl_alive := True, cl_started := True,
     cl_clusterID := ''id-peer'', cl_mgrCtx := Some False\<rparr>, [ProbeNamespace ''peer''])"
  by (simp add: lost_cluster_def failing_manager_def life_defs NewCluster_def sample_ext_def)

theorem manager_never_restarts_witness:
  "cl_alive (fst (snd (livenessCheck failing_manager (fst lost_cluster) (snd lost_cluster)))) \<and>
   \<not> IsManagerRunning (fst (snd (livenessCheck failing_manager (fst lost_cluster) (snd lost_cluster))))"
proof -
  have "manager_lost (fst lost_cluster)"
    by (simp add: lost_cluster_simp manager_lost_def NewCluster_def)
  moreover have "life_step failing_manager lost_cluster
      (snd (livenessCheck failing_manager (fst lost_cluster) (snd lost_cluster)))"
    using step_tick [of "fst lost_cluster" failing_manager "snd lost_cluster"]
    by (simp add: lost_cluster_simp)
  ultimately have "\<not> IsManagerRunning
      (fst (snd (livenessCheck failing_manager (fst lost_cluster) (snd lost_cluster))))"
    using manager_never_restarts [of lost_cluster failing_manager] by blast
  then show ?thesis
    by (simp add: lost_cluster_simp failing_manager_def sample_ext_def life_defs)
qed

lemma run_alive [simp]:
  "cl_alive (fst (setDead X c h)) = False" "cl_alive (fst (setAlive X c h)) = True"
  by (simp_all add: setDead_def setAlive_def Let_def split_beta)

text \<open>
  C37. A liveness check succeeds exactly when the client can be made and the kube-system
  namespace can be read; the cluster is alive afterwards exactly in that case, its ID is then
  the UID of that namespace, and when the verdict is the same as before, the manager and the
  callbacks are left alone: the check only probes.
\<close>

theorem livenessCheck_spec:
  assumes "livenessCheck X c h = (e, c', h')"
  shows "(e = None \<longleftrightarrow> x_NewClientset X h (cl_name c) = None \<and> (\<exists>uid. x_ProbeNamespace X h (cl_name c) = Inr uid))
    \<and> (cl_alive c' \<longleftrightarrow> e = None)
    \<and> (e = None \<longrightarrow> x_ProbeNamespace X h (cl_name c) = Inr (cl_clusterID c'))
    \<and> (cl_alive c' = cl_alive c \<longrightarrow>
         c' = c\<lparr>cl_clusterID := cl_clusterID c'\<rparr> \<and> extends (\<lambda>x. x = ProbeNamespace (cl_name c)) h h')"
proof (cases "x_NewClientset X h (cl_name c)")
  case (Some err)
  then have c': "e = Some (x_WrapIf X err ''could not get cluster ID'')" "(c', h') = setDead X c h"
    using assms by (auto simp: livenessCheck_def)
  then have "\<not> cl_alive c'" by (metis fst_conv run_alive(1))
  with Some c' show ?thesis by (auto simp: setDead_def)
next
  case None
  show ?thesis
  proof (cases "x_ProbeNamespace X h (cl_name c)")
    case (Inl err)
    with None have c': "e = Some (x_WrapIf X err ''could not get cluster ID'')"
      "(c', h') = setDead X c (h @ [ProbeNamespace (cl_name c)])"
      using assms by (auto simp: livenessCheck_def Let_def)
    then have "\<not> cl_alive c'" by (metis fst_conv run_alive(1))
    with None Inl c' show ?thesis by (auto simp: setDead_def)
  next
    case (Inr uid)
    define d where "d = setAlive X c (h @ [ProbeNamespace (cl_name c)])"
    with None Inr have c': "e = None" "c' = (fst d)\<lparr>cl_clusterID := uid\<rparr>" "h' = snd d"
      using assms by (auto simp: livenessCheck_def Let_def split_beta)
    moreover have "cl_alive (fst d)" by (simp add: d_def)
    moreover have "d = (c, h @ [ProbeNamespace (cl_name c)])" if "cl_alive c"
      using that by (simp add: d_def setAlive_def)
    ultimately show ?thesis using None Inr by auto
  qed
qed

theorem livenessCheck_spec_witness:
  "cl_clusterID (fst (snd (livenessCheck sample_ext (NewCluster ''peer'' []) []))) = ''id-peer''"
proof -
  obtain e c h where l: "livenessCheck sample_ext (NewCluster ''peer'' []) [] = (e, c, h)"
    by (metis prod.collapse)
  from livenessCheck_spec [OF l] l show ?thesis by (simp add: sample_ext_def NewCluster_def)
qed

subsection \<open>Outages\<close>

lemma start_controllers_history:
  "snd (start_controllers cl ps h) =
     h @ map (\<lambda>p. ControllerStart cl (mc_name (snd p))) (filter (\<lambda>p. \<not> mc_cancelSet (snd p)) ps)"
  by (induction ps arbitrary: h) (simp_all add: Let_def split_beta controller_Start_def)


text \<open>A cluster that is found alive without a manager context makes a manager and starts its controllers.\<close>

lemma comes_back:
  assumes "livenessCheck X c h = (None, c', h')" and "\<not> cl_alive c" and "cl_mgrCtx c = None" and "\<not> cl_mgrStopped c"
    and "\<And>k. x_NewManager X k (cl_name c) = None"
  shows "cl_alive c' \<and> IsManagerRunning c' \<and>
    h' = run_cluster_funcs X (cl_onAliveFuncs c) (cl_name c)
      (h @ [ProbeNamespace (cl_name c), ManagerStart (cl_name c)] @
       map (\<lambda>p. ControllerStart (cl_name c) (mc_name (snd p))) (filter (\<lambda>p. \<not> mc_cancelSet (snd p)) (cl_controllers c)))"
  using assms
  by (auto simp: livenessCheck_def setAlive_def StartManager_def IsManagerRunning_def start_controllers_history
      Let_def split_beta split: option.splits sum.splits)

lemma goes_down:
  assumes "livenessCheck X c h = (Some e, c', h')" and "cl_alive c"
  shows "c' = c\<lparr>cl_alive := False, cl_mgrCtx := map_option (\<lambda>_. True) (cl_mgrCtx c)\<rparr>"
proof -
  have "fst (setDead X c k) = c\<lparr>cl_alive := False, cl_mgrCtx := map_option (\<lambda>_. True) (cl_mgrCtx c)\<rparr>" for k
    using assms(2) by (cases "cl_mgrCtx c") (simp_all add: setDead_def stopManager_def Let_def)
  then show ?thesis
    using assms(1)
    by (auto simp: livenessCheck_def Let_def split_beta split: option.splits sum.splits) (metis fst_conv)+
qed


text \<open>
  When the peer is back before the goroutine of its manager has ended, no manager is made; once
  the goroutine has ended, the cluster is alive without a manager, and as long as it stays
  alive, the liveness checks only probe.
\<close>

theorem early_return_without_manager:
  assumes "cl_alive c" and "cl_mgrCtx c = Some False"
    and down: "livenessCheck X c h = (Some e, c1, h1)" and up: "livenessCheck X c1 h2 = (None, c2, h3)"
    and later: "livenessCheck X (manager_goroutine_end c2) h4 = (None, c3, h5)"
  shows "cl_alive c3 \<and> \<not> IsManagerRunning c3 \<and> h5 = h4 @ [ProbeNamespace (cl_name c)]"
proof -
  have c1: "c1 = c\<lparr>cl_alive := False, cl_mgrCtx := Some True\<rparr>"
    using goes_down [OF down assms(1)] assms(2) by simp
  then have "cl_alive c2" "cl_name c2 = cl_name c"
    using up by (auto simp: livenessCheck_def setAlive_def StartManager_def Let_def split: option.splits sum.splits if_splits)
  with later show ?thesis
    by (auto simp: livenessCheck_def setAlive_def manager_goroutine_end_def IsManagerRunning_def Let_def
        split: option.splits sum.splits)
qed

text \<open>
  Likewise a controller whose goroutine has not ended when the manager is made again is not
  started: Start takes it for running.
\<close>

theorem slow_controller_not_restarted:
  assumes "\<not> cl_alive c" and "cl_mgrCtx c = None" and "\<not> cl_mgrStopped c" and "cl_onAliveFuncs c = []"
    and "list_all (\<lambda>p. mc_cancelSet (snd p)) (cl_controllers c)"
    and "livenessCheck X c h = (None, c', h')" and "\<And>k. x_NewManager X k (cl_name c) = None"
  shows "IsManagerRunning c' \<and> h' = h @ [ProbeNamespace (cl_name c), ManagerStart (cl_name c)]"
proof -
  have "filter (\<lambda>p. \<not> mc_cancelSet (snd p)) (cl_controllers c) = []"
    using assms(5) by (simp add: filter_empty_conv list_all_iff)
  with comes_back [OF assms(6,1-3,7)] assms(4) show ?thesis by simp
qed




end
