(* ===== verification/ClusterManager.thy ===== *)
theory ClusterManager
  imports Lifecycle
begin

text \<open>
  The registry of the peer clusters (src/pkg/clusters/manager.go). The clusters and the four
  callback registries are Go maps, kept as association lists. A callback that is given a
  cluster may change it (the rule reconciler adds controllers to it) and may call services.
  The identifier of a callback that is registered without one is the time of the call, here
  an argument.
\<close>

type_synonym ManagerFunc = "clusters_Cluster \<Rightarrow> history \<Rightarrow> clusters_Cluster \<times> history"

record Manager =
  mg_clusters :: "(string \<times> clusters_Cluster) list"
  mg_onBeforeAddFuncs :: "(string \<times> ManagerFunc) list"
  mg_onBeforeDeleteFuncs :: "(string \<times> ManagerFunc) list"
  mg_onAfterAddFuncs :: "(string \<times> ManagerFunc) list"
  mg_onAfterDeleteFuncs :: "(string \<times> (history \<Rightarrow> history)) list"

definition ErrClusterNotFound :: gerror where
  "ErrClusterNotFound = ErrorString ''cluster not found''"

definition NewManager :: "(Manager \<Rightarrow> Manager) list \<Rightarrow> Manager" where
  "NewManager options =
     fold (\<lambda>opt m. opt m) options
       \<lparr>mg_clusters = [], mg_onBeforeAddFuncs = [], mg_onBeforeDeleteFuncs = [],
        mg_onAfterAddFuncs = [], mg_onAfterDeleteFuncs = []\<rparr>"

subsection \<open>Callback registries\<close>

definition callback_id :: "string list \<Rightarrow> string \<Rightarrow> string" where
  "callback_id ids now = (if length ids > 0 then ids ! 0 else now)"

definition AddOnBeforeAddFunc :: "ManagerFunc \<Rightarrow> string list \<Rightarrow> string \<Rightarrow> Manager \<Rightarrow> Manager" where
  "AddOnBeforeAddFunc f ids now m =
     m\<lparr>mg_onBeforeAddFuncs := AList.update (callback_id ids now) f (mg_onBeforeAddFuncs m)\<rparr>"

definition DeleteOnBeforeAddFunc :: "string \<Rightarrow> Manager \<Rightarrow> Manager" where
  "DeleteOnBeforeAddFunc i m = m\<lparr>mg_onBeforeAddFuncs := AList.delete i (mg_onBeforeAddFuncs m)\<rparr>"

definition AddOnAfterAddFunc :: "ManagerFunc \<Rightarrow> string list \<Rightarrow> string \<Rightarrow> Manager \<Rightarrow> Manager" where
  "AddOnAfterAddFunc f ids now m =
     m\<lparr>mg_onAfterAddFuncs := AList.update (callback_id ids now) f (mg_onAfterAddFuncs m)\<rparr>"

definition DeleteOnAfterAddFunc :: "string \<Rightarrow> Manager \<Rightarrow> Manager" where
  "DeleteOnAfterAddFunc i m = m\<lparr>mg_onAfterAddFuncs := AList.delete i (mg_onAfterAddFuncs m)\<rparr>"

definition AddOnBeforeDeleteFunc :: "ManagerFunc \<Rightarrow> string list \<Rightarrow> string \<Rightarrow> Manager \<Rightarrow> Manager" where
  "AddOnBeforeDeleteFunc f ids now m =
     m\<lparr>mg_onBeforeDeleteFuncs := AList.update (callback_id ids now) f (mg_onBeforeDeleteFuncs m)\<rparr>"

definition DeleteOnBeforeDeleteFunc :: "string \<Rightarrow> Manager \<Rightarrow> Manager" where
  "DeleteOnBeforeDeleteFunc i m =
     m\<lparr>mg_onBeforeDeleteFuncs := AList.delete i (mg_onBeforeDeleteFuncs m)\<rparr>"

definition AddOnAfterDeleteFunc ::
  "(history \<Rightarrow> history) \<Rightarrow> string list \<Rightarrow> string \<Rightarrow> Manager \<Rightarrow> Manager" where
  "AddOnAfterDeleteFunc f ids now m =
     m\<lparr>mg_onAfterDeleteFuncs := AList.update (callback_id ids now) f (mg_onAfterDeleteFuncs m)\<rparr>"

definition DeleteOnAfterDeleteFunc :: "string \<Rightarrow> Manager \<Rightarrow> Manager" where
  "DeleteOnAfterDeleteFunc i m =
     m\<lparr>mg_onAfterDeleteFuncs := AList.delete i (mg_onAfterDeleteFuncs m)\<rparr>"

definition WithOnBeforeAddFunc :: "ManagerFunc \<Rightarrow> string list \<Rightarrow> string \<Rightarrow> Manager \<Rightarrow> Manager" where
  "WithOnBeforeAddFunc f ids now m = AddOnBeforeAddFunc f ids now m"

definition WithOnAfterAddFunc :: "ManagerFunc \<Rightarrow> string list \<Rightarrow> string \<Rightarrow> Manager \<Rightarrow> Manager" where
  "WithOnAfterAddFunc f ids now m = AddOnAfterAddFunc f ids now m"

definition WithOnBeforeDeleteFunc :: "ManagerFunc \<Rightarrow> string list \<Rightarrow> string \<Rightarrow> Manager \<Rightarrow> Manager" where
  "WithOnBeforeDeleteFunc f ids now m = AddOnBeforeDeleteFunc f ids now m"

definition WithOnAfterDeleteFunc ::
  "(history \<Rightarrow> history) \<Rightarrow> string list \<Rightarrow> string \<Rightarrow> Manager \<Rightarrow> Manager" where
  "WithOnAfterDeleteFunc f ids now m = AddOnAfterDeleteFunc f ids now m"

lemmas callback_defs =
  AddOnBeforeAddFunc_def DeleteOnBeforeAddFunc_def AddOnAfterAddFunc_def DeleteOnAfterAddFunc_def
  AddOnBeforeDeleteFunc_def DeleteOnBeforeDeleteFunc_def AddOnAfterDeleteFunc_def
  DeleteOnAfterDeleteFunc_def callback_id_def

text \<open>With explicit identifiers, each of the four registries is a keyed store.\<close>

interpretation before_add: keyed_store "\<lambda>m. alist_wf (mg_onBeforeAddFuncs m)"
  "\<lambda>m. map_of (mg_onBeforeAddFuncs m)" "\<lambda>i f. AddOnBeforeAddFunc f [i] now" DeleteOnBeforeAddFunc for now
  by unfold_locales (auto simp: callback_defs)

interpretation after_add: keyed_store "\<lambda>m. alist_wf (mg_onAfterAddFuncs m)"
  "\<lambda>m. map_of (mg_onAfterAddFuncs m)" "\<lambda>i f. AddOnAfterAddFunc f [i] now" DeleteOnAfterAddFunc for now
  by unfold_locales (auto simp: callback_defs)

interpretation before_delete: keyed_store "\<lambda>m. alist_wf (mg_onBeforeDeleteFuncs m)"
  "\<lambda>m. map_of (mg_onBeforeDeleteFuncs m)" "\<lambda>i f. AddOnBeforeDeleteFunc f [i] now"
  DeleteOnBeforeDeleteFunc for now
  by unfold_locales (auto simp: callback_defs)

interpretation after_delete: keyed_store "\<lambda>m. alist_wf (mg_onAfterDeleteFuncs m)"
  "\<lambda>m. map_of (mg_onAfterDeleteFuncs m)" "\<lambda>i f. AddOnAfterDeleteFunc f [i] now"
  DeleteOnAfterDeleteFunc for now
  by unfold_locales (auto simp: callback_defs)

subsection \<open>Clusters\<close>

definition Exists :: "Manager \<Rightarrow> string \<Rightarrow> bool" where
  "Exists m name \<longleftrightarrow> map_of (mg_clusters m) name \<noteq> None"

definition Get :: "Manager \<Rightarrow> string \<Rightarrow> clusters_Cluster result" where
  "Get m name = (case map_of (mg_clusters m) name of Some c \<Rightarrow> Inr c | None \<Rightarrow> Inl ErrClusterNotFound)"

definition GetAll :: "Manager \<Rightarrow> (string \<times> clusters_Cluster) list" where
  "GetAll m = mg_clusters m"

primrec alive_by_id ::
  "(string \<times> clusters_Cluster) list \<Rightarrow> (string \<rightharpoonup> clusters_Cluster) \<Rightarrow> (string \<rightharpoonup> clusters_Cluster)" where
  "alive_by_id [] acc = acc"
| "alive_by_id (p # ps) acc =
     alive_by_id ps (if IsAlive (snd p) then acc(cl_clusterID (snd p) \<mapsto> snd p) else acc)"

definition GetAliveClustersByID :: "Manager \<Rightarrow> (string \<rightharpoonup> clusters_Cluster)" where
  "GetAliveClustersByID m = alive_by_id (mg_clusters m) Map.empty"

primrec run_manager_funcs ::
  "(string \<times> ManagerFunc) list \<Rightarrow> clusters_Cluster \<Rightarrow> history \<Rightarrow> clusters_Cluster \<times> history" where
  "run_manager_funcs [] c h = (c, h)"
| "run_manager_funcs (p # ps) c h = (case snd p c h of (c1, h1) \<Rightarrow> run_manager_funcs ps c1 h1)"

primrec run_delete_funcs :: "(string \<times> (history \<Rightarrow> history)) list \<Rightarrow> history \<Rightarrow> history" where
  "run_delete_funcs [] h = h"
| "run_delete_funcs (p # ps) h = run_delete_funcs ps (snd p h)"

text \<open>
  Add stores the cluster and then lets the callbacks change it; the map holds a pointer, so
  what is stored is the cluster as the callbacks leave it.
\<close>

definition Manager_Add :: "clusters_Cluster \<Rightarrow> Manager \<Rightarrow> history \<Rightarrow> Manager \<times> history" where
  "Manager_Add c m h =
     (let (c1, h1) = run_manager_funcs (mg_onBeforeAddFuncs m) c h;
          (c2, h2) = run_manager_funcs (mg_onAfterAddFuncs m) c1 h1
      in (m\<lparr>mg_clusters := AList.update (cl_name c1) c2 (mg_clusters m)\<rparr>, h2))"

text \<open>The argument is None for a nil cluster. The result has the stopped cluster, if one was.\<close>

definition Manager_Remove ::
  "clusters_Cluster option \<Rightarrow> Manager \<Rightarrow> history \<Rightarrow> clusters_Cluster option \<times> Manager \<times> history" where
  "Manager_Remove co m h =
     (case co of None \<Rightarrow> (None, m, h)
      | Some c \<Rightarrow>
          if map_of (mg_clusters m) (cl_name c) = None then (None, m, h)
          else let (c1, h1) = run_manager_funcs (mg_onBeforeDeleteFuncs m) c h;
                   (c2, h2) = cluster_Stop c1 h1;
                   m2 = m\<lparr>mg_clusters := AList.delete (cl_name c2) (mg_clusters m)\<rparr>
               in (Some c2, m2, run_delete_funcs (mg_onAfterDeleteFuncs m) h2))"

primrec stop_all :: "(string \<times> clusters_Cluster) list \<Rightarrow> history \<Rightarrow> (string \<times> clusters_Cluster) list \<times> history" where
  "stop_all [] h = ([], h)"
| "stop_all (p # ps) h =
     (let (c, h1) = cluster_Stop (snd p) h; (ps', h2) = stop_all ps h1 in ((fst p, c) # ps', h2))"

definition waitForStop :: "Manager \<Rightarrow> history \<Rightarrow> Manager \<times> history" where
  "waitForStop m h = (let (cs, h') = stop_all (mg_clusters m) h in (m\<lparr>mg_clusters := cs\<rparr>, h'))"

subsection \<open>Lemmas\<close>

definition keeps_name :: "ManagerFunc \<Rightarrow> bool" where
  "keeps_name f \<longleftrightarrow> (\<forall>c h. cl_name (fst (f c h)) = cl_name c)"

text \<open>
  The clusters are stored under their names; no callback renames a cluster (the field name is
  private to the package and has no setter).
\<close>

definition manager_wf :: "Manager \<Rightarrow> bool" where
  "manager_wf m \<longleftrightarrow>
     alist_wf (mg_clusters m) \<and> (\<forall>n c. map_of (mg_clusters m) n = Some c \<longrightarrow> cl_name c = n) \<and>
     (\<forall>f \<in> snd ` set (mg_onBeforeAddFuncs m) \<union> snd ` set (mg_onAfterAddFuncs m) \<union>
        snd ` set (mg_onBeforeDeleteFuncs m). keeps_name f)"

lemma run_manager_funcs_name:
  "\<forall>f \<in> snd ` set fs. keeps_name f \<Longrightarrow> cl_name (fst (run_manager_funcs fs c h)) = cl_name c"
  by (induction fs arbitrary: c h) (auto simp: split_beta keeps_name_def)

lemma Manager_Add_effect:
  assumes "manager_wf m"
  obtains c2 h2 where
    "Manager_Add c m h = (m\<lparr>mg_clusters := AList.update (cl_name c) c2 (mg_clusters m)\<rparr>, h2)"
    and "cl_name c2 = cl_name c"
proof -
  define p where "p = run_manager_funcs (mg_onBeforeAddFuncs m) c h"
  define q where "q = run_manager_funcs (mg_onAfterAddFuncs m) (fst p) (snd p)"
  have 1: "cl_name (fst p) = cl_name c"
    unfolding p_def by (rule run_manager_funcs_name) (use assms in \<open>auto simp: manager_wf_def\<close>)
  have "cl_name (fst q) = cl_name (fst p)"
    unfolding q_def by (rule run_manager_funcs_name) (use assms in \<open>auto simp: manager_wf_def\<close>)
  with 1 show thesis
    by (intro that [of "fst q" "snd q"]) (simp_all add: Manager_Add_def Let_def split_beta p_def q_def)
qed

lemma Manager_Remove_effect:
  assumes "manager_wf m" and "map_of (mg_clusters m) (cl_name c) \<noteq> None"
  obtains c2 h2 where
    "Manager_Remove (Some c) m h =
       (Some c2, m\<lparr>mg_clusters := AList.delete (cl_name c) (mg_clusters m)\<rparr>, h2)"
    and "cl_name c2 = cl_name c" and "cl_ctxDone c2" and "cl_mgrCtx c2 \<noteq> Some False"
proof -
  define p where "p = run_manager_funcs (mg_onBeforeDeleteFuncs m) c h"
  define q where "q = cluster_Stop (fst p) (snd p)"
  have "cl_name (fst p) = cl_name c"
    unfolding p_def by (rule run_manager_funcs_name) (use assms in \<open>auto simp: manager_wf_def\<close>)
  moreover have "cl_name (fst q) = cl_name (fst p)" "cl_ctxDone (fst q)" "cl_mgrCtx (fst q) \<noteq> Some False"
    by (simp_all add: q_def cluster_Stop_def)
  ultimately show thesis
    using assms by (intro that [of "fst q" "run_delete_funcs (mg_onAfterDeleteFuncs m) (snd q)"])
      (simp_all add: Manager_Remove_def Let_def split_beta p_def q_def)
qed

lemma alive_by_id_sound:
  "alive_by_id ps acc i = Some c \<Longrightarrow>
   acc i = Some c \<or> (\<exists>n. (n, c) \<in> set ps \<and> IsAlive c \<and> cl_clusterID c = i)"
  by (induction ps arbitrary: acc) (fastforce split: if_splits)+

lemma alive_by_id_complete:
  "alive_by_id ps acc i \<noteq> None \<longleftrightarrow>
   acc i \<noteq> None \<or> (\<exists>p \<in> set ps. IsAlive (snd p) \<and> cl_clusterID (snd p) = i)"
  by (induction ps arbitrary: acc) auto

subsection \<open>Properties\<close>

text \<open>
  Adding a cluster makes it known under its name, in the state the callbacks leave it in,
  and leaves the other clusters alone; removing a known cluster cancels its context and the
  context of its manager, after which Get reports that it is not found and the other clusters
  are unchanged. Both keep the registry well formed.
\<close>

theorem Manager_Add_Remove:
  assumes wf: "manager_wf m"
  shows "manager_wf (fst (Manager_Add c m h))
    \<and> (\<exists>c2. cl_name c2 = cl_name c \<and>
         (\<forall>n. Get (fst (Manager_Add c m h)) n = (if n = cl_name c then Inr c2 else Get m n)))
    \<and> (Exists m (cl_name c) \<longrightarrow>
         (case Manager_Remove (Some c) m h of (stopped, m', _) \<Rightarrow>
            manager_wf m' \<and>
            (\<forall>n. Get m' n = (if n = cl_name c then Inl ErrClusterNotFound else Get m n)) \<and>
            (\<exists>c2. stopped = Some c2 \<and> cl_ctxDone c2 \<and> cl_mgrCtx c2 \<noteq> Some False)))"
proof (intro conjI impI)
  obtain c2 h2 where a: "Manager_Add c m h =
      (m\<lparr>mg_clusters := AList.update (cl_name c) c2 (mg_clusters m)\<rparr>, h2)" "cl_name c2 = cl_name c"
    using wf by (rule Manager_Add_effect)
  then show "manager_wf (fst (Manager_Add c m h))" using wf by (auto simp: manager_wf_def)
  show "\<exists>c2. cl_name c2 = cl_name c \<and>
      (\<forall>n. Get (fst (Manager_Add c m h)) n = (if n = cl_name c then Inr c2 else Get m n))"
    using a by (intro exI [of _ c2]) (simp add: Get_def)
  assume "Exists m (cl_name c)"
  then have "map_of (mg_clusters m) (cl_name c) \<noteq> None" by (simp add: Exists_def)
  with wf obtain c3 h3 where r: "Manager_Remove (Some c) m h =
      (Some c3, m\<lparr>mg_clusters := AList.delete (cl_name c) (mg_clusters m)\<rparr>, h3)"
    "cl_ctxDone c3" "cl_mgrCtx c3 \<noteq> Some False"
    by (rule Manager_Remove_effect)
  have "manager_wf (m\<lparr>mg_clusters := AList.delete (cl_name c) (mg_clusters m)\<rparr>)"
    using wf by (auto simp: manager_wf_def)
  with r show "case Manager_Remove (Some c) m h of (stopped, m', _) \<Rightarrow>
      manager_wf m' \<and>
      (\<forall>n. Get m' n = (if n = cl_name c then Inl ErrClusterNotFound else Get m n)) \<and>
      (\<exists>c2. stopped = Some c2 \<and> cl_ctxDone c2 \<and> cl_mgrCtx c2 \<noteq> Some False)"
    by (simp add: Get_def)
qed

theorem Manager_Add_Remove_witness:
  "Exists (fst (Manager_Add (NewCluster ''peer'' []) (NewManager []) [])) ''peer''"
proof -
  have "manager_wf (NewManager [])" by (simp add: manager_wf_def NewManager_def)
  from Manager_Add_Remove [OF this, of "NewCluster ''peer'' []" "[]"]
  obtain c2 where "Get (fst (Manager_Add (NewCluster ''peer'' []) (NewManager []) [])) ''peer'' = Inr c2"
    by (auto simp: NewCluster_def)
  then show ?thesis by (auto simp: Get_def Exists_def split: option.splits)
qed

text \<open>
  GetAliveClustersByID returns, under an ID, a registered cluster that is alive and has
  that ID, and it has an entry for the ID of every alive registered cluster.
\<close>

theorem GetAliveClustersByID_spec:
  "(GetAliveClustersByID m i = None \<longleftrightarrow>
      \<not> list_ex (\<lambda>p. IsAlive (snd p) \<and> cl_clusterID (snd p) = i) (GetAll m))
   \<and> (case GetAliveClustersByID m i of None \<Rightarrow> True
      | Some c \<Rightarrow> c \<in> snd ` set (GetAll m) \<and> IsAlive c \<and> cl_clusterID c = i)"
proof
  show "GetAliveClustersByID m i = None \<longleftrightarrow>
      \<not> list_ex (\<lambda>p. IsAlive (snd p) \<and> cl_clusterID (snd p) = i) (GetAll m)"
    using alive_by_id_complete [of "mg_clusters m" Map.empty i]
    by (auto simp: GetAliveClustersByID_def GetAll_def list_ex_iff)
  show "case GetAliveClustersByID m i of None \<Rightarrow> True
      | Some c \<Rightarrow> c \<in> snd ` set (GetAll m) \<and> IsAlive c \<and> cl_clusterID c = i"
    using alive_by_id_sound [of "mg_clusters m" Map.empty i]
    by (force simp: GetAliveClustersByID_def GetAll_def split: option.split)
qed

text \<open>A sequence of registrations and deletions of after-add callbacks.\<close>

primrec after_add_ops :: "string \<Rightarrow> (string, ManagerFunc) store_op list \<Rightarrow> Manager \<Rightarrow> Manager" where
  "after_add_ops now [] m = m"
| "after_add_ops now (x # xs) m =
     after_add_ops now xs
       (case x of Put i f \<Rightarrow> AddOnAfterAddFunc f [i] now m | Del i \<Rightarrow> DeleteOnAfterAddFunc i m)"

text \<open>
  After any sequence of registrations and deletions of after-add callbacks under explicit
  identifiers, the callback stored under an identifier is the last one registered under it,
  unless it was deleted since.
\<close>

theorem after_add_ops_last:
  "map_of (mg_onAfterAddFuncs (after_add_ops now xs (NewManager []))) i = last_put i xs None"
proof -
  have "after_add_ops now xs m = after_add.run_ops now xs m" for m
    by (induction xs arbitrary: m) simp_all
  then show ?thesis
    using after_add.get_run_ops [of "NewManager []" now xs i] by (simp add: NewManager_def)
qed

end
