(* ===== verification/RuleMatch.thy ===== *)
theory RuleMatch
  imports Samples
begin

text \<open>
  Which objects a resource sync rule selects and which mutations the matched rules ask for
  (src/api/v1alpha1/resourcesyncrule\_match.go). The loops are recursive functions in the
  order of the code; \<open>selects\<close> and \<open>rule_selects\<close> are the declarative readings the loops
  are proved to compute.
\<close>

subsection \<open>Matching one selector group\<close>

text \<open>The label loop stops at the first selector that matches.\<close>

fun match_labels :: "ext \<Rightarrow> LabelSelector list \<Rightarrow> strmap \<Rightarrow> bool result" where
  "match_labels X [] ls = Inr False"
| "match_labels X (s # ss) ls =
     (case x_LabelSelectorAsSelector X s of
        Inl e \<Rightarrow> Inl e
      | Inr matcher \<Rightarrow> if matcher ls then Inr True else match_labels X ss ls)"

definition convertMatchExpressions :: "AnnotationSelector \<Rightarrow> LabelSelectorRequirement list" where
  "convertMatchExpressions s =
     map (\<lambda>r. \<lparr>lr_Key = ar_Key r, lr_Operator = ar_Operator r, lr_Values = ar_Values r\<rparr>)
       (as_MatchExpressions s)"

definition annotation_selector :: "AnnotationSelector \<Rightarrow> LabelSelector" where
  "annotation_selector s =
     \<lparr>ls_MatchLabels = as_MatchAnnotations s, ls_MatchExpressions = convertMatchExpressions s\<rparr>"

text \<open>The annotation loop has no break: it visits every selector.\<close>

fun match_annotations :: "ext \<Rightarrow> AnnotationSelector list \<Rightarrow> strmap \<Rightarrow> bool \<Rightarrow> bool result" where
  "match_annotations X [] as found = Inr found"
| "match_annotations X (s # ss) as found =
     (case x_LabelSelectorAsSelector X (annotation_selector s) of
        Inl e \<Rightarrow> Inl e
      | Inr matcher \<Rightarrow> match_annotations X ss as (if matcher as then True else found))"

fun match_content :: "ext \<Rightarrow> ContentSelector list \<Rightarrow> string \<Rightarrow> bool" where
  "match_content X [] j = True"
| "match_content X (c # cs) j =
     (let res = x_gjson X j (cs_Key c) in
      if \<not> gj_Exists res then False
      else case cs_Value c of
          IntVal i \<Rightarrow> if gj_Int res \<noteq> i then False else match_content X cs j
        | StrVal s \<Rightarrow> if gj_String res \<noteq> s then False else match_content X cs j)"

subsection \<open>SyncRuleMatch.Match\<close>

definition match_object_key :: "SyncRuleMatch \<Rightarrow> k8s_object \<Rightarrow> bool" where
  "match_object_key m ob \<longleftrightarrow>
     \<not> (nn_Name (sm_ObjectKey m) \<noteq> '''' \<and> nn_Name (sm_ObjectKey m) \<noteq> m_Name ob) \<and>
     \<not> (nn_Namespace (sm_ObjectKey m) \<noteq> '''' \<and> nn_Namespace (sm_ObjectKey m) \<noteq> m_Namespace ob)"

definition match_namespace :: "SyncRuleMatch \<Rightarrow> k8s_object \<Rightarrow> bool" where
  "match_namespace m ob \<longleftrightarrow>
     (if 0 < length (sm_Namespaces m) \<and> m_Namespace ob \<noteq> ''''
      then m_Namespace ob \<in> set (sm_Namespaces m) else True)"

definition check_labels :: "ext \<Rightarrow> SyncRuleMatch \<Rightarrow> k8s_object \<Rightarrow> bool result" where
  "check_labels X m ob =
     (if 0 < length (sm_Labels m) then match_labels X (sm_Labels m) (m_Labels ob) else Inr True)"

definition check_annotations :: "ext \<Rightarrow> SyncRuleMatch \<Rightarrow> k8s_object \<Rightarrow> bool result" where
  "check_annotations X m ob =
     (if 0 < length (sm_Annotations m)
      then match_annotations X (sm_Annotations m) (m_Annotations ob) False else Inr True)"

definition check_content :: "ext \<Rightarrow> SyncRuleMatch \<Rightarrow> k8s_object \<Rightarrow> bool result" where
  "check_content X m ob =
     (if 0 < length (sm_Content m)
      then case x_Marshal X ob of Inl e \<Rightarrow> Inl e | Inr j \<Rightarrow> Inr (match_content X (sm_Content m) j)
      else Inr True)"

text \<open>A check that returns on an error and on false, and goes on to the next check on true.\<close>

definition and_then :: "bool result \<Rightarrow> bool result \<Rightarrow> bool result" where
  "and_then a b = (case a of Inl e \<Rightarrow> Inl e | Inr ok \<Rightarrow> if ok then b else Inr False)"

definition SyncRuleMatch_Match :: "ext \<Rightarrow> SyncRuleMatch \<Rightarrow> k8s_object \<Rightarrow> bool result" where
  "SyncRuleMatch_Match X m ob =
     (case x_Accessor X ob of
        Some e \<Rightarrow> Inl e
      | None \<Rightarrow>
          and_then (Inr (match_object_key m ob))
            (and_then (Inr (match_namespace m ob))
              (and_then (check_labels X m ob)
                (and_then (check_annotations X m ob) (check_content X m ob)))))"

subsection \<open>SyncRule.Match and ResourceSyncRuleSpec.Match\<close>

fun match_any :: "ext \<Rightarrow> SyncRuleMatch list \<Rightarrow> k8s_object \<Rightarrow> bool result" where
  "match_any X [] ob = Inr False"
| "match_any X (m # ms) ob =
     (case SyncRuleMatch_Match X m ob of
        Inr True \<Rightarrow> Inr True
      | Inl e \<Rightarrow> Inl e
      | Inr False \<Rightarrow> match_any X ms ob)"

definition SyncRule_Match :: "ext \<Rightarrow> SyncRule \<Rightarrow> k8s_object \<Rightarrow> bool result" where
  "SyncRule_Match X r ob = (if length (sr_Matches r) = 0 then Inr True else match_any X (sr_Matches r) ob)"

fun match_rules ::
  "ext \<Rightarrow> SyncRule list \<Rightarrow> k8s_object \<Rightarrow> MatchedRules \<Rightarrow> bool \<times> MatchedRules \<times> gerror option" where
  "match_rules X [] ob matched = (0 < length matched, matched, None)"
| "match_rules X (r # rs) ob matched =
     (case SyncRule_Match X r ob of
        Inl e \<Rightarrow> (False, matched, Some e)
      | Inr ok \<Rightarrow> match_rules X rs ob (if ok then matched @ [r] else matched))"

definition Spec_Match ::
  "ext \<Rightarrow> ResourceSyncRuleSpec \<Rightarrow> k8s_object \<Rightarrow> bool \<times> MatchedRules \<times> gerror option" where
  "Spec_Match X sp ob =
     (if x_ConvertGVK X (o_GVK ob) \<noteq> rs_GVK sp then (False, [], None)
      else match_rules X (rs_Rules sp) ob [])"

definition ResourceSyncRule_Match ::
  "ext \<Rightarrow> ResourceSyncRule \<Rightarrow> k8s_object \<Rightarrow> bool \<times> MatchedRules \<times> gerror option" where
  "ResourceSyncRule_Match X r ob = Spec_Match X (rsr_Spec r) ob"

subsection \<open>The mutations of the matched rules\<close>

definition gvk_Empty :: "GroupVersionKind \<Rightarrow> bool" where
  "gvk_Empty g \<longleftrightarrow> gvk_Group g = '''' \<and> gvk_Version g = '''' \<and> gvk_Kind g = ''''"

fun mutated_gvk_loop ::
  "MatchedRules \<Rightarrow> bool \<Rightarrow> GroupVersionKind \<Rightarrow> bool \<times> GroupVersionKind" where
  "mutated_gvk_loop [] mutated g = (mutated, g)"
| "mutated_gvk_loop (r # rs) mutated g =
     (let m = Mutations_GetGVK (sr_Mutations r) in
      if \<not> gvk_Empty m
      then let g1 = (if gvk_Group m \<noteq> '''' then g\<lparr>gvk_Group := gvk_Group m\<rparr> else g);
               g2 = (if gvk_Kind m \<noteq> '''' then g1\<lparr>gvk_Kind := gvk_Kind m\<rparr> else g1);
               g3 = (if gvk_Version m \<noteq> '''' then g2\<lparr>gvk_Version := gvk_Version m\<rparr> else g2)
           in mutated_gvk_loop rs True g3
      else mutated_gvk_loop rs mutated g)"

definition GetMutatedGVK :: "MatchedRules \<Rightarrow> GroupVersionKind \<Rightarrow> bool \<times> GroupVersionKind" where
  "GetMutatedGVK rs g = mutated_gvk_loop rs False g"

fun label_mutations_loop :: "MatchedRules \<Rightarrow> LabelMutations \<Rightarrow> LabelMutations" where
  "label_mutations_loop [] m = m"
| "label_mutations_loop (r # rs) m =
     label_mutations_loop rs
       \<lparr>lm_Add = lm_Add m ++ lm_Add (Mutations_GetLabels (sr_Mutations r)),
        lm_Remove = lm_Remove m @ lm_Remove (Mutations_GetLabels (sr_Mutations r))\<rparr>"

definition GetMutationLabels :: "MatchedRules \<Rightarrow> LabelMutations" where
  "GetMutationLabels rs = label_mutations_loop rs \<lparr>lm_Add = Map.empty, lm_Remove = []\<rparr>"

fun annotation_mutations_loop :: "MatchedRules \<Rightarrow> AnnotationMutations \<Rightarrow> AnnotationMutations" where
  "annotation_mutations_loop [] m = m"
| "annotation_mutations_loop (r # rs) m =
     annotation_mutations_loop rs
       \<lparr>am_Add = am_Add m ++ am_Add (Mutations_GetAnnotations (sr_Mutations r)),
        am_Remove = am_Remove m @ am_Remove (Mutations_GetAnnotations (sr_Mutations r))\<rparr>"

definition GetMutationAnnotations :: "MatchedRules \<Rightarrow> AnnotationMutations" where
  "GetMutationAnnotations rs = annotation_mutations_loop rs \<lparr>am_Add = Map.empty, am_Remove = []\<rparr>"

primrec GetMutationOverrides :: "MatchedRules \<Rightarrow> K8SResourceOverlayPatch list" where
  "GetMutationOverrides [] = []"
| "GetMutationOverrides (r # rs) = mu_Overrides (sr_Mutations r) @ GetMutationOverrides rs"

fun GetMutationSyncStatus :: "MatchedRules \<Rightarrow> bool" where
  "GetMutationSyncStatus [] = False"
| "GetMutationSyncStatus (r # rs) =
     (if mu_SyncStatus (sr_Mutations r) then True else GetMutationSyncStatus rs)"

subsection \<open>What the loops compute\<close>

definition selector_accepts :: "ext \<Rightarrow> LabelSelector \<Rightarrow> strmap \<Rightarrow> bool" where
  "selector_accepts X s ls \<longleftrightarrow>
     (case x_LabelSelectorAsSelector X s of Inl _ \<Rightarrow> False | Inr matcher \<Rightarrow> matcher ls)"

definition content_accepts :: "ext \<Rightarrow> ContentSelector \<Rightarrow> string \<Rightarrow> bool" where
  "content_accepts X c j \<longleftrightarrow>
     gj_Exists (x_gjson X j (cs_Key c)) \<and>
     (case cs_Value c of IntVal i \<Rightarrow> gj_Int (x_gjson X j (cs_Key c)) = i
      | StrVal s \<Rightarrow> gj_String (x_gjson X j (cs_Key c)) = s)"

text \<open>
  The reading of a match: every criterion that is given holds. Name and namespace of the
  object key must be equal, the namespace of a namespaced object must be listed, at least
  one label selector and at least one annotation selector must accept, and all content
  selectors must hold on the serialised object.
\<close>

definition selects_labels :: "ext \<Rightarrow> SyncRuleMatch \<Rightarrow> k8s_object \<Rightarrow> bool" where
  "selects_labels X m ob \<longleftrightarrow>
     sm_Labels m = [] \<or> (\<exists>s \<in> set (sm_Labels m). selector_accepts X s (m_Labels ob))"

definition selects_annotations :: "ext \<Rightarrow> SyncRuleMatch \<Rightarrow> k8s_object \<Rightarrow> bool" where
  "selects_annotations X m ob \<longleftrightarrow>
     sm_Annotations m = [] \<or>
     (\<exists>s \<in> set (sm_Annotations m). selector_accepts X (annotation_selector s) (m_Annotations ob))"

definition selects_content :: "ext \<Rightarrow> SyncRuleMatch \<Rightarrow> k8s_object \<Rightarrow> bool" where
  "selects_content X m ob \<longleftrightarrow>
     sm_Content m = [] \<or>
     (\<exists>j. x_Marshal X ob = Inr j \<and> (\<forall>c \<in> set (sm_Content m). content_accepts X c j))"

definition selects :: "ext \<Rightarrow> SyncRuleMatch \<Rightarrow> k8s_object \<Rightarrow> bool" where
  "selects X m ob \<longleftrightarrow>
     nn_Name (sm_ObjectKey m) \<in> {'''', m_Name ob} \<and>
     nn_Namespace (sm_ObjectKey m) \<in> {'''', m_Namespace ob} \<and>
     (sm_Namespaces m = [] \<or> m_Namespace ob = '''' \<or> m_Namespace ob \<in> set (sm_Namespaces m)) \<and>
     selects_labels X m ob \<and> selects_annotations X m ob \<and> selects_content X m ob"

definition rule_selects :: "ext \<Rightarrow> SyncRule \<Rightarrow> k8s_object \<Rightarrow> bool" where
  "rule_selects X r ob \<longleftrightarrow> sr_Matches r = [] \<or> (\<exists>m \<in> set (sr_Matches r). selects X m ob)"

lemma and_then_Inr:
  "and_then a b = Inr ok \<longleftrightarrow> (a = Inr False \<and> \<not> ok) \<or> (a = Inr True \<and> b = Inr ok)"
  by (auto simp: and_then_def split: sum.splits)

lemma match_labels_Inr:
  "match_labels X ss ls = Inr b \<Longrightarrow> b = (\<exists>s \<in> set ss. selector_accepts X s ls)"
  by (induction ss) (auto simp: selector_accepts_def split: sum.splits if_splits)

lemma match_annotations_Inr:
  "match_annotations X ss as found = Inr b \<Longrightarrow>
     b = (found \<or> (\<exists>s \<in> set ss. selector_accepts X (annotation_selector s) as))"
proof (induction ss arbitrary: found)
  case Nil
  then show ?case by simp
next
  case (Cons s ss)
  then obtain matcher where m: "x_LabelSelectorAsSelector X (annotation_selector s) = Inr matcher"
    and r: "match_annotations X ss as (if matcher as then True else found) = Inr b"
    by (auto split: sum.splits)
  from m have "selector_accepts X (annotation_selector s) as = matcher as"
    by (simp add: selector_accepts_def)
  with Cons.IH [OF r] show ?case by auto
qed

lemma match_content_iff: "match_content X cs j \<longleftrightarrow> (\<forall>c \<in> set cs. content_accepts X c j)"
  by (induction cs) (auto simp: content_accepts_def Let_def split: IntOrString.splits)

lemma match_object_key_iff:
  "match_object_key m ob \<longleftrightarrow>
     nn_Name (sm_ObjectKey m) \<in> {'''', m_Name ob} \<and> nn_Namespace (sm_ObjectKey m) \<in> {'''', m_Namespace ob}"
  by (auto simp: match_object_key_def)

lemma match_namespace_iff:
  "match_namespace m ob \<longleftrightarrow>
     sm_Namespaces m = [] \<or> m_Namespace ob = '''' \<or> m_Namespace ob \<in> set (sm_Namespaces m)"
  by (auto simp: match_namespace_def)

lemma check_labels_Inr: "check_labels X m ob = Inr b \<Longrightarrow> b = selects_labels X m ob"
  using match_labels_Inr [of X "sm_Labels m" "m_Labels ob" b]
  by (auto simp: check_labels_def selects_labels_def split: if_splits)

lemma check_annotations_Inr: "check_annotations X m ob = Inr b \<Longrightarrow> b = selects_annotations X m ob"
  using match_annotations_Inr [of X "sm_Annotations m" "m_Annotations ob" False b]
  by (auto simp: check_annotations_def selects_annotations_def split: if_splits)

lemma check_content_Inr: "check_content X m ob = Inr b \<Longrightarrow> b = selects_content X m ob"
  by (auto simp: check_content_def selects_content_def match_content_iff split: if_splits sum.splits)

lemma SyncRuleMatch_Match_Inr:
  assumes "SyncRuleMatch_Match X m ob = Inr b"
  shows "b = selects X m ob"
  using assms
  by (auto simp: SyncRuleMatch_Match_def selects_def and_then_Inr match_object_key_iff
      match_namespace_iff split: option.splits
      dest!: check_labels_Inr check_annotations_Inr check_content_Inr)

lemma match_any_Inr:
  "match_any X ms ob = Inr b \<Longrightarrow> b = (\<exists>m \<in> set ms. selects X m ob)"
  by (induction ms)
    (auto split: sum.splits bool.splits dest: SyncRuleMatch_Match_Inr)

lemma SyncRule_Match_Inr: "SyncRule_Match X r ob = Inr b \<Longrightarrow> b = rule_selects X r ob"
  by (auto simp: SyncRule_Match_def rule_selects_def split: if_splits dest: match_any_Inr)

lemma match_rules_ok:
  "match_rules X rs ob acc = (ok, ms, None) \<Longrightarrow>
     ms = acc @ filter (\<lambda>r. rule_selects X r ob) rs \<and> ok = (ms \<noteq> [])"
  by (induction rs arbitrary: acc) (fastforce split: sum.splits if_splits dest: SyncRule_Match_Inr)+

lemma match_rules_err:
  "match_rules X rs ob acc = (ok, ms, Some e) \<Longrightarrow> \<not> ok \<and> (\<exists>r \<in> set rs. SyncRule_Match X r ob = Inl e)"
  by (induction rs arbitrary: acc) (auto split: sum.splits if_splits)

text \<open>What an object has to be accepted by: the selectors of all its rules convert.\<close>

definition selectors_valid :: "ext \<Rightarrow> ResourceSyncRuleSpec \<Rightarrow> k8s_object \<Rightarrow> bool" where
  "selectors_valid X sp ob \<longleftrightarrow>
     x_Accessor X ob = None \<and> (\<exists>j. x_Marshal X ob = Inr j) \<and>
     list_all (\<lambda>r. list_all (\<lambda>m.
        list_all (\<lambda>s. \<not> isl (x_LabelSelectorAsSelector X s)) (sm_Labels m) \<and>
        list_all (\<lambda>s. \<not> isl (x_LabelSelectorAsSelector X (annotation_selector s))) (sm_Annotations m))
       (sr_Matches r)) (rs_Rules sp)"

lemma match_labels_total:
  "list_all (\<lambda>s. \<not> isl (x_LabelSelectorAsSelector X s)) ss \<Longrightarrow> \<exists>b. match_labels X ss ls = Inr b"
  by (induction ss) (auto split: sum.splits)

lemma match_annotations_total:
  "list_all (\<lambda>s. \<not> isl (x_LabelSelectorAsSelector X (annotation_selector s))) ss \<Longrightarrow>
     \<exists>b. match_annotations X ss as found = Inr b"
  by (induction ss arbitrary: found) (auto split: sum.splits)

lemma SyncRuleMatch_Match_total:
  assumes "x_Accessor X ob = None" and "x_Marshal X ob = Inr j"
    and "list_all (\<lambda>s. \<not> isl (x_LabelSelectorAsSelector X s)) (sm_Labels m)"
    and "list_all (\<lambda>s. \<not> isl (x_LabelSelectorAsSelector X (annotation_selector s))) (sm_Annotations m)"
  shows "SyncRuleMatch_Match X m ob = Inr (selects X m ob)"
proof -
  obtain bl where bl: "check_labels X m ob = Inr bl"
    using match_labels_total [OF assms(3)] by (metis check_labels_def)
  obtain ba where ba: "check_annotations X m ob = Inr ba"
    using match_annotations_total [OF assms(4)] by (metis check_annotations_def)
  have "\<exists>bc. check_content X m ob = Inr bc"
    using assms(2) by (auto simp: check_content_def)
  then obtain bc where bc: "check_content X m ob = Inr bc" ..

  have "\<exists>b. SyncRuleMatch_Match X m ob = Inr b"
    by (auto simp: SyncRuleMatch_Match_def assms(1) bl ba bc and_then_def)
  then show ?thesis using SyncRuleMatch_Match_Inr by blast
qed

lemma match_any_total:
  "(\<And>m. m \<in> set ms \<Longrightarrow> SyncRuleMatch_Match X m ob = Inr (selects X m ob)) \<Longrightarrow>
     match_any X ms ob = Inr (\<exists>m \<in> set ms. selects X m ob)"
  by (induction ms) (auto split: bool.splits)

lemma match_rules_total:
  "(\<And>r. r \<in> set rs \<Longrightarrow> SyncRule_Match X r ob = Inr (rule_selects X r ob)) \<Longrightarrow>
     match_rules X rs ob acc =
       (acc @ filter (\<lambda>r. rule_selects X r ob) rs \<noteq> [],
        acc @ filter (\<lambda>r. rule_selects X r ob) rs, None)"
  by (induction rs arbitrary: acc) auto

lemma selectors_valid_rule:
  assumes "selectors_valid X sp ob" and "r \<in> set (rs_Rules sp)"
  shows "SyncRule_Match X r ob = Inr (rule_selects X r ob)"
  using assms
  by (auto simp: selectors_valid_def SyncRule_Match_def rule_selects_def list_all_iff
      intro!: match_any_total SyncRuleMatch_Match_total)

text \<open>
  C32. for an object of the rule's group, version and kind whose selectors all convert, the
  match returns exactly the rules that select the object, in the order of the specification,
  no error, and success if and only if there is such a rule.
\<close>

theorem Spec_Match_selects:
  assumes "x_ConvertGVK X (o_GVK ob) = rs_GVK sp" and "selectors_valid X sp ob"
  shows "Spec_Match X sp ob =
    (\<exists>r \<in> set (rs_Rules sp). rule_selects X r ob,
     filter (\<lambda>r. rule_selects X r ob) (rs_Rules sp), None)"
proof -
  have "match_rules X (rs_Rules sp) ob [] =
      ([] @ filter (\<lambda>r. rule_selects X r ob) (rs_Rules sp) \<noteq> [],
       [] @ filter (\<lambda>r. rule_selects X r ob) (rs_Rules sp), None)"
    by (rule match_rules_total) (rule selectors_valid_rule [OF assms(2)])
  with assms(1) show ?thesis
    by (simp add: Spec_Match_def filter_empty_conv)
qed

text \<open>
  Whatever the selectors do, a match that reports no error reports exactly the selecting
  rules, and one that reports an error never reports success. In particular an object of
  another group, version or kind is never matched.
\<close>

theorem Spec_Match_sound:
  "case Spec_Match X sp ob of (ok, matched, err) \<Rightarrow>
     (err = None \<and> x_ConvertGVK X (o_GVK ob) = rs_GVK sp \<and>
        matched = filter (\<lambda>r. rule_selects X r ob) (rs_Rules sp) \<and> ok = (matched \<noteq> [])) \<or>
     (err = None \<and> x_ConvertGVK X (o_GVK ob) \<noteq> rs_GVK sp \<and> matched = [] \<and> \<not> ok) \<or>
     (err \<noteq> None \<and> \<not> ok)"
proof -
  obtain ok ms err where r: "match_rules X (rs_Rules sp) ob [] = (ok, ms, err)"
    by (metis prod_cases3)
  then show ?thesis
    using match_rules_ok [of X "rs_Rules sp" ob "[]" ok ms]
      match_rules_err [of X "rs_Rules sp" ob "[]" ok ms]
    by (cases err) (auto simp: Spec_Match_def)
qed

subsection \<open>Mutations\<close>

text \<open>The last non-empty string of a list, or a default.\<close>

primrec last_nonempty :: "string \<Rightarrow> string list \<Rightarrow> string" where
  "last_nonempty d [] = d"
| "last_nonempty d (x # xs) = last_nonempty (if x \<noteq> [] then x else d) xs"

abbreviation rule_gvk :: "SyncRule \<Rightarrow> GroupVersionKind" where
  "rule_gvk r \<equiv> Mutations_GetGVK (sr_Mutations r)"

lemma mutated_gvk_loop_eq:
  "mutated_gvk_loop rs b g =
     (b \<or> (\<exists>r \<in> set rs. \<not> gvk_Empty (rule_gvk r)),
      \<lparr>gvk_Group = last_nonempty (gvk_Group g) (map (\<lambda>r. gvk_Group (rule_gvk r)) rs),
       gvk_Version = last_nonempty (gvk_Version g) (map (\<lambda>r. gvk_Version (rule_gvk r)) rs),
       gvk_Kind = last_nonempty (gvk_Kind g) (map (\<lambda>r. gvk_Kind (rule_gvk r)) rs)\<rparr>)"
  by (induction rs arbitrary: b g) (auto simp: Let_def gvk_Empty_def)

lemma label_mutations_loop_eq:
  "label_mutations_loop rs m =
     \<lparr>lm_Add = foldl (++) (lm_Add m) (map (\<lambda>r. lm_Add (Mutations_GetLabels (sr_Mutations r))) rs),
      lm_Remove = lm_Remove m @ concat (map (\<lambda>r. lm_Remove (Mutations_GetLabels (sr_Mutations r))) rs)\<rparr>"
  by (induction rs arbitrary: m) auto

lemma annotation_mutations_loop_eq:
  "annotation_mutations_loop rs m =
     \<lparr>am_Add = foldl (++) (am_Add m) (map (\<lambda>r. am_Add (Mutations_GetAnnotations (sr_Mutations r))) rs),
      am_Remove =
        am_Remove m @ concat (map (\<lambda>r. am_Remove (Mutations_GetAnnotations (sr_Mutations r))) rs)\<rparr>"
  by (induction rs arbitrary: m) auto

lemma foldl_map_add_None:
  "foldl (++) m ms k = None \<longleftrightarrow> m k = None \<and> (\<forall>n \<in> set ms. n k = None)"
  by (induction ms arbitrary: m) (auto simp: map_add_None)

lemma GetMutationAnnotations_Add_None:
  "am_Add (GetMutationAnnotations rs) k = None \<longleftrightarrow>
     (\<forall>r \<in> set rs. am_Add (Mutations_GetAnnotations (sr_Mutations r)) k = None)"
  by (simp add: GetMutationAnnotations_def annotation_mutations_loop_eq foldl_map_add_None)

lemma GetMutationAnnotations_Remove:
  "k \<in> set (am_Remove (GetMutationAnnotations rs)) \<longleftrightarrow>
     (\<exists>r \<in> set rs. k \<in> set (am_Remove (Mutations_GetAnnotations (sr_Mutations r))))"
  by (simp add: GetMutationAnnotations_def annotation_mutations_loop_eq)

lemma last_nonempty_idem: "last_nonempty (last_nonempty d xs) xs = last_nonempty d xs"
proof (induction xs arbitrary: d)
  case Nil
  then show ?case by simp
next
  case (Cons x xs)
  have "last_nonempty y xs = last_nonempty d xs" if "list_ex (\<lambda>z. z \<noteq> []) xs" for y d
    using that by (induction xs arbitrary: y d) auto
  moreover have "last_nonempty y xs = y" if "\<not> list_ex (\<lambda>z. z \<noteq> []) xs" for y
    using that by (induction xs arbitrary: y) auto
  ultimately show ?case
    by (cases "list_ex (\<lambda>z. z \<noteq> []) xs") auto
qed

text \<open>
  The matched rules rewrite the group, the version and the kind independently: each is
  the last non-empty value a matched rule gives for it, or the object's own; the object
  counts as mutated if and only if some matched rule gives a non-empty group-version-kind;
  and applying the same rules to the result changes nothing more.
\<close>

theorem GetMutatedGVK_spec:
  "GetMutatedGVK rs g =
     (\<exists>r \<in> set rs. \<not> gvk_Empty (rule_gvk r),
      \<lparr>gvk_Group = last_nonempty (gvk_Group g) (map (\<lambda>r. gvk_Group (rule_gvk r)) rs),
       gvk_Version = last_nonempty (gvk_Version g) (map (\<lambda>r. gvk_Version (rule_gvk r)) rs),
       gvk_Kind = last_nonempty (gvk_Kind g) (map (\<lambda>r. gvk_Kind (rule_gvk r)) rs)\<rparr>)
   \<and> GetMutatedGVK rs (snd (GetMutatedGVK rs g)) = GetMutatedGVK rs g"
  by (simp add: GetMutatedGVK_def mutated_gvk_loop_eq last_nonempty_idem)

theorem Spec_Match_selects_witness:
  "Spec_Match sample_ext sample_spec sample_object = (True, rs_Rules sample_spec, None)"
proof -
  have a: "x_ConvertGVK sample_ext (o_GVK sample_object) = rs_GVK sample_spec"
    by (simp add: sample_defs)
  have b: "selectors_valid sample_ext sample_spec sample_object"
    by (simp add: selectors_valid_def sample_defs)
  have c: "rule_selects sample_ext r sample_object" if "r \<in> set (rs_Rules sample_spec)" for r
    using that
    by (auto simp: rule_selects_def selects_def selects_labels_def selects_annotations_def
        selects_content_def selector_accepts_def sample_defs)
  have "\<exists>r. r \<in> set (rs_Rules sample_spec)"
    by (simp add: sample_defs)
  then show ?thesis
    unfolding Spec_Match_selects [OF a b] using c by (auto intro: filter_True)
qed

end
