(* ===== verification/GvkString.thy ===== *)
theory GvkString
  imports External
begin

text \<open>
  The textual form of a group, version and kind (src/pkg/util/resources.go), which the sync
  controller stores in the original-group-version-kind annotation, and its parser.
\<close>

text \<open>strings.SplitN(s, sep, 2) for a one-character separator.\<close>

fun splitN2 :: "char \<Rightarrow> string \<Rightarrow> string list" where
  "splitN2 c s =
     (case dropWhile (\<lambda>x. x \<noteq> c) s of
        [] \<Rightarrow> [s]
      | _ # rest \<Rightarrow> [takeWhile (\<lambda>x. x \<noteq> c) s, rest])"

definition GVKToString :: "GroupVersionKind \<Rightarrow> string" where
  "GVKToString g = gvk_Kind g @ ''.'' @ gvk_Group g @ ''/'' @ gvk_Version g"

definition ParseGVKFromString :: "string \<Rightarrow> GroupVersionKind option" where
  "ParseGVKFromString str =
     (let fp = splitN2 CHR ''.'' str in
      if length fp \<noteq> 2 then None
      else let sp = splitN2 CHR ''/'' (fp ! 1) in
           if length sp \<noteq> 2 then None
           else Some \<lparr>gvk_Group = sp ! 0, gvk_Version = sp ! 1, gvk_Kind = fp ! 0\<rparr>)"

lemma dropWhile_sep: "c \<notin> set a \<Longrightarrow> dropWhile (\<lambda>x. x \<noteq> c) (a @ c # b) = c # b"
  by (induction a) auto

lemma takeWhile_sep: "c \<notin> set a \<Longrightarrow> takeWhile (\<lambda>x. x \<noteq> c) (a @ c # b) = a"
  by (induction a) auto

lemma splitN2_sep: "c \<notin> set a \<Longrightarrow> splitN2 c (a @ c # b) = [a, b]"
  by (simp add: dropWhile_sep takeWhile_sep)

lemma splitN2_none: "c \<notin> set s \<Longrightarrow> splitN2 c s = [s]"
proof -
  assume "c \<notin> set s"
  then have "dropWhile (\<lambda>x. x \<noteq> c) s = []"
    by (simp add: dropWhile_eq_Nil_conv) metis
  then show ?thesis by (simp only: splitN2.simps list.case)
qed

lemma splitN2_two:
  assumes "splitN2 c s = [a, b]"
  shows "s = a @ c # b \<and> c \<notin> set a"
proof (cases "dropWhile (\<lambda>x. x \<noteq> c) s")
  case Nil
  with assms show ?thesis by simp
next
  case (Cons d rest)
  then have d: "d = c"
    using hd_dropWhile [of "\<lambda>x. x \<noteq> c" s] by simp
  from assms Cons have a: "a = takeWhile (\<lambda>x. x \<noteq> c) s" and b: "b = rest"
    by simp_all
  have "s = takeWhile (\<lambda>x. x \<noteq> c) s @ dropWhile (\<lambda>x. x \<noteq> c) s"
    by simp
  moreover have "c \<notin> set (takeWhile (\<lambda>x. x \<noteq> c) s)"
    using set_takeWhileD by fastforce
  ultimately show ?thesis
    using a b d Cons by metis
qed

lemma splitN2_length: "length (splitN2 c s) = 2 \<longleftrightarrow> c \<in> set s"
proof
  assume "length (splitN2 c s) = 2"
  then show "c \<in> set s" by (metis One_nat_def Suc_1 length_Cons list.size(3) n_not_Suc_n splitN2_none)
next
  assume "c \<in> set s"
  then obtain a b where "s = a @ c # b" and "c \<notin> set a"
    using split_list_first by metis
  then show "length (splitN2 c s) = 2"
    by (simp add: splitN2_sep del: splitN2.simps)
qed

declare splitN2.simps [simp del]

lemma ParseGVK_GVKToString:
  assumes "CHR ''.'' \<notin> set (gvk_Kind g)" and "CHR ''/'' \<notin> set (gvk_Group g)"
  shows "ParseGVKFromString (GVKToString g) = Some g"
proof -
  have "splitN2 CHR ''.'' (GVKToString g) = [gvk_Kind g, gvk_Group g @ CHR ''/'' # gvk_Version g]"
    using assms(1) splitN2_sep [of "CHR ''.''" "gvk_Kind g"] by (simp add: GVKToString_def)
  moreover have "splitN2 CHR ''/'' (gvk_Group g @ CHR ''/'' # gvk_Version g)
      = [gvk_Group g, gvk_Version g]"
    using assms(2) by (simp add: splitN2_sep)
  ultimately show ?thesis
    by (simp add: ParseGVKFromString_def Let_def)
qed

text \<open>
  The parser accepts exactly the texts of the form kind.group/version: it returns a
  group-version-kind if and only if the text is the one written for it and its kind has no
  dot and its group no slash.
\<close>

theorem ParseGVK_iff:
  "ParseGVKFromString s = Some g \<longleftrightarrow>
     s = GVKToString g \<and> CHR ''.'' \<notin> set (gvk_Kind g) \<and> CHR ''/'' \<notin> set (gvk_Group g)"
proof
  assume p: "ParseGVKFromString s = Some g"
  then have l1: "length (splitN2 CHR ''.'' s) = 2"
    by (auto simp: ParseGVKFromString_def Let_def split: if_splits)
  then obtain k r where kr: "splitN2 CHR ''.'' s = [k, r]"
    by (auto simp: length_Suc_conv numeral_2_eq_2)
  with p have l2: "length (splitN2 CHR ''/'' r) = 2"
    by (auto simp: ParseGVKFromString_def Let_def split: if_splits)
  then obtain gr v where gv: "splitN2 CHR ''/'' r = [gr, v]"
    by (auto simp: length_Suc_conv numeral_2_eq_2)
  from p kr gv have "g = \<lparr>gvk_Group = gr, gvk_Version = v, gvk_Kind = k\<rparr>"
    by (simp add: ParseGVKFromString_def Let_def)
  with splitN2_two [OF kr] splitN2_two [OF gv]
  show "s = GVKToString g \<and> CHR ''.'' \<notin> set (gvk_Kind g) \<and> CHR ''/'' \<notin> set (gvk_Group g)"
    by (simp add: GVKToString_def)
next
  assume a: "s = GVKToString g \<and> CHR ''.'' \<notin> set (gvk_Kind g) \<and> CHR ''/'' \<notin> set (gvk_Group g)"
  then show "ParseGVKFromString s = Some g" using ParseGVK_GVKToString by simp
qed

end
