(* ===== verification/SyncPolicy.thy ===== *)
theory SyncPolicy
  imports ClusterManager RuleMatch GvkString
begin

text \<open>
  The sync reconciler of a rule on a peer cluster (src/controllers/sync\_reconciler.go), first
  part: its state, the permission checks before it starts, the predicates that filter
  events, and the callbacks that decide whether a local object may be created or updated.
  The cluster manager is shared with the other reconcilers; \<open>mgr h\<close> is its state at the time
  at which the calls \<open>h\<close> have been made.
\<close>

record syncReconciler =
  s_client :: site
  s_gvk :: GroupVersionKind
  s_localGVK :: GroupVersionKind
  s_localClusterID :: string
  s_rateLimiter :: bool
  s_clusterID :: string
  s_queue :: bool
  s_rule :: ResourceSyncRule
  s_localInformers :: "string list"
  s_resourceNameMutated :: bool
  s_resourceNamespaceMutated :: bool

definition WithRateLimiter :: "bool \<Rightarrow> syncReconciler \<Rightarrow> syncReconciler" where
  "WithRateLimiter rl r = r\<lparr>s_rateLimiter := rl\<rparr>"

definition NewSyncReconciler ::
  "site \<Rightarrow> ResourceSyncRule \<Rightarrow> string \<Rightarrow> (syncReconciler \<Rightarrow> syncReconciler) list \<Rightarrow> syncReconciler" where
  "NewSyncReconciler cl rule clusterID opts =
     fold (\<lambda>opt r. opt r) opts
       \<lparr>s_client = cl, s_gvk = rs_GVK (rsr_Spec rule),
        s_localGVK = snd (GetMutatedGVK (rs_Rules (rsr_Spec rule)) (rs_GVK (rsr_Spec rule))),
        s_localClusterID = '''', s_rateLimiter = False, s_clusterID = clusterID, s_queue = False,
        s_rule = rule, s_localInformers = [], s_resourceNameMutated = False,
        s_resourceNamespaceMutated = False\<rparr>"

subsection \<open>Permission checks\<close>

text \<open>strings.ToLower on ASCII strings; the kinds of the Kubernetes API are ASCII.\<close>

definition to_lower :: "string \<Rightarrow> string" where
  "to_lower = map (\<lambda>c. let n = (of_char c :: nat) in if 65 \<le> n \<and> n \<le> 90 then char_of (n + 32) else c)"

definition resource_of :: "ext \<Rightarrow> GroupVersionKind \<Rightarrow> string" where
  "resource_of X g = to_lower (x_Plural X (gvk_Kind g))"

text \<open>The loop over the verbs: the first refused or failed review ends the check.\<close>

fun review_verbs ::
  "ext \<Rightarrow> site \<Rightarrow> GroupVersionKind \<Rightarrow> string \<Rightarrow> string \<Rightarrow> string list \<Rightarrow> history \<Rightarrow> gerror option \<times> history" where
  "review_verbs X s g pre msg [] h = (None, h)"
| "review_verbs X s g pre msg (verb # verbs) h =
     (case accessReview X s verb (gvk_Group g) (gvk_Version g) (resource_of X g) h of
        (Inl e, h1) \<Rightarrow> (Some (x_WrapIf X e ''failed to create self subject access review''), h1)
      | (Inr allowed, h1) \<Rightarrow>
          if \<not> allowed then (Some (ErrorString (pre @ verb @ '' gvk: '' @ msg)), h1)
          else review_verbs X s g pre msg verbs h1)"

definition writePreCheck :: "ext \<Rightarrow> syncReconciler \<Rightarrow> history \<Rightarrow> gerror option \<times> history" where
  "writePreCheck X r h =
     (case x_NewClient X h of
        Some e \<Rightarrow> (Some (x_WrapIf X e ''error creating local client''), h)
      | None \<Rightarrow>
          review_verbs X LocalSite (s_localGVK r) ''do not have local access to ''
            (x_GVKString X (s_gvk r)) [''create'', ''patch'', ''update'', ''delete''] h)"

definition PreCheck :: "ext \<Rightarrow> syncReconciler \<Rightarrow> site \<Rightarrow> history \<Rightarrow> gerror option \<times> history" where
  "PreCheck X r client h =
     (case review_verbs X client (s_gvk r) ''do not have access to '' (x_GVKString X (s_gvk r))
             [''get'', ''list'', ''watch''] h of
        (Some e, h1) \<Rightarrow> (Some e, h1)
      | (None, h1) \<Rightarrow> writePreCheck X r h1)"

subsection \<open>Ownership\<close>

definition owner_of :: "'a ObjectMeta_scheme \<Rightarrow> string" where
  "owner_of ob = mget (m_Annotations ob) OwnershipAnnotation"

definition isOwnedByAnotherAliveCluster :: "syncReconciler \<Rightarrow> Manager \<Rightarrow> string \<Rightarrow> bool" where
  "isOwnedByAnotherAliveCluster r m ownerClusterID \<longleftrightarrow>
     ownerClusterID \<noteq> '''' \<and> GetAliveClustersByID m ownerClusterID \<noteq> None \<and>
     ownerClusterID \<noteq> s_clusterID r"

definition isOwnedByUs :: "syncReconciler \<Rightarrow> k8s_object \<Rightarrow> bool" where
  "isOwnedByUs r ob \<longleftrightarrow> owner_of ob = s_localClusterID r"

definition ShouldCreateFunc ::
  "ext \<Rightarrow> syncReconciler \<Rightarrow> Manager \<Rightarrow> k8s_object \<Rightarrow> bool result" where
  "ShouldCreateFunc X r m desired =
     (case x_Accessor X desired of
        Some e \<Rightarrow> Inl e
      | None \<Rightarrow>
          if m_Annotations desired SyncDisabledAnnotation \<noteq> None then Inr False
          else if owner_of desired \<noteq> '''' \<and> s_localClusterID r = owner_of desired then Inr False
          else if isOwnedByAnotherAliveCluster r m (owner_of desired) then Inr False
          else Inr True)"

definition ShouldUpdateFunc ::
  "ext \<Rightarrow> syncReconciler \<Rightarrow> Manager \<Rightarrow> k8s_object \<Rightarrow> k8s_object \<Rightarrow> bool result" where
  "ShouldUpdateFunc X r m current desired =
     (case x_Accessor X current of
        Some e \<Rightarrow> Inl e
      | None \<Rightarrow>
          if m_Annotations current SyncDisabledAnnotation \<noteq> None then Inr False
          else if owner_of current = '''' then Inr False
          else if isOwnedByAnotherAliveCluster r m (owner_of current) then Inr False
          else Inr True)"

definition getObjectDesiredState ::
  "ext \<Rightarrow> syncReconciler \<Rightarrow> (history \<Rightarrow> Manager) \<Rightarrow> DynamicDesiredState" where
  "getObjectDesiredState X r mgr =
     \<lparr>ds_BeforeUpdateFunc = x_ServiceIPModifier X,
      ds_ShouldCreateFunc = (\<lambda>h. ShouldCreateFunc X r (mgr h)),
      ds_ShouldUpdateFunc = (\<lambda>h. ShouldUpdateFunc X r (mgr h))\<rparr>"

subsection \<open>Event filters\<close>

datatype obj_event =
    CreateEvent k8s_object
  | UpdateEvent k8s_object k8s_object
  | DeleteEvent k8s_object
  | GenericEvent k8s_object

text \<open>The predicate sets the rule's kind on the object before it matches, and drops it on an error.\<close>

definition isObjectMatch :: "ext \<Rightarrow> syncReconciler \<Rightarrow> k8s_object \<Rightarrow> GroupVersionKind \<Rightarrow> bool" where
  "isObjectMatch X r ob g =
     (case ResourceSyncRule_Match X (s_rule r) (ob\<lparr>o_GVK := g\<rparr>) of
        (_, _, Some e) \<Rightarrow> False
      | (ok, _, None) \<Rightarrow> ok)"

definition same_version :: "k8s_object \<Rightarrow> k8s_object \<Rightarrow> k8s_object" where
  "same_version old new = old\<lparr>m_ResourceVersion := m_ResourceVersion new\<rparr>"

fun remotePredicate :: "ext \<Rightarrow> syncReconciler \<Rightarrow> obj_event \<Rightarrow> bool" where
  "remotePredicate X r (CreateEvent ob) =
     (if isOwnedByUs r ob then False else isObjectMatch X r ob (rs_GVK (rsr_Spec (s_rule r))))"
| "remotePredicate X r (UpdateEvent old new) =
     (case x_PatchIsEmpty X (same_version old new) new of
        Inl e \<Rightarrow> True
      | Inr isEmpty \<Rightarrow>
          if isEmpty then False
          else if isOwnedByUs r new then False
          else isObjectMatch X r new (rs_GVK (rsr_Spec (s_rule r))))"
| "remotePredicate X r (DeleteEvent ob) =
     (if isOwnedByUs r ob then False else isObjectMatch X r ob (rs_GVK (rsr_Spec (s_rule r))))"
| "remotePredicate X r (GenericEvent ob) =
     (if isOwnedByUs r ob then False else isObjectMatch X r ob (rs_GVK (rsr_Spec (s_rule r))))"

fun localPredicate :: "ext \<Rightarrow> obj_event \<Rightarrow> bool" where
  "localPredicate X (CreateEvent ob) = (m_Annotations ob OwnershipAnnotation \<noteq> None)"
| "localPredicate X (UpdateEvent old new) =
     (if m_Annotations old OwnershipAnnotation = None then False
      else case x_PatchIsEmpty X (same_version old new) new of
          Inl e \<Rightarrow> True
        | Inr isEmpty \<Rightarrow> if isEmpty then False else True)"
| "localPredicate X (DeleteEvent ob) = (m_Annotations ob OwnershipAnnotation \<noteq> None)"
| "localPredicate X (GenericEvent ob) = False"

definition remote_request :: "k8s_object \<Rightarrow> NamespacedName" where
  "remote_request ob = \<lparr>nn_Name = m_Name ob, nn_Namespace = m_Namespace ob\<rparr>"

definition originalNameLabel :: string where
  "originalNameLabel = ''cluster-registry.k8s.cisco.com/original-name''"

definition originalNamespaceLabel :: string where
  "originalNamespaceLabel = ''cluster-registry.k8s.cisco.com/original-namespace''"

definition original_name :: "k8s_object \<Rightarrow> string" where
  "original_name ob = (case m_Labels ob originalNameLabel of Some n \<Rightarrow> n | None \<Rightarrow> m_Name ob)"

definition original_namespace :: "k8s_object \<Rightarrow> string" where
  "original_namespace ob =
     (case m_Labels ob originalNamespaceLabel of Some n \<Rightarrow> n | None \<Rightarrow> m_Namespace ob)"

definition local_request :: "k8s_object \<Rightarrow> NamespacedName" where
  "local_request ob = \<lparr>nn_Name = original_name ob, nn_Namespace = original_namespace ob\<rparr>"

end
