(* ===== verification/Conditions.thy ===== *)
theory Conditions
  imports Samples
begin

text \<open>
  The conditions of a cluster's status (src/controllers/cluster\_conditions.go). The map of
  current conditions is an association list from condition type to condition, since the
  status is written by ranging over it.
\<close>

type_synonym ClusterConditionsMap = "(string \<times> ClusterCondition) list"

definition ErrLocalClusterConflict_text :: string where
  "ErrLocalClusterConflict_text = ''multiple local clusters are defined''"

subsection \<open>Setting and reading conditions\<close>

text \<open>The event of a transition is a warning when the new status is the failing one.\<close>

definition condition_event :: "ClusterCondition \<Rightarrow> event_type" where
  "condition_event c =
     (if (cc_TrueIsFailure c \<and> cc_Status c = ConditionTrue) \<or>
         (\<not> cc_TrueIsFailure c \<and> cc_Status c = ConditionFalse)
      then EventTypeWarning else EventTypeNormal)"

definition SetCondition ::
  "ext \<Rightarrow> ClusterConditionsMap \<Rightarrow> ClusterCondition \<Rightarrow> history \<Rightarrow> ClusterConditionsMap \<times> history" where
  "SetCondition X conds condition h =
     (let (cur, h1) =
        (case map_of conds (cc_Type condition) of
           None \<Rightarrow> (condition, h)
         | Some c \<Rightarrow>
             let (c1, h1) =
                   (if cc_Status c \<noteq> cc_Status condition
                    then (c\<lparr>cc_LastTransitionTime := x_Now X h\<rparr>,
                          recordEvent (condition_event condition) (cc_Reason condition)
                            (cc_Message condition) h)
                    else (c, h))
             in (c1\<lparr>cc_Message := cc_Message condition, cc_Reason := cc_Reason condition,
                    cc_Status := cc_Status condition\<rparr>, h1));
          cur2 = (if cc_LastTransitionTime cur = 0 then cur\<lparr>cc_LastTransitionTime := x_Now X h1\<rparr> else cur);
          cur3 = cur2\<lparr>cc_LastHeartbeatTime := x_Now X h1\<rparr>
      in (AList.update (cc_Type condition) cur3 conds, h1))"

primrec conditions_loop :: "ClusterCondition list \<Rightarrow> ClusterConditionsMap \<Rightarrow> ClusterConditionsMap" where
  "conditions_loop [] m = m"
| "conditions_loop (c # cs) m = conditions_loop cs (AList.update (cc_Type c) c m)"

definition GetCurrentConditions :: "Cluster \<Rightarrow> ClusterConditionsMap" where
  "GetCurrentConditions cluster = conditions_loop (st_Conditions (c_Status cluster)) []"

fun find_condition :: "ClusterCondition list \<Rightarrow> string \<Rightarrow> ClusterCondition" where
  "find_condition [] t = ClusterCondition_zero"
| "find_condition (c # cs) t = (if cc_Type c = t then c else find_condition cs t)"

definition GetCurrentCondition :: "Cluster \<Rightarrow> string \<Rightarrow> ClusterCondition" where
  "GetCurrentCondition cluster t = find_condition (st_Conditions (c_Status cluster)) t"

subsection \<open>The conditions the reconcilers set\<close>

definition new_condition :: "string \<Rightarrow> bool \<Rightarrow> string \<Rightarrow> string \<Rightarrow> string \<Rightarrow> ClusterCondition" where
  "new_condition t failure reason msg status =
     ClusterCondition_zero\<lparr>cc_Type := t, cc_Status := status, cc_Reason := reason, cc_Message := msg,
       cc_TrueIsFailure := failure\<rparr>"

definition LocalClusterCondition :: "bool \<Rightarrow> ClusterCondition" where
  "LocalClusterCondition isClusterLocal =
     (if isClusterLocal
      then new_condition ClusterConditionTypeLocalCluster False ''ClusterIsLocal'' ''cluster is local''
             ConditionTrue
      else new_condition ClusterConditionTypeLocalCluster False ''ClusterIsNotLocal''
             ''cluster is not local'' ConditionFalse)"

definition LocalClusterConflictCondition :: "bool \<Rightarrow> ClusterCondition" where
  "LocalClusterConflictCondition conflict =
     (if conflict
      then new_condition ClusterConditionTypeLocalConflict True ''LocalClusterIsConflicting''
             ErrLocalClusterConflict_text ConditionTrue
      else new_condition ClusterConditionTypeLocalConflict True ''LocalClusterIsNotConflicting''
             ''only one local cluster is defined'' ConditionFalse)"

definition ClusterMetadataCondition :: "ext \<Rightarrow> gerror option \<Rightarrow> ClusterCondition" where
  "ClusterMetadataCondition X err =
     (case err of
        None \<Rightarrow> new_condition ClusterConditionTypeClusterMetadata False ''ClusterMetadataSet''
                  ''cluster metadata is set'' ConditionTrue
      | Some e \<Rightarrow> new_condition ClusterConditionTypeClusterMetadata False ''ClusterMetadataIsNotSet''
                    (x_Error X e) ConditionFalse)"

definition ClusterReadyCondition :: "ext \<Rightarrow> gerror option \<Rightarrow> ClusterCondition" where
  "ClusterReadyCondition X err =
     (case err of
        None \<Rightarrow> new_condition ClusterConditionTypeReady False ''ClusterIsReady''
                  ''cluster is ready'' ConditionTrue
      | Some e \<Rightarrow> new_condition ClusterConditionTypeReady False ''ClusterIsNotReady''
                    (x_Error X e) ConditionFalse)"

definition ClustersSyncedCondition :: "ext \<Rightarrow> gerror option \<Rightarrow> ClusterCondition" where
  "ClustersSyncedCondition X err =
     (case err of
        None \<Rightarrow> new_condition ClusterConditionTypeClustersSynced False ''ClustersAreSynced''
                  ''all participating clusters are in sync'' ConditionTrue
      | Some e \<Rightarrow> new_condition ClusterConditionTypeClustersSynced False ''ClustersAreNotSynced''
                    (x_Error X e) ConditionFalse)"

lemmas condition_defs =
  LocalClusterCondition_def LocalClusterConflictCondition_def ClusterMetadataCondition_def
  ClusterReadyCondition_def ClustersSyncedCondition_def new_condition_def ClusterCondition_zero_def

lemma condition_types [simp]:
  "cc_Type (LocalClusterCondition b) = ClusterConditionTypeLocalCluster"
  "cc_Type (LocalClusterConflictCondition b) = ClusterConditionTypeLocalConflict"
  "cc_Type (ClusterMetadataCondition X e) = ClusterConditionTypeClusterMetadata"
  "cc_Type (ClusterReadyCondition X e) = ClusterConditionTypeReady"
  "cc_Type (ClustersSyncedCondition X e) = ClusterConditionTypeClustersSynced"
  by (simp_all add: condition_defs split: option.split)

subsection \<open>Properties\<close>

definition conditions_wf :: "ClusterConditionsMap \<Rightarrow> bool" where
  "conditions_wf m \<longleftrightarrow> alist_wf m \<and> (\<forall>t c. map_of m t = Some c \<longrightarrow> cc_Type c = t)"

lemma conditions_wf_update: "conditions_wf m \<Longrightarrow> conditions_wf (AList.update (cc_Type c) c m)"
  unfolding conditions_wf_def by (metis alist_wf_update map_of_AList_update option.inject)

lemma conditions_loop_wf: "conditions_wf m \<Longrightarrow> conditions_wf (conditions_loop cs m)"
  by (induction cs arbitrary: m) (simp_all add: conditions_wf_update)

lemma conditions_loop_map_of:
  assumes "distinct (map fst m)" and "\<forall>(k, c) \<in> set m. cc_Type c = k"
  shows "map_of (conditions_loop (map snd m) acc) t =
     (case map_of m t of Some c \<Rightarrow> Some c | None \<Rightarrow> map_of acc t)"
  using assms
proof (induction m arbitrary: acc)
  case (Cons p m)
  have "map_of m (fst p) = None" using Cons.prems(1) by (simp add: map_of_eq_None_iff)
  with Cons show ?case by (auto split: option.split)
qed simp

lemma GetCurrentConditions_wf [simp]: "conditions_wf (GetCurrentConditions c)"
  by (simp add: GetCurrentConditions_def conditions_loop_wf conditions_wf_def [of "[]"])

text \<open>
  SetCondition leaves the conditions of other types alone; the condition of the given type
  gets the new status, reason and message and a fresh heartbeat. Its transition time changes
  exactly when the status changes (or when it was never set), and exactly then, for a
  condition that was there before, one event is recorded: a warning if the new status is the
  failing one for this condition, a normal event otherwise.
\<close>

theorem SetCondition_spec:
  assumes "SetCondition X conds condition h = (conds', h')"
  shows "(\<forall>t. t \<noteq> cc_Type condition \<longrightarrow> map_of conds' t = map_of conds t)
    \<and> (\<exists>c'. map_of conds' (cc_Type condition) = Some c' \<and>
         cc_Status c' = cc_Status condition \<and> cc_Reason c' = cc_Reason condition \<and>
         cc_Message c' = cc_Message condition \<and> cc_LastHeartbeatTime c' = x_Now X h' \<and>
         (\<forall>c. map_of conds (cc_Type condition) = Some c \<longrightarrow> cc_LastTransitionTime c \<noteq> 0 \<longrightarrow>
            x_Now X h \<noteq> 0 \<longrightarrow>
            cc_LastTransitionTime c' =
              (if cc_Status c = cc_Status condition then cc_LastTransitionTime c else x_Now X h)))
    \<and> h' = h @ (case map_of conds (cc_Type condition) of
          None \<Rightarrow> []
        | Some c \<Rightarrow>
            if cc_Status c = cc_Status condition then []
            else [RecordEvent (condition_event condition) (cc_Reason condition) (cc_Message condition)])"
  using assms
  by (cases "map_of conds (cc_Type condition)")
    (auto simp: SetCondition_def Let_def recordEvent_def)

theorem SetCondition_spec_witness:
  "snd (SetCondition sample_ext [(ClusterConditionTypeReady, ClusterReadyCondition sample_ext None)]
     (ClusterReadyCondition sample_ext (Some (ErrorString ''boom''))) [])
   = [RecordEvent EventTypeWarning ''ClusterIsNotReady'' ''boom'']"
proof -
  let ?m = "[(ClusterConditionTypeReady, ClusterReadyCondition sample_ext None)]"
  let ?c = "ClusterReadyCondition sample_ext (Some (ErrorString ''boom''))"
  obtain m h where s: "SetCondition sample_ext ?m ?c [] = (m, h)" by fastforce
  from SetCondition_spec [OF s] s show ?thesis
    by (simp add: condition_defs condition_status_defs condition_event_def sample_ext_def)
qed

text \<open>
  Writing the current conditions into a status and reading them back gives the same
  conditions, whatever order the map is ranged over.
\<close>

theorem conditions_roundtrip:
  assumes "conditions_wf m" and "cluster' = cluster\<lparr>c_Status := (c_Status cluster)\<lparr>st_Conditions := map snd m\<rparr>\<rparr>"
  shows "map_of (GetCurrentConditions cluster') = map_of m"
proof
  fix t
  have wf: "alist_wf m" using assms(1) by (simp add: conditions_wf_def)
  then have "distinct (map fst m)" by (simp add: alist_wf_def)
  moreover have "\<forall>(k, c) \<in> set m. cc_Type c = k"
    using assms(1) alist_wf_map_of [OF wf] unfolding conditions_wf_def by blast
  ultimately show "map_of (GetCurrentConditions cluster') t = map_of m t"
    by (simp add: GetCurrentConditions_def assms(2) conditions_loop_map_of split: option.split)
qed

theorem conditions_roundtrip_witness:
  "map_of (conditions_loop [LocalClusterCondition True, ClusterReadyCondition sample_ext None] [])
     ClusterConditionTypeReady = Some (ClusterReadyCondition sample_ext None)"
proof -
  let ?m = "[(ClusterConditionTypeLocalCluster, LocalClusterCondition True),
             (ClusterConditionTypeReady, ClusterReadyCondition sample_ext None)]"
  have "conditions_wf ?m"
    using conditions_loop_wf [of "[]" "[LocalClusterCondition True, ClusterReadyCondition sample_ext None]"]
    by (simp add: condition_type_defs conditions_wf_def [of "[]"])
  from conditions_roundtrip [OF this refl] show ?thesis
    by (simp add: GetCurrentConditions_def condition_type_defs)
qed

end
