(* ===== verification/Common.thy ===== *)
theory Common
  imports Conditions
begin

text \<open>
  What the reconcilers share (src/controllers/common.go and errors.go): the permanent error,
  the clusters by ID, the ID of a cluster, and the update of a cluster's status.
\<close>

subsection \<open>Errors\<close>

definition ErrInvalidClusterID :: gerror where
  "ErrInvalidClusterID = ErrorString ''invalid cluster ID''"
definition ErrInvalidSecretContent :: gerror where
  "ErrInvalidSecretContent = ErrorString ''could not found k8s config in secret''"
definition ErrInvalidSecret :: gerror where
  "ErrInvalidSecret = ErrorString ''invalid secret type''"
definition ErrLocalClusterConflict :: gerror where
  "ErrLocalClusterConflict = ErrorString ErrLocalClusterConflict_text"

definition WrapAsPermanentError :: "gerror \<Rightarrow> gerror" where
  "WrapAsPermanentError e = PermanentError e"

text \<open>The type assertion on the method IsPermanent: it looks at the outermost error only.\<close>

fun IsPermanent :: "gerror \<Rightarrow> bool" where
  "IsPermanent (PermanentError _) = True"
| "IsPermanent _ = False"

subsection \<open>Clusters\<close>

definition NamespaceSystem :: string where
  "NamespaceSystem = ''kube-system''"

text \<open>The queue a reconciler keeps to trigger itself; the source hands it over when it starts.\<close>

definition InMemorySource_Start :: "(bool \<Rightarrow> 'r \<Rightarrow> 'r) \<Rightarrow> 'r \<Rightarrow> 'r" where
  "InMemorySource_Start setQueue r = setQueue True r"

primrec clusters_loop :: "Cluster list \<Rightarrow> (string \<rightharpoonup> Cluster) \<Rightarrow> (string \<rightharpoonup> Cluster)" where
  "clusters_loop [] m = m"
| "clusters_loop (c # cs) m = clusters_loop cs (m(sp_ClusterID (c_Spec c) \<mapsto> c))"

definition GetClusters :: "ext \<Rightarrow> site \<Rightarrow> history \<Rightarrow> (string \<rightharpoonup> Cluster) result \<times> history" where
  "GetClusters X s h =
     (case listClusters X s h of
        (Inl e, h1) \<Rightarrow> (Inl (x_WrapIf X e ''could not list clusters''), h1)
      | (Inr cs, h1) \<Rightarrow> (Inr (clusters_loop cs Map.empty), h1))"

definition GetClusterID :: "ext \<Rightarrow> site \<Rightarrow> history \<Rightarrow> string result \<times> history" where
  "GetClusterID X s h = getNamespace X s NamespaceSystem h"

subsection \<open>Status updates\<close>

text \<open>
  A conflicting update is tried once more, with the resource version the server has. (An
  accepted update also copies the server's answer into the cluster; of that only the status
  is read later, and the server stores the status it is sent.)
\<close>

definition UpdateClusterStatus :: "ext \<Rightarrow> site \<Rightarrow> Cluster \<Rightarrow> history \<Rightarrow> gerror option \<times> history" where
  "UpdateClusterStatus X s cluster h =
     (case updateClusterStatusCall X s cluster h of
        (None, h1) \<Rightarrow> (None, h1)
      | (Some e, h1) \<Rightarrow>
          if x_IsConflict X e
          then (case getCluster X s \<lparr>nn_Name = m_Name cluster, nn_Namespace = ''''\<rparr> h1 of
                  (Inl e2, h2) \<Rightarrow> (Some (x_WrapIf X e2 ''could not get cluster''), h2)
                | (Inr current, h2) \<Rightarrow>
                    (case updateClusterStatusCall X s
                            (cluster\<lparr>m_ResourceVersion := m_ResourceVersion current\<rparr>) h2 of
                       (Some e3, h3) \<Rightarrow> (Some (x_WrapIf X e3 ''could not update cluster status''), h3)
                     | (None, h3) \<Rightarrow> (None, h3)))
          else (Some (x_WrapIf X e ''could not update status''), h1))"

primrec status_conditions :: "string \<Rightarrow> ClusterConditionsMap \<Rightarrow> ClusterCondition list" where
  "status_conditions type [] = []"
| "status_conditions type (p # ps) =
     (if type = ClusterTypeLocal \<and> cc_Type (snd p) = ClusterConditionTypeClustersSynced
      then status_conditions type ps else snd p # status_conditions type ps)"

definition UpdateCluster ::
  "ext \<Rightarrow> gerror option \<Rightarrow> site \<Rightarrow> Cluster \<Rightarrow> ClusterConditionsMap \<Rightarrow> history
    \<Rightarrow> gerror option \<times> Cluster \<times> history" where
  "UpdateCluster X reconcileError s cluster conds h =
     (let status = (c_Status cluster)\<lparr>st_Conditions :=
                      status_conditions (st_Type (c_Status cluster)) conds\<rparr>
      in case reconcileError of
           Some e \<Rightarrow>
             let status1 = (if st_State status = ClusterStateReady
                            then status\<lparr>st_State := ClusterStateFailed\<rparr> else status);
                 cluster1 = cluster\<lparr>c_Status := status1\<lparr>st_Message := x_Error X e\<rparr>\<rparr>;
                 h1 = snd (UpdateClusterStatus X s cluster1 h)
             in (if IsPermanent e then None else Some e, cluster1, h1)
         | None \<Rightarrow>
             let cluster1 = cluster\<lparr>c_Status := status\<rparr> in
             case UpdateClusterStatus X s cluster1 h of
               (Some e, h1) \<Rightarrow> (Some (x_WithStackIf X e), cluster1, h1)
             | (None, h1) \<Rightarrow> (None, cluster1, h1))"

subsection \<open>Properties\<close>

lemma clusters_loop_sound:
  "clusters_loop cs m i = Some c \<Longrightarrow> m i = Some c \<or> c \<in> set cs \<and> sp_ClusterID (c_Spec c) = i"
  by (induction cs arbitrary: m) (fastforce split: if_splits)+

lemma GetClusters_sound:
  assumes "GetClusters X s h = (Inr m, h')" and "m i = Some c"
  shows "sp_ClusterID (c_Spec c) = i"
  using assms clusters_loop_sound [of _ Map.empty i c]
  by (auto simp: GetClusters_def split: sum.splits prod.splits)

lemma GetClusters_history: "snd (GetClusters X s h) = h @ [ListClusters s]"
  by (simp add: GetClusters_def listClusters_def split: sum.split)

text \<open>Some status update among the calls made since \<open>h\<close> was accepted, and carried this status.\<close>

definition status_written :: "ext \<Rightarrow> site \<Rightarrow> Cluster \<Rightarrow> history \<Rightarrow> history \<Rightarrow> bool" where
  "status_written X s cluster h h' \<longleftrightarrow>
     (\<exists>h1 v. h' = h1 @ [UpdateClusterStatusCall s (cluster\<lparr>m_ResourceVersion := v\<rparr>)] \<and>
        extends (\<lambda>_. True) h h1 \<and>
        x_UpdateClusterStatus X h1 s (cluster\<lparr>m_ResourceVersion := v\<rparr>) = None)"

lemma UpdateClusterStatus_written:
  assumes "UpdateClusterStatus X s cluster h = (None, h')"
  shows "status_written X s cluster h h'"
proof (cases "x_UpdateClusterStatus X h s cluster")
  case None
  then have "h' = h @ [UpdateClusterStatusCall s (cluster\<lparr>m_ResourceVersion := m_ResourceVersion cluster\<rparr>)]"
    using assms by (simp add: UpdateClusterStatus_def updateClusterStatusCall_def)
  with None show ?thesis
    unfolding status_written_def
    by (intro exI [of _ h] exI [of _ "m_ResourceVersion cluster"]) simp
next
  case (Some e)
  let ?n = "\<lparr>nn_Name = m_Name cluster, nn_Namespace = ''''\<rparr>"
  let ?h1 = "h @ [UpdateClusterStatusCall s cluster, GetCluster s ?n]"
  have conf: "x_IsConflict X e"
    using assms Some by (simp add: UpdateClusterStatus_def updateClusterStatusCall_def split: if_splits)
  show ?thesis
  proof (cases "x_GetCluster X (h @ [UpdateClusterStatusCall s cluster]) s ?n")
    case (Inl e2)
    then show ?thesis
      using assms Some conf by (simp add: UpdateClusterStatus_def updateClusterStatusCall_def getCluster_def)
  next
    case (Inr cur)
    let ?c = "cluster\<lparr>m_ResourceVersion := m_ResourceVersion cur\<rparr>"
    have "x_UpdateClusterStatus X ?h1 s ?c = None \<and> h' = ?h1 @ [UpdateClusterStatusCall s ?c]"
      using assms Some conf Inr
      by (simp add: UpdateClusterStatus_def updateClusterStatusCall_def getCluster_def split: option.splits)
    then show ?thesis
      unfolding status_written_def
      by (intro exI [of _ ?h1] exI [of _ "m_ResourceVersion cur"]) simp
  qed
qed

lemma UpdateClusterStatus_calls:
  "extends (\<lambda>c. case c of UpdateClusterStatusCall s' c' \<Rightarrow> s' = s \<and> c_Status c' = c_Status cluster
      \<and> m_Name c' = m_Name cluster | GetCluster s' n \<Rightarrow> s' = s | _ \<Rightarrow> False)
     h (snd (UpdateClusterStatus X s cluster h))"
  by (auto simp: UpdateClusterStatus_def updateClusterStatusCall_def getCluster_def extends_def
      split: option.split sum.split)

lemma status_conditions_eq:
  "status_conditions type m =
     filter (\<lambda>c. \<not> (type = ClusterTypeLocal \<and> cc_Type c = ClusterConditionTypeClustersSynced)) (map snd m)"
  by (induction m) auto

lemma UpdateClusterStatus_first:
  "\<exists>cs. snd (UpdateClusterStatus X s cluster h) = h @ UpdateClusterStatusCall s cluster # cs"
  by (simp add: UpdateClusterStatus_def updateClusterStatusCall_def getCluster_def split: option.split sum.split)

text \<open>
  C38. UpdateCluster sends the API server a status with the current conditions, except that a
  local cluster never carries the ClustersSynced condition; whatever it sends after that, when
  the server reports a conflict, has the same status. Given an error, this status has the
  error's text, the state Ready is turned into Failed and any other state left alone; the error
  is returned, unless it is permanent, in which case none is and the reconcile is not retried,
  whether or not the server accepted the status. Given none, none is returned only if the server
  accepted the status.
\<close>

theorem UpdateCluster_spec:
  assumes "UpdateCluster X err s cluster conds h = (res, cluster', h')"
  shows "st_Conditions (c_Status cluster') =
       filter (\<lambda>c. \<not> (st_Type (c_Status cluster) = ClusterTypeLocal \<and>
                       cc_Type c = ClusterConditionTypeClustersSynced)) (map snd conds)
    \<and> (\<exists>cs. h' = h @ UpdateClusterStatusCall s cluster' # cs)
    \<and> extends (\<lambda>c. case c of UpdateClusterStatusCall s' d \<Rightarrow> s' = s \<and> c_Status d = c_Status cluster'
        \<and> m_Name d = m_Name cluster' | GetCluster s' n \<Rightarrow> s' = s | _ \<Rightarrow> False) h h'
    \<and> (case err of
         Some e \<Rightarrow> res = (if IsPermanent e then None else Some e) \<and>
           st_Message (c_Status cluster') = x_Error X e \<and>
           st_State (c_Status cluster') =
             (if st_State (c_Status cluster) = ClusterStateReady then ClusterStateFailed
              else st_State (c_Status cluster))
       | None \<Rightarrow> st_State (c_Status cluster') = st_State (c_Status cluster) \<and>
           (res = None \<longrightarrow> status_written X s cluster' h h'))"
proof -
  let ?st = "(c_Status cluster)\<lparr>st_Conditions := status_conditions (st_Type (c_Status cluster)) conds\<rparr>"
  have h': "h' = snd (UpdateClusterStatus X s cluster' h)"
    using assms by (auto simp: UpdateCluster_def Let_def split: option.splits prod.splits)
  note calls = UpdateClusterStatus_first [of X s cluster' h] UpdateClusterStatus_calls [of s cluster' h X]
  show ?thesis
  proof (cases err)
    case None
    obtain e h1 where u: "UpdateClusterStatus X s (cluster\<lparr>c_Status := ?st\<rparr>) h = (e, h1)" by fastforce
    with None assms have "cluster' = cluster\<lparr>c_Status := ?st\<rparr>" "h' = h1" "res = map_option (x_WithStackIf X) e"
      by (auto simp: UpdateCluster_def Let_def split: option.splits)
    with None u UpdateClusterStatus_written calls show ?thesis unfolding h' by (auto simp: status_conditions_eq)
  next
    case (Some e)
    with assms calls show ?thesis unfolding h' by (auto simp: UpdateCluster_def Let_def status_conditions_eq)
  qed
qed

definition sample_cluster :: Cluster where
  "sample_cluster =
     \<lparr>m_Name = ''demo'', m_Namespace = '''', m_Labels = Map.empty, m_Annotations = Map.empty,
      m_UID = ''uid-2'', m_ResourceVersion = ''3'', m_Generation = 1, m_SelfLink = '''',
      m_CreationTimestamp = 5, m_DeletionTimestamp = 0, m_Finalizers = [], m_OwnerReferences = [],
      m_ManagedFields = [],
      c_Spec = \<lparr>sp_ClusterID = ''id-demo'', sp_SecretRef = \<lparr>nn_Name = ''demo'', nn_Namespace = ''reg''\<rparr>,
        sp_KubernetesAPIEndpoints = []\<rparr>,
      c_Status = \<lparr>st_State = ClusterStateReady, st_Message = '''', st_Type = ClusterTypePeer,
        st_Leader = False, st_ClusterMetadata = ClusterMetadata_zero, st_Conditions = []\<rparr>\<rparr>"

theorem UpdateCluster_spec_witness:
  "\<exists>c h. UpdateCluster sample_ext (Some (WrapAsPermanentError ErrInvalidSecret)) LocalSite sample_cluster [] []
      = (None, c, h) \<and> UpdateClusterStatusCall LocalSite c \<in> set h \<and> st_State (c_Status c) = ClusterStateFailed"
proof -
  obtain r c h where u: "UpdateCluster sample_ext (Some (WrapAsPermanentError ErrInvalidSecret)) LocalSite
      sample_cluster [] [] = (r, c, h)" by (metis prod.collapse)
  from UpdateCluster_spec [OF u] have "r = None" "UpdateClusterStatusCall LocalSite c \<in> set h"
    "st_State (c_Status c) = ClusterStateFailed"
    by (auto simp: WrapAsPermanentError_def) (simp add: sample_cluster_def)
  with u show ?thesis by simp
qed

end
