(* ===== verification/SyncReconciler.thy ===== *)
theory SyncReconciler
  imports SyncPolicy Common
begin

text \<open>
  The sync reconciler, second part: the mutation of an object, the deletion of a local copy and
  the reconcile function itself, with the overlay templates of src/pkg/util. A reconcile
  changes the reconciler's flags and the call history; it returns them with its result.
\<close>

subsection \<open>Overlay templates (overlaypatchtemplate.go)\<close>

definition K8SResourceOverlayPatchExecuteTemplate ::
  "ext \<Rightarrow> K8SResourceOverlayPatch \<Rightarrow> k8s_object \<Rightarrow> Cluster \<Rightarrow> Cluster \<Rightarrow> K8SResourceOverlayPatch result" where
  "K8SResourceOverlayPatchExecuteTemplate X p ob c lc =
     (case x_Template X (x_PointerToString X (op_Value p)) ob c lc of
        Inl e \<Rightarrow> Inl e
      | Inr v \<Rightarrow> Inr (p\<lparr>op_Value := Some v\<rparr>))"

fun overlay_loop ::
  "ext \<Rightarrow> K8SResourceOverlayPatch list \<Rightarrow> k8s_object \<Rightarrow> Cluster \<Rightarrow> Cluster \<Rightarrow> K8SResourceOverlayPatch list
    \<Rightarrow> K8SResourceOverlayPatch list result" where
  "overlay_loop X [] ob c lc acc = Inr acc"
| "overlay_loop X (p # ps) ob c lc acc =
     (case K8SResourceOverlayPatchExecuteTemplate X p ob c lc of
        Inl e \<Rightarrow> Inl e
      | Inr p' \<Rightarrow> overlay_loop X ps ob c lc (acc @ [p']))"

definition K8SResourceOverlayPatchExecuteTemplates ::
  "ext \<Rightarrow> K8SResourceOverlayPatch list \<Rightarrow> k8s_object \<Rightarrow> Cluster \<Rightarrow> Cluster
    \<Rightarrow> K8SResourceOverlayPatch list result" where
  "K8SResourceOverlayPatchExecuteTemplates X ps ob c lc = overlay_loop X ps ob c lc []"

subsection \<open>Mutating an object\<close>

definition initObjectFromGVK :: "ext \<Rightarrow> GroupVersionKind \<Rightarrow> k8s_object" where
  "initObjectFromGVK X g =
     (case x_SchemeNew X g of Inl e \<Rightarrow> object_zero\<lparr>o_GVK := g\<rparr> | Inr ob \<Rightarrow> ob)"

definition mutated_annotations :: "syncReconciler \<Rightarrow> MatchedRules \<Rightarrow> strmap \<Rightarrow> strmap" where
  "mutated_annotations r rules a =
     (let a1 = a ++ am_Add (GetMutationAnnotations rules);
          a2 = mdelete_all a1 (am_Remove (GetMutationAnnotations rules))
      in if mget a2 OwnershipAnnotation = '''' then a2(OwnershipAnnotation \<mapsto> s_clusterID r) else a2)"

definition mutated_labels :: "syncReconciler \<Rightarrow> MatchedRules \<Rightarrow> strmap \<Rightarrow> strmap" where
  "mutated_labels r rules l =
     (let l1 = l ++ lm_Add (GetMutationLabels rules);
          l2 = mdelete_all l1 (lm_Remove (GetMutationLabels rules))
      in if mget l2 OwnershipAnnotation = '''' then l2(OwnershipAnnotation \<mapsto> s_clusterID r) else l2)"

text \<open>The annotations other tools keep for themselves; they are not carried over.\<close>

definition foreign_annotations :: "ext \<Rightarrow> string list" where
  "foreign_annotations X = [x_BanzaiCloudManagedComponent X, x_BanzaiCloudRelatedTo X,
     x_LastAppliedConfig X, x_LastAppliedConfigAnnotation X]"

definition mutate_metadata :: "ext \<Rightarrow> syncReconciler \<Rightarrow> k8s_object \<Rightarrow> MatchedRules \<Rightarrow> k8s_object" where
  "mutate_metadata X r current rules =
     (let a = mutated_annotations r rules (m_Annotations current);
          (mutated, g) = GetMutatedGVK rules (o_GVK current);
          a1 = (if mutated then a(OriginalGVKAnnotation \<mapsto> GVKToString (o_GVK current)) else a)
      in current\<lparr>o_GVK := (if mutated then g else o_GVK current),
           m_Annotations := mdelete_all a1 (foreign_annotations X),
           m_Labels := mutated_labels r rules (m_Labels current),
           m_Generation := 0, m_ResourceVersion := '''', m_UID := '''', m_SelfLink := '''',
           m_CreationTimestamp := 0, m_Finalizers := [], m_OwnerReferences := [],
           m_ManagedFields := []\<rparr>)"

definition apply_overrides ::
  "ext \<Rightarrow> syncReconciler \<Rightarrow> k8s_object \<Rightarrow> k8s_object \<Rightarrow> K8SResourceOverlayPatch list \<Rightarrow> history
    \<Rightarrow> k8s_object result \<times> history" where
  "apply_overrides X r current ob patches h =
     (if 0 < length patches
      then case GetClusters X LocalSite h of
          (Inl e, h1) \<Rightarrow> (Inl (x_WrapIf X e ''could not get clusters''), h1)
        | (Inr cs, h1) \<Rightarrow>
            (case cs (s_localClusterID r) of
               None \<Rightarrow> (Inl (ErrorString ''could not find local cluster by id''), h1)
             | Some localCluster \<Rightarrow>
                 let synced = (case m_Annotations current OwnershipAnnotation of
                                 Some i \<Rightarrow> i | None \<Rightarrow> s_clusterID r)
                 in case cs synced of
                     None \<Rightarrow> (Inl (ErrorString ''could not find synced cluster by id''), h1)
                   | Some syncedCluster \<Rightarrow>
                       (case K8SResourceOverlayPatchExecuteTemplates X patches ob syncedCluster localCluster of
                          Inl e \<Rightarrow> (Inl (x_WrapIf X e ''could not execute templates on patches''), h1)
                        | Inr ps \<Rightarrow>
                            (case x_PatchYAMLModifier X (x_ConvertGVK X (o_GVK ob)) ps of
                               Inl e \<Rightarrow> (Inl (x_WrapIf X e ''could not get patch func for object''), h1)
                             | Inr patchFunc \<Rightarrow>
                                 (case patchFunc ob of
                                    Inl e \<Rightarrow> (Inl (x_WrapIf X e ''could not patch object''), h1)
                                  | Inr None \<Rightarrow> (Inl (ErrorString ''invalid object''), h1)
                                  | Inr (Some ob') \<Rightarrow> (Inr ob', h1)))))
      else (Inr ob, h))"

definition record_original ::
  "syncReconciler \<Rightarrow> k8s_object \<Rightarrow> k8s_object \<Rightarrow> syncReconciler \<times> k8s_object" where
  "record_original r current ob =
     (let (r1, ob1) =
            (if m_Name current \<noteq> m_Name ob
             then (r\<lparr>s_resourceNameMutated := True\<rparr>,
                   ob\<lparr>m_Labels := (m_Labels ob)(originalNameLabel \<mapsto> m_Name current)\<rparr>)
             else (r, ob))
      in if m_Namespace current \<noteq> m_Namespace ob1
         then (r1\<lparr>s_resourceNamespaceMutated := True\<rparr>,
               ob1\<lparr>m_Labels := (m_Labels ob1)(originalNamespaceLabel \<mapsto> m_Namespace current)\<rparr>)
         else (r1, ob1))"

definition mutateObject ::
  "ext \<Rightarrow> syncReconciler \<Rightarrow> k8s_object \<Rightarrow> MatchedRules \<Rightarrow> history
    \<Rightarrow> k8s_object result \<times> syncReconciler \<times> history" where
  "mutateObject X r current rules h =
     (let ob = mutate_metadata X r current rules in
      case apply_overrides X r current ob (GetMutationOverrides rules) h of
        (Inl e, h1) \<Rightarrow> (Inl e, r, h1)
      | (Inr ob1, h1) \<Rightarrow> let (r1, ob2) = record_original r current ob1 in (Inr ob2, r1, h1))"

subsection \<open>Deleting the local copy\<close>

definition getObjectByOriginalNamespaceAndName ::
  "ext \<Rightarrow> syncReconciler \<Rightarrow> k8s_object \<Rightarrow> GroupVersionKind \<Rightarrow> history
    \<Rightarrow> k8s_object option result \<times> history" where
  "getObjectByOriginalNamespaceAndName X r ob g h =
     (case listObjects X LocalSite (g\<lparr>gvk_Kind := gvk_Kind g @ ''List''\<rparr>) (original_namespace ob)
             [(originalNameLabel, original_name ob), (OwnershipAnnotation, s_clusterID r)] h of
        (Inl e, h1) \<Rightarrow> (Inl e, h1)
      | (Inr items, h1) \<Rightarrow>
          if length items > 1 then (Inl (ErrorString ''multiple renamed objects were found''), h1)
          else if length items = 1 then (Inr (Some (items ! 0)), h1)
          else (Inr None, h1))"

text \<open>The two checks on the owner of the object that is about to be deleted.\<close>

definition delete_guard :: "syncReconciler \<Rightarrow> Manager \<Rightarrow> k8s_object \<Rightarrow> bool" where
  "delete_guard r m current =
     (if owner_of current = '''' then False
      else if isOwnedByAnotherAliveCluster r m (owner_of current) then False
      else True)"

definition delete_found ::
  "ext \<Rightarrow> syncReconciler \<Rightarrow> (history \<Rightarrow> Manager) \<Rightarrow> k8s_object \<Rightarrow> history \<Rightarrow> gerror option \<times> history" where
  "delete_found X r mgr current h =
     (if \<not> delete_guard r (mgr h) current then (None, h)
      else case deleteObject X LocalSite current h of
          (None, h1) \<Rightarrow> (None, h1)
        | (Some e, h1) \<Rightarrow> (if \<not> x_IsNotFound X e then Some e else None, h1))"

definition deleteResource ::
  "ext \<Rightarrow> syncReconciler \<Rightarrow> (history \<Rightarrow> Manager) \<Rightarrow> k8s_object \<Rightarrow> history \<Rightarrow> gerror option \<times> history" where
  "deleteResource X r mgr ob h =
     (let object = (if s_gvk r \<noteq> s_localGVK r then ob\<lparr>o_GVK := s_localGVK r\<rparr> else ob) in
      if s_resourceNamespaceMutated r \<or> s_resourceNameMutated r
      then case getObjectByOriginalNamespaceAndName X r ob (o_GVK object) h of
          (Inl e, h1) \<Rightarrow> (Some e, h1)
        | (Inr (Some current), h1) \<Rightarrow> delete_found X r mgr current h1
        | (Inr None, h1) \<Rightarrow> (None, h1)
      else case getObject X LocalSite object
                  \<lparr>nn_Name = m_Name ob, nn_Namespace = m_Namespace ob\<rparr> h of
          (Inl e, h1) \<Rightarrow> (if x_IsNotFound X e then (None, h1) else (Some e, h1))
        | (Inr current, h1) \<Rightarrow> delete_found X r mgr current h1)"

subsection \<open>Reconcile\<close>

record Result =
  res_Requeue :: bool
  res_RequeueAfter :: int

definition result_zero :: Result where
  "result_zero = \<lparr>res_Requeue = False, res_RequeueAfter = 0\<rparr>"

text \<open>The check that the target namespace exists locally: the early result, if there is one.\<close>

definition check_namespace ::
  "ext \<Rightarrow> NamespacedName \<Rightarrow> k8s_object \<Rightarrow> history \<Rightarrow> (Result \<times> gerror option) option \<times> history" where
  "check_namespace X req ob h =
     (if m_Namespace ob \<noteq> ''''
      then case getNamespace X LocalSite (m_Namespace ob) h of
          (Inr _, h1) \<Rightarrow> (None, h1)
        | (Inl e, h1) \<Rightarrow>
            if \<not> x_IsNotFound X e then (Some (result_zero, Some e), h1)
            else (Some (\<lparr>res_Requeue = False, res_RequeueAfter = 30\<rparr>, None),
                  recordEvent EventTypeWarning ''ObjectNotReconciledMissingNamespace''
                    (''could not reconcile (resource: '' @ x_RequestString X req @ '', localResource: '' @
                     x_RequestString X \<lparr>nn_Name = m_Name ob, nn_Namespace = m_Namespace ob\<rparr> @
                     ''): namespace does not exists locally'') h1)
      else (None, h))"

definition check_rate ::
  "ext \<Rightarrow> syncReconciler \<Rightarrow> NamespacedName \<Rightarrow> history \<Rightarrow> (Result \<times> gerror option) option \<times> history" where
  "check_rate X r req h =
     (if s_rateLimiter r
      then case rateLimit X (x_RequestString X req) h of
          (Inl e, h1) \<Rightarrow> (Some (result_zero, Some (x_WrapIf X e ''could not rate limit'')), h1)
        | (Inr limited, h1) \<Rightarrow>
            if limited
            then (Some (\<lparr>res_Requeue = False, res_RequeueAfter = 30\<rparr>, None),
                  recordEvent EventTypeWarning ''ObjectReconcileRateLimited''
                    (''ratelimited, too frequent reconciles were happening for this object (resource: '' @
                     x_RequestString X req @ '')'') h1)
            else (None, h1)
      else (None, h))"

definition sync_status ::
  "ext \<Rightarrow> syncReconciler \<Rightarrow> NamespacedName \<Rightarrow> MatchedRules \<Rightarrow> k8s_object \<Rightarrow> k8s_object \<Rightarrow> history
    \<Rightarrow> (Result \<times> gerror option) \<times> history" where
  "sync_status X r req rules desired ob h =
     (let (err, h1) =
        (if GetMutationSyncStatus rules
         then updateObjectStatus X LocalSite (desired\<lparr>m_ResourceVersion := m_ResourceVersion ob\<rparr>) h
         else (None, h))
      in case err of
           Some e \<Rightarrow> ((result_zero, Some (x_WrapIf X e ''could not update object status'')), h1)
         | None \<Rightarrow>
             ((result_zero, None),
              if m_UID (s_rule r) \<noteq> ''''
              then recordEvent EventTypeNormal ''ObjectReconciled''
                     (''object reconciled (resource: '' @ x_RequestString X req @ '')'') h1
              else h1))"

definition apply_object ::
  "ext \<Rightarrow> syncReconciler \<Rightarrow> (history \<Rightarrow> Manager) \<Rightarrow> NamespacedName \<Rightarrow> MatchedRules \<Rightarrow> k8s_object
    \<Rightarrow> history \<Rightarrow> (Result \<times> gerror option) \<times> history" where
  "apply_object X r mgr req rules ob h =
     (case x_ReconcileResource X (getObjectDesiredState X r mgr) ob h of
        (Some e, h1) \<Rightarrow>
          if x_IsAlreadyExists X (x_Cause X e)
          then ((\<lparr>res_Requeue = True, res_RequeueAfter = 0\<rparr>, None), h1)
          else ((result_zero, Some (x_WrapIf X e ''could not reconcile object'')), h1)
      | (None, h1) \<Rightarrow>
          (case getObject X LocalSite ob \<lparr>nn_Name = m_Name ob, nn_Namespace = m_Namespace ob\<rparr> h1 of
             (Inl e, h2) \<Rightarrow>
               if x_IsNotFound X e then ((result_zero, None), h2)
               else ((result_zero, Some (x_WrapIf X e ''could not get object'')), h2)
           | (Inr cur, h2) \<Rightarrow> sync_status X r req rules ob cur h2))"

definition sync_matched ::
  "ext \<Rightarrow> syncReconciler \<Rightarrow> (history \<Rightarrow> Manager) \<Rightarrow> NamespacedName \<Rightarrow> MatchedRules \<Rightarrow> k8s_object
    \<Rightarrow> history \<Rightarrow> (Result \<times> gerror option) \<times> syncReconciler \<times> history" where
  "sync_matched X r mgr req rules ob h =
     (case mutateObject X r ob rules h of
        (Inl e, r1, h1) \<Rightarrow> ((result_zero, Some (x_WrapIf X e ''could not mutate object'')), r1, h1)
      | (Inr ob1, r1, h1) \<Rightarrow>
          (case check_namespace X req ob1 h1 of
             (Some res, h2) \<Rightarrow> (res, r1, h2)
           | (None, h2) \<Rightarrow>
               (case check_rate X r1 req h2 of
                  (Some res, h3) \<Rightarrow> (res, r1, h3)
                | (None, h3) \<Rightarrow>
                    let (res, h4) = apply_object X r1 mgr req rules ob1 h3 in (res, r1, h4))))"

text \<open>The object that is filled in by the first read of a reconcile.\<close>

definition requested_object :: "ext \<Rightarrow> syncReconciler \<Rightarrow> NamespacedName \<Rightarrow> k8s_object" where
  "requested_object X r req =
     (initObjectFromGVK X (s_gvk r))\<lparr>m_Name := nn_Name req, m_Namespace := nn_Namespace req\<rparr>"

definition sync_reconcile ::
  "ext \<Rightarrow> syncReconciler \<Rightarrow> (history \<Rightarrow> Manager) \<Rightarrow> NamespacedName \<Rightarrow> history
    \<Rightarrow> (Result \<times> gerror option) \<times> syncReconciler \<times> history" where
  "sync_reconcile X r mgr req h =
     (let blank = requested_object X r req in
      case getObject X (s_client r) blank req h of
        (Inl e, h1) \<Rightarrow>
          if x_IsNotFound X e
          then let (err, h2) = deleteResource X r mgr blank h1 in ((result_zero, err), r, h2)
          else ((result_zero, Some (x_WrapIf X e ''could not get object'')), r, h1)
      | (Inr ob, h1) \<Rightarrow>
          if m_DeletionTimestamp ob \<noteq> 0
          then let (err, h2) = deleteResource X r mgr ob h1 in ((result_zero, err), r, h2)
          else case ResourceSyncRule_Match X (s_rule r) ob of
              (ok, rules, err) \<Rightarrow>
                if \<not> ok then ((result_zero, None), r, h1)
                else (case err of
                        Some e \<Rightarrow> ((result_zero, Some (x_WrapIf X e ''could not match object'')), r, h1)
                      | None \<Rightarrow> sync_matched X r mgr req rules ob h1))"

definition sync_Reconcile ::
  "ext \<Rightarrow> syncReconciler \<Rightarrow> (history \<Rightarrow> Manager) \<Rightarrow> NamespacedName \<Rightarrow> history
    \<Rightarrow> (Result \<times> gerror option) \<times> syncReconciler \<times> history" where
  "sync_Reconcile X r mgr req h =
     (case sync_reconcile X r mgr req h of
        ((res, Some e), r1, h1) \<Rightarrow>
          ((res, Some e), r1,
           recordEvent EventTypeWarning ''ObjectNotReconciled''
             (''could not reconcile (resource: '' @ x_RequestString X req @ ''): '' @ x_Error X e) h1)
      | ((res, None), r1, h1) \<Rightarrow> ((res, None), r1, h1))"

subsection \<open>Start\<close>

definition initLocalInformer ::
  "ext \<Rightarrow> syncReconciler \<Rightarrow> k8s_object \<Rightarrow> history \<Rightarrow> gerror option \<times> syncReconciler \<times> history" where
  "initLocalInformer X r ob h =
     (let key = x_GVKString X (o_GVK ob) in
      if key \<in> set (s_localInformers r) then (None, r, h)
      else case x_GetInformer X h key of
          Some e \<Rightarrow> (Some (x_WrapIf X e ''could not create local informer for clusters''), r, h @ [InitInformer key])
        | None \<Rightarrow>
            (case x_Watch X (h @ [InitInformer key]) key of
               Some e \<Rightarrow> (Some (x_WrapIf X e ''could not create watch for local informer''), r, h @ [InitInformer key])
             | None \<Rightarrow> (None, r\<lparr>s_localInformers := key # s_localInformers r\<rparr>, h @ [InitInformer key])))"

definition sync_Start ::
  "ext \<Rightarrow> syncReconciler \<Rightarrow> history \<Rightarrow> gerror option \<times> syncReconciler \<times> history" where
  "sync_Start X r h =
     (let (err, r1, h1) =
        (if s_localClusterID r = ''''
         then case GetClusterID X LocalSite h of
             (Inl e, h1) \<Rightarrow> (Some (x_WrapIf X e ''could not get local cluster id''), r, h1)
           | (Inr i, h1) \<Rightarrow> (None, r\<lparr>s_localClusterID := i\<rparr>, h1)
         else (None, r, h))
      in case err of
           Some e \<Rightarrow> (Some e, r1, h1)
         | None \<Rightarrow>
             let g = snd (GetMutatedGVK (rs_Rules (rsr_Spec (s_rule r1))) (rs_GVK (rsr_Spec (s_rule r1)))) in
             (case initLocalInformer X r1 (initObjectFromGVK X g) h1 of
                (Some e, r2, h2) \<Rightarrow> (Some (x_WithStackIf X e), r2, h2)
              | (None, r2, h2) \<Rightarrow> (None, r2, h2)))"

definition sync_setQueue :: "bool \<Rightarrow> syncReconciler \<Rightarrow> syncReconciler" where
  "sync_setQueue q r = r\<lparr>s_queue := q\<rparr>"

definition GetRule :: "syncReconciler \<Rightarrow> ResourceSyncRule" where
  "GetRule r = s_rule r"

end
