(* ===== verification/Mutation.thy ===== *)
theory Mutation
  imports SyncReconciler
begin

text \<open>
  What mutateObject (src/controllers/sync\_reconciler.go) makes of an object: the owner it is
  marked with, the metadata it loses, and the traces it keeps of its original type, name and
  namespace.
\<close>

text \<open>The annotation keys of other tools are none of the registry's own.\<close>

definition foreign_keys_differ :: "ext \<Rightarrow> bool" where
  "foreign_keys_differ X \<longleftrightarrow>
     OwnershipAnnotation \<notin> set (foreign_annotations X) \<and>
     SyncDisabledAnnotation \<notin> set (foreign_annotations X) \<and>
     OriginalGVKAnnotation \<notin> set (foreign_annotations X)"

lemma foreign_keys_last_applied:
  "foreign_keys_differ X \<Longrightarrow> OwnershipAnnotation \<noteq> x_LastAppliedConfig X"
  "foreign_keys_differ X \<Longrightarrow> SyncDisabledAnnotation \<noteq> x_LastAppliedConfig X"
  by (auto simp: foreign_keys_differ_def foreign_annotations_def)

text \<open>No matched rule adds or removes the annotation.\<close>

definition annotation_untouched :: "MatchedRules \<Rightarrow> string \<Rightarrow> bool" where
  "annotation_untouched rules k \<longleftrightarrow>
     list_all (\<lambda>r. am_Add (Mutations_GetAnnotations (sr_Mutations r)) k = None \<and>
                   k \<notin> set (am_Remove (Mutations_GetAnnotations (sr_Mutations r)))) rules"

lemma annotation_untouched_mutations:
  assumes "annotation_untouched rules k"
  shows "am_Add (GetMutationAnnotations rules) k = None"
    and "k \<notin> set (am_Remove (GetMutationAnnotations rules))"
  using assms
  by (auto simp: annotation_untouched_def list_all_iff GetMutationAnnotations_Add_None
      GetMutationAnnotations_Remove)

lemma mutated_gvk_loop_unmutated: "\<not> fst (mutated_gvk_loop rs b g) \<Longrightarrow> snd (mutated_gvk_loop rs b g) = g"
proof (induction rs arbitrary: b g)
  case (Cons r rs)
  have "fst (mutated_gvk_loop rs True g')" for g'
    by (simp add: mutated_gvk_loop_eq)
  with Cons show ?case by (auto simp: Let_def split: if_splits)
qed simp

lemma mutate_metadata_fields [simp]:
  "m_Name (mutate_metadata X r cur rules) = m_Name cur"
  "m_Namespace (mutate_metadata X r cur rules) = m_Namespace cur"
  "m_DeletionTimestamp (mutate_metadata X r cur rules) = m_DeletionTimestamp cur"
  "o_Rest (mutate_metadata X r cur rules) = o_Rest cur"
  "o_GVK (mutate_metadata X r cur rules) = snd (GetMutatedGVK rules (o_GVK cur))"
  using mutated_gvk_loop_unmutated [of rules False "o_GVK cur"]
  by (auto simp: mutate_metadata_def Let_def split_beta GetMutatedGVK_def)

lemma mutate_metadata_annotation:
  "m_Annotations (mutate_metadata X r cur rules) k =
     (if k \<in> set (foreign_annotations X) then None
      else if k = OriginalGVKAnnotation \<and> fst (GetMutatedGVK rules (o_GVK cur))
      then Some (GVKToString (o_GVK cur))
      else mutated_annotations r rules (m_Annotations cur) k)"
  by (simp add: mutate_metadata_def Let_def split_beta)

lemma mutated_annotations_untouched:
  assumes "annotation_untouched rules k" and "k \<noteq> OwnershipAnnotation"
  shows "mutated_annotations r rules a k = a k"
  using assms annotation_untouched_mutations [OF assms(1)]
  by (simp add: mutated_annotations_def Let_def)

lemma mutated_annotations_owner:
  assumes "annotation_untouched rules OwnershipAnnotation"
  shows "mutated_annotations r rules a OwnershipAnnotation =
     (if mget a OwnershipAnnotation = '''' then Some (s_clusterID r) else a OwnershipAnnotation)"
  using annotation_untouched_mutations [OF assms]
  by (simp add: mutated_annotations_def Let_def mget_map_add)

lemma mutate_metadata_owner:
  assumes "foreign_keys_differ X" and "annotation_untouched rules OwnershipAnnotation"
  shows "owner_of (mutate_metadata X r cur rules) = (if owner_of cur = '''' then s_clusterID r else owner_of cur)"
  using assms mutated_annotations_owner [OF assms(2), of r "m_Annotations cur"]
  by (auto simp: owner_of_def mget_def mutate_metadata_annotation foreign_keys_differ_def split: option.split)

lemma mutateObject_no_overrides:
  assumes "GetMutationOverrides rules = []"
  shows "mutateObject X r cur rules h = (Inr (mutate_metadata X r cur rules), r, h)"
  using assms by (simp add: mutateObject_def apply_overrides_def record_original_def Let_def)

subsection \<open>Properties\<close>

text \<open>
  C10. A mutation without overlay patches always succeeds, calls no service, keeps name,
  namespace and content, drops the metadata the API server owns and the bookkeeping annotations
  of other tools, and, if no matched rule mentions the ownership annotation, marks the object
  with the cluster it was read from, unless it already carries an owner, which stays.
\<close>

theorem mutateObject_spec:
  assumes "GetMutationOverrides rules = []"
  shows "\<exists>ob. mutateObject X r cur rules h = (Inr ob, r, h) \<and>
    m_Name ob = m_Name cur \<and> m_Namespace ob = m_Namespace cur \<and> o_Rest ob = o_Rest cur \<and>
    m_UID ob = '''' \<and> m_ResourceVersion ob = '''' \<and> m_Generation ob = 0 \<and> m_CreationTimestamp ob = 0 \<and>
    m_Finalizers ob = [] \<and> m_OwnerReferences ob = [] \<and> m_ManagedFields ob = [] \<and>
    (\<forall>k \<in> set (foreign_annotations X). m_Annotations ob k = None) \<and>
    (foreign_keys_differ X \<longrightarrow> annotation_untouched rules OwnershipAnnotation \<longrightarrow>
       owner_of ob = (if owner_of cur = '''' then s_clusterID r else owner_of cur))"
proof (intro exI conjI impI ballI)
  let ?ob = "mutate_metadata X r cur rules"
  show "mutateObject X r cur rules h = (Inr ?ob, r, h)"
    using assms by (rule mutateObject_no_overrides)
  show "m_Annotations ?ob k = None" if "k \<in> set (foreign_annotations X)" for k
    using that by (simp add: mutate_metadata_annotation)
  show "owner_of ?ob = (if owner_of cur = '''' then s_clusterID r else owner_of cur)"
    if "foreign_keys_differ X" and "annotation_untouched rules OwnershipAnnotation"
    using that by (rule mutate_metadata_owner)
qed (simp_all add: mutate_metadata_def Let_def split_beta)

definition mutation_sync :: syncReconciler where
  "mutation_sync = \<lparr>s_client = RemoteSite ''peer'', s_gvk = gvk_zero, s_localGVK = gvk_zero,
     s_localClusterID = ''id-local'', s_rateLimiter = False, s_clusterID = ''id-peer'', s_queue = False,
     s_rule = \<lparr>m_Name = ''secrets'', m_Namespace = '''', m_Labels = Map.empty, m_Annotations = Map.empty,
       m_UID = ''uid-3'', m_ResourceVersion = ''1'', m_Generation = 1, m_SelfLink = '''',
       m_CreationTimestamp = 5, m_DeletionTimestamp = 0, m_Finalizers = [], m_OwnerReferences = [],
       m_ManagedFields = [], rsr_Spec = sample_spec\<rparr>,
     s_localInformers = [], s_resourceNameMutated = False, s_resourceNamespaceMutated = False\<rparr>"

lemma sample_keys [simp]: "foreign_keys_differ sample_ext"
  by (simp add: foreign_keys_differ_def foreign_annotations_def sample_ext_def annotation_defs)

lemma sample_rules [simp]:
  "GetMutationOverrides (rs_Rules sample_spec) = []" "annotation_untouched (rs_Rules sample_spec) k"
  by (simp_all add: sample_spec_def no_mutations_def annotation_untouched_def Mutations_GetAnnotations_def)

theorem mutateObject_spec_witness:
  "\<exists>ob. mutateObject sample_ext mutation_sync sample_object (rs_Rules sample_spec) [] = (Inr ob, mutation_sync, [])
     \<and> owner_of ob = ''id-peer''"
proof -
  from mutateObject_spec [OF sample_rules(1), of sample_ext mutation_sync sample_object "[]"]
  obtain ob where "mutateObject sample_ext mutation_sync sample_object (rs_Rules sample_spec) [] =
      (Inr ob, mutation_sync, [])"
    and "owner_of ob = (if owner_of sample_object = '''' then s_clusterID mutation_sync else owner_of sample_object)"
    by auto
  then show ?thesis by (simp add: owner_of_def sample_object_def mutation_sync_def)
qed

text \<open>
  The copies of copies of an object: a sync reconciler of some cluster mutates the object for its
  local cluster, and there it is stored, where the server and other tools may change everything
  but the ownership annotation. Neither the rules of a hop nor their overlay patches touch this
  annotation.
\<close>

inductive passed_on :: "ext \<Rightarrow> k8s_object \<Rightarrow> k8s_object \<Rightarrow> bool" for X where
  passed_here: "passed_on X ob ob"
| passed_stored: "passed_on X ob ob1 \<Longrightarrow> m_Annotations ob2 OwnershipAnnotation = m_Annotations ob1 OwnershipAnnotation
    \<Longrightarrow> passed_on X ob ob2"
| passed_hop: "passed_on X ob ob1 \<Longrightarrow> mutateObject X r ob1 rules h = (Inr ob2, r', h') \<Longrightarrow>
    annotation_untouched rules OwnershipAnnotation \<Longrightarrow>
    m_Annotations ob2 OwnershipAnnotation = m_Annotations (mutate_metadata X r ob1 rules) OwnershipAnnotation
    \<Longrightarrow> passed_on X ob ob2"

lemma same_owner: "m_Annotations b OwnershipAnnotation = m_Annotations a OwnershipAnnotation \<Longrightarrow> owner_of b = owner_of a"
  by (simp add: owner_of_def mget_def)

lemma passed_on_owner:
  assumes "passed_on X ob ob'" and "foreign_keys_differ X" and "owner_of ob \<noteq> ''''"
  shows "owner_of ob' = owner_of ob"
  using assms
proof induction
  case (passed_stored ob ob1 ob2)
  then show ?case using same_owner [of ob2 ob1] by simp
next
  case (passed_hop ob ob1 r rules h ob2 r' h')
  then show ?case
    using same_owner [of ob2 "mutate_metadata X r ob1 rules"] mutate_metadata_owner [of X rules r ob1] by simp
qed simp

text \<open>
  C9. However many clusters an object passes through, it stays marked with the cluster it came
  from first, and when it arrives back there, it is not created: the first cluster's
  reconcilers refuse it. This holds as long as neither a matched rule nor an overlay patch nor
  another writer changes the ownership annotation on the way.
\<close>

theorem no_sync_back:
  assumes "foreign_keys_differ X" and "owner_of ob = ''''" and "s_clusterID r \<noteq> ''''"
    and first: "mutateObject X r ob rules h = (Inr ob1, r', h')" "annotation_untouched rules OwnershipAnnotation"
      "m_Annotations ob1 OwnershipAnnotation = m_Annotations (mutate_metadata X r ob rules) OwnershipAnnotation"
    and later: "passed_on X ob1 ob2" and home: "s_localClusterID home = s_clusterID r"
  shows "owner_of ob2 = s_clusterID r \<and> ShouldCreateFunc X home m ob2 \<noteq> Inr True"
proof -
  have "owner_of ob1 = s_clusterID r"
    using same_owner [OF first(3)] mutate_metadata_owner [OF assms(1) first(2)] assms(2) by simp
  then have "owner_of ob2 = s_clusterID r" using passed_on_owner [OF later assms(1)] assms(3) by simp
  then show ?thesis using assms(3) home by (simp add: ShouldCreateFunc_def split: option.split)
qed

theorem no_sync_back_witness:
  "owner_of (mutate_metadata sample_ext (mutation_sync\<lparr>s_clusterID := ''id-mid''\<rparr>)
      (mutate_metadata sample_ext mutation_sync sample_object (rs_Rules sample_spec)) (rs_Rules sample_spec)) = ''id-peer''"
proof -
  let ?rules = "rs_Rules sample_spec" let ?mid = "mutation_sync\<lparr>s_clusterID := ''id-mid''\<rparr>"
  let ?ob1 = "mutate_metadata sample_ext mutation_sync sample_object ?rules"
  have p: "passed_on sample_ext ?ob1 (mutate_metadata sample_ext ?mid ?ob1 ?rules)"
    by (rule passed_hop [OF passed_here mutateObject_no_overrides [OF sample_rules(1)] sample_rules(2) refl])
  have "owner_of sample_object = ''''" "s_clusterID mutation_sync \<noteq> ''''" "s_clusterID mutation_sync = ''id-peer''"
    "s_localClusterID (mutation_sync\<lparr>s_localClusterID := ''id-peer''\<rparr>) = s_clusterID mutation_sync"
    by (simp_all add: owner_of_def sample_object_def mutation_sync_def)
  then show ?thesis
    using no_sync_back [OF sample_keys _ _ mutateObject_no_overrides [OF sample_rules(1)] sample_rules(2) refl p,
        of "mutation_sync\<lparr>s_localClusterID := ''id-peer''\<rparr>" "NewManager []"] by simp
qed

text \<open>
  C36. When the matched rules change the type of an object, the original type can be read back
  from the annotation the mutation leaves, for every type whose kind has no dot and whose
  group has no slash.
\<close>

theorem original_gvk_recoverable:
  assumes "foreign_keys_differ X" and "fst (GetMutatedGVK rules (o_GVK cur))"
    and "CHR ''.'' \<notin> set (gvk_Kind (o_GVK cur))" and "CHR ''/'' \<notin> set (gvk_Group (o_GVK cur))"
  shows "ParseGVKFromString (mget (m_Annotations (mutate_metadata X r cur rules)) OriginalGVKAnnotation)
     = Some (o_GVK cur)"
  using assms ParseGVK_GVKToString [of "o_GVK cur"]
  by (simp add: mget_def mutate_metadata_annotation foreign_keys_differ_def)

definition gvk_rule :: SyncRule where
  "gvk_rule = \<lparr>sr_Matches = [], sr_Mutations = no_mutations\<lparr>mu_GVK :=
     Some \<lparr>gvk_Group = ''example.com'', gvk_Version = '''', gvk_Kind = ''Copy''\<rparr>\<rparr>\<rparr>"

theorem original_gvk_recoverable_witness:
  "ParseGVKFromString (mget (m_Annotations (mutate_metadata sample_ext mutation_sync sample_object [gvk_rule]))
     OriginalGVKAnnotation) = Some (o_GVK sample_object)"
  by (rule original_gvk_recoverable)
    (simp_all add: GetMutatedGVK_def gvk_rule_def no_mutations_def Mutations_GetGVK_def gvk_Empty_def
      sample_object_def)

text \<open>
  C35. The request that the local informer makes from a synced copy names the object the copy was
  made from, also when overlay patches renamed it or moved it. A copy that is not renamed must
  not carry the original-name label, and one that is not moved not the original-namespace label,
  as a copy of a renamed or moved copy does.
\<close>

theorem local_request_roundtrip:
  assumes "mutateObject X r cur rules h = (Inr ob, r', h')"
    and "m_Name ob = m_Name cur \<Longrightarrow> m_Labels ob originalNameLabel = None"
    and "m_Namespace ob = m_Namespace cur \<Longrightarrow> m_Labels ob originalNamespaceLabel = None"
  shows "local_request ob = remote_request cur"
proof -
  from assms(1) obtain ob1 where ob: "record_original r cur ob1 = (r', ob)"
    by (auto simp: mutateObject_def Let_def split: prod.splits sum.splits)
  have "originalNameLabel \<noteq> originalNamespaceLabel"
    by (simp add: originalNameLabel_def originalNamespaceLabel_def)
  with ob assms(2,3) show ?thesis
    by (auto simp: record_original_def Let_def local_request_def remote_request_def original_name_def
        original_namespace_def split: if_splits)
qed

text \<open>A rule with a patch that renames and moves an object, between two clusters that are known locally.\<close>

definition moving_rule :: SyncRule where
  "moving_rule = \<lparr>sr_Matches = [], sr_Mutations = no_mutations\<lparr>mu_Overrides :=
     [\<lparr>op_Path = Some ''/metadata/name'', op_Type = ''replace'', op_Value = Some ''copy''\<rparr>]\<rparr>\<rparr>"

definition moving_ext :: ext where
  "moving_ext = sample_ext\<lparr>
     x_PatchYAMLModifier := \<lambda>_ _. Inr (\<lambda>ob. Inr (Some (ob\<lparr>m_Name := ''copy'', m_Namespace := ''elsewhere''\<rparr>))),
     x_ListClusters := \<lambda>_ _. Inr (map (\<lambda>i. sample_cluster\<lparr>c_Spec := (c_Spec sample_cluster)\<lparr>sp_ClusterID := i\<rparr>\<rparr>)
       [''id-local'', ''id-peer''])\<rparr>"

lemma moving_fields:
  "x_PatchYAMLModifier moving_ext g ps = Inr (\<lambda>ob. Inr (Some (ob\<lparr>m_Name := ''copy'', m_Namespace := ''elsewhere''\<rparr>)))"
  "x_Template moving_ext s ob c lc = Inr s"
  "fst (GetClusters moving_ext LocalSite h) = Inr [''id-local'' \<mapsto> sample_cluster\<lparr>c_Spec := (c_Spec sample_cluster)\<lparr>sp_ClusterID := ''id-local''\<rparr>\<rparr>,
     ''id-peer'' \<mapsto> sample_cluster\<lparr>c_Spec := (c_Spec sample_cluster)\<lparr>sp_ClusterID := ''id-peer''\<rparr>\<rparr>]"
  "GetMutationOverrides [moving_rule] \<noteq> []"
  by (simp_all add: moving_ext_def sample_ext_def GetClusters_def listClusters_def moving_rule_def)

lemma moving_overrides:
  "\<exists>h'. apply_overrides moving_ext mutation_sync sample_object ob (GetMutationOverrides [moving_rule]) h =
     (Inr (ob\<lparr>m_Name := ''copy'', m_Namespace := ''elsewhere''\<rparr>), h')"
proof -
  have t: "\<exists>qs. K8SResourceOverlayPatchExecuteTemplates moving_ext (GetMutationOverrides [moving_rule]) ob c lc = Inr qs" for c lc
    by (simp add: K8SResourceOverlayPatchExecuteTemplates_def K8SResourceOverlayPatchExecuteTemplate_def moving_rule_def
        moving_fields(2) Let_def)
  have n: "m_Annotations sample_object OwnershipAnnotation = None"
    "s_localClusterID mutation_sync = ''id-local''" "s_clusterID mutation_sync = ''id-peer''"
    by (simp_all add: sample_object_def mutation_sync_def)
  obtain h1 where g: "GetClusters moving_ext LocalSite h = (Inr [''id-local'' \<mapsto> sample_cluster\<lparr>c_Spec := (c_Spec sample_cluster)\<lparr>sp_ClusterID := ''id-local''\<rparr>\<rparr>,
     ''id-peer'' \<mapsto> sample_cluster\<lparr>c_Spec := (c_Spec sample_cluster)\<lparr>sp_ClusterID := ''id-peer''\<rparr>\<rparr>], h1)"
    using moving_fields(3) [of h] by (metis prod.collapse)
  show ?thesis
    unfolding apply_overrides_def Let_def n g
    using t [of "sample_cluster\<lparr>c_Spec := (c_Spec sample_cluster)\<lparr>sp_ClusterID := ''id-peer''\<rparr>\<rparr>"
        "sample_cluster\<lparr>c_Spec := (c_Spec sample_cluster)\<lparr>sp_ClusterID := ''id-local''\<rparr>\<rparr>"] moving_fields(4)
    by (auto simp: moving_fields(1))
qed

theorem local_request_roundtrip_witness:
  "\<exists>ob r h. mutateObject moving_ext mutation_sync sample_object [moving_rule] [] = (Inr ob, r, h) \<and>
     m_Name ob = ''copy'' \<and> m_Namespace ob = ''elsewhere'' \<and>
     local_request ob = \<lparr>nn_Name = ''demo'', nn_Namespace = ''default''\<rparr>"
proof -
  let ?ob = "(mutate_metadata moving_ext mutation_sync sample_object [moving_rule])\<lparr>m_Name := ''copy'', m_Namespace := ''elsewhere''\<rparr>"
  have n: "m_Name sample_object = ''demo''" "m_Namespace sample_object = ''default''"
    by (simp_all add: sample_object_def)
  obtain h where a: "apply_overrides moving_ext mutation_sync sample_object
      (mutate_metadata moving_ext mutation_sync sample_object [moving_rule]) (GetMutationOverrides [moving_rule]) [] =
      (Inr ?ob, h)" using moving_overrides by blast
  obtain r ob where o: "record_original mutation_sync sample_object ?ob = (r, ob)" by fastforce
  have "m_Name (snd (record_original q cur o')) = m_Name o'" "m_Namespace (snd (record_original q cur o')) = m_Namespace o'"
    for q cur o' by (simp_all add: record_original_def Let_def)
  from this [of mutation_sync sample_object ?ob] o have m: "m_Name ob = ''copy''" "m_Namespace ob = ''elsewhere''"
    by simp_all
  have mut: "mutateObject moving_ext mutation_sync sample_object [moving_rule] [] = (Inr ob, r, h)"
    unfolding mutateObject_def Let_def a using o by simp
  then have "local_request ob = remote_request sample_object"
    by (rule local_request_roundtrip) (simp_all add: m n)
  with mut m show ?thesis by (auto simp: remote_request_def n)
qed

end
