(* ===== verification/Ownership.thy ===== *)
theory Ownership
  imports Mutation
begin

text \<open>
  Ownership: which sync reconcilers may create, update or delete a local object. The policies
  implement the contracts \<open>exclusive_writer\<close> and \<open>owned_writer\<close>, and every write a reconcile
  makes obeys them, provided the generic resource reconciler asks the callbacks it is given.
\<close>

definition owner_alive :: "Manager \<Rightarrow> string \<Rightarrow> bool" where
  "owner_alive m i \<longleftrightarrow> GetAliveClustersByID m i \<noteq> None"

subsection \<open>Contracts\<close>

locale exclusive_writer =
  fixes permitted :: "'r \<Rightarrow> 'm \<Rightarrow> 'o \<Rightarrow> bool"
    and ident :: "'r \<Rightarrow> string"
    and alive :: "'m \<Rightarrow> string \<Rightarrow> bool"
    and owner :: "'o \<Rightarrow> string"
  assumes only_owner: "permitted r m ob \<Longrightarrow> owner ob \<noteq> '''' \<Longrightarrow> alive m (owner ob) \<Longrightarrow> ident r = owner ob"
begin

lemma same_writer:
  assumes "permitted r m ob" and "permitted r' m' ob'" and "owner ob' = owner ob"
    and "owner ob \<noteq> ''''" and "alive m (owner ob)" and "alive m' (owner ob)"
  shows "ident r = ident r'"
  using only_owner [OF assms(1)] only_owner [OF assms(2)] assms(3-6) by simp

text \<open>While the owner stays alive, all permitted writes to what it owns come from its reconcilers.\<close>

lemma writes_by_owner:
  assumes "\<forall>(r, m, ob) \<in> set ws. permitted r m ob \<and> owner ob = i \<and> alive m i" and "i \<noteq> ''''"
  shows "\<forall>(r, m, ob) \<in> set ws. ident r = i"
  using assms only_owner by fastforce

end

locale owned_writer = exclusive_writer +
  assumes owned: "permitted r m ob \<Longrightarrow> owner ob \<noteq> ''''"
begin

lemma writer_of_owned:
  "permitted r m ob \<Longrightarrow> ident r = owner ob \<or> \<not> alive m (owner ob)"
  using only_owner owned by blast

end

subsection \<open>The policies of the sync reconciler\<close>

lemma ShouldCreate_iff:
  "ShouldCreateFunc X r m ob = Inr True \<longleftrightarrow>
     x_Accessor X ob = None \<and> m_Annotations ob SyncDisabledAnnotation = None \<and>
     (owner_of ob = '''' \<or>
      owner_of ob \<noteq> s_localClusterID r \<and> (owner_of ob = s_clusterID r \<or> \<not> owner_alive m (owner_of ob)))"
  by (auto simp: ShouldCreateFunc_def isOwnedByAnotherAliveCluster_def owner_alive_def split: option.split)

lemma ShouldUpdate_iff:
  "ShouldUpdateFunc X r m cur ob = Inr True \<longleftrightarrow>
     x_Accessor X cur = None \<and> m_Annotations cur SyncDisabledAnnotation = None \<and> owner_of cur \<noteq> '''' \<and>
     (owner_of cur = s_clusterID r \<or> \<not> owner_alive m (owner_of cur))"
  by (auto simp: ShouldUpdateFunc_def isOwnedByAnotherAliveCluster_def owner_alive_def split: option.split)

lemma delete_guard_iff:
  "delete_guard r m cur \<longleftrightarrow>
     owner_of cur \<noteq> '''' \<and> (owner_of cur = s_clusterID r \<or> \<not> owner_alive m (owner_of cur))"
  by (auto simp: delete_guard_def isOwnedByAnotherAliveCluster_def owner_alive_def)

interpretation creator: exclusive_writer "\<lambda>r m ob. ShouldCreateFunc X r m ob = Inr True"
  s_clusterID owner_alive owner_of for X
  by unfold_locales (auto simp: ShouldCreate_iff)

interpretation updater: owned_writer "\<lambda>r m cur. ShouldUpdateFunc X r m cur ob = Inr True"
  s_clusterID owner_alive owner_of for X ob
  by unfold_locales (auto simp: ShouldUpdate_iff)

interpretation deleter: owned_writer delete_guard s_clusterID owner_alive owner_of
  by unfold_locales (auto simp: delete_guard_iff)

subsection \<open>What the generic resource reconciler promises\<close>

text \<open>
  Documented behaviour of ReconcileResource with a desired state that has these callbacks: it
  works on the local cluster only; it creates the desired object (with its own last-applied
  annotation) only if ShouldCreate allowed that, and it updates an object, or deletes it to
  create it anew, only if ShouldUpdate allowed that for it. The callbacks are asked at some
  time after the call started.
\<close>

fun policy_call :: "ext \<Rightarrow> DynamicDesiredState \<Rightarrow> k8s_object \<Rightarrow> history \<Rightarrow> call \<Rightarrow> bool" where
  "policy_call X ds ob h0 (CreateObject s o') \<longleftrightarrow>
     s = LocalSite \<and> (\<exists>h. extends (\<lambda>_. True) h0 h \<and> ds_ShouldCreateFunc ds h ob = Inr True) \<and>
     (\<exists>v. o' = ob\<lparr>m_Annotations := (m_Annotations ob)(x_LastAppliedConfig X := v)\<rparr>)"
| "policy_call X ds ob h0 (UpdateObject s cur _) \<longleftrightarrow>
     s = LocalSite \<and> (\<exists>h. extends (\<lambda>_. True) h0 h \<and> ds_ShouldUpdateFunc ds h cur ob = Inr True)"
| "policy_call X ds ob h0 (DeleteObject s cur) \<longleftrightarrow>
     s = LocalSite \<and> (\<exists>h. extends (\<lambda>_. True) h0 h \<and> ds_ShouldUpdateFunc ds h cur ob = Inr True)"
| "policy_call X ds ob h0 (GetObject s _ _) \<longleftrightarrow> s = LocalSite"
| "policy_call X ds ob h0 _ \<longleftrightarrow> False"

definition ReconcileResource_contract :: "ext \<Rightarrow> bool" where
  "ReconcileResource_contract X \<longleftrightarrow>
     (\<forall>ds ob h. extends (policy_call X ds ob h) h (snd (x_ReconcileResource X ds ob h)))"

subsection \<open>Writes\<close>

text \<open>Write access to what \<open>i\<close> owns: \<open>i\<close> is the reconciler's peer, or was not alive at some time.\<close>

definition may_write :: "syncReconciler \<Rightarrow> (history \<Rightarrow> Manager) \<Rightarrow> history \<Rightarrow> string \<Rightarrow> bool" where
  "may_write r mgr h0 i \<longleftrightarrow>
     i = s_clusterID r \<or> (\<exists>h. extends (\<lambda>_. True) h0 h \<and> \<not> owner_alive (mgr h) i)"

text \<open>
  A status update is made for rules that ask for it, whoever owns the object
  (\<open>status_update_ignores_owner\<close> below).
\<close>

definition syncs_status :: "syncReconciler \<Rightarrow> bool" where
  "syncs_status r \<longleftrightarrow> GetMutationSyncStatus (rs_Rules (rsr_Spec (s_rule r)))"

fun write_ok :: "syncReconciler \<Rightarrow> (history \<Rightarrow> Manager) \<Rightarrow> history \<Rightarrow> call \<Rightarrow> bool" where
  "write_ok r mgr h0 (CreateObject s ob) \<longleftrightarrow>
     s = LocalSite \<and> m_Annotations ob SyncDisabledAnnotation = None \<and>
     (owner_of ob = '''' \<or> owner_of ob \<noteq> s_localClusterID r \<and> may_write r mgr h0 (owner_of ob))"
| "write_ok r mgr h0 (UpdateObject s cur _) \<longleftrightarrow>
     s = LocalSite \<and> m_Annotations cur SyncDisabledAnnotation = None \<and>
     owner_of cur \<noteq> '''' \<and> may_write r mgr h0 (owner_of cur)"
| "write_ok r mgr h0 (DeleteObject s cur) \<longleftrightarrow>
     s = LocalSite \<and> owner_of cur \<noteq> '''' \<and> may_write r mgr h0 (owner_of cur)"
| "write_ok r mgr h0 (UpdateObjectStatus s _) \<longleftrightarrow> s = LocalSite \<and> syncs_status r"
| "write_ok r mgr h0 c \<longleftrightarrow> \<not> is_write c"

lemma write_ok_read: "\<not> is_write c \<Longrightarrow> write_ok r mgr h0 c"
  by (cases c) (simp_all add: is_write_def)

lemma extends_read: "extends (\<lambda>c. \<not> is_write c) h h' \<Longrightarrow> extends (write_ok r mgr h0) h h'"
  by (erule extends_mono) (rule write_ok_read)

lemma write_ok_later:
  assumes "extends (\<lambda>_. True) h0 h1"
  shows "write_ok r mgr h1 c \<Longrightarrow> write_ok r mgr h0 c"
proof -
  have "may_write r mgr h1 i \<Longrightarrow> may_write r mgr h0 i" for i
    using assms extends_trans unfolding may_write_def by blast
  then show "write_ok r mgr h1 c \<Longrightarrow> write_ok r mgr h0 c" by (cases c) auto
qed

lemma extends_later:
  assumes "extends (\<lambda>_. True) h0 h1" and "extends (write_ok r mgr h1) h1 h'"
  shows "extends (write_ok r mgr h0) h1 h'"
  using assms(2) by (rule extends_mono) (rule write_ok_later [OF assms(1)])

lemma write_ok_flags:
  "s_clusterID r' = s_clusterID r \<Longrightarrow> s_localClusterID r' = s_localClusterID r \<Longrightarrow> s_rule r' = s_rule r \<Longrightarrow>
   write_ok r' mgr h0 c = write_ok r mgr h0 c"
  by (cases c) (simp_all add: may_write_def syncs_status_def)

lemma policy_call_write_ok:
  assumes "foreign_keys_differ X" and "policy_call X (getObjectDesiredState X r mgr) ob h0 c"
  shows "write_ok r mgr h0 c"
  using assms(2) foreign_keys_last_applied [OF assms(1)]
  by (cases c)
    (auto simp: getObjectDesiredState_def ShouldCreate_iff ShouldUpdate_iff may_write_def owner_of_def
      is_write_def)

subsection \<open>The stages of a reconcile\<close>

lemma apply_overrides_reads: "extends (\<lambda>c. \<not> is_write c) h (snd (apply_overrides X r cur ob ps h))"
proof -
  have "snd (apply_overrides X r cur ob ps h) \<in> {h, h @ [ListClusters LocalSite]}"
    using GetClusters_history [of X LocalSite h]
    by (auto simp: apply_overrides_def Let_def split: prod.splits sum.split option.split)
  then show ?thesis by (auto simp: is_write_def)
qed

lemma record_original_fields:
  "s_clusterID (fst (record_original r cur ob)) = s_clusterID r"
  "s_localClusterID (fst (record_original r cur ob)) = s_localClusterID r"
  "s_rule (fst (record_original r cur ob)) = s_rule r"
  by (simp_all add: record_original_def Let_def)

lemma mutateObject_reads:
  "extends (\<lambda>c. \<not> is_write c) h (snd (snd (mutateObject X r cur rules h)))"
  "s_clusterID (fst (snd (mutateObject X r cur rules h))) = s_clusterID r"
  "s_localClusterID (fst (snd (mutateObject X r cur rules h))) = s_localClusterID r"
  "s_rule (fst (snd (mutateObject X r cur rules h))) = s_rule r"
proof -
  let ?ov = "apply_overrides X r cur (mutate_metadata X r cur rules) (GetMutationOverrides rules) h"
  have "snd (snd (mutateObject X r cur rules h)) = snd ?ov"
    by (simp add: mutateObject_def Let_def split_beta split: sum.split)
  then show "extends (\<lambda>c. \<not> is_write c) h (snd (snd (mutateObject X r cur rules h)))"
    using apply_overrides_reads by simp
  show "s_clusterID (fst (snd (mutateObject X r cur rules h))) = s_clusterID r"
    "s_localClusterID (fst (snd (mutateObject X r cur rules h))) = s_localClusterID r"
    "s_rule (fst (snd (mutateObject X r cur rules h))) = s_rule r"
    by (simp_all add: mutateObject_def Let_def split_beta record_original_fields split: sum.split)
qed

lemma check_namespace_reads: "extends (\<lambda>c. \<not> is_write c) h (snd (check_namespace X req ob h))"
  by (auto simp: check_namespace_def getNamespace_def recordEvent_def extends_def is_write_def
      split: sum.split)

lemma check_rate_reads: "extends (\<lambda>c. \<not> is_write c) h (snd (check_rate X r req h))"
  by (auto simp: check_rate_def rateLimit_def recordEvent_def extends_def is_write_def split: sum.split)

lemma matched_status:
  assumes "GetMutationSyncStatus (fst (snd (ResourceSyncRule_Match X (s_rule r) ob)))"
  shows "syncs_status r"
proof -
  have status: "GetMutationSyncStatus ms \<longleftrightarrow> (\<exists>m \<in> set ms. mu_SyncStatus (sr_Mutations m))" for ms
    by (induction ms) auto
  have "set (fst (snd (match_rules X rs ob acc))) \<subseteq> set acc \<union> set rs" for rs acc
  proof (induction rs arbitrary: acc)
    case (Cons a rs)
    show ?case using Cons.IH [of acc] Cons.IH [of "acc @ [a]"] by (auto split: sum.split)
  qed simp
  from this [of _ "[]"] assms show ?thesis
    by (auto simp: syncs_status_def status ResourceSyncRule_Match_def Spec_Match_def split: if_splits)
qed

lemma sync_status_writes:
  "(GetMutationSyncStatus rules \<Longrightarrow> syncs_status r') \<Longrightarrow>
   extends (write_ok r' mgr h0) h (snd (sync_status X r req rules des ob h))"
  by (auto simp: sync_status_def updateObjectStatus_def recordEvent_def extends_def Let_def is_write_def
      split: option.split)

lemma apply_object_writes:
  assumes "ReconcileResource_contract X" and "foreign_keys_differ X"
    and "GetMutationSyncStatus rules \<Longrightarrow> syncs_status r"
  shows "extends (write_ok r mgr h) h (snd (apply_object X r mgr req rules ob h))"
proof -
  define p where "p = x_ReconcileResource X (getObjectDesiredState X r mgr) ob h"
  have "extends (policy_call X (getObjectDesiredState X r mgr) ob h) h (snd p)"
    using assms(1) by (simp add: ReconcileResource_contract_def p_def)
  then have 1: "extends (write_ok r mgr h) h (snd p)"
    by (rule extends_mono) (rule policy_call_write_ok [OF assms(2)])
  have "extends (write_ok r mgr h) (snd p) (snd (apply_object X r mgr req rules ob h))"
    unfolding apply_object_def p_def [symmetric]
    by (auto simp: getObject_def Let_def split_beta is_write_def split: option.split sum.split
        intro: extends_trans [OF _ sync_status_writes] assms(3))
  with 1 show ?thesis by (rule extends_trans)
qed

lemma delete_found_writes: "extends (write_ok r mgr h) h (snd (delete_found X r mgr cur h))"
  by (auto simp: delete_found_def deleteObject_def delete_guard_iff may_write_def split: option.split)

lemma deleteResource_writes: "extends (write_ok r mgr h) h (snd (deleteResource X r mgr ob h))"
proof -
  have step: "extends (write_ok r mgr h) h (snd (delete_found X r mgr cur (h @ [c])))"
    if "\<not> is_write c" for cur c
  proof -
    have "extends (write_ok r mgr h) (h @ [c]) (snd (delete_found X r mgr cur (h @ [c])))"
      by (rule extends_later [OF _ delete_found_writes]) simp
    moreover have "extends (write_ok r mgr h) h (h @ [c])" using that by (simp add: write_ok_read)
    ultimately show ?thesis using extends_trans by blast
  qed
  show ?thesis
    by (simp add: deleteResource_def getObjectByOriginalNamespaceAndName_def listObjects_def getObject_def
        Let_def is_write_def step split: sum.split option.split)
qed

lemma sync_matched_writes:
  assumes "ReconcileResource_contract X" and "foreign_keys_differ X"
    and "GetMutationSyncStatus rules \<Longrightarrow> syncs_status r"
  shows "extends (write_ok r mgr h) h (snd (snd (sync_matched X r mgr req rules ob h)))"
proof -
  obtain m r1 h1 where mut: "mutateObject X r ob rules h = (m, r1, h1)" by (metis prod.collapse)
  note reads = mutateObject_reads [where h = h and X = X and r = r and cur = ob and rules = rules, unfolded mut]
  have 1: "extends (write_ok r mgr h) h h1" using reads(1) by (auto intro: extends_read)
  show ?thesis
  proof (cases m)
    case (Inl e)
    with mut 1 show ?thesis by (simp add: sync_matched_def)
  next
    case (Inr ob1)
    define n where "n = check_namespace X req ob1 h1"
    define l where "l = check_rate X r1 req (snd n)"
    define a where "a = apply_object X r1 mgr req rules ob1 (snd l)"
    have 2: "extends (write_ok r mgr h) h (snd n)"
      using 1 check_namespace_reads extends_read extends_trans unfolding n_def by blast
    then have 3: "extends (write_ok r mgr h) h (snd l)"
      using check_rate_reads extends_read extends_trans unfolding l_def by blast
    then have later: "extends (\<lambda>_. True) h (snd l)" by (rule extends_mono) simp
    have "write_ok r1 mgr (snd l) = write_ok r mgr (snd l)"
      using reads by (intro ext write_ok_flags) simp_all
    then have "extends (write_ok r mgr (snd l)) (snd l) (snd a)"
      using apply_object_writes [OF assms(1,2), of rules r1 mgr "snd l"] assms(3) reads
      by (simp add: a_def syncs_status_def)
    then have "extends (write_ok r mgr h) (snd l) (snd a)" by (rule extends_later [OF later])
    then have 4: "extends (write_ok r mgr h) h (snd a)" using 3 extends_trans by blast
    have "snd (snd (sync_matched X r mgr req rules ob h)) \<in> {snd n, snd l, snd a}"
      using mut Inr by (auto simp: sync_matched_def n_def l_def a_def split_beta Let_def split: option.split)
    with 2 3 4 show ?thesis by auto
  qed
qed

lemma sync_reconcile_extends:
  assumes "ReconcileResource_contract X" and "foreign_keys_differ X"
  shows "extends (write_ok r mgr h) h (snd (snd (sync_reconcile X r mgr req h)))"
proof -
  let ?h1 = "h @ [GetObject (s_client r) (x_GVKForObject X (requested_object X r req)) req]"
  have 1: "extends (write_ok r mgr h) h ?h1" by (simp add: is_write_def)
  have later: "extends (write_ok r mgr h) h h'" if "extends (write_ok r mgr ?h1) ?h1 h'" for h'
  proof -
    have "extends (write_ok r mgr h) ?h1 h'"
      by (rule extends_later [OF _ that]) simp
    with 1 show ?thesis by (rule extends_trans)
  qed
  note stages = later [OF deleteResource_writes] later [OF sync_matched_writes [OF assms matched_status]]
  show ?thesis
    using 1 by (simp add: sync_reconcile_def getObject_def Let_def split_beta stages
        split: sum.split option.split)
qed

subsection \<open>Properties\<close>

lemma sync_Reconcile_extends:
  assumes "ReconcileResource_contract X" and "foreign_keys_differ X"
  shows "extends (write_ok r mgr h) h (snd (snd (sync_Reconcile X r mgr req h)))"
proof -
  obtain res err r1 h1 where s: "sync_reconcile X r mgr req h = ((res, err), r1, h1)"
    by (metis prod.collapse)
  then have "extends (write_ok r mgr h) h h1"
    using sync_reconcile_extends [OF assms, of r mgr h req] by simp
  with s show ?thesis
    by (cases err) (auto simp: sync_Reconcile_def recordEvent_def is_write_def intro: extends_snocI)
qed

text \<open>
  C1. Every write of a reconcile goes to the local cluster, and all but status updates respect
  ownership: an object is updated or deleted only if it carries an owner and that owner is the
  peer this reconciler syncs from, or was not alive; an object is created only if its owner is
  not the local cluster and, likewise, is this peer or was not alive; objects marked as
  sync-disabled are neither created nor updated, but a copy so marked may be deleted. In
  particular an object without an owner annotation, which belongs to the local cluster, is never
  updated or deleted. The status of an object is written only if a rule of this reconciler asks
  for status synchronisation, and then whoever owns the object.
\<close>

theorem sync_Reconcile_writes:
  assumes "ReconcileResource_contract X" and "foreign_keys_differ X"
    and "sync_Reconcile X r mgr req h = (res, r', h')"
  shows "extends (write_ok r mgr h) h h'"
  using sync_Reconcile_extends [OF assms(1,2), of r mgr h req] assms(3) by simp

lemma same_annotation:
  fixes ob :: k8s_object
  shows "\<exists>v. ob = ob\<lparr>m_Annotations := (m_Annotations ob)(k := v)\<rparr>"
  by (rule exI [of _ "m_Annotations ob k"]) simp

lemma sample_contract [simp]: "ReconcileResource_contract sample_ext"
  by (auto simp: ReconcileResource_contract_def sample_ext_def sample_reconcile_def
      split: sum.split intro: same_annotation)

definition demo_request :: NamespacedName where
  "demo_request = \<lparr>nn_Name = ''demo'', nn_Namespace = ''default''\<rparr>"

text \<open>The sample services with one object on the peer; what the resource reconciler does is unchanged.\<close>

definition one_object :: "k8s_object \<Rightarrow> ext" where
  "one_object ob = sample_ext\<lparr>x_GetObject :=
     (\<lambda>_ s _ _. if s = LocalSite then Inl not_found else Inr ob)\<rparr>"

lemma one_object_contract [simp]:
  "ReconcileResource_contract (one_object ob)" "foreign_keys_differ (one_object ob)"
proof -
  have "policy_call (one_object ob) = policy_call sample_ext"
    by (intro ext, case_tac xc) (simp_all add: one_object_def)
  then show "ReconcileResource_contract (one_object ob)"
    using sample_contract by (simp add: ReconcileResource_contract_def one_object_def)
  show "foreign_keys_differ (one_object ob)"
    using sample_keys by (simp add: foreign_keys_differ_def foreign_annotations_def one_object_def)
qed

lemma demo_match:
  "ResourceSyncRule_Match (one_object ob) (s_rule mutation_sync) sample_object = (True, rs_Rules sample_spec, None)"
  by (simp add: mutation_sync_def one_object_def ResourceSyncRule_Match_def Spec_Match_def SyncRule_Match_def
      SyncRuleMatch_Match_def and_then_def match_object_key_def match_namespace_def check_labels_def
      check_annotations_def check_content_def sample_defs)

lemma demo_create:
  "ShouldCreateFunc (one_object ob) mutation_sync (NewManager [])
     (mutate_metadata (one_object ob) mutation_sync sample_object (rs_Rules sample_spec)) = Inr True"
proof -
  let ?m = "mutate_metadata (one_object ob) mutation_sync sample_object (rs_Rules sample_spec)"
  have "owner_of ?m = ''id-peer''"
    by (simp add: mutate_metadata_owner) (simp add: owner_of_def sample_object_def mutation_sync_def)
  moreover have "m_Annotations ?m SyncDisabledAnnotation = None"
    by (simp add: mutate_metadata_annotation mutated_annotations_untouched) (simp add: sample_object_def)
  ultimately show ?thesis
    by (simp add: ShouldCreate_iff owner_alive_def mutation_sync_def one_object_def sample_ext_def)
qed

lemma one_object_services [simp]:
  "x_GetObject (one_object ob) h s g n = (if s = LocalSite then Inl not_found else Inr ob)"
  "x_GetNamespace (one_object ob) h s ns = Inr ns" "x_IsNotFound (one_object ob) not_found"
  "o_GoType (requested_object (one_object ob) r req) = None"
  "x_ReconcileResource (one_object ob) = sample_reconcile"
  by (simp_all add: one_object_def sample_ext_def not_found_def requested_object_def initObjectFromGVK_def
      object_zero_def)

lemma demo_fields [simp]:
  "s_client mutation_sync = RemoteSite ''peer''" "\<not> s_rateLimiter mutation_sync"
  "m_DeletionTimestamp sample_object = 0" "m_Namespace sample_object = ''default''"
  "sample_object\<lparr>o_GoType := None\<rparr> = sample_object"
  by (simp_all add: mutation_sync_def sample_object_def)

theorem sync_Reconcile_writes_witness:
  "\<exists>ob. CreateObject LocalSite ob \<in> set (snd (snd (sync_Reconcile (one_object sample_object) mutation_sync
        (\<lambda>_. NewManager []) demo_request []))) \<and>
     write_ok mutation_sync (\<lambda>_. NewManager []) [] (CreateObject LocalSite ob)"
proof -
  let ?X = "one_object sample_object" let ?mgr = "\<lambda>_. NewManager []"
  let ?ob = "mutate_metadata ?X mutation_sync sample_object (rs_Rules sample_spec)"
  obtain res r h where s: "sync_Reconcile ?X mutation_sync ?mgr demo_request [] = (res, r, h)"
    by (metis prod.collapse)
  then have "CreateObject LocalSite ?ob \<in> set h"
    by (simp add: sync_Reconcile_def sync_reconcile_def getObject_def demo_match sync_matched_def
        mutateObject_no_overrides check_namespace_def getNamespace_def check_rate_def apply_object_def
        sample_reconcile_def getObjectDesiredState_def demo_create)
      (auto simp: result_zero_def)
  moreover have "extends (write_ok mutation_sync ?mgr []) [] h"
    by (rule sync_Reconcile_writes [OF _ _ s]) simp_all
  ultimately have "CreateObject LocalSite ?ob \<in> set h \<and>
      write_ok mutation_sync ?mgr [] (CreateObject LocalSite ?ob)"
    unfolding extends_def list_all_iff by fastforce
  then show ?thesis unfolding s by (intro exI [of _ ?ob]) simp
qed

text \<open>
  A call that does not change what \<open>i\<close> owns: no object with this owner is created, updated or
  deleted, and a status is written only where a rule asks for it.
\<close>

fun spares :: "string \<Rightarrow> bool \<Rightarrow> call \<Rightarrow> bool" where
  "spares i status (CreateObject _ ob) \<longleftrightarrow> owner_of ob \<noteq> i"
| "spares i status (UpdateObject _ cur _) \<longleftrightarrow> owner_of cur \<noteq> i"
| "spares i status (DeleteObject _ cur) \<longleftrightarrow> owner_of cur \<noteq> i"
| "spares i status (UpdateObjectStatus _ _) \<longleftrightarrow> status"
| "spares i status c \<longleftrightarrow> \<not> is_write c"

text \<open>Reconciles of any reconcilers, one after the other.\<close>

primrec sync_all ::
  "ext \<Rightarrow> (history \<Rightarrow> Manager) \<Rightarrow> (syncReconciler \<times> NamespacedName) list \<Rightarrow> history \<Rightarrow> history" where
  "sync_all X mgr [] h = h"
| "sync_all X mgr (p # ps) h = sync_all X mgr ps (snd (snd (sync_Reconcile X (fst p) mgr (snd p) h)))"

lemma write_ok_spares:
  assumes "\<forall>h. owner_alive (mgr h) i" and "i \<noteq> ''''" and "s_clusterID r \<noteq> i" and "syncs_status r \<Longrightarrow> status"
  shows "write_ok r mgr h0 c \<Longrightarrow> spares i status c"
  using assms by (cases c) (auto simp: may_write_def)

text \<open>
  C2. Single writer: while a cluster is alive, no sequence of reconciles by the reconcilers of
  other clusters creates, updates or deletes an object that it owns. The status of any object is
  written only if one of these reconcilers has a rule that asks for status synchronisation: if
  none has, what the cluster owns is not touched at all.
\<close>

theorem others_never_write:
  assumes "ReconcileResource_contract X" and "foreign_keys_differ X"
    and "\<forall>h. owner_alive (mgr h) i" and "i \<noteq> ''''" and "\<forall>p \<in> set ps. s_clusterID (fst p) \<noteq> i"
  shows "extends (spares i (\<exists>p \<in> set ps. syncs_status (fst p))) h (sync_all X mgr ps h)"
proof -
  define st where "st \<longleftrightarrow> (\<exists>p \<in> set ps. syncs_status (fst p))"
  have "extends (spares i st) h (sync_all X mgr qs h)" if "set qs \<subseteq> set ps" for qs
    using that
  proof (induction qs arbitrary: h)
    case (Cons p qs)
    let ?h = "snd (snd (sync_Reconcile X (fst p) mgr (snd p) h))"
    have "p \<in> set ps" using Cons.prems by simp
    then have "s_clusterID (fst p) \<noteq> i" "syncs_status (fst p) \<Longrightarrow> st" using assms(5) by (auto simp: st_def)
    then have "extends (spares i st) h ?h"
      using sync_Reconcile_extends [OF assms(1,2), of "fst p" mgr h "snd p"] write_ok_spares [OF assms(3,4)]
      by (blast intro: extends_mono)
    moreover have "extends (spares i st) ?h (sync_all X mgr (p # qs) h)" using Cons by simp
    ultimately show ?case by (rule extends_trans)
  qed simp
  from this [of ps] show ?thesis by (simp add: st_def)
qed

definition alive_manager :: Manager where
  "alive_manager = (NewManager [])\<lparr>mg_clusters :=
     [(''other'', (NewCluster ''other'' [])\<lparr>cl_alive := True, cl_clusterID := ''id-other''\<rparr>)]\<rparr>"

theorem others_never_write_witness:
  "extends (spares ''id-other'' False) []
     (sync_all (one_object sample_object) (\<lambda>_. alive_manager) [(mutation_sync, demo_request)] [])"
proof -
  have "\<not> syncs_status mutation_sync"
    by (simp add: syncs_status_def mutation_sync_def sample_spec_def no_mutations_def)
  then show ?thesis
    using others_never_write [of "one_object sample_object" "\<lambda>_. alive_manager" "''id-other''"
        "[(mutation_sync, demo_request)]" "[]"]
    by (simp add: owner_alive_def alive_manager_def NewManager_def GetAliveClustersByID_def IsAlive_def
        mutation_sync_def)
qed

text \<open>
  The status update that a rule with status synchronisation asks for is not subject to
  ownership: whenever the resource reconciler returns without an error, which it also does
  when the callbacks refused the update, and the local object can be read, its status is
  overwritten, whoever owns it.
\<close>

theorem status_update_ignores_owner:
  assumes "x_ReconcileResource X (getObjectDesiredState X r mgr) ob h = (None, h1)"
    and "x_GetObject X h1 LocalSite (x_GVKForObject X ob) (remote_request ob) = Inr cur"
    and "GetMutationSyncStatus rules"
  shows "UpdateObjectStatus LocalSite (ob\<lparr>m_ResourceVersion := m_ResourceVersion cur\<rparr>)
     \<in> set (snd (apply_object X r mgr req rules ob h))"
  using assms
  by (simp add: apply_object_def getObject_def remote_request_def sync_status_def updateObjectStatus_def
      recordEvent_def split: option.split)

text \<open>A local cluster that holds an object of its own under the same name, and refuses to touch it.\<close>

definition local_original :: ext where
  "local_original = sample_ext\<lparr>x_GetObject := (\<lambda>_ _ _ _. Inr sample_object),
     x_ReconcileResource := (\<lambda>ds ob h. (None, h @ [GetObject LocalSite (o_GVK ob) (remote_request ob)]))\<rparr>"

definition status_rule :: SyncRule where
  "status_rule = \<lparr>sr_Matches = [], sr_Mutations = no_mutations\<lparr>mu_SyncStatus := True\<rparr>\<rparr>"

theorem status_update_ignores_owner_witness:
  "ShouldUpdateFunc local_original mutation_sync (NewManager []) sample_object sample_object = Inr False \<and>
   UpdateObjectStatus LocalSite sample_object
     \<in> set (snd (apply_object local_original mutation_sync (\<lambda>_. NewManager []) demo_request [status_rule]
         sample_object []))"
proof -
  have "UpdateObjectStatus LocalSite (sample_object\<lparr>m_ResourceVersion := m_ResourceVersion sample_object\<rparr>)
     \<in> set (snd (apply_object local_original mutation_sync (\<lambda>_. NewManager []) demo_request [status_rule]
         sample_object []))"
    by (rule status_update_ignores_owner) (simp_all add: local_original_def status_rule_def)
  then show ?thesis
    by (simp add: ShouldUpdateFunc_def local_original_def sample_ext_def owner_of_def sample_object_def)
qed

end
