(* ===== verification/SyncChecks.thy ===== *)
theory SyncChecks
  imports Ownership
begin

text \<open>
  Further behaviour of the sync reconciler: the permission checks, the event filters, the
  deletion of local copies, match errors, and starting it twice.
\<close>

subsection \<open>Permission checks\<close>

definition review :: "ext \<Rightarrow> site \<Rightarrow> GroupVersionKind \<Rightarrow> string \<Rightarrow> call" where
  "review X s g verb = AccessReview s verb (gvk_Group g) (gvk_Version g) (resource_of X g)"

text \<open>Each of the reviews, made one after the other from \<open>h\<close> on, was answered with permission.\<close>

fun all_granted :: "ext \<Rightarrow> history \<Rightarrow> call list \<Rightarrow> bool" where
  "all_granted X h [] \<longleftrightarrow> True"
| "all_granted X h (AccessReview s verb g v res # cs) \<longleftrightarrow>
     x_AccessReview X h s verb g v res = Inr True \<and>
     all_granted X (h @ [AccessReview s verb g v res]) cs"
| "all_granted X h (_ # cs) \<longleftrightarrow> False"

lemma all_granted_append:
  "all_granted X h (map (review X s g) vs @ cs) \<longleftrightarrow>
     all_granted X h (map (review X s g) vs) \<and> all_granted X (h @ map (review X s g) vs) cs"
  by (induction vs arbitrary: h) (simp_all add: review_def)

lemma review_verbs_None:
  "review_verbs X s g pre msg vs h = (None, h') \<longleftrightarrow>
     h' = h @ map (review X s g) vs \<and> all_granted X h (map (review X s g) vs)"
proof (induction vs arbitrary: h)
  case (Cons v vs)
  show ?case
    using Cons.IH [of "h @ [review X s g v]"]
    by (auto simp: review_def accessReview_def split: sum.split)
qed auto

text \<open>
  C34. The pre-check of a sync controller succeeds exactly when the peer allows get, list and
  watch on the rule's type and, after that, the local cluster allows create, patch, update and
  delete on the type the objects have after the rule's mutations; it makes these seven
  reviews in this order and nothing else.
\<close>

theorem PreCheck_iff:
  "PreCheck X r client h = (None, h') \<longleftrightarrow>
     (let reads = map (review X client (s_gvk r)) [''get'', ''list'', ''watch''];
          writes = map (review X LocalSite (s_localGVK r)) [''create'', ''patch'', ''update'', ''delete'']
      in x_NewClient X (h @ reads) = None \<and> h' = h @ reads @ writes \<and> all_granted X h (reads @ writes))"
proof -
  let ?pre = "review_verbs X client (s_gvk r) ''do not have access to '' (x_GVKString X (s_gvk r))
    [''get'', ''list'', ''watch''] h"
  let ?reads = "map (review X client (s_gvk r)) [''get'', ''list'', ''watch'']"
  have *: "PreCheck X r client h = (None, h') \<longleftrightarrow>
      (\<exists>h1. ?pre = (None, h1) \<and> writePreCheck X r h1 = (None, h'))"
    by (auto simp: PreCheck_def split: prod.split option.split)
  have "writePreCheck X r h1 = (None, h') \<longleftrightarrow>
      x_NewClient X h1 = None \<and>
      h' = h1 @ map (review X LocalSite (s_localGVK r)) [''create'', ''patch'', ''update'', ''delete''] \<and>
      all_granted X h1 (map (review X LocalSite (s_localGVK r)) [''create'', ''patch'', ''update'', ''delete''])"
    for h1
    unfolding writePreCheck_def by (cases "x_NewClient X h1") (simp_all only: option.case review_verbs_None prod.inject option.distinct simp_thms)
  then show ?thesis
    unfolding * review_verbs_None Let_def all_granted_append by auto
qed

subsection \<open>Event filters\<close>

fun event_object :: "obj_event \<Rightarrow> k8s_object" where
  "event_object (CreateEvent ob) = ob"
| "event_object (UpdateEvent old new) = new"
| "event_object (DeleteEvent ob) = ob"
| "event_object (GenericEvent ob) = ob"

lemma isObjectMatch_selects:
  assumes "isObjectMatch X r ob g"
  shows "\<exists>rule \<in> set (rs_Rules (rsr_Spec (s_rule r))). rule_selects X rule (ob\<lparr>o_GVK := g\<rparr>)"
proof -
  let ?sp = "rsr_Spec (s_rule r)" let ?ob = "ob\<lparr>o_GVK := g\<rparr>"
  obtain ms where "match_rules X (rs_Rules ?sp) ?ob [] = (True, ms, None)"
    using assms
    by (auto simp: isObjectMatch_def ResourceSyncRule_Match_def Spec_Match_def split: prod.splits option.splits if_splits)
  from match_rules_ok [OF this] show ?thesis by (auto simp: filter_empty_conv)
qed

text \<open>
  C33. An event from the peer that the filter lets through is about an object that does not
  belong to the local cluster and that some rule selects; the only exception are updates whose
  two versions cannot be compared, which pass unchecked. An event from the local cluster is let
  through only for a copy, that is an object with an owner. An update that changes nothing but
  the resource version is dropped by both filters.
\<close>

theorem event_filters:
  "(remotePredicate X r e \<longrightarrow>
       (\<exists>old new err. e = UpdateEvent old new \<and> x_PatchIsEmpty X (same_version old new) new = Inl err) \<or>
       owner_of (event_object e) \<noteq> s_localClusterID r \<and>
       (\<exists>rule \<in> set (rs_Rules (rsr_Spec (s_rule r))).
          rule_selects X rule ((event_object e)\<lparr>o_GVK := rs_GVK (rsr_Spec (s_rule r))\<rparr>)))
    \<and> (localPredicate X e \<longrightarrow>
         (case e of UpdateEvent old new \<Rightarrow> m_Annotations old OwnershipAnnotation \<noteq> None
          | _ \<Rightarrow> m_Annotations (event_object e) OwnershipAnnotation \<noteq> None))
    \<and> (\<forall>old new. e = UpdateEvent old new \<longrightarrow> x_PatchIsEmpty X (same_version old new) new = Inr True \<longrightarrow>
         \<not> remotePredicate X r e \<and> \<not> localPredicate X e)"
proof (cases e)
  case (UpdateEvent old new)
  show ?thesis
  proof (cases "x_PatchIsEmpty X (same_version old new) new")
    case (Inl err)
    with UpdateEvent show ?thesis by (auto split: if_splits)
  next
    case (Inr b)
    with UpdateEvent show ?thesis
      using isObjectMatch_selects [of X r new] by (auto simp: isOwnedByUs_def split: if_splits)
  qed
qed (use isObjectMatch_selects [of X r "event_object e"] in \<open>auto simp: isOwnedByUs_def split: if_splits\<close>)

text \<open>An updated object that passes the filter for the peer, and the same update when nothing has changed.\<close>

theorem event_filters_witness:
  "(let e = UpdateEvent (sample_object\<lparr>m_Labels := Map.empty\<rparr>) sample_object in
    remotePredicate sample_ext mutation_sync e \<and>
    (\<exists>rule \<in> set (rs_Rules sample_spec). rule_selects sample_ext rule sample_object) \<and>
    \<not> remotePredicate (sample_ext\<lparr>x_PatchIsEmpty := \<lambda>_ _. Inr True\<rparr>) mutation_sync e)"
proof -
  let ?e = "UpdateEvent (sample_object\<lparr>m_Labels := Map.empty\<rparr>) sample_object"
  let ?Y = "sample_ext\<lparr>x_PatchIsEmpty := \<lambda>_ _. Inr True\<rparr>"
  have f: "rs_GVK sample_spec = o_GVK sample_object" "x_PatchIsEmpty sample_ext a b = Inr False"
    "rsr_Spec (s_rule mutation_sync) = sample_spec" "sample_object\<lparr>o_GVK := o_GVK sample_object\<rparr> = sample_object"
    "s_localClusterID mutation_sync = ''id-local''" "owner_of sample_object = ''''" for a b
    by (simp_all add: sample_spec_def sample_object_def sample_ext_def mutation_sync_def owner_of_def)
  have "ResourceSyncRule_Match sample_ext (s_rule mutation_sync) sample_object = (True, rs_Rules sample_spec, None)"
    by (simp add: mutation_sync_def ResourceSyncRule_Match_def Spec_Match_def SyncRule_Match_def
        SyncRuleMatch_Match_def and_then_def match_object_key_def match_namespace_def check_labels_def
        check_annotations_def check_content_def sample_defs)
  then have p: "remotePredicate sample_ext mutation_sync ?e"
    by (simp add: f isOwnedByUs_def isObjectMatch_def)
  moreover have "\<exists>rule \<in> set (rs_Rules sample_spec). rule_selects sample_ext rule sample_object"
    using event_filters [of sample_ext mutation_sync ?e] p by (simp add: f)
  moreover have "\<not> remotePredicate ?Y mutation_sync ?e"
    using event_filters [of ?Y mutation_sync ?e] by simp
  ultimately show ?thesis by (simp add: Let_def)
qed

subsection \<open>Deletion\<close>

text \<open>The local object that a deletion looks for, if no object was renamed or moved.\<close>

definition local_object :: "syncReconciler \<Rightarrow> k8s_object \<Rightarrow> k8s_object" where
  "local_object r ob = (if s_gvk r \<noteq> s_localGVK r then ob\<lparr>o_GVK := s_localGVK r\<rparr> else ob)"

lemma deleteResource_plain:
  assumes "\<not> s_resourceNamespaceMutated r" and "\<not> s_resourceNameMutated r"
  shows "deleteResource X r mgr ob h =
    (case getObject X LocalSite (local_object r ob) (remote_request ob) h of
       (Inl e, h1) \<Rightarrow> (if x_IsNotFound X e then None else Some e, h1)
     | (Inr cur, h1) \<Rightarrow>
         if owner_of cur \<noteq> '''' \<and> (owner_of cur = s_clusterID r \<or> \<not> owner_alive (mgr h1) (owner_of cur))
         then (case x_DeleteObject X h1 LocalSite cur of
                 None \<Rightarrow> None | Some e \<Rightarrow> if x_IsNotFound X e then None else Some e,
               h1 @ [DeleteObject LocalSite cur])
         else (None, h1))"
  using assms
  by (auto simp: deleteResource_def delete_found_def deleteObject_def remote_request_def local_object_def
      delete_guard_iff Let_def split: prod.split sum.split option.split)

text \<open>
  The object of a request is gone on the peer, or about to be: the first read of a reconcile does
  not find it, and \<open>ob\<close> is the blank object that names it, or finds it as \<open>ob\<close> with a deletion
  timestamp.
\<close>

definition disappeared ::
  "ext \<Rightarrow> syncReconciler \<Rightarrow> NamespacedName \<Rightarrow> history \<Rightarrow> k8s_object \<Rightarrow> history \<Rightarrow> bool" where
  "disappeared X r req h ob h1 \<longleftrightarrow>
     (case getObject X (s_client r) (requested_object X r req) req h of
        (Inl e, h2) \<Rightarrow> x_IsNotFound X e \<and> ob = requested_object X r req \<and> h1 = h2
      | (Inr ob2, h2) \<Rightarrow> m_DeletionTimestamp ob2 \<noteq> 0 \<and> ob = ob2 \<and> h1 = h2)"

lemma sync_reconcile_disappeared:
  assumes "disappeared X r req h ob h1"
  shows "sync_reconcile X r mgr req h = (let (err, h2) = deleteResource X r mgr ob h1 in ((result_zero, err), r, h2))"
  using assms by (auto simp: disappeared_def sync_reconcile_def Let_def split: sum.splits)

text \<open>
  C11. The end of a copy. When no object of this reconciler was ever renamed or moved, and an
  object disappears on the peer while the local cluster has an object of that name, a reconcile
  deletes this exactly if it carries an owner that is this peer or not alive, and writes nothing
  else; it fails only if the server refuses the deletion with another error than that the
  object is gone. In particular it deletes the copy that a reconciler of this peer made of an
  object of the peer's own, provided that nothing touched its ownership annotation.
\<close>

theorem sync_Reconcile_deletes:
  assumes plain: "\<not> s_resourceNamespaceMutated r" "\<not> s_resourceNameMutated r"
    and gone: "disappeared X r req h ob h1"
    and stored: "getObject X LocalSite (local_object r ob) (remote_request ob) h1 = (Inr cur, h2)"
  shows "\<exists>err cs. sync_Reconcile X r mgr req h = ((result_zero, err), r, h2 @ cs) \<and>
    filter is_write cs =
      (if owner_of cur \<noteq> '''' \<and> (owner_of cur = s_clusterID r \<or> \<not> owner_alive (mgr h2) (owner_of cur))
       then [DeleteObject LocalSite cur] else []) \<and>
    (err \<noteq> None \<longrightarrow> (\<exists>e. x_DeleteObject X h2 LocalSite cur = Some e \<and> \<not> x_IsNotFound X e)) \<and>
    (\<forall>orig rules q. foreign_keys_differ X \<and> annotation_untouched rules OwnershipAnnotation \<and>
       owner_of orig = '''' \<and> s_clusterID q = s_clusterID r \<and> s_clusterID r \<noteq> '''' \<and>
       owner_of cur = owner_of (mutate_metadata X q orig rules) \<longrightarrow> DeleteObject LocalSite cur \<in> set cs)"
proof -
  let ?g = "owner_of cur \<noteq> '''' \<and> (owner_of cur = s_clusterID r \<or> \<not> owner_alive (mgr h2) (owner_of cur))"
  define err where "err = (if ?g then case x_DeleteObject X h2 LocalSite cur of
       None \<Rightarrow> None | Some e \<Rightarrow> if x_IsNotFound X e then None else Some e else None)"
  define cs where "cs = (if ?g then [DeleteObject LocalSite cur] else [])"
  have "deleteResource X r mgr ob h1 = (err, h2 @ cs)"
    using deleteResource_plain [OF plain, of X mgr ob h1] stored by (simp add: err_def cs_def)
  then have s: "sync_reconcile X r mgr req h = ((result_zero, err), r, h2 @ cs)"
    using sync_reconcile_disappeared [OF gone, of mgr] by simp
  obtain ev where ev: "sync_Reconcile X r mgr req h = ((result_zero, err), r, h2 @ cs @ ev)" "filter is_write ev = []"
    using s by (cases err) (simp_all add: sync_Reconcile_def recordEvent_def is_write_def)
  have "filter is_write (cs @ ev) = (if ?g then [DeleteObject LocalSite cur] else [])"
    using ev(2) by (simp add: cs_def is_write_def)
  moreover have "\<exists>e. x_DeleteObject X h2 LocalSite cur = Some e \<and> \<not> x_IsNotFound X e" if "err \<noteq> None"
    using that by (auto simp: err_def split: if_splits option.splits)
  moreover have "DeleteObject LocalSite cur \<in> set (cs @ ev)"
    if "foreign_keys_differ X" "annotation_untouched rules OwnershipAnnotation" "owner_of orig = ''''"
      "s_clusterID q = s_clusterID r" "s_clusterID r \<noteq> ''''" "owner_of cur = owner_of (mutate_metadata X q orig rules)"
    for orig rules q
    using that mutate_metadata_owner [OF that(1,2), of q orig] by (simp add: cs_def)
  ultimately show ?thesis using ev(1) by blast
qed

text \<open>A local cluster with the copy that the reconciler made of an object of the peer.\<close>

definition copied_object :: k8s_object where
  "copied_object = mutate_metadata sample_ext mutation_sync sample_object (rs_Rules sample_spec)"

definition copy_left :: ext where
  "copy_left = sample_ext\<lparr>x_GetObject := (\<lambda>_ s _ _. if s = LocalSite then Inr copied_object else Inl not_found)\<rparr>"

theorem sync_Reconcile_deletes_witness:
  "\<exists>err cs. sync_Reconcile copy_left mutation_sync (\<lambda>_. NewManager []) demo_request [] =
      ((result_zero, err), mutation_sync, cs) \<and>
     DeleteObject LocalSite (copied_object\<lparr>o_GoType := None\<rparr>) \<in> set cs \<and> err = None"
proof -
  let ?ob = "requested_object copy_left mutation_sync demo_request"
  have x: "x_GetObject copy_left k s g n = (if s = LocalSite then Inr copied_object else Inl not_found)"
    "x_IsNotFound copy_left not_found" "x_DeleteObject copy_left k s c = None" "o_GoType ?ob = None" for k s g n c
    by (simp_all add: copy_left_def sample_ext_def not_found_def requested_object_def initObjectFromGVK_def object_zero_def)
  have m: "\<not> s_resourceNamespaceMutated mutation_sync" "\<not> s_resourceNameMutated mutation_sync"
    "s_client mutation_sync = RemoteSite ''peer''" "s_gvk mutation_sync = s_localGVK mutation_sync"
    "owner_of sample_object = ''''" "s_clusterID mutation_sync = ''id-peer''"
    by (simp_all add: mutation_sync_def owner_of_def sample_object_def)
  have o: "owner_of (copied_object\<lparr>o_GoType := None\<rparr>) = ''id-peer''"
    using mutate_metadata_owner [OF sample_keys sample_rules(2), of mutation_sync sample_object] m
    by (simp add: copied_object_def owner_of_def)
  obtain h1 where d: "disappeared copy_left mutation_sync demo_request [] ?ob h1"
    by (simp add: disappeared_def getObject_def x m)
  obtain h2 where g: "getObject copy_left LocalSite (local_object mutation_sync ?ob) (remote_request ?ob) h1 =
      (Inr (copied_object\<lparr>o_GoType := None\<rparr>), h2)"
    by (simp add: getObject_def x m local_object_def)
  from sync_Reconcile_deletes [OF m(1,2) d g, of "\<lambda>_. NewManager []"]
  obtain err cs where r: "sync_Reconcile copy_left mutation_sync (\<lambda>_. NewManager []) demo_request [] =
      ((result_zero, err), mutation_sync, h2 @ cs)"
    and w: "filter is_write cs = [DeleteObject LocalSite (copied_object\<lparr>o_GoType := None\<rparr>)]"
    and e: "err \<noteq> None \<longrightarrow> (\<exists>e. x_DeleteObject copy_left h2 LocalSite (copied_object\<lparr>o_GoType := None\<rparr>) = Some e)"
    by (auto simp: o m)
  have "DeleteObject LocalSite (copied_object\<lparr>o_GoType := None\<rparr>) \<in> set (filter is_write cs)" by (simp add: w)
  with r e show ?thesis by (auto simp: x)
qed

text \<open>Documented behaviour of List: the objects it returns lie in the namespace and carry the labels asked for.\<close>

definition List_contract :: "ext \<Rightarrow> bool" where
  "List_contract X \<longleftrightarrow>
     (\<forall>h s g ns ls items. x_ListObjects X h s g ns ls = Inr items \<longrightarrow>
        list_all (\<lambda>ob. (ns \<noteq> '''' \<longrightarrow> m_Namespace ob = ns) \<and>
                       list_all (\<lambda>(k, v). m_Labels ob k = Some v) ls) items)"

text \<open>
  Once the reconciler has seen a renamed or moved object, it deletes, for any object that
  disappears on the peer, only a local object in the namespace of the original that carries the
  original-name label: a copy that was moved to another namespace, or that was not renamed, is
  never deleted.
\<close>

theorem deleteResource_after_rename:
  assumes "List_contract X" and "s_resourceNamespaceMutated r \<or> s_resourceNameMutated r"
    and "original_namespace ob \<noteq> ''''" and "deleteResource X r mgr ob h = (err, h')"
  shows "extends (\<lambda>c. \<forall>s cur. c = DeleteObject s cur \<longrightarrow>
      m_Namespace cur = original_namespace ob \<and>
      m_Labels cur originalNameLabel = Some (original_name ob)) h h'"
proof -
  define g where "g = o_GVK (if s_gvk r \<noteq> s_localGVK r then ob\<lparr>o_GVK := s_localGVK r\<rparr> else ob)"
  define g' where "g' = g\<lparr>gvk_Kind := gvk_Kind g @ ''List''\<rparr>"
  define ls where "ls = [(originalNameLabel, original_name ob), (OwnershipAnnotation, s_clusterID r)]"
  define h1 where "h1 = h @ [ListObjects LocalSite g' (original_namespace ob) ls]"
  let ?P = "\<lambda>c. \<forall>s cur. c = DeleteObject s cur \<longrightarrow>
      m_Namespace cur = original_namespace ob \<and> m_Labels cur originalNameLabel = Some (original_name ob)"
  have 1: "extends ?P h h1" by (simp add: h1_def)
  show ?thesis
  proof (cases "x_ListObjects X h LocalSite g' (original_namespace ob) ls")
    case (Inl e)
    with assms(2,4) have "h' = h1"
      by (auto simp: deleteResource_def getObjectByOriginalNamespaceAndName_def listObjects_def Let_def
          g_def [symmetric] g'_def [symmetric] ls_def [symmetric] h1_def)
    with 1 show ?thesis by simp
  next
    case (Inr items)
    have cur: "m_Namespace (items ! 0) = original_namespace ob \<and>
        m_Labels (items ! 0) originalNameLabel = Some (original_name ob)" if "length items = 1"
    proof -
      have "items ! 0 \<in> set items" using that by simp
      moreover have "list_all (\<lambda>o'. (original_namespace ob \<noteq> '''' \<longrightarrow> m_Namespace o' = original_namespace ob) \<and>
          list_all (\<lambda>(k, v). m_Labels o' k = Some v) ls) items"
        using assms(1) Inr unfolding List_contract_def by blast
      ultimately show ?thesis using assms(3) by (simp add: list_all_iff ls_def)
    qed
    have "h' = h1 \<or> length items = 1 \<and> h' = h1 @ [DeleteObject LocalSite (items ! 0)]"
      using assms(2,4) Inr
      by (auto simp: deleteResource_def getObjectByOriginalNamespaceAndName_def listObjects_def Let_def
          g_def [symmetric] g'_def [symmetric] ls_def [symmetric] h1_def delete_found_def deleteObject_def
          split: if_splits option.splits)
    with 1 cur show ?thesis by (auto intro: extends_snocI)
  qed
qed

theorem deleteResource_after_rename_witness:
  "extends (\<lambda>c. \<forall>s cur. c = DeleteObject s cur \<longrightarrow> m_Namespace cur = ''default'' \<and>
      m_Labels cur originalNameLabel = Some ''demo'') []
     (snd (deleteResource sample_ext (mutation_sync\<lparr>s_resourceNamespaceMutated := True\<rparr>) (\<lambda>_. NewManager [])
        sample_object []))"
proof -
  have o: "original_namespace sample_object = ''default''" "original_name sample_object = ''demo''"
    by (simp_all add: original_namespace_def original_name_def sample_object_def originalNameLabel_def
        originalNamespaceLabel_def)
  obtain e h where d: "deleteResource sample_ext (mutation_sync\<lparr>s_resourceNamespaceMutated := True\<rparr>)
      (\<lambda>_. NewManager []) sample_object [] = (e, h)" by fastforce
  have "List_contract sample_ext" by (simp add: List_contract_def sample_ext_def)
  from deleteResource_after_rename [OF this _ _ d] show ?thesis by (simp add: o d)
qed

subsection \<open>Match errors\<close>

text \<open>
  A rule whose selectors do not convert never makes a reconcile fail: the error of the match
  is dropped, and the reconcile reports success after reading the object.
\<close>

theorem match_error_dropped:
  assumes "getObject X (s_client r) (requested_object X r req) req h = (Inr ob, h1)"
    and "m_DeletionTimestamp ob = 0" and "ResourceSyncRule_Match X (s_rule r) ob = (ok, rules, Some e)"
  shows "sync_Reconcile X r mgr req h = ((result_zero, None), r, h1)"
proof -
  have "\<not> ok"
    using assms(3) match_rules_err [of X "rs_Rules (rsr_Spec (s_rule r))" ob "[]" ok rules e]
    by (auto simp: ResourceSyncRule_Match_def Spec_Match_def split: if_splits)
  with assms show ?thesis by (simp add: sync_Reconcile_def sync_reconcile_def)
qed

definition bad_selectors :: ext where
  "bad_selectors = (one_object sample_object)\<lparr>x_LabelSelectorAsSelector :=
     (\<lambda>_. Inl (ErrorString ''not a valid label selector operator''))\<rparr>"

theorem match_error_dropped_witness:
  "fst (sync_Reconcile bad_selectors mutation_sync (\<lambda>_. NewManager []) demo_request []) = (result_zero, None)"
proof -
  have "ResourceSyncRule_Match bad_selectors (s_rule mutation_sync) sample_object =
      (False, [], Some (ErrorString ''not a valid label selector operator''))"
    by (simp add: mutation_sync_def bad_selectors_def one_object_def ResourceSyncRule_Match_def Spec_Match_def
        SyncRule_Match_def SyncRuleMatch_Match_def and_then_def match_object_key_def match_namespace_def
        check_labels_def sample_defs)
  from match_error_dropped [OF _ _ this, where req = demo_request and mgr = "\<lambda>_. NewManager []" and h = "[]"]
  show ?thesis
    by (simp add: getObject_def Let_def)
      (simp add: bad_selectors_def one_object_def sample_ext_def requested_object_def initObjectFromGVK_def
        object_zero_def)
qed

subsection \<open>Starting twice\<close>

lemma initLocalInformer_done:
  assumes "initLocalInformer X r ob h = (None, r', h')"
  shows "x_GVKString X (o_GVK ob) \<in> set (s_localInformers r')" and "s_rule r' = s_rule r"
    and "s_localClusterID r' = s_localClusterID r"
  using assms by (auto simp: initLocalInformer_def Let_def split: if_splits option.splits)

text \<open>
  After a successful start the reconciler knows the local cluster's ID, and starting it again
  does nothing: no call, no second informer.
\<close>

theorem sync_Start_idempotent:
  assumes "sync_Start X r h = (None, r', h')" and "s_localClusterID r' \<noteq> ''''"
  shows "sync_Start X r' h2 = (None, r', h2) \<and>
    (s_localClusterID r = '''' \<longrightarrow>
       x_GetNamespace X h LocalSite NamespaceSystem = Inr (s_localClusterID r'))"
proof -
  define g where "g r = snd (GetMutatedGVK (rs_Rules (rsr_Spec (s_rule r))) (rs_GVK (rsr_Spec (s_rule r))))"
    for r :: syncReconciler
  obtain r1 h1 where r1: "s_rule r1 = s_rule r"
      "s_localClusterID r = '''' \<Longrightarrow> x_GetNamespace X h LocalSite NamespaceSystem = Inr (s_localClusterID r1)"
    and i: "initLocalInformer X r1 (initObjectFromGVK X (g r1)) h1 = (None, r', h')"
  proof (cases "s_localClusterID r = ''''")
    case True
    with assms(1) obtain i where n: "x_GetNamespace X h LocalSite NamespaceSystem = Inr i"
      by (auto simp: sync_Start_def GetClusterID_def getNamespace_def split: sum.splits)
    show thesis
      by (rule that [of "r\<lparr>s_localClusterID := i\<rparr>" "h @ [GetNamespace LocalSite NamespaceSystem]"])
        (use assms(1) True n in \<open>auto simp: sync_Start_def GetClusterID_def getNamespace_def g_def Let_def
          split: prod.splits option.splits\<close>)
  next
    case False
    show thesis
      by (rule that [of r h])
        (use assms(1) False in \<open>auto simp: sync_Start_def g_def Let_def split: prod.splits option.splits\<close>)
  qed
  note d = initLocalInformer_done [OF i]
  have "g r' = g r1" using d(2) by (simp add: g_def)
  then have "initLocalInformer X r' (initObjectFromGVK X (g r')) h2 = (None, r', h2)"
    using d(1) by (simp add: initLocalInformer_def Let_def)
  then have "sync_Start X r' h2 = (None, r', h2)"
    using assms(2) by (simp add: sync_Start_def g_def Let_def)
  then show ?thesis using r1(2) d(3) by simp
qed

theorem sync_Start_idempotent_witness:
  "\<exists>r h. sync_Start sample_ext mutation_sync [] = (None, r, h) \<and> sync_Start sample_ext r h = (None, r, h)"
proof -
  obtain r h where s: "sync_Start sample_ext mutation_sync [] = (None, r, h)"
    and "s_localClusterID r = ''id-local''"
    by (simp add: sync_Start_def initLocalInformer_def mutation_sync_def sample_ext_def Let_def)
  then have "s_localClusterID r \<noteq> ''''" by simp
  from sync_Start_idempotent [OF s this, of h] s show ?thesis by blast
qed

end
