(* ===== verification/SyncCopies.thy ===== *)
theory SyncCopies
  imports SyncChecks
begin

text \<open>
  The copies a sync reconciler makes: an object of the peer that is selected is created locally,
  and what becomes of objects whose type is registered with the client.
\<close>

subsection \<open>Creating a copy\<close>

text \<open>
  Documented behaviour of ReconcileResource for an object that does not exist yet: when the
  callback permits the creation and no error is reported, the object, with the last-applied
  annotation, was created.
\<close>

definition ReconcileResource_creates :: "ext \<Rightarrow> bool" where
  "ReconcileResource_creates X \<longleftrightarrow>
     (\<forall>ds ob h h' e. x_ReconcileResource X ds ob h = (None, h') \<longrightarrow>
        x_GetObject X h LocalSite (x_GVKForObject X ob) (remote_request ob) = Inl e \<longrightarrow> x_IsNotFound X e \<longrightarrow>
        (\<forall>k. ds_ShouldCreateFunc ds k ob = Inr True) \<longrightarrow>
        (\<exists>cs v. h' = h @ cs \<and>
           CreateObject LocalSite (ob\<lparr>m_Annotations := (m_Annotations ob)(x_LastAppliedConfig X := v)\<rparr>) \<in> set cs))"

lemma apply_object_after:
  "extends (\<lambda>_. True) (snd (x_ReconcileResource X (getObjectDesiredState X r mgr) ob h))
     (snd (apply_object X r mgr req rules ob h))"
proof -
  have "extends (\<lambda>_. True) k (snd (sync_status X r req rules ob cur k))" for cur k
    by (auto simp: sync_status_def updateObjectStatus_def recordEvent_def extends_def Let_def split: option.split)
  note s = extends_trans [OF _ this]
  show ?thesis
    by (auto simp: apply_object_def getObject_def Let_def split_beta split: option.split sum.split intro: s)
qed

text \<open>A selected object that passes the checks is handed to the resource reconciler.\<close>

lemma sync_reconcile_selected:
  assumes "getObject X (s_client r) (requested_object X r req) req h = (Inr ob, h1)"
    and "m_DeletionTimestamp ob = 0" and "ResourceSyncRule_Match X (s_rule r) ob = (True, rules, None)"
    and "GetMutationOverrides rules = []"
    and "m_Namespace ob \<noteq> '''' \<Longrightarrow> \<exists>ns. x_GetNamespace X h1 LocalSite (m_Namespace ob) = Inr ns"
    and "s_rateLimiter r \<Longrightarrow> \<forall>k. x_RateLimit X k (x_RequestString X req) = Inr False"
  obtains h2 where "extends (\<lambda>c. \<not> is_write c) h1 h2"
    and "sync_reconcile X r mgr req h =
      (let (res, h') = apply_object X r mgr req rules (mutate_metadata X r ob rules) h2 in (res, r, h'))"
proof -
  let ?ob = "mutate_metadata X r ob rules"
  have "fst (check_namespace X req ?ob h1) = None"
    using assms(5) by (cases "m_Namespace ob = ''''") (auto simp: check_namespace_def getNamespace_def)
  then obtain k where n: "check_namespace X req ?ob h1 = (None, k)" by (metis prod.collapse)
  have "fst (check_rate X r req k) = None"
    using assms(6) by (cases "s_rateLimiter r") (auto simp: check_rate_def rateLimit_def)
  then obtain h2 where l: "check_rate X r req k = (None, h2)" by (metis prod.collapse)
  have "extends (\<lambda>c. \<not> is_write c) h1 h2"
    using check_namespace_reads [of h1 X req ?ob] check_rate_reads [of k X r req] n l
    by (auto intro: extends_trans)
  moreover have "sync_reconcile X r mgr req h =
      (let (res, h') = apply_object X r mgr req rules ?ob h2 in (res, r, h'))"
    using assms(1-4) n l by (simp add: sync_reconcile_def sync_matched_def mutateObject_no_overrides)
  ultimately show thesis by (rule that)
qed

lemma sync_Reconcile_after:
  assumes "sync_reconcile X r mgr req h = (res, r1, h1)"
  shows "extends (\<lambda>_. True) h1 (snd (snd (sync_Reconcile X r mgr req h)))"
    and "fst (snd (sync_Reconcile X r mgr req h)) = r1"
  using assms by (cases res; cases "snd res"; simp add: sync_Reconcile_def recordEvent_def)+

lemma created_by_apply:
  assumes "ReconcileResource_creates X" and "\<And>k. ShouldCreateFunc X r (mgr k) ob = Inr True"
    and "x_GetObject X h LocalSite (x_GVKForObject X ob) (remote_request ob) = Inl e" and "x_IsNotFound X e"
    and "fst (x_ReconcileResource X (getObjectDesiredState X r mgr) ob h) = None"
  shows "\<exists>cs v. snd (apply_object X r mgr req rules ob h) = h @ cs \<and>
     CreateObject LocalSite (ob\<lparr>m_Annotations := (m_Annotations ob)(x_LastAppliedConfig X := v)\<rparr>) \<in> set cs"
proof -
  let ?ds = "getObjectDesiredState X r mgr"
  obtain h' where h': "x_ReconcileResource X ?ds ob h = (None, h')" using assms(5) by (metis prod.collapse)
  have "\<forall>k. ds_ShouldCreateFunc ?ds k ob = Inr True" using assms(2) by (simp add: getObjectDesiredState_def)
  with assms(1,3,4) h' obtain cs v where c: "h' = h @ cs"
    "CreateObject LocalSite (ob\<lparr>m_Annotations := (m_Annotations ob)(x_LastAppliedConfig X := v)\<rparr>) \<in> set cs"
    unfolding ReconcileResource_creates_def by blast
  moreover obtain ds where "snd (apply_object X r mgr req rules ob h) = h' @ ds"
    using apply_object_after [of X r mgr ob h req rules] h' by (auto simp: extends_def)
  ultimately show ?thesis by (intro exI [of _ "cs @ ds"] exI [of _ v]) simp
qed

text \<open>
  C3. An object of the peer that belongs to it, is selected by the rule and is not marked as
  sync-disabled is copied: when the local cluster has no object of that name, its namespace is
  there, the reconciler is not rate limited and the resource reconciler reports no error, then a
  reconcile creates a local object of the same name, namespace and content, marked with the
  peer as its owner; its TypeMeta names the type the matched rules ask for. The matched rules
  have no overlay patches and mention neither the ownership nor the sync-disabled annotation.
\<close>

theorem sync_Reconcile_creates:
  assumes services: "ReconcileResource_creates X" "foreign_keys_differ X" "\<And>ob. x_Accessor X ob = None"
    and peer: "getObject X (s_client r) (requested_object X r req) req h = (Inr ob, h1)"
      "m_DeletionTimestamp ob = 0" "owner_of ob = ''''" "m_Annotations ob SyncDisabledAnnotation = None"
    and rule: "ResourceSyncRule_Match X (s_rule r) ob = (True, rules, None)" "GetMutationOverrides rules = []"
      "annotation_untouched rules OwnershipAnnotation" "annotation_untouched rules SyncDisabledAnnotation"
    and ids: "s_clusterID r \<noteq> ''''" "s_clusterID r \<noteq> s_localClusterID r"
    and checks: "m_Namespace ob \<noteq> '''' \<Longrightarrow> \<exists>ns. x_GetNamespace X h1 LocalSite (m_Namespace ob) = Inr ns"
      "s_rateLimiter r \<Longrightarrow> \<forall>k. x_RateLimit X k (x_RequestString X req) = Inr False"
    and absent: "\<And>k. extends (\<lambda>c. \<not> is_write c) h1 k \<Longrightarrow>
      \<exists>e. x_GetObject X k LocalSite (x_GVKForObject X (mutate_metadata X r ob rules)) (remote_request ob) = Inl e
        \<and> x_IsNotFound X e"
    and success: "\<And>k. extends (\<lambda>c. \<not> is_write c) h1 k \<Longrightarrow>
      fst (x_ReconcileResource X (getObjectDesiredState X r mgr) (mutate_metadata X r ob rules) k) = None"
  shows "\<exists>cs copy. snd (snd (sync_Reconcile X r mgr req h)) = h1 @ cs \<and>
    CreateObject LocalSite copy \<in> set cs \<and> m_Name copy = m_Name ob \<and> m_Namespace copy = m_Namespace ob \<and>
    o_Rest copy = o_Rest ob \<and> o_GVK copy = snd (GetMutatedGVK rules (o_GVK ob)) \<and>
    owner_of copy = s_clusterID r"
proof -
  let ?ob = "mutate_metadata X r ob rules"
  obtain h2 where h2: "extends (\<lambda>c. \<not> is_write c) h1 h2"
    and s: "sync_reconcile X r mgr req h = (let (res, h') = apply_object X r mgr req rules ?ob h2 in (res, r, h'))"
    by (rule sync_reconcile_selected [OF peer(1,2) rule(1,2) checks])
  have owner: "owner_of ?ob = s_clusterID r" using services(2) rule(3) peer(3) by (simp add: mutate_metadata_owner)
  have "m_Annotations ?ob SyncDisabledAnnotation = None"
    using services(2) rule(4) peer(4)
    by (simp add: mutate_metadata_annotation mutated_annotations_untouched foreign_keys_differ_def annotation_defs)
  then have create: "ShouldCreateFunc X r m ?ob = Inr True" for m
    using owner services(3) ids by (simp add: ShouldCreate_iff)
  have "remote_request ?ob = remote_request ob" by (simp add: remote_request_def)
  with absent [OF h2] obtain e where
    "x_GetObject X h2 LocalSite (x_GVKForObject X ?ob) (remote_request ?ob) = Inl e" "x_IsNotFound X e" by metis
  from created_by_apply [OF services(1) create this success [OF h2]]
  obtain ds v where c: "snd (apply_object X r mgr req rules ?ob h2) = h2 @ ds"
    "CreateObject LocalSite (?ob\<lparr>m_Annotations := (m_Annotations ?ob)(x_LastAppliedConfig X := v)\<rparr>) \<in> set ds"
    by blast
  obtain res h3 where a: "apply_object X r mgr req rules ?ob h2 = (res, h3)" by fastforce
  with s have "sync_reconcile X r mgr req h = (res, r, h3)" by simp
  note after = sync_Reconcile_after(1) [OF this]
  obtain cs1 where 1: "h2 = h1 @ cs1" using h2 by (auto simp: extends_def)
  obtain cs2 where 2: "snd (snd (sync_Reconcile X r mgr req h)) = h3 @ cs2" using after by (auto simp: extends_def)
  show ?thesis
    by (rule exI [of _ "cs1 @ ds @ cs2"],
        rule exI [of _ "?ob\<lparr>m_Annotations := (m_Annotations ?ob)(x_LastAppliedConfig X := v)\<rparr>"])
      (use a c 1 2 owner foreign_keys_last_applied(1) [OF services(2)] in \<open>simp add: owner_of_def\<close>)
qed

lemma one_object_creates: "ReconcileResource_creates (one_object ob)"
  using same_annotation
  by (auto simp: ReconcileResource_creates_def sample_reconcile_def eq_commute [of _ "_\<lparr>m_Annotations := _\<rparr>"])

lemma demo_facts [simp]:
  "owner_of sample_object = ''''" "m_Annotations sample_object k = None" "m_Name sample_object = ''demo''"
  "s_clusterID mutation_sync = ''id-peer''" "s_localClusterID mutation_sync = ''id-local''"
  "x_Accessor (one_object ob) o' = None"
  by (simp_all add: owner_of_def sample_object_def mutation_sync_def one_object_def sample_ext_def)

theorem sync_Reconcile_creates_witness:
  "\<exists>copy. CreateObject LocalSite copy \<in> set (snd (snd (sync_Reconcile (one_object sample_object) mutation_sync
      (\<lambda>_. NewManager []) demo_request []))) \<and> m_Name copy = ''demo'' \<and> owner_of copy = ''id-peer''"
proof -
  let ?X = "one_object sample_object" let ?mgr = "\<lambda>_::history. NewManager []"
  obtain h1 where h1: "getObject ?X (s_client mutation_sync) (requested_object ?X mutation_sync demo_request)
      demo_request [] = (Inr sample_object, h1)"
    by (simp add: getObject_def Let_def)
  have create: "ds_ShouldCreateFunc (getObjectDesiredState ?X mutation_sync ?mgr) k
      (mutate_metadata ?X mutation_sync sample_object (rs_Rules sample_spec)) = Inr True" for k
    using demo_create by (simp add: getObjectDesiredState_def)
  have "\<exists>cs copy. snd (snd (sync_Reconcile ?X mutation_sync ?mgr demo_request [])) = h1 @ cs \<and>
      CreateObject LocalSite copy \<in> set cs \<and> m_Name copy = m_Name sample_object \<and>
      m_Namespace copy = m_Namespace sample_object \<and> o_Rest copy = o_Rest sample_object \<and>
      o_GVK copy = snd (GetMutatedGVK (rs_Rules sample_spec) (o_GVK sample_object)) \<and>
      owner_of copy = s_clusterID mutation_sync"
    by (rule sync_Reconcile_creates [OF one_object_creates _ _ h1 _ _ _ demo_match])
      (simp_all add: create sample_reconcile_def)
  then show ?thesis by auto
qed

subsection \<open>Registered types\<close>

text \<open>
  Documented behaviour for a type that the scheme knows: a new object of it has an empty
  TypeMeta, and the client goes by the Go type of an object, not by its TypeMeta.
\<close>

definition registered :: "ext \<Rightarrow> GroupVersionKind \<Rightarrow> bool" where
  "registered X g \<longleftrightarrow>
     (\<exists>ob. x_SchemeNew X g = Inr ob \<and> o_GVK ob = gvk_zero \<and> o_GoType ob = Some g) \<and>
     (\<forall>ob. o_GoType ob = Some g \<longrightarrow> x_GVKForObject X ob = g)"

lemma registered_request:
  assumes "registered X (s_gvk r)"
  shows "o_GVK (requested_object X r req) = gvk_zero" "o_GoType (requested_object X r req) = Some (s_gvk r)"
    and "x_GVKForObject X (requested_object X r req) = s_gvk r"
proof -
  show g: "o_GVK (requested_object X r req) = gvk_zero" "o_GoType (requested_object X r req) = Some (s_gvk r)"
    using assms by (auto simp: registered_def requested_object_def initObjectFromGVK_def)
  show "x_GVKForObject X (requested_object X r req) = s_gvk r" using assms g(2) by (simp add: registered_def)
qed

text \<open>
  A rule that changes the type of the objects does so in the TypeMeta only: for an object of a
  registered type the client still reads and writes the original type.
\<close>

theorem registered_type_not_mutated:
  assumes "registered X g" and "o_GoType ob = Some g" and "GetMutationOverrides rules = []"
  shows "\<exists>ob'. mutateObject X r ob rules h = (Inr ob', r, h) \<and>
    o_GVK ob' = snd (GetMutatedGVK rules (o_GVK ob)) \<and> x_GVKForObject X ob' = g"
proof -
  have "o_GoType (mutate_metadata X r ob rules) = o_GoType ob"
    by (simp add: mutate_metadata_def Let_def split_beta)
  with assms(1,2) have "x_GVKForObject X (mutate_metadata X r ob rules) = g" by (simp add: registered_def)
  then show ?thesis using mutateObject_no_overrides [OF assms(3)] by simp
qed

text \<open>
  After one object of a rule was renamed or moved, the copy of an object of a registered type
  that is gone on the peer is looked for with the empty type: when the list of that type is
  refused, the reconcile fails, and the copy stays.
\<close>

theorem renamed_copy_stays:
  assumes "registered X (s_gvk r)" and "s_localGVK r = s_gvk r"
    and "s_resourceNamespaceMutated r \<or> s_resourceNameMutated r"
    and "x_GetObject X h (s_client r) (s_gvk r) req = Inl e" and "x_IsNotFound X e"
    and "\<And>k ns ls. \<exists>e. x_ListObjects X k LocalSite (gvk_zero\<lparr>gvk_Kind := ''List''\<rparr>) ns ls = Inl e"
  shows "\<exists>err h'. sync_Reconcile X r mgr req h = ((result_zero, Some err), r, h') \<and>
    extends (\<lambda>c. \<not> is_write c) h h'"
proof -
  let ?ob = "requested_object X r req" let ?h1 = "h @ [GetObject (s_client r) (s_gvk r) req]"
  let ?ls = "[(originalNameLabel, original_name ?ob), (OwnershipAnnotation, s_clusterID r)]"
  let ?g = "gvk_zero\<lparr>gvk_Kind := ''List''\<rparr>"
  let ?L = "ListObjects LocalSite ?g (original_namespace ?ob) ?ls"
  note b = registered_request [OF assms(1), of req]
  obtain err where l: "x_ListObjects X ?h1 LocalSite ?g (original_namespace ?ob) ?ls = Inl err"
    using assms(6) by blast
  have "gvk_Kind gvk_zero = ''''" by (simp add: gvk_zero_def)
  then have "deleteResource X r mgr ?ob ?h1 = (Some err, ?h1 @ [?L])"
    using assms(2,3) l b(1) by (auto simp: deleteResource_def getObjectByOriginalNamespaceAndName_def listObjects_def Let_def)
  moreover have "getObject X (s_client r) ?ob req h = (Inl e, ?h1)"
    using assms(4) b(3) by (simp add: getObject_def)
  ultimately have "sync_reconcile X r mgr req h = ((result_zero, Some err), r, ?h1 @ [?L])"
    using assms(5) by (simp add: sync_reconcile_def Let_def)
  then show ?thesis by (simp add: sync_Reconcile_def recordEvent_def extends_def is_write_def)
qed

definition typed_ext :: ext where
  "typed_ext = sample_ext\<lparr>x_SchemeNew := (\<lambda>g. Inr (object_zero\<lparr>o_GoType := Some g\<rparr>)),
     x_ListObjects := (\<lambda>_ _ _ _ _. Inl (ErrorString ''no matches for kind''))\<rparr>"

lemma typed_ext_registered: "registered typed_ext g"
  by (simp add: registered_def typed_ext_def sample_ext_def object_zero_def)

theorem registered_type_not_mutated_witness:
  "\<exists>ob'. mutateObject typed_ext mutation_sync (sample_object\<lparr>o_GoType := Some (o_GVK sample_object)\<rparr>) [gvk_rule] [] =
      (Inr ob', mutation_sync, []) \<and> gvk_Kind (o_GVK ob') = ''Copy'' \<and>
    gvk_Kind (x_GVKForObject typed_ext ob') = ''Secret''"
proof -
  have "GetMutationOverrides [gvk_rule] = []" by (simp add: gvk_rule_def no_mutations_def)
  from registered_type_not_mutated [OF typed_ext_registered _ this,
      of "sample_object\<lparr>o_GoType := Some (o_GVK sample_object)\<rparr>" "o_GVK sample_object" mutation_sync "[]"]
  show ?thesis
    by (auto simp: GetMutatedGVK_def gvk_rule_def no_mutations_def Mutations_GetGVK_def gvk_Empty_def sample_object_def)
qed

theorem renamed_copy_stays_witness:
  "snd (fst (sync_Reconcile typed_ext (mutation_sync\<lparr>s_resourceNameMutated := True\<rparr>) (\<lambda>_. NewManager [])
      demo_request [])) \<noteq> None"
proof -
  have "\<exists>err h'. sync_Reconcile typed_ext (mutation_sync\<lparr>s_resourceNameMutated := True\<rparr>) (\<lambda>_. NewManager [])
      demo_request [] = ((result_zero, Some err), mutation_sync\<lparr>s_resourceNameMutated := True\<rparr>, h') \<and>
      extends (\<lambda>c. \<not> is_write c) [] h'"
    by (rule renamed_copy_stays [OF typed_ext_registered, where e = not_found])
      (simp_all add: mutation_sync_def typed_ext_def sample_ext_def not_found_def)
  then show ?thesis by auto
qed

end
