(* ===== verification/ControllerLife.thy ===== *)
theory ControllerLife
  imports SyncChecks
begin

text \<open>
  The life of a managed controller (src/pkg/clusters/managed\_controller.go) and of the
  reconciler it embeds (src/pkg/clusters/managed\_reconciler.go): the retry loop of the
  pre-check, the set-up of caches and clients, and the goroutine that runs the controller. The
  theory Controllers has the part of this life that a cluster sees; the lemmas on
  \<open>controller_view\<close> show that the two agree.

  Contexts and managers are numbers. The scheme, the recorder, the caches and the clients made
  from a manager or for a context are named by its number; None is the nil pointer.
\<close>

subsection \<open>The base of the reconcilers\<close>

record ManagedReconcilerBase =
  rb_name :: string
  rb_ctx :: "nat option"
  rb_mgr :: "nat option"
  rb_recorder :: "nat option"
  rb_scheme :: "nat option"
  rb_client :: "nat option"

definition NewManagedReconciler :: "string \<Rightarrow> ManagedReconcilerBase" where
  "NewManagedReconciler name =
     \<lparr>rb_name = name, rb_ctx = None, rb_mgr = None, rb_recorder = None, rb_scheme = None, rb_client = None\<rparr>"

definition SetClient :: "nat option \<Rightarrow> ManagedReconcilerBase \<Rightarrow> ManagedReconcilerBase" where
  "SetClient cl r = r\<lparr>rb_client := cl\<rparr>"

definition base_PreCheck :: "ManagedReconcilerBase \<Rightarrow> history \<Rightarrow> gerror option \<times> history" where
  "base_PreCheck r h = (None, h)"

definition base_Start ::
  "ManagedReconcilerBase \<Rightarrow> history \<Rightarrow> gerror option \<times> ManagedReconcilerBase \<times> history" where
  "base_Start r h = (None, r, h)"

definition DoCleanup :: "ManagedReconcilerBase \<Rightarrow> ManagedReconcilerBase" where
  "DoCleanup r = r\<lparr>rb_ctx := None, rb_mgr := None, rb_recorder := None, rb_scheme := None\<rparr>"

definition SetContext :: "nat option \<Rightarrow> ManagedReconcilerBase \<Rightarrow> ManagedReconcilerBase" where
  "SetContext ctx r = (if rb_ctx r \<noteq> None then r else r\<lparr>rb_ctx := ctx\<rparr>)"

definition SetScheme :: "nat option \<Rightarrow> ManagedReconcilerBase \<Rightarrow> ManagedReconcilerBase" where
  "SetScheme s r = r\<lparr>rb_scheme := s\<rparr>"

definition SetManager :: "nat \<Rightarrow> ManagedReconcilerBase \<Rightarrow> ManagedReconcilerBase" where
  "SetManager m r =
     (if rb_mgr r \<noteq> None then r
      else (SetScheme (Some m) (r\<lparr>rb_mgr := Some m\<rparr>))\<lparr>rb_recorder := Some m\<rparr>)"

definition base_SetupWithController ::
  "nat option \<Rightarrow> ManagedReconcilerBase \<Rightarrow> history \<Rightarrow> gerror option \<times> ManagedReconcilerBase \<times> history" where
  "base_SetupWithController ctx r h = (None, SetContext ctx r, h)"

definition base_SetupWithManager ::
  "nat \<Rightarrow> ManagedReconcilerBase \<Rightarrow> history \<Rightarrow> gerror option \<times> ManagedReconcilerBase \<times> history" where
  "base_SetupWithManager m r h = (None, SetManager m r, h)"

definition base_Reconcile :: "NamespacedName \<Rightarrow> history \<Rightarrow> Result \<times> gerror option \<times> history" where
  "base_Reconcile req h = (result_zero, None, h)"

lemmas base_defs =
  SetClient_def DoCleanup_def SetContext_def SetScheme_def SetManager_def
  base_SetupWithController_def base_SetupWithManager_def base_PreCheck_def base_Start_def

text \<open>The methods of the interface ManagedReconciler that a managed controller calls.\<close>

record 'r reconciler_ops =
  ro_SetManager :: "nat \<Rightarrow> 'r \<Rightarrow> 'r"
  ro_PreCheck :: "'r \<Rightarrow> history \<Rightarrow> gerror option \<times> history"
  ro_SetClient :: "nat option \<Rightarrow> 'r \<Rightarrow> 'r"
  ro_SetupWithController :: "nat option \<Rightarrow> 'r \<Rightarrow> history \<Rightarrow> gerror option \<times> 'r \<times> history"
  ro_Start :: "'r \<Rightarrow> history \<Rightarrow> gerror option \<times> 'r \<times> history"
  ro_DoCleanup :: "'r \<Rightarrow> 'r"

definition base_ops :: "ManagedReconcilerBase reconciler_ops" where
  "base_ops =
     \<lparr>ro_SetManager = SetManager, ro_PreCheck = base_PreCheck, ro_SetClient = SetClient,
      ro_SetupWithController = base_SetupWithController, ro_Start = base_Start, ro_DoCleanup = DoCleanup\<rparr>"

subsection \<open>The sync reconciler as a managed reconciler\<close>

text \<open>
  The parts of a sync reconciler that its set-up makes: the embedded base, the local cache and
  client, named by the context they were made for, and the controller that runs it.
\<close>

record sync_instance =
  si_base :: ManagedReconcilerBase
  si_sync :: syncReconciler
  si_localCache :: "nat option"
  si_localClient :: "nat option"
  si_ctrl :: "nat option"

definition sync_createClient :: "ext \<Rightarrow> nat option \<Rightarrow> history \<Rightarrow> nat option result \<times> history" where
  "sync_createClient X cch h =
     (case x_NewClient X h of
        Some e \<Rightarrow> (Inl e, h)
      | None \<Rightarrow>
          (case managerCall X ''NewDelegatingClient'' h of
             (Some e, h1) \<Rightarrow> (Inl e, h1)
           | (None, h1) \<Rightarrow> (Inr cch, h1)))"

text \<open>WaitForCacheSync returns false: an error of the call stands for it.\<close>

definition sync_createAndStartCache :: "ext \<Rightarrow> sync_instance \<Rightarrow> history \<Rightarrow> nat option result \<times> history" where
  "sync_createAndStartCache X r h =
     (case managerCall X ''cache.New'' h of
        (Some e, h1) \<Rightarrow> (Inl e, h1)
      | (None, h1) \<Rightarrow>
          (case managerCall X ''WaitForCacheSync'' h1 of
             (Some _, h2) \<Rightarrow> (Inl (ErrorString ''could not sync cache''), h2)
           | (None, h2) \<Rightarrow> (Inr (rb_ctx (si_base r)), h2)))"

text \<open>The watches on the peer's objects and on the in-memory source that hands over the queue.\<close>

definition sync_watches ::
  "ext \<Rightarrow> nat option \<Rightarrow> sync_instance \<Rightarrow> history \<Rightarrow> gerror option \<times> sync_instance \<times> history" where
  "sync_watches X ctx r h =
     (case setupController X (x_GVKString X (rs_GVK (rsr_Spec (s_rule (si_sync r))))) ''watch'' h of
        (Some e, h1) \<Rightarrow> (Some e, r, h1)
      | (None, h1) \<Rightarrow>
          (case setupController X ''InMemorySource'' ''watch'' h1 of
             (Some e, h2) \<Rightarrow> (Some e, r, h2)
           | (None, h2) \<Rightarrow> (None, r\<lparr>si_ctrl := ctx\<rparr>, h2)))"

definition sync_SetupWithController ::
  "ext \<Rightarrow> nat option \<Rightarrow> sync_instance \<Rightarrow> history \<Rightarrow> gerror option \<times> sync_instance \<times> history" where
  "sync_SetupWithController X ctx r h =
     (case base_SetupWithController ctx (si_base r) h of
        (Some e, b, h1) \<Rightarrow> (Some e, r\<lparr>si_base := b\<rparr>, h1)
      | (None, b, h1) \<Rightarrow>
          let r1 = r\<lparr>si_base := b\<rparr> in
          (case sync_createAndStartCache X r1 h1 of
             (Inl e, h2) \<Rightarrow> (Some e, r1, h2)
           | (Inr cch, h2) \<Rightarrow>
               let r2 = r1\<lparr>si_localCache := cch\<rparr> in
               (case sync_createClient X cch h2 of
                  (Inl e, h3) \<Rightarrow> (Some e, r2, h3)
                | (Inr cli, h3) \<Rightarrow> sync_watches X ctx (r2\<lparr>si_localClient := cli\<rparr>) h3)))"

definition sync_SetupWithManager :: "gerror option" where
  "sync_SetupWithManager = Some (ErrorString ''not implemented'')"

definition sync_ops :: "ext \<Rightarrow> sync_instance reconciler_ops" where
  "sync_ops X =
     \<lparr>ro_SetManager = (\<lambda>m r. r\<lparr>si_base := SetManager m (si_base r)\<rparr>),
      ro_PreCheck = (\<lambda>r h. PreCheck X (si_sync r) (s_client (si_sync r)) h),
      ro_SetClient = (\<lambda>cl r. r\<lparr>si_base := SetClient cl (si_base r)\<rparr>),
      ro_SetupWithController = sync_SetupWithController X,
      ro_Start = (\<lambda>r h. case sync_Start X (si_sync r) h of (e, s, h1) \<Rightarrow> (e, r\<lparr>si_sync := s\<rparr>, h1)),
      ro_DoCleanup = (\<lambda>r. r\<lparr>si_base := DoCleanup (si_base r)\<rparr>)\<rparr>"

subsection \<open>The managed controller\<close>

text \<open>
  The goroutines of a controller: one that is about to run the pre-check, one that waits in the
  select of the retry loop for a tick or the end of a context, one that waits for the election
  of the manager, one in which the controller runs, and one that waits for the end of a context
  to clean up.
\<close>

datatype goroutine = Checking | Selecting nat | Electing | Running | Waiting nat

text \<open>
  The fields of managedController. The number of contexts made so far, those that are done,
  the goroutines and whether one of them dereferenced nil belong to the state of the program.
\<close>

record 'r managed =
  md_name :: string
  md_rec :: 'r
  md_mgr :: "nat option"
  md_ctrl :: bool
  md_ctx :: "nat option"
  md_cancel :: "nat option"
  md_client :: "nat option"
  md_cache :: "nat option"
  md_next :: nat
  md_done :: "nat list"
  md_go :: "goroutine list"
  md_panic :: bool

definition new_managed :: "string \<Rightarrow> 'r \<Rightarrow> 'r managed" where
  "new_managed name r =
     \<lparr>md_name = name, md_rec = r, md_mgr = None, md_ctrl = False, md_ctx = None, md_cancel = None,
      md_client = None, md_cache = None, md_next = 0, md_done = [], md_go = [], md_panic = False\<rparr>"

definition managed_Start :: "'r reconciler_ops \<Rightarrow> nat \<Rightarrow> 'r managed \<Rightarrow> 'r managed" where
  "managed_Start R m c =
     (if md_cancel c \<noteq> None then c
      else c\<lparr>md_ctx := Some (md_next c), md_cancel := Some (md_next c), md_next := Suc (md_next c),
             md_mgr := Some m, md_rec := ro_SetManager R m (md_rec c), md_go := md_go c @ [Checking]\<rparr>)"

definition managed_Stop :: "'r managed \<Rightarrow> 'r managed" where
  "managed_Stop c =
     (case md_cancel c of
        Some k \<Rightarrow> c\<lparr>md_done := k # md_done c, md_cancel := None\<rparr>
      | None \<Rightarrow> c\<lparr>md_cancel := None\<rparr>)"

definition createClient ::
  "ext \<Rightarrow> 'r managed \<Rightarrow> history \<Rightarrow> nat option result \<times> history" where
  "createClient X c h =
     (case x_NewClient X h of
        Some e \<Rightarrow> (Inl e, h)
      | None \<Rightarrow>
          (case managerCall X ''NewDelegatingClient'' h of
             (Some e, h1) \<Rightarrow> (Inl e, h1)
           | (None, h1) \<Rightarrow> (Inr (md_mgr c), h1)))"

definition createAndStartCache :: "ext \<Rightarrow> 'r managed \<Rightarrow> history \<Rightarrow> nat option result \<times> history" where
  "createAndStartCache X c h =
     (if md_ctx c = None then (Inl (ErrorString ''context is nil''), h)
      else
        case managerCall X ''cache.New'' h of
          (Some e, h1) \<Rightarrow> (Inl e, h1)
        | (None, h1) \<Rightarrow>
            (case managerCall X ''WaitForCacheSync'' h1 of
               (Some _, h2) \<Rightarrow> (Inl (ErrorString ''could not sync cache''), h2)
             | (None, h2) \<Rightarrow> (Inr (md_ctx c), h2)))"

text \<open>
  The injection function of the controller: what is injected into a value that has the
  injection interfaces for a cache or a client.
\<close>

datatype injection = InjectCache "nat option" | InjectClient "nat option" | InjectFields "nat option"

definition getInjectFunc :: "'r managed \<Rightarrow> bool \<Rightarrow> bool \<Rightarrow> injection" where
  "getInjectFunc c wantsCache wantsClient =
     (if wantsCache then InjectCache (md_cache c)
      else if wantsClient then InjectClient (md_client c)
      else InjectFields (md_mgr c))"

text \<open>The end of start: the injection, the client and the set-up of the reconciler.\<close>

definition setup_reconciler ::
  "ext \<Rightarrow> 'r reconciler_ops \<Rightarrow> 'r managed \<Rightarrow> history \<Rightarrow> gerror option \<times> 'r managed \<times> history" where
  "setup_reconciler X R c h =
     (case managerCall X ''InjectFunc'' h of
        (Some e, h1) \<Rightarrow> (Some e, c, h1)
      | (None, h1) \<Rightarrow>
          (case ro_SetupWithController R (md_ctx c) (ro_SetClient R (md_client c) (md_rec c)) h1 of
             (Some e, r, h2) \<Rightarrow> (Some (x_WithStackIf X e), c\<lparr>md_rec := r\<rparr>, h2)
           | (None, r, h2) \<Rightarrow> (None, c\<lparr>md_rec := r\<rparr>, h2)))"

definition managed_start ::
  "ext \<Rightarrow> 'r reconciler_ops \<Rightarrow> 'r managed \<Rightarrow> history \<Rightarrow> gerror option \<times> 'r managed \<times> history" where
  "managed_start X R c h =
     (case managerCall X ''controller.NewUnmanaged'' h of
        (Some e, h1) \<Rightarrow> (Some (x_WithStackIf X e), c\<lparr>md_ctrl := False\<rparr>, h1)
      | (None, h1) \<Rightarrow>
          let c1 = c\<lparr>md_ctrl := True\<rparr> in
          (case createAndStartCache X c1 h1 of
             (Inl e, h2) \<Rightarrow> (Some (x_WithStackIf X e), c1, h2)
           | (Inr cch, h2) \<Rightarrow>
               let c2 = c1\<lparr>md_cache := cch\<rparr> in
               (case createClient X c2 h2 of
                  (Inl e, h3) \<Rightarrow> (Some (x_WithStackIf X e), c2, h3)
                | (Inr cli, h3) \<Rightarrow> setup_reconciler X R (c2\<lparr>md_client := cli\<rparr>) h3)))"

text \<open>The function check of Start, which the retry loop calls.\<close>

definition managed_check ::
  "ext \<Rightarrow> 'r reconciler_ops \<Rightarrow> 'r managed \<Rightarrow> history \<Rightarrow> gerror option \<times> 'r managed \<times> history" where
  "managed_check X R c h =
     (case ro_PreCheck R (md_rec c) h of
        (Some e, h1) \<Rightarrow> (Some (x_WrapIf X e ''pre check error''), c, h1)
      | (None, h1) \<Rightarrow>
          (case managed_start X R c h1 of
             (Some e, c1, h2) \<Rightarrow> (Some (x_WrapIf X e ''could not start controller''), c1, h2)
           | (None, c1, h2) \<Rightarrow> (None, c1, h2)))"

text \<open>
  The retry loop on its own, for a run in which nothing else changes the controller: it ends
  when the check succeeds or when the select takes the branch of the finished context.
\<close>

partial_function (option) retry_loop ::
  "ext \<Rightarrow> 'r reconciler_ops \<Rightarrow> 'r managed \<Rightarrow> history \<Rightarrow> (bool \<times> 'r managed \<times> history) option" where
  "retry_loop X R c h =
     (case managed_check X R c h of
        (None, c1, h1) \<Rightarrow> Some (True, c1, h1)
      | (Some e, c1, h1) \<Rightarrow> if x_CtxDone X h1 then Some (False, c1, h1) else retry_loop X R c1 h1)"

text \<open>The goroutine that runs the controller: up to the controller's Start, after it, and its end.\<close>

definition run_begin ::
  "ext \<Rightarrow> 'r reconciler_ops \<Rightarrow> 'r managed \<Rightarrow> history \<Rightarrow> goroutine option \<times> 'r managed \<times> history" where
  "run_begin X R c h =
     (case managerCall X ''WaitForCacheSync'' h of
        (Some _, h1) \<Rightarrow> (None, c, h1)
      | (None, h1) \<Rightarrow>
          (case ro_Start R (md_rec c) h1 of
             (Some e, r, h2) \<Rightarrow> (None, c\<lparr>md_rec := r\<rparr>, h2)
           | (None, r, h2) \<Rightarrow> (Some Running, c\<lparr>md_rec := r\<rparr>, h2)))"

definition wait_context :: "(nat \<Rightarrow> goroutine) \<Rightarrow> 'r managed \<Rightarrow> goroutine option \<times> 'r managed" where
  "wait_context g c =
     (case md_ctx c of None \<Rightarrow> (None, c\<lparr>md_panic := True\<rparr>) | Some k \<Rightarrow> (Some (g k), c))"

definition run_end :: "'r reconciler_ops \<Rightarrow> 'r managed \<Rightarrow> 'r managed" where
  "run_end R c =
     c\<lparr>md_rec := ro_DoCleanup R (md_rec c), md_cancel := None, md_ctx := None, md_ctrl := False\<rparr>"

text \<open>A step of a goroutine: what becomes of it, and of the controller.\<close>

inductive go_step ::
  "ext \<Rightarrow> 'r reconciler_ops \<Rightarrow> goroutine \<Rightarrow> 'r managed \<times> history \<Rightarrow>
    goroutine option \<times> 'r managed \<times> history \<Rightarrow> bool" for X R where
  checked: "managed_check X R c h = (None, c1, h1) \<Longrightarrow> go_step X R Checking (c, h) (Some Electing, c1, h1)"
| failed: "managed_check X R c h = (Some e, c1, h1) \<Longrightarrow> wait_context Selecting c1 = (g, c2) \<Longrightarrow>
    go_step X R Checking (c, h) (g, c2, h1)"
| tick: "go_step X R (Selecting k) (c, h) (Some Checking, c, h)"
| quit: "k \<in> set (md_done c) \<Longrightarrow> go_step X R (Selecting k) (c, h) (None, c, h)"
| elected: "go_step X R Electing (c, h) (run_begin X R c h)"
| returned: "wait_context Waiting c = (g, c1) \<Longrightarrow> go_step X R Running (c, h) (g, c1, h)"
| cleaned: "k \<in> set (md_done c) \<Longrightarrow> go_step X R (Waiting k) (c, h) (None, run_end R c, h)"

text \<open>
  The runs of a controller: it is started any number of times, its contexts end at any time,
  its goroutines make steps, and once it is stopped, it is started again only when no goroutine
  of it is left. The flag says whether it is stopped. (RemoveFeature stops a controller and
  keeps it as pending, so that it may be started again at any time; theorem \<open>restart_race\<close>
  shows what can happen when that is too early.)
\<close>

inductive managed_run ::
  "ext \<Rightarrow> 'r reconciler_ops \<Rightarrow> 'r managed \<times> history \<Rightarrow> bool \<Rightarrow> 'r managed \<times> history \<Rightarrow> bool" for X R s where
  run_init: "managed_run X R s False s"
| run_start: "managed_run X R s False (c, h) \<Longrightarrow> managed_run X R s False (managed_Start R m c, h)"
| run_restart: "managed_run X R s True (c, h) \<Longrightarrow> md_go c = [] \<Longrightarrow>
    managed_run X R s False (managed_Start R m c, h)"
| run_stop: "managed_run X R s b (c, h) \<Longrightarrow> managed_run X R s True (managed_Stop c, h)"
| run_done: "managed_run X R s b (c, h) \<Longrightarrow> k < md_next c \<Longrightarrow>
    managed_run X R s b (c\<lparr>md_done := k # md_done c\<rparr>, h)"
| run_go: "managed_run X R s b (c, h) \<Longrightarrow> md_go c = gs @ g # gs' \<Longrightarrow>
    go_step X R g (c, h) (g', c1, h1) \<Longrightarrow>
    managed_run X R s b (c1\<lparr>md_go := gs @ (case g' of None \<Rightarrow> [] | Some g1 \<Rightarrow> [g1]) @ gs'\<rparr>, h1)"

inductive_cases go_step_E: "go_step X R g s t"

subsection \<open>Frames\<close>

text \<open>The part of a controller that its checks do not change.\<close>

definition life ::
  "'r managed \<Rightarrow> nat option \<times> nat option \<times> nat option \<times> nat list \<times> goroutine list \<times> bool \<times> nat" where
  "life c = (md_mgr c, md_ctx c, md_cancel c, md_done c, md_go c, md_panic c, md_next c)"

lemma lifeD:
  assumes "life c = life c'"
  shows "md_mgr c = md_mgr c'" "md_ctx c = md_ctx c'" "md_cancel c = md_cancel c'"
    "md_done c = md_done c'" "md_go c = md_go c'" "md_panic c = md_panic c'" "md_next c = md_next c'"
  using assms by (simp_all add: life_def)

lemma setup_reconciler_life: "setup_reconciler X R c h = (e, c', h') \<Longrightarrow> life c' = life c"
  by (auto simp: setup_reconciler_def life_def split: prod.splits option.splits)

lemma managed_start_life: "managed_start X R c h = (e, c', h') \<Longrightarrow> life c' = life c"
  by (auto simp: managed_start_def Let_def life_def dest!: setup_reconciler_life
      split: prod.splits option.splits sum.splits)

lemma managed_check_life: "managed_check X R c h = (e, c', h') \<Longrightarrow> life c' = life c"
  by (auto simp: managed_check_def dest!: managed_start_life split: prod.splits option.splits)

lemma run_begin_life: "run_begin X R c h = (g, c', h') \<Longrightarrow> life c' = life c \<and> (g = None \<or> g = Some Running)"
  by (auto simp: run_begin_def life_def split: prod.splits option.splits)

subsection \<open>The view a cluster has of a controller\<close>

definition controller_view :: "ResourceSyncRule option \<Rightarrow> ClusterFeatureRequirement list \<Rightarrow> 'r managed \<Rightarrow> managedController" where
  "controller_view rule reqs c =
     \<lparr>mc_name = md_name c, mc_rule = rule, mc_requiredClusterFeatures = reqs,
      mc_cancelSet = (md_cancel c \<noteq> None), mc_contextSet = (md_ctx c \<noteq> None)\<rparr>"

subsection \<open>Contexts and goroutines\<close>

text \<open>
  The invariant of the runs: nothing panicked, there is at most one goroutine, it waits for the
  current context only, and the cancel function is that of the current context until the
  controller is stopped, when the current context is done.
\<close>

definition managed_inv :: "bool \<Rightarrow> 'r managed \<Rightarrow> bool" where
  "managed_inv stopped c \<longleftrightarrow>
     \<not> md_panic c \<and> length (md_go c) \<le> 1 \<and> (md_go c \<noteq> [] \<longrightarrow> md_ctx c \<noteq> None) \<and>
     (\<forall>k. Selecting k \<in> set (md_go c) \<or> Waiting k \<in> set (md_go c) \<longrightarrow> md_ctx c = Some k) \<and>
     (if stopped then md_cancel c = None \<and> (\<forall>k. md_ctx c = Some k \<longrightarrow> k \<in> set (md_done c))
      else md_cancel c = md_ctx c)"

lemma go_step_life:
  assumes "go_step X R g (c, h) (g', c1, h1)" and "md_ctx c \<noteq> None" and "\<not> md_panic c"
  shows "\<not> md_panic c1 \<and>
    (life c1 = life c \<and> (\<forall>k. g' = Some (Selecting k) \<or> g' = Some (Waiting k) \<longrightarrow> md_ctx c = Some k) \<or>
     g' = None \<and> md_ctx c1 = None \<and> md_cancel c1 = None)"
  using assms(1)
proof (cases rule: go_step.cases)
  case (failed e c1')
  from managed_check_life [OF failed(2)] have l: "life c1' = life c" .
  with failed(3) assms(2,3) lifeD [OF l] show ?thesis
    by (auto simp: wait_context_def split: option.splits)
next
  case checked
  from managed_check_life [OF checked(3)] assms(3) lifeD [OF managed_check_life [OF checked(3)]] checked show ?thesis
    by simp
next
  case elected
  from run_begin_life [OF elected(2) [symmetric]] assms(3) lifeD(6) [of c1 c] show ?thesis by auto
next
  case returned
  with assms(2,3) show ?thesis by (auto simp: wait_context_def split: option.splits)
next
  case cleaned
  with assms(3) show ?thesis by (simp add: run_end_def)
qed (use assms(3) in auto)

lemma managed_inv_go:
  assumes i: "managed_inv b c" and g: "md_go c = gs @ g # gs'" and s: "go_step X R g (c, h) (g', c1, h1)"
  shows "managed_inv b (c1\<lparr>md_go := gs @ (case g' of None \<Rightarrow> [] | Some g1 \<Rightarrow> [g1]) @ gs'\<rparr>)"
proof -
  have e: "gs = []" "gs' = []" and ctx: "md_ctx c \<noteq> None" and p: "\<not> md_panic c"
    using i g by (auto simp: managed_inv_def)
  from go_step_life [OF s ctx p] show ?thesis
  proof (elim conjE disjE)
    assume l: "life c1 = life c" and k: "\<forall>k. g' = Some (Selecting k) \<or> g' = Some (Waiting k) \<longrightarrow> md_ctx c = Some k"
    show ?thesis using i k ctx lifeD [OF l] unfolding e
      by (cases g') (auto simp: managed_inv_def)
  next
    assume "\<not> md_panic c1" "g' = None" "md_ctx c1 = None" "md_cancel c1 = None"
    then show ?thesis unfolding e by (simp add: managed_inv_def)
  qed
qed

lemma managed_inv_run:
  assumes "managed_run X R s b t" and "managed_inv False (fst s)"
  shows "managed_inv b (fst t)"
  using assms(1)
proof (induction rule: managed_run.induct)
  case run_init
  then show ?case by (rule assms(2))
next
  case (run_start c h m)
  then show ?case by (auto simp: managed_inv_def managed_Start_def)
next
  case (run_restart c h m)
  then show ?case by (auto simp: managed_inv_def managed_Start_def)
next
  case (run_stop b c h)
  then show ?case by (auto simp: managed_inv_def managed_Stop_def split: option.splits if_splits)
next
  case (run_done b c h k)
  then show ?case by (auto simp: managed_inv_def split: if_splits)
next
  case (run_go b c h gs g gs' g' c1 h1)
  then show ?case using managed_inv_go by simp
qed

lemma new_managed_inv: "managed_inv False (new_managed name r)"
  by (simp add: managed_inv_def new_managed_def)

subsection \<open>Reconcilers under a managed controller\<close>

text \<open>
  What a managed controller relies on in its reconciler: the set-up methods change the embedded
  base in the way the base's own methods do, and the others leave it alone.
\<close>

locale managed_reconciler =
  fixes R :: "'r reconciler_ops" and base :: "'r \<Rightarrow> ManagedReconcilerBase"
  assumes base_SetManager: "base (ro_SetManager R m r) = SetManager m (base r)"
    and base_SetClient: "base (ro_SetClient R cl r) = SetClient cl (base r)"
    and base_Setup: "ro_SetupWithController R ctx r h = (e, r', h') \<Longrightarrow> base r' = SetContext ctx (base r)"
    and base_Start_keeps: "ro_Start R r h = (e, r', h') \<Longrightarrow> base r' = base r"
    and base_DoCleanup: "base (ro_DoCleanup R r) = DoCleanup (base r)"
begin

lemma run_end_unbinds:
  "rb_mgr (base (md_rec (run_end R c))) = None" "rb_ctx (base (md_rec (run_end R c))) = None"
  by (simp_all add: run_end_def base_DoCleanup DoCleanup_def)

lemma Start_binds:
  assumes "md_cancel c = None" and "rb_mgr (base (md_rec c)) = None"
  shows "rb_mgr (base (md_rec (managed_Start R m c))) = Some m"
    and "rb_scheme (base (md_rec (managed_Start R m c))) = Some m"
    and "rb_recorder (base (md_rec (managed_Start R m c))) = Some m"
    and "rb_ctx (base (md_rec (managed_Start R m c))) = rb_ctx (base (md_rec c))"
  using assms by (simp_all add: managed_Start_def base_SetManager SetManager_def SetScheme_def)

lemma managed_start_binds:
  assumes "managed_start X R c h = (None, c', h')" and "rb_ctx (base (md_rec c)) = None"
  shows "rb_ctx (base (md_rec c')) = md_ctx c \<and> rb_client (base (md_rec c')) = md_mgr c \<and>
    rb_mgr (base (md_rec c')) = rb_mgr (base (md_rec c)) \<and> md_ctx c \<noteq> None"
  using assms
  by (auto simp: managed_start_def setup_reconciler_def createAndStartCache_def createClient_def
      Let_def managerCall_def base_SetClient SetClient_def SetContext_def dest!: base_Setup
      split: prod.splits option.splits sum.splits if_splits)

lemma check_binds:
  assumes "managed_check X R c h = (None, c', h')" and "rb_ctx (base (md_rec c)) = None"
  shows "rb_ctx (base (md_rec c')) = md_ctx c \<and> rb_client (base (md_rec c')) = md_mgr c \<and>
    rb_mgr (base (md_rec c')) = rb_mgr (base (md_rec c)) \<and> md_ctx c \<noteq> None"
  using assms
  by (auto simp: managed_check_def dest!: managed_start_binds split: prod.splits option.splits)

lemma restart_binds:
  assumes "managed_check X R (managed_Start R m (run_end R c)) h = (None, c', h')"
  shows "rb_mgr (base (md_rec c')) = Some m \<and> rb_client (base (md_rec c')) = Some m \<and>
    rb_ctx (base (md_rec c')) = Some (md_next c)"
proof -
  have n: "md_cancel (run_end R c) = None" by (simp add: run_end_def)
  note S = Start_binds [OF n run_end_unbinds(1), of m]
  from check_binds [OF assms] S run_end_unbinds(2) show ?thesis
    by (simp add: managed_Start_def run_end_def)
qed

end

interpretation base_rec: managed_reconciler base_ops "\<lambda>r. r"
  by unfold_locales (simp_all add: base_ops_def base_SetupWithController_def base_Start_def)

lemma sync_watches_base: "sync_watches X ctx r h = (e, r', h') \<Longrightarrow> si_base r' = si_base r"
  by (auto simp: sync_watches_def split: prod.splits option.splits)

interpretation sync_rec: managed_reconciler "sync_ops X" si_base for X
proof unfold_locales
  fix ctx r h e r' h'
  assume "ro_SetupWithController (sync_ops X) ctx r h = (e, r', h')"
  then show "si_base r' = SetContext ctx (si_base r)"
    by (auto simp: sync_ops_def sync_SetupWithController_def base_SetupWithController_def Let_def
        dest!: sync_watches_base split: prod.splits sum.splits)
qed (auto simp: sync_ops_def split: prod.splits)

subsection \<open>The retry loop\<close>

text \<open>The result of the attempt after n failed ones, and whether the loop ends with it.\<close>

primrec attempt ::
  "ext \<Rightarrow> 'r reconciler_ops \<Rightarrow> nat \<Rightarrow> 'r managed \<Rightarrow> history \<Rightarrow> gerror option \<times> 'r managed \<times> history" where
  "attempt X R 0 c h = managed_check X R c h"
| "attempt X R (Suc n) c h = (case managed_check X R c h of (e, c1, h1) \<Rightarrow> attempt X R n c1 h1)"

definition ended :: "ext \<Rightarrow> gerror option \<times> 'r managed \<times> history \<Rightarrow> bool" where
  "ended X t \<longleftrightarrow> fst t = None \<or> x_CtxDone X (snd (snd t))"

lemma retry_loop_ends:
  "ended X (attempt X R n c h) \<Longrightarrow> list_all (\<lambda>i. \<not> ended X (attempt X R i c h)) [0..<n] \<Longrightarrow>
    attempt X R n c h = (e, c1, h1) \<Longrightarrow> retry_loop X R c h = Some (e = None, c1, h1)"
proof (induction n arbitrary: c h)
  case 0
  then show ?case by (subst retry_loop.simps) (auto simp: ended_def split: option.split)
next
  case (Suc n)
  obtain e0 c0 h0 where m: "managed_check X R c h = (e0, c0, h0)" by (metis prod_cases3)
  have "0 \<in> set [0..<Suc n]" by auto
  then have "\<not> ended X (attempt X R 0 c h)" using Suc.prems(2) unfolding list_all_iff by blast
  then obtain e' where e': "e0 = Some e'" "\<not> x_CtxDone X h0" by (auto simp: ended_def m)
  have "list_all (\<lambda>i. \<not> ended X (attempt X R i c0 h0)) [0..<n]"
  proof -
    have "\<not> ended X (attempt X R (Suc i) c h)" if "i < n" for i
    proof -
      have "Suc i \<in> set [0..<Suc n]" using that by auto
      then show ?thesis using Suc.prems(2) unfolding list_all_iff by blast
    qed
    then show ?thesis by (simp add: list_all_iff m)
  qed
  with Suc.IH [of c0 h0] Suc.prems have "retry_loop X R c0 h0 = Some (e = None, c1, h1)"
    by (simp add: m)
  then show ?case by (subst retry_loop.simps) (simp add: m e')
qed

lemma retry_loop_attempt:
  assumes "retry_loop X R c h = Some t"
  shows "\<exists>n. ended X (attempt X R n c h)"
proof (rule retry_loop.raw_induct [OF _ assms])
  fix f X c h t and R :: "'a reconciler_ops"
  assume 1: "\<And>X R c h t. f X R c h = Some t \<Longrightarrow> \<exists>n. ended X (attempt X R n c h)"
    "(case managed_check X R c h of
        (None, c1, h1) \<Rightarrow> Some (True, c1, h1)
      | (Some e, c1, h1) \<Rightarrow> if x_CtxDone X h1 then Some (False, c1, h1) else f X R c1 h1) = Some t"
  obtain e0 c0 h0 where m: "managed_check X R c h = (e0, c0, h0)" by (metis prod_cases3)
  show "\<exists>n. ended X (attempt X R n c h)"
  proof (cases "e0 = None \<or> x_CtxDone X h0")
    case True
    then show ?thesis by (auto simp: ended_def m intro!: exI [of _ 0])
  next
    case False
    then have "f X R c0 h0 = Some t" using 1(2) by (auto simp: m split: option.splits)
    from 1(1) [OF this] obtain n where "ended X (attempt X R n c0 h0)" by blast
    then show ?thesis by (intro exI [of _ "Suc n"]) (simp add: m)
  qed
qed

subsection \<open>Sync reconcilers across restarts\<close>

lemma sync_Setup_sync:
  assumes "sync_SetupWithController X ctx r h = (e, r', h')"
  shows "si_sync r' = si_sync r" and "e = None \<Longrightarrow> si_ctrl r' = ctx"
  using assms
  by (auto simp: sync_SetupWithController_def base_SetupWithController_def sync_watches_def Let_def
      split: prod.splits sum.splits option.splits)

lemma sync_start_sync:
  assumes "managed_start X (sync_ops X) c h = (None, c', h')"
  shows "si_sync (md_rec c') = si_sync (md_rec c) \<and> si_ctrl (md_rec c') = md_ctx c'"
  using assms
  by (auto simp: managed_start_def setup_reconciler_def sync_ops_def Let_def
      dest: sync_Setup_sync split: prod.splits option.splits sum.splits)

lemma sync_check_sync:
  assumes "managed_check X (sync_ops X) c h = (None, c', h')"
  shows "si_sync (md_rec c') = si_sync (md_rec c) \<and> si_ctrl (md_rec c') = md_ctx c'"
  using assms by (auto simp: managed_check_def dest!: sync_start_sync split: prod.splits option.splits)

subsection \<open>Properties\<close>

text \<open>
  C17. A managed controller that is started and stopped any number of times, where a start that
  follows a stop waits for the end of its goroutine, has at most one goroutine, which never
  dereferences a nil context, and the cancel function it keeps is that of its current context;
  while it is stopped, the context its goroutine waits for is done.
\<close>

theorem managed_run_safe:
  assumes "managed_run X R (new_managed name r, h) stopped (c, h')"
  shows "\<not> md_panic c \<and> length (md_go c) \<le> 1
    \<and> (stopped \<or> md_cancel c = md_ctx c)
    \<and> (stopped \<and> (Selecting k \<in> set (md_go c) \<or> Waiting k \<in> set (md_go c)) \<longrightarrow> k \<in> set (md_done c))"
proof -
  have "managed_inv stopped c" using managed_inv_run [OF assms] new_managed_inv [of name r] by simp
  then show ?thesis by (cases stopped) (auto simp: managed_inv_def)
qed

theorem managed_run_safe_witness:
  "\<not> md_panic (managed_Stop (managed_Start base_ops 0 (new_managed ''c'' (NewManagedReconciler ''c''))))"
proof -
  let ?s = "(new_managed ''c'' (NewManagedReconciler ''c''), [])"
  have "managed_run sample_ext base_ops ?s True (managed_Stop (managed_Start base_ops 0 (fst ?s)), [])"
    using run_stop [OF run_start [OF run_init]] by simp
  from managed_run_safe [OF this [simplified]] show ?thesis by blast
qed

text \<open>
  C18. The retry loop of a controller's Start returns exactly if some attempt succeeds or is
  followed by the end of the context. If an attempt is the first such one, the loop returns
  its outcome.
\<close>

theorem retry_loop_returns:
  "((\<exists>t. retry_loop X R c h = Some t) \<longleftrightarrow> (\<exists>n. ended X (attempt X R n c h))) \<and>
   (ended X (attempt X R n c h) \<and> list_all (\<lambda>i. \<not> ended X (attempt X R i c h)) [0..<n] \<longrightarrow>
      (\<exists>e c1 h1. attempt X R n c h = (e, c1, h1) \<and> retry_loop X R c h = Some (e = None, c1, h1)))"
proof (intro conjI impI iffI; elim exE conjE)
  fix t assume "retry_loop X R c h = Some t"
  then show "\<exists>n. ended X (attempt X R n c h)" by (rule retry_loop_attempt)
next
  fix n assume n: "ended X (attempt X R n c h)"
  define l where "l = (LEAST i. ended X (attempt X R i c h))"
  have "ended X (attempt X R l c h)" unfolding l_def using n by (rule LeastI)
  moreover have "list_all (\<lambda>i. \<not> ended X (attempt X R i c h)) [0..<l]"
    by (auto simp: list_all_iff l_def dest: not_less_Least)
  moreover obtain e c1 h1 where "attempt X R l c h = (e, c1, h1)" by (metis prod_cases3)
  ultimately show "\<exists>t. retry_loop X R c h = Some t" by (metis retry_loop_ends)
next
  assume n: "ended X (attempt X R n c h)" "list_all (\<lambda>i. \<not> ended X (attempt X R i c h)) [0..<n]"
  obtain e c1 h1 where "attempt X R n c h = (e, c1, h1)" by (metis prod_cases3)
  with retry_loop_ends [OF n this]
  show "\<exists>e c1 h1. attempt X R n c h = (e, c1, h1) \<and> retry_loop X R c h = Some (e = None, c1, h1)" by blast
qed

lemma base_check: "fst (managed_check sample_ext base_ops (managed_Start base_ops 0 (new_managed n r)) h) = None"
  by (simp add: managed_check_def managed_start_def setup_reconciler_def createAndStartCache_def
      createClient_def managerCall_def managed_Start_def new_managed_def sample_ext_def base_ops_def base_defs Let_def)

theorem retry_loop_returns_witness:
  "\<exists>t. retry_loop sample_ext base_ops (managed_Start base_ops 0 (new_managed ''c'' (NewManagedReconciler ''c''))) [] = Some t"
proof -
  let ?c = "managed_Start base_ops 0 (new_managed ''c'' (NewManagedReconciler ''c''))"
  have "ended sample_ext (attempt sample_ext base_ops 0 ?c [])"
    unfolding ended_def attempt.simps base_check by simp
  then show ?thesis using retry_loop_returns [of sample_ext base_ops ?c "[]" 0] by blast
qed

text \<open>
  Start and Stop of a managed controller and the end of its goroutine, seen through the fields
  a cluster reads, are the operations the model of a cluster uses.
\<close>

theorem controller_view_refines:
  "controller_view rule reqs (managed_Start R m c) =
     fst (controller_Start cl (controller_view rule reqs c) h) \<and>
   controller_view rule reqs (managed_Stop c) =
     fst (controller_Stop cl (controller_view rule reqs c) h) \<and>
   [(n, controller_view rule reqs (run_end R c))] =
     cl_controllers (controller_goroutine_end n (d\<lparr>cl_controllers := [(n, controller_view rule reqs c)]\<rparr>))"
  by (auto simp: controller_view_def managed_Start_def managed_Stop_def controller_Start_def controller_Stop_def
      run_end_def controller_goroutine_end_def split: option.split)

text \<open>
  C19. After the goroutine of a sync controller has cleaned up, a new start that passes its check
  binds the reconciler to the manager of this start and to a new context.
\<close>

theorem sync_restart_binds:
  assumes "managed_check X (sync_ops X) (managed_Start (sync_ops X) m (run_end (sync_ops X) c)) h = (None, c', h')"
  shows "rb_mgr (si_base (md_rec c')) = Some m \<and> rb_client (si_base (md_rec c')) = Some m \<and>
    rb_ctx (si_base (md_rec c')) = Some (md_next c)"
  by (rule sync_rec.restart_binds [OF assms])

definition sample_instance :: sync_instance where
  "sample_instance =
     \<lparr>si_base = NewManagedReconciler ''sync'', si_sync = mutation_sync, si_localCache = None,
      si_localClient = None, si_ctrl = None\<rparr>"

lemma sample_PreCheck: "fst (PreCheck sample_ext r cl h) = None"
  by (simp add: PreCheck_def writePreCheck_def sample_ext_def accessReview_def)

lemma sync_check_sample:
  assumes "md_ctx c \<noteq> None"
  shows "fst (managed_check sample_ext (sync_ops sample_ext) c h) = None"
proof -
  obtain h1 where p: "PreCheck sample_ext (si_sync (md_rec c)) (s_client (si_sync (md_rec c))) h = (None, h1)"
    using sample_PreCheck by (metis prod.collapse)
  have X: "x_ManagerCall sample_ext = (\<lambda>_ _. None)" "x_SetupController sample_ext = (\<lambda>_ _ _. None)"
    "x_NewClient sample_ext = (\<lambda>_. None)"
    by (simp_all add: sample_ext_def)
  obtain k where "md_ctx c = Some k" using assms by blast
  with p show ?thesis
    by (simp add: managed_check_def managed_start_def setup_reconciler_def createAndStartCache_def
        createClient_def managerCall_def setupController_def sync_ops_def sync_SetupWithController_def
        sync_createAndStartCache_def sync_createClient_def sync_watches_def base_defs X Let_def)
qed

theorem sync_restart_binds_witness:
  "rb_mgr (si_base (md_rec (fst (snd (managed_check sample_ext (sync_ops sample_ext)
     (managed_Start (sync_ops sample_ext) 7
       (run_end (sync_ops sample_ext) (new_managed ''c'' sample_instance))) []))))) = Some 7"
proof -
  let ?c = "managed_Start (sync_ops sample_ext) 7 (run_end (sync_ops sample_ext) (new_managed ''c'' sample_instance))"
  have "md_ctx ?c \<noteq> None" by (simp add: managed_Start_def run_end_def)
  then obtain c' h' where c: "managed_check sample_ext (sync_ops sample_ext) ?c [] = (None, c', h')"
    by (metis sync_check_sample prod.collapse)
  from sync_restart_binds [OF c] c show ?thesis by simp
qed

text \<open>
  When the context of a controller ends while it retries a failed check, the retry loop is
  left with the cancel function still set: no goroutine is left, and every later Start returns
  at once.
\<close>

theorem restart_ignored:
  assumes "managed_check X R (managed_Start R m (new_managed name r)) h = (Some e, c1, h1)"
  shows "\<exists>c'. managed_run X R (new_managed name r, h) False (c', h1) \<and> md_go c' = [] \<and>
    (\<forall>m'. managed_Start R m' c' = c')"
proof -
  let ?c = "managed_Start R m (new_managed name r)"
  have f: "md_ctx ?c = Some 0" "md_cancel ?c = Some 0" "md_go ?c = [Checking]"
    by (simp_all add: managed_Start_def new_managed_def)
  note l = lifeD [OF managed_check_life [OF assms]]
  have w: "wait_context Selecting c1 = (Some (Selecting 0), c1)" using l f by (simp add: wait_context_def)
  note R = run_start [OF run_init, where m = m]
  have "managed_run X R (new_managed name r, h) False (c1\<lparr>md_go := [Selecting 0]\<rparr>, h1)"
    using run_go [OF R, where gs = "[]" and gs' = "[]", OF _ failed [OF assms w]] f by simp
  from run_done [OF this, of 0] l(7)
  have d: "managed_run X R (new_managed name r, h) False (c1\<lparr>md_go := [Selecting 0], md_done := 0 # md_done c1\<rparr>, h1)"
    by (simp add: managed_Start_def new_managed_def)
  let ?c' = "c1\<lparr>md_done := 0 # md_done c1, md_go := []\<rparr>"
  have "managed_run X R (new_managed name r, h) False (?c', h1)"
    using run_go [OF d, where gs = "[]" and gs' = "[]" and g = "Selecting 0", OF _ quit] by simp
  moreover have "md_go ?c' = []" "managed_Start R m' ?c' = ?c'" for m'
    using l(3) f(2) by (simp_all add: managed_Start_def)
  ultimately show ?thesis by blast
qed

theorem restart_ignored_witness:
  "\<exists>c' h1. managed_run (sample_ext\<lparr>x_ManagerCall := \<lambda>_ _. Some not_found\<rparr>) base_ops
      (new_managed ''c'' (NewManagedReconciler ''c''), []) False (c', h1) \<and> md_go c' = [] \<and>
    (\<forall>m'. managed_Start base_ops m' c' = c')"
proof -
  let ?X = "sample_ext\<lparr>x_ManagerCall := \<lambda>_ _. Some not_found\<rparr>"
  let ?c = "managed_Start base_ops 0 (new_managed ''c'' (NewManagedReconciler ''c''))"
  have "fst (managed_check ?X base_ops ?c []) \<noteq> None"
    by (simp add: managed_check_def managed_start_def managerCall_def base_ops_def base_defs)
  then obtain e c1 h1 where "managed_check ?X base_ops ?c [] = (Some e, c1, h1)"
    by (metis not_None_eq prod.collapse)
  from restart_ignored [OF this] show ?thesis by blast
qed

text \<open>
  A controller that is stopped and started again before its old goroutine has cleaned up: the
  clean-up resets the context of the new start, and the new goroutine dereferences nil after its
  check, which fails without a context.
\<close>

lemma managed_check_nil_context:
  assumes "md_ctx c = None"
  obtains e c1 h1 where "managed_check X R c h = (Some e, c1, h1)" "md_ctx c1 = None"
proof -
  have s: "\<exists>e c1 h1. managed_start X R c k = (Some e, c1, h1) \<and> md_ctx c1 = None" for k
    using assms by (simp add: managed_start_def createAndStartCache_def managerCall_def Let_def split: option.split)
  obtain p h1 where p: "ro_PreCheck R (md_rec c) h = (p, h1)" by fastforce
  show thesis
  proof (cases p)
    case None
    with s [of h1] p that show thesis by (auto simp: managed_check_def)
  next
    case (Some e)
    with p assms that show thesis by (simp add: managed_check_def)
  qed
qed

theorem restart_race:
  assumes "md_go c = [Waiting k]" "md_ctx c = Some k" "md_cancel c = Some k"
  shows "let c2 = managed_Start R m (managed_Stop c) in
    md_go c2 = [Waiting k, Checking] \<and> go_step X R (Waiting k) (c2, h) (None, run_end R c2, h) \<and>
    (\<exists>c3 h3. go_step X R Checking (run_end R c2, h) (None, c3, h3) \<and> md_panic c3)"
proof -
  let ?c = "managed_Start R m (managed_Stop c)"
  have f: "md_go ?c = [Waiting k, Checking]" "k \<in> set (md_done ?c)"
    by (simp_all add: managed_Start_def managed_Stop_def assms)
  obtain e c1 h1 where e: "managed_check X R (run_end R ?c) h = (Some e, c1, h1)" "md_ctx c1 = None"
    by (rule managed_check_nil_context [of "run_end R ?c"]) (simp add: run_end_def)
  have "wait_context Selecting c1 = (None, c1\<lparr>md_panic := True\<rparr>)" by (simp add: wait_context_def e(2))
  from failed [OF e(1) this] have "\<exists>c3 h3. go_step X R Checking (run_end R ?c, h) (None, c3, h3) \<and> md_panic c3"
    by (intro exI [of _ "c1\<lparr>md_panic := True\<rparr>"] exI [of _ h1]) simp
  with f cleaned [OF f(2)] show ?thesis by (simp add: Let_def)
qed

text \<open>
  The informers a sync reconciler has set up survive its clean-up: when its controller ran
  once and is started again, with a new cache and a new controller, running it makes no
  informer and no watch on the local copies.
\<close>

theorem local_watch_lost:
  assumes "run_begin X (sync_ops X) c h = (Some Running, c1, h1)"
    and "s_localClusterID (si_sync (md_rec c1)) \<noteq> ''''"
    and "managed_check X (sync_ops X) (managed_Start (sync_ops X) m (run_end (sync_ops X) c1)) h2 = (None, c2, h3)"
  shows "si_ctrl (md_rec c2) = md_ctx c2 \<and>
    snd (snd (run_begin X (sync_ops X) c2 h4)) = h4 @ [ManagerCall ''WaitForCacheSync'']"
proof -
  obtain h0 where s: "sync_Start X (si_sync (md_rec c)) h0 = (None, si_sync (md_rec c1), h1)"
    using assms(1) by (auto simp: run_begin_def sync_ops_def split: prod.splits option.splits)
  have k: "si_sync (md_rec c2) = si_sync (md_rec c1)" "si_ctrl (md_rec c2) = md_ctx c2"
    using sync_check_sync [OF assms(3)]
    by (simp_all add: managed_Start_def run_end_def sync_ops_def)
  have "sync_Start X (si_sync (md_rec c2)) h5 = (None, si_sync (md_rec c2), h5)" for h5
    using sync_Start_idempotent [OF s assms(2)] k(1) by simp
  then show ?thesis
    using k(2) by (simp add: run_begin_def sync_ops_def managerCall_def split: option.split)
qed

theorem local_watch_lost_witness:
  "\<exists>c2. si_ctrl (md_rec c2) \<noteq> None \<and>
     snd (snd (run_begin sample_ext (sync_ops sample_ext) c2 [])) = [ManagerCall ''WaitForCacheSync'']"
proof -
  let ?R = "sync_ops sample_ext"
  have X: "x_ManagerCall sample_ext = (\<lambda>_ _. None)" "x_GetInformer sample_ext = (\<lambda>_ _. None)"
    "x_Watch sample_ext = (\<lambda>_ _. None)"
    by (simp_all add: sample_ext_def)
  let ?c = "new_managed ''c'' sample_instance"
  obtain c1 h1 where b: "run_begin sample_ext ?R ?c [] = (Some Running, c1, h1)"
    and i: "s_localClusterID (si_sync (md_rec c1)) = ''id-local''"
    by (auto simp: run_begin_def managerCall_def X sync_ops_def new_managed_def sample_instance_def
        sync_Start_def initLocalInformer_def mutation_sync_def Let_def)
  let ?s = "managed_Start ?R 7 (run_end ?R c1)"
  have s: "md_ctx ?s \<noteq> None" by (simp add: managed_Start_def run_end_def)
  then obtain c2 h2 where c: "managed_check sample_ext ?R ?s [] = (None, c2, h2)"
    by (metis sync_check_sample prod.collapse)
  have "md_ctx c2 \<noteq> None" using s lifeD(2) [OF managed_check_life [OF c]] by simp
  moreover have "s_localClusterID (si_sync (md_rec c1)) \<noteq> []" using i by simp
  from local_watch_lost [OF b this c, of "[]"] calculation show ?thesis by (intro exI [of _ c2]) simp
qed

end
