(* ===== verification/Settings.thy ===== *)
theory Settings
  imports External "HOL-Library.Word"
begin

text \<open>
  The configuration of the controller (src/internal/config/config.go) and the flags,
  defaults and environment variables it is read from (src/cmd/manager/config.go). A struct
  the code walks over by reflection is a tree of fields with their mapstructure tags.
  Integers are mathematical except the log verbosity, which the code negates as an int8.
\<close>

subsection \<open>The configuration\<close>

record LeaderElection =
  le_Enabled :: bool
  le_Name :: string
  le_Namespace :: string

record Logging =
  log_Verbosity :: "8 word"
  log_Format :: string

record ClusterController =
  ccl_WorkerCount :: int
  ccl_RefreshIntervalSeconds :: int

record SyncControllerRateLimit =
  rl_MaxKeys :: int
  rl_MaxRatePerSecond :: int
  rl_MaxBurst :: int

record SyncController =
  scl_WorkerCount :: int
  scl_RateLimit :: SyncControllerRateLimit

record ClusterValidatorWebhook =
  cvw_Enabled :: bool
  cvw_CertificateDirectory :: string
  cvw_Name :: string
  cvw_Port :: nat

record Configuration =
  cfg_MetricsAddr :: string
  cfg_HealthAddr :: string
  cfg_LeaderElection :: LeaderElection
  cfg_Logging :: Logging
  cfg_ClusterController :: ClusterController
  cfg_SyncController :: SyncController
  cfg_Namespace :: string
  cfg_ProvisionLocalCluster :: string
  cfg_ManageLocalClusterSecret :: bool
  cfg_ReaderServiceAccountName :: string
  cfg_NetworkName :: string
  cfg_APIServerEndpointAddress :: string
  cfg_CoreResourcesSourceEnabled :: bool
  cfg_ClusterValidatorWebhook :: ClusterValidatorWebhook

definition LogFormatConsole :: string where "LogFormatConsole = ''console''"
definition LogFormatJSON :: string where "LogFormatJSON = ''json''"

subsection \<open>Environment variables\<close>

datatype struct_field = Leaf "string option" | Struct "string option" "struct_field list"

text \<open>The fields of the struct Configuration, as reflection shows them.\<close>

definition LeaderElection_fields :: "struct_field list" where
  "LeaderElection_fields = [Leaf (Some ''enabled''), Leaf (Some ''name''), Leaf (Some ''namespace'')]"

definition Logging_fields :: "struct_field list" where
  "Logging_fields = [Leaf (Some ''verbosity''), Leaf (Some ''format'')]"

definition ClusterController_fields :: "struct_field list" where
  "ClusterController_fields = [Leaf (Some ''workerCount''), Leaf (Some ''refreshIntervalSeconds'')]"

definition SyncControllerRateLimit_fields :: "struct_field list" where
  "SyncControllerRateLimit_fields =
     [Leaf (Some ''maxKeys''), Leaf (Some ''maxRatePerSecond''), Leaf (Some ''maxBurst'')]"

definition SyncController_fields :: "struct_field list" where
  "SyncController_fields =
     [Leaf (Some ''workerCount''), Struct (Some ''rateLimit'') SyncControllerRateLimit_fields]"

definition ClusterValidatorWebhook_fields :: "struct_field list" where
  "ClusterValidatorWebhook_fields =
     [Leaf (Some ''enabled''), Leaf (Some ''certificate-directory''), Leaf (Some ''name''),
      Leaf (Some ''port'')]"

definition Configuration_fields :: "struct_field list" where
  "Configuration_fields =
     [Leaf (Some ''metrics-addr''), Leaf (Some ''health-addr''),
      Struct (Some ''leader-election'') LeaderElection_fields,
      Struct (Some ''log'') Logging_fields,
      Struct (Some ''clusterController'') ClusterController_fields,
      Struct (Some ''syncController'') SyncController_fields,
      Leaf (Some ''namespace''), Leaf (Some ''provision-local-cluster''),
      Leaf (Some ''manage-local-cluster-secret''), Leaf (Some ''reader-service-account-name''),
      Leaf (Some ''network-name''), Leaf (Some ''apiserver-endpoint-address''),
      Leaf (Some ''core-resources-source-enabled''),
      Struct (Some ''cluster-validator-webhook'') ClusterValidatorWebhook_fields]"

text \<open>The strings package's Join.\<close>

fun strings_Join :: "string list \<Rightarrow> string \<Rightarrow> string" where
  "strings_Join [] sep = []"
| "strings_Join [x] sep = x"
| "strings_Join (x # y # ys) sep = x @ sep @ strings_Join (y # ys) sep"

text \<open>
  The keys for which BindEnv is called, in order. Field by field: an untagged field is
  skipped, a struct is walked with its tag as one more part, any other field is bound. An
  error of BindEnv is a panic, here the value Inl.
\<close>

fun bindEnvs :: "(string \<Rightarrow> gerror option) \<Rightarrow> struct_field list \<Rightarrow> string list \<Rightarrow> string list result" where
  "bindEnvs bind [] parts = Inr []"
| "bindEnvs bind (Leaf None # fs) parts = bindEnvs bind fs parts"
| "bindEnvs bind (Struct None gs # fs) parts = bindEnvs bind fs parts"
| "bindEnvs bind (Struct (Some tv) gs # fs) parts =
     (case bindEnvs bind gs (parts @ [tv]) of
        Inl e \<Rightarrow> Inl e
      | Inr ks \<Rightarrow> map_sum id (append ks) (bindEnvs bind fs parts))"
| "bindEnvs bind (Leaf (Some tv) # fs) parts =
     (let key = strings_Join (parts @ [tv]) ''.'' in
      case bind key of
        Some e \<Rightarrow> Inl e
      | None \<Rightarrow> map_sum id (Cons key) (bindEnvs bind fs parts))"

subsection \<open>Flags and defaults\<close>

datatype flag_value = StringFlag string | BoolFlag bool | IntFlag int | UintFlag nat

text \<open>
  What initConfiguration leaves behind: the flags with their default values, the keys bound
  to a flag of another name, and the defaults of the keys that have no flag. The last call
  binds every flag under its own name.
\<close>

record settings =
  set_flags :: "(string \<times> flag_value) list"
  set_bound :: "(string \<times> string) list"
  set_defaults :: "(string \<times> int) list"

definition initConfiguration :: settings where
  "initConfiguration =
     \<lparr>set_flags =
        [(''metrics-addr'', StringFlag '':8080''),
         (''health-addr'', StringFlag '':8090''),
         (''devel-mode'', BoolFlag False),
         (''version'', BoolFlag False),
         (''dump-config'', BoolFlag False),
         (''enable-leader-election'', BoolFlag False),
         (''leader-election-name'', StringFlag ''cluster-registry-leader-election''),
         (''leader-election-namespace'', StringFlag ''''),
         (''log-verbosity'', IntFlag 0),
         (''log-format'', StringFlag ''json''),
         (''namespace'', StringFlag ''cluster-registry''),
         (''provision-local-cluster'', StringFlag ''''),
         (''manage-local-cluster-secret'', BoolFlag True),
         (''reader-service-account-name'', StringFlag ''cluster-registry-controller-reader''),
         (''network-name'', StringFlag ''default''),
         (''apiserver-endpoint-address'', StringFlag ''''),
         (''core-resources-source-enabled'', BoolFlag True),
         (''cluster-validator-webhook-enabled'', BoolFlag True),
         (''cluster-validator-webhook-name'', StringFlag ''cluster-validator-webhook''),
         (''cluster-validator-webhook-port'', UintFlag 9443),
         (''cluster-validator-webhook-certificate-directory'',
            StringFlag ''/tmp/webhooks/clusterValidator/certificates'')],
      set_bound =
        [(''leader-election.enabled'', ''enable-leader-election''),
         (''leader-election.name'', ''leader-election-name''),
         (''leader-election.namespace'', ''leader-election-namespace''),
         (''log.verbosity'', ''log-verbosity''),
         (''log.format'', ''log-format''),
         (''namespace'', ''namespace''),
         (''provision-local-cluster'', ''provision-local-cluster''),
         (''manage-local-cluster-secret'', ''manage-local-cluster-secret''),
         (''reader-service-account-name'', ''reader-service-account-name''),
         (''network-name'', ''network-name''),
         (''apiserver-endpoint-address'', ''apiserver-endpoint-address''),
         (''core-resources-source-enabled'', ''core-resources-source-enabled''),
         (''cluster-validator-webhook.enabled'', ''cluster-validator-webhook-enabled''),
         (''cluster-validator-webhook.name'', ''cluster-validator-webhook-name''),
         (''cluster-validator-webhook.port'', ''cluster-validator-webhook-port''),
         (''cluster-validator-webhook.certificate-directory'',
            ''cluster-validator-webhook-certificate-directory'')],
      set_defaults =
        [(''syncController.workerCount'', 1),
         (''syncController.rateLimit.maxKeys'', 1024),
         (''syncController.rateLimit.maxRatePerSecond'', 5),
         (''syncController.rateLimit.maxBurst'', 10),
         (''clusterController.workerCount'', 2),
         (''clusterController.refreshIntervalSeconds'', 0)]\<rparr>"

subsection \<open>Lemmas\<close>

text \<open>The paths of the tagged leaves, which is what bindEnvs is meant to bind.\<close>

fun leaf_paths :: "struct_field list \<Rightarrow> string list list" where
  "leaf_paths [] = []"
| "leaf_paths (Leaf None # fs) = leaf_paths fs"
| "leaf_paths (Struct None gs # fs) = leaf_paths fs"
| "leaf_paths (Struct (Some tv) gs # fs) = map (Cons tv) (leaf_paths gs) @ leaf_paths fs"
| "leaf_paths (Leaf (Some tv) # fs) = [tv] # leaf_paths fs"

lemma bindEnvs_paths:
  "bindEnvs (\<lambda>_. None) fs parts = Inr (map (\<lambda>p. strings_Join (parts @ p) ''.'') (leaf_paths fs))"
proof (induction fs arbitrary: parts rule: leaf_paths.induct)
  case (4 tv gs fs)
  have "bindEnvs (\<lambda>_. None) gs (parts @ [tv]) =
      Inr (map (\<lambda>p. strings_Join ((parts @ [tv]) @ p) ''.'') (leaf_paths gs))" by (rule 4(1))
  then show ?case by (simp add: 4(2) comp_def)
qed (simp_all add: Let_def)

lemmas configuration_fields_defs =
  Configuration_fields_def LeaderElection_fields_def Logging_fields_def ClusterController_fields_def
  SyncControllerRateLimit_fields_def SyncController_fields_def ClusterValidatorWebhook_fields_def

lemma Configuration_paths:
  "map (\<lambda>p. strings_Join p ''.'') (leaf_paths Configuration_fields) =
     [''metrics-addr'', ''health-addr'', ''leader-election.enabled'', ''leader-election.name'',
      ''leader-election.namespace'', ''log.verbosity'', ''log.format'',
      ''clusterController.workerCount'', ''clusterController.refreshIntervalSeconds'',
      ''syncController.workerCount'', ''syncController.rateLimit.maxKeys'',
      ''syncController.rateLimit.maxRatePerSecond'', ''syncController.rateLimit.maxBurst'',
      ''namespace'', ''provision-local-cluster'', ''manage-local-cluster-secret'',
      ''reader-service-account-name'', ''network-name'', ''apiserver-endpoint-address'',
      ''core-resources-source-enabled'', ''cluster-validator-webhook.enabled'',
      ''cluster-validator-webhook.certificate-directory'', ''cluster-validator-webhook.name'',
      ''cluster-validator-webhook.port'']"
  by (simp add: configuration_fields_defs)

subsection \<open>A sample configuration\<close>

definition sample_config :: Configuration where
  "sample_config =
     \<lparr>cfg_MetricsAddr = '':8080'', cfg_HealthAddr = '':8090'',
      cfg_LeaderElection = \<lparr>le_Enabled = False, le_Name = '''', le_Namespace = ''''\<rparr>,
      cfg_Logging = \<lparr>log_Verbosity = 0, log_Format = LogFormatJSON\<rparr>,
      cfg_ClusterController = \<lparr>ccl_WorkerCount = 2, ccl_RefreshIntervalSeconds = 0\<rparr>,
      cfg_SyncController = \<lparr>scl_WorkerCount = 1,
        scl_RateLimit = \<lparr>rl_MaxKeys = 1024, rl_MaxRatePerSecond = 5, rl_MaxBurst = 10\<rparr>\<rparr>,
      cfg_Namespace = ''cluster-registry'', cfg_ProvisionLocalCluster = '''',
      cfg_ManageLocalClusterSecret = True, cfg_ReaderServiceAccountName = ''reader'',
      cfg_NetworkName = ''default'', cfg_APIServerEndpointAddress = '''',
      cfg_CoreResourcesSourceEnabled = True,
      cfg_ClusterValidatorWebhook = \<lparr>cvw_Enabled = True, cvw_CertificateDirectory = ''/tmp/certs'',
        cvw_Name = ''cluster-validator-webhook'', cvw_Port = 9443\<rparr>\<rparr>"

end
