(* ===== verification/RuleCtl.thy ===== *)
theory RuleCtl
  imports ClusterManager SyncReconciler Settings
begin

text \<open>
  The rule reconciler (src/controllers/resource\_sync\_rule\_reconciler.go) and the rate limiter
  it makes (src/pkg/ratelimit/ratelimit.go). For every rule it keeps one sync controller on
  every registered cluster: a controller whose rule has changed is removed and made anew. A
  result None stands for a nil dereference, which ends the process.
\<close>

subsection \<open>Rate limiters\<close>

text \<open>
  A rate is given by the number of events for each second that PerSec was called with. PerSec
  divides by this number; for one that it cannot take, \<open>x_PerSec\<close> is false, and the call ends the
  process.
\<close>

record RateQuota =
  q_MaxRate :: int
  q_MaxBurst :: int

definition defaultRateQuota :: RateQuota where
  "defaultRateQuota = \<lparr>q_MaxRate = 1, q_MaxBurst = 0\<rparr>"

definition NewRateLimiter :: "ext \<Rightarrow> int \<Rightarrow> RateQuota option \<Rightarrow> gerror option" where
  "NewRateLimiter X maxKeys quota =
     (case x_NewMemStore X maxKeys of
        Some e \<Rightarrow> Some (x_WrapIf X e ''could not create memstore for rate limit'')
      | None \<Rightarrow>
          let q = (case quota of None \<Rightarrow> defaultRateQuota | Some q \<Rightarrow> q) in
          (case x_NewGCRARateLimiter X (q_MaxRate q) (q_MaxBurst q) of
             Some e \<Rightarrow> Some (x_WrapIf X e ''could not create rate limiter'')
           | None \<Rightarrow> None))"

subsection \<open>Sync controllers\<close>

primrec feature_loop :: "ClusterFeatureMatch list \<Rightarrow> ClusterFeatureRequirement list \<Rightarrow> ClusterFeatureRequirement list" where
  "feature_loop [] rs = rs"
| "feature_loop (m # ms) rs =
     feature_loop ms (rs @ [\<lparr>fr_Name = fm_FeatureName m, fr_MatchLabels = fm_MatchLabels m,
                             fr_MatchExpressions = fm_MatchExpressions m\<rparr>])"

definition requiredClusterFeatures :: "ResourceSyncRule \<Rightarrow> ClusterFeatureRequirement list" where
  "requiredClusterFeatures rule = feature_loop (rs_ClusterFeatureMatches (rsr_Spec rule)) []"

definition sync_controller :: "ResourceSyncRule \<Rightarrow> managedController" where
  "sync_controller rule =
     NewManagedController (m_Name rule) (Some rule) [WithRequiredClusterFeatures (requiredClusterFeatures rule)]"

definition InitNewResourceSyncController ::
  "ext \<Rightarrow> Configuration \<Rightarrow> ResourceSyncRule \<Rightarrow> clusters_Cluster \<Rightarrow> history
    \<Rightarrow> (gerror option \<times> clusters_Cluster \<times> history) option" where
  "InitNewResourceSyncController X cfg rule c h =
     (let rl = scl_RateLimit (cfg_SyncController cfg) in
      if \<not> x_PerSec X (rl_MaxRatePerSecond rl) then None
      else Some (case NewRateLimiter X (rl_MaxKeys rl)
             (Some \<lparr>q_MaxRate = rl_MaxRatePerSecond rl, q_MaxBurst = rl_MaxBurst rl\<rparr>) of
        Some e \<Rightarrow> (Some (x_WrapIf X e ''could not create rate limiter''), c, h)
      | None \<Rightarrow> (None, AddController X (sync_controller rule) c h)))"

definition rule_zero :: ResourceSyncRule where
  "rule_zero = \<lparr>m_Name = '''', m_Namespace = '''', m_Labels = Map.empty, m_Annotations = Map.empty,
     m_UID = '''', m_ResourceVersion = '''', m_Generation = 0, m_SelfLink = '''',
     m_CreationTimestamp = 0, m_DeletionTimestamp = 0, m_Finalizers = [], m_OwnerReferences = [],
     m_ManagedFields = [],
     rsr_Spec = \<lparr>rs_ClusterFeatureMatches = [], rs_GVK = gvk_zero, rs_Rules = []\<rparr>\<rparr>"

text \<open>
  A controller whose reconciler is not a sync reconciler counts as one with an empty rule.
  Specifications are compared by content; reflect.DeepEqual also tells a nil slice from an empty
  one, and would then make the controller anew for the same specification. The
  controller is removed, its context has to be done, then the new one is added.
\<close>

definition actual_rule :: "managedController \<Rightarrow> ResourceSyncRule" where
  "actual_rule ctrl = (case mc_rule ctrl of Some rule \<Rightarrow> rule | None \<Rightarrow> rule_zero)"

definition syncClusterController ::
  "ext \<Rightarrow> Configuration \<Rightarrow> ResourceSyncRule \<Rightarrow> clusters_Cluster \<Rightarrow> history
    \<Rightarrow> (gerror option \<times> clusters_Cluster \<times> history) option" where
  "syncClusterController X cfg sr c h =
     (case GetController c (m_Name sr) of
        None \<Rightarrow> InitNewResourceSyncController X cfg sr c h
      | Some ctrl \<Rightarrow>
          if rsr_Spec (actual_rule ctrl) \<noteq> rsr_Spec sr
          then
            let (c, h) = RemoveControllerByName (mc_name ctrl) c h in
            (case controller_Stopped ctrl of
               None \<Rightarrow> None
             | Some done_channel \<Rightarrow> InitNewResourceSyncController X cfg sr c h)
          else Some (None, c, h))"

primrec sync_clusters ::
  "ext \<Rightarrow> Configuration \<Rightarrow> ResourceSyncRule \<Rightarrow> (string \<times> clusters_Cluster) list \<Rightarrow> history
    \<Rightarrow> ((string \<times> clusters_Cluster) list \<times> history) option" where
  "sync_clusters X cfg sr [] h = Some ([], h)"
| "sync_clusters X cfg sr (p # ps) h =
     (case syncClusterController X cfg sr (snd p) h of
        None \<Rightarrow> None
      | Some (e, c, h) \<Rightarrow>
          map_option (\<lambda>(ps', h). ((fst p, c) # ps', h)) (sync_clusters X cfg sr ps h))"

primrec remove_everywhere ::
  "string \<Rightarrow> (string \<times> clusters_Cluster) list \<Rightarrow> history \<Rightarrow> (string \<times> clusters_Cluster) list \<times> history" where
  "remove_everywhere name [] h = ([], h)"
| "remove_everywhere name (p # ps) h =
     (let (c, h) = RemoveControllerByName name (snd p) h; (ps', h) = remove_everywhere name ps h
      in ((fst p, c) # ps', h))"

text \<open>
  The reconciler has the configuration and, once its in-memory source was started, a queue; the
  registry of clusters, which it shares with the cluster reconciler, is passed along.
\<close>

record ResourceSyncRuleReconciler =
  rr_config :: Configuration
  rr_queue :: bool

definition NewResourceSyncRuleReconciler :: "Configuration \<Rightarrow> ResourceSyncRuleReconciler" where
  "NewResourceSyncRuleReconciler cfg = \<lparr>rr_config = cfg, rr_queue = False\<rparr>"

definition rule_setQueue :: "bool \<Rightarrow> ResourceSyncRuleReconciler \<Rightarrow> ResourceSyncRuleReconciler" where
  "rule_setQueue q r = r\<lparr>rr_queue := q\<rparr>"

definition rule_reconcile ::
  "ext \<Rightarrow> ResourceSyncRuleReconciler \<Rightarrow> NamespacedName \<Rightarrow> Manager \<Rightarrow> history
    \<Rightarrow> ((Result \<times> gerror option) \<times> Manager \<times> history) option" where
  "rule_reconcile X r req m h =
     (case getRule X req h of
        (Inl e, h) \<Rightarrow>
          if x_IsNotFound X e
          then let (cs, h) = remove_everywhere (nn_Name req) (GetAll m) h
               in Some ((result_zero, None), m\<lparr>mg_clusters := cs\<rparr>, h)
          else Some ((result_zero, Some e), m, h)
      | (Inr sr, h) \<Rightarrow>
          map_option (\<lambda>(cs, h). ((result_zero, None), m\<lparr>mg_clusters := cs\<rparr>, h))
            (sync_clusters X (rr_config r) sr (GetAll m) h))"

definition rule_Reconcile ::
  "ext \<Rightarrow> ResourceSyncRuleReconciler \<Rightarrow> NamespacedName \<Rightarrow> Manager \<Rightarrow> history
    \<Rightarrow> ((Result \<times> gerror option) \<times> Manager \<times> history) option" where
  "rule_Reconcile X r req m h =
     map_option (\<lambda>((res, err), m, h).
         ((res, case err of None \<Rightarrow> None | Some e \<Rightarrow> if IsPermanent e then None else Some (x_WithStackIf X e)), m, h))
       (rule_reconcile X r req m h)"

text \<open>
  The callback that runs after a cluster is added: every rule is put on the queue, if there is
  one. A failing List leaves the list empty.
\<close>

primrec queue_rules :: "ResourceSyncRule list \<Rightarrow> history \<Rightarrow> history" where
  "queue_rules [] h = h"
| "queue_rules (r # rs) h = queue_rules rs (queueAdd \<lparr>nn_Name = m_Name r, nn_Namespace = ''''\<rparr> h)"

definition trigger_rules :: "ext \<Rightarrow> bool \<Rightarrow> ManagerFunc" where
  "trigger_rules X queue c h =
     (if queue
      then (case listRules X h of
              (Inl e, h) \<Rightarrow> (c, h)
            | (Inr rs, h) \<Rightarrow> (c, queue_rules rs h))
      else (c, h))"

definition rule_SetupWithController ::
  "ext \<Rightarrow> ResourceSyncRuleReconciler \<Rightarrow> string \<Rightarrow> Manager \<Rightarrow> history \<Rightarrow> gerror option \<times> Manager \<times> history" where
  "rule_SetupWithController X r now m h =
     (case setupController X ''resource-sync-rules'' ''watch InMemorySource'' h of
        (Some e, h) \<Rightarrow> (Some e, m, h)
      | (None, h) \<Rightarrow>
          (None, AddOnAfterAddFunc (trigger_rules X (rr_queue r)) [''trigger-resource-sync-rule-reconcile''] now m, h))"

definition rule_SetupWithManager ::
  "ext \<Rightarrow> ResourceSyncRuleReconciler \<Rightarrow> string \<Rightarrow> Manager \<Rightarrow> history \<Rightarrow> gerror option \<times> Manager \<times> history" where
  "rule_SetupWithManager X r now m h =
     (case setupController X ''resource-sync-rules'' ''build'' h of
        (Some e, h) \<Rightarrow> (Some e, m, h)
      | (None, h) \<Rightarrow> rule_SetupWithController X r now m h)"

subsection \<open>Lemmas\<close>

lemma feature_loop_eq:
  "feature_loop ms rs = rs @ map (\<lambda>m. \<lparr>fr_Name = fm_FeatureName m, fr_MatchLabels = fm_MatchLabels m,
     fr_MatchExpressions = fm_MatchExpressions m\<rparr>) ms"
  by (induction ms arbitrary: rs) simp_all

lemma requiredClusterFeatures_spec:
  "rsr_Spec a = rsr_Spec b \<Longrightarrow> requiredClusterFeatures a = requiredClusterFeatures b"
  by (simp add: requiredClusterFeatures_def)

lemma sync_controller_fields [simp]:
  "mc_name (sync_controller rule) = m_Name rule"
  "registration (sync_controller rule) = (Some rule, requiredClusterFeatures rule)"
  by (simp_all add: sync_controller_def NewManagedController_def WithRequiredClusterFeatures_def registration_def)

text \<open>The controller of a rule, active or pending, was made from a rule with this specification.\<close>

definition runs_rule :: "clusters_Cluster \<Rightarrow> ResourceSyncRule \<Rightarrow> bool" where
  "runs_rule c sr \<longleftrightarrow>
     (\<exists>rule. snd (gate_abs c) (m_Name sr) = Some (Some rule, requiredClusterFeatures rule) \<and>
        rsr_Spec rule = rsr_Spec sr)"

text \<open>The controllers of a cluster that have a rule were made by the rule reconciler.\<close>

definition rules_registered :: "clusters_Cluster \<Rightarrow> bool" where
  "rules_registered c \<longleftrightarrow>
     (\<forall>name rule reqs. snd (gate_abs c) name = Some (Some rule, reqs) \<longrightarrow> reqs = requiredClusterFeatures rule)"

definition limiter_ok :: "ext \<Rightarrow> Configuration \<Rightarrow> bool" where
  "limiter_ok X cfg \<longleftrightarrow>
     (let rl = scl_RateLimit (cfg_SyncController cfg) in
      x_PerSec X (rl_MaxRatePerSecond rl) \<and>
      NewRateLimiter X (rl_MaxKeys rl)
        (Some \<lparr>q_MaxRate = rl_MaxRatePerSecond rl, q_MaxBurst = rl_MaxBurst rl\<rparr>) = None)"

lemma Init_total: "limiter_ok X cfg \<Longrightarrow> InitNewResourceSyncController X cfg sr c h \<noteq> None"
  by (simp add: limiter_ok_def InitNewResourceSyncController_def Let_def)

lemma Init_spec:
  assumes "gate_inv X c" and "GetController c (m_Name sr) = None" and "limiter_ok X cfg"
    and "InitNewResourceSyncController X cfg sr c h = Some (e, c', h')"
  shows "gate_inv X c'" and "gate_abs c' = spec_step (GateAddController (sync_controller sr)) (gate_abs c)"
proof -
  have "c' = fst (AddController X (sync_controller sr) c h)"
    using assms(3,4) by (auto simp: InitNewResourceSyncController_def limiter_ok_def Let_def)
  moreover have "map_of (cl_controllers c) (mc_name (sync_controller sr)) = None"
    using assms(2) by (simp add: GetController_def)
  ultimately show "gate_inv X c'" "gate_abs c' = spec_step (GateAddController (sync_controller sr)) (gate_abs c)"
    using AddController_gate [OF assms(1)] by auto
qed

lemma registered_add:
  assumes "rules_registered c" and "gate_abs c' = spec_step (GateAddController (sync_controller sr)) (gate_abs c)"
  shows "rules_registered c'" and "runs_rule c' sr"
proof -
  obtain F R where g: "gate_abs c = (F, R)" by fastforce
  show "rules_registered c'"
    unfolding rules_registered_def
  proof (intro allI impI)
    fix name rule reqs assume "snd (gate_abs c') name = Some (Some rule, reqs)"
    then show "reqs = requiredClusterFeatures rule"
      using assms g by (auto simp: rules_registered_def split: if_splits)
  qed
  show "runs_rule c' sr" using assms(2) g by (auto simp: runs_rule_def)
qed

lemma registered_remove:
  "rules_registered c \<Longrightarrow> rules_registered (fst (RemoveControllerByName name c h))"
  by (cases "gate_abs c") (auto simp: rules_registered_def RemoveControllerByName_gate(2) split: if_splits)

text \<open>One cluster: what holds after the controller of a rule is synchronised.\<close>

lemma syncClusterController_spec:
  assumes inv: "gate_inv X c" and reg: "rules_registered c" and lim: "limiter_ok X cfg"
    and spec: "rsr_Spec sr \<noteq> rsr_Spec rule_zero"
    and s: "syncClusterController X cfg sr c h = Some (e, c', h')"
  shows "gate_inv X c' \<and> rules_registered c' \<and> runs_rule c' sr \<and>
     (\<forall>n. n \<noteq> m_Name sr \<longrightarrow> snd (gate_abs c') n = snd (gate_abs c) n)"
proof (cases "GetController c (m_Name sr)")
  case None
  then have "InitNewResourceSyncController X cfg sr c h = Some (e, c', h')"
    using s by (simp add: syncClusterController_def)
  note i = Init_spec [OF inv None lim this]
  show ?thesis using i(1) registered_add [OF reg i(2)] i(2) by (cases "gate_abs c") simp
next
  case (Some ctrl)
  have name: "mc_name ctrl = m_Name sr"
    using Some inv by (simp add: GetController_def gate_inv_def registries_wf_def)
  show ?thesis
  proof (cases "rsr_Spec (actual_rule ctrl) = rsr_Spec sr")
    case True
    then have c': "c' = c" using s Some by (simp add: syncClusterController_def)
    from True spec obtain rule where rule: "mc_rule ctrl = Some rule" "rsr_Spec rule = rsr_Spec sr"
      by (auto simp: actual_rule_def split: option.splits)
    have "snd (gate_abs c) (m_Name sr) = Some (registration ctrl)"
      using Some by (simp add: gate_abs_def GetController_def)
    with rule have snd: "snd (gate_abs c) (m_Name sr) = Some (Some rule, mc_requiredClusterFeatures ctrl)"
      by (simp add: registration_def)
    then have "mc_requiredClusterFeatures ctrl = requiredClusterFeatures rule"
      using reg by (simp add: rules_registered_def)
    with snd rule inv reg c' show ?thesis by (auto simp: runs_rule_def)
  next
    case False
    define c1 h1 where "c1 = fst (RemoveControllerByName (m_Name sr) c h)"
      and "h1 = snd (RemoveControllerByName (m_Name sr) c h)"
    have i: "InitNewResourceSyncController X cfg sr c1 h1 = Some (e, c', h')"
      using s Some False by (auto simp: syncClusterController_def name c1_def h1_def split_beta split: option.splits)
    have inv1: "gate_inv X c1" unfolding c1_def by (rule RemoveController_inv [OF inv])
    have "GetController c1 (m_Name sr) = None"
      by (simp add: c1_def RemoveControllerByName_effect GetController_def)
    note i = Init_spec [OF inv1 this lim i]
    have "rules_registered c1" unfolding c1_def by (rule registered_remove [OF reg])
    from registered_add [OF this i(2)] i(1,2) show ?thesis
      using RemoveControllerByName_gate(2) [of "m_Name sr" c h] by (cases "gate_abs c") (simp add: c1_def)
  qed
qed

text \<open>A cluster as the rule reconciler finds and leaves it.\<close>

definition peer_ok :: "ext \<Rightarrow> clusters_Cluster \<Rightarrow> bool" where
  "peer_ok X c \<longleftrightarrow> gate_inv X c \<and> rules_registered c"

text \<open>The active controllers were started, so that waiting for one to stop is possible.\<close>

definition controllers_started :: "clusters_Cluster \<Rightarrow> bool" where
  "controllers_started c \<longleftrightarrow> (\<forall>n ctrl. map_of (cl_controllers c) n = Some ctrl \<longrightarrow> mc_contextSet ctrl)"

lemma syncClusterController_total:
  "limiter_ok X cfg \<Longrightarrow> controllers_started c \<Longrightarrow> syncClusterController X cfg sr c h \<noteq> None"
  by (auto simp: syncClusterController_def controllers_started_def GetController_def controller_Stopped_def
      Init_total split_beta Let_def simp del: not_None_eq split: option.split)

lemma sync_clusters_total:
  "limiter_ok X cfg \<Longrightarrow> \<forall>c \<in> snd ` set ps. controllers_started c \<Longrightarrow> sync_clusters X cfg sr ps h \<noteq> None"
proof (induction ps arbitrary: h)
  case (Cons p ps)
  have "syncClusterController X cfg sr (snd p) h \<noteq> None"
    using Cons.prems by (intro syncClusterController_total) simp_all
  then obtain e c h1 where "syncClusterController X cfg sr (snd p) h = Some (e, c, h1)" by fastforce
  with Cons show ?case by (auto simp del: not_None_eq split: option.split)
qed simp

lemma sync_clusters_spec:
  assumes "limiter_ok X cfg" and "rsr_Spec sr \<noteq> rsr_Spec rule_zero"
    and "\<forall>c \<in> snd ` set ps. peer_ok X c" and "sync_clusters X cfg sr ps h = Some (ps', h')"
  shows "map fst ps' = map fst ps \<and> (\<forall>c \<in> snd ` set ps'. peer_ok X c \<and> runs_rule c sr)"
  using assms(3,4)
proof (induction ps arbitrary: h ps')
  case (Cons p ps)
  from Cons.prems(2) obtain e c h1 qs where s: "syncClusterController X cfg sr (snd p) h = Some (e, c, h1)"
    and r: "sync_clusters X cfg sr ps h1 = Some (qs, h')" and ps': "ps' = (fst p, c) # qs"
    by (auto split: option.splits)
  have "peer_ok X (snd p)" using Cons.prems(1) by simp
  then have "peer_ok X c \<and> runs_rule c sr"
    using syncClusterController_spec [OF _ _ assms(1,2) s] by (simp add: peer_ok_def)
  moreover have "map fst qs = map fst ps \<and> (\<forall>c \<in> snd ` set qs. peer_ok X c \<and> runs_rule c sr)"
    using Cons.prems(1) by (intro Cons.IH [OF _ r]) simp
  ultimately show ?case using ps' by simp
qed simp

lemma remove_everywhere_spec:
  assumes "\<forall>c \<in> snd ` set ps. peer_ok X c" and "remove_everywhere name ps h = (ps', h')"
  shows "map fst ps' = map fst ps \<and> (\<forall>c \<in> snd ` set ps'. peer_ok X c \<and> snd (gate_abs c) name = None)"
  using assms
proof (induction ps arbitrary: h ps')
  case (Cons p ps)
  obtain qs h2 where r: "remove_everywhere name ps (snd (RemoveControllerByName name (snd p) h)) = (qs, h2)"
    by fastforce
  define c where "c = fst (RemoveControllerByName name (snd p) h)"
  have ps': "ps' = (fst p, c) # qs" "h' = h2" using Cons.prems(2) r by (simp_all add: split_beta c_def)
  have "peer_ok X (snd p)" using Cons.prems(1) by simp
  then have "peer_ok X c" "snd (gate_abs c) name = None"
    using RemoveController_inv registered_remove RemoveControllerByName_gate(2) [of name "snd p" h]
    by (auto simp: peer_ok_def c_def) (cases "gate_abs (snd p)", simp)
  moreover have "map fst qs = map fst ps \<and> (\<forall>c \<in> snd ` set qs. peer_ok X c \<and> snd (gate_abs c) name = None)"
    using Cons.prems(1) r ps'(2) by (intro Cons.IH [OF _ r [folded ps'(2)]]) simp
  ultimately show ?case using ps'(1) by simp
qed simp

lemma runs_rule_active:
  assumes "gate_inv X c" and "runs_rule c sr"
  shows "HasController c (m_Name sr) \<longleftrightarrow> features_meet X (requiredClusterFeatures sr) (map_of (cl_features c))"
    and "HasController c (m_Name sr) \<or> map_of (cl_pendingControllers c) (m_Name sr) \<noteq> None"
proof -
  obtain rule where r: "snd (gate_abs c) (m_Name sr) = Some (Some rule, requiredClusterFeatures rule)"
    "rsr_Spec rule = rsr_Spec sr"
    using assms(2) by (auto simp: runs_rule_def)
  have "requiredClusterFeatures rule = requiredClusterFeatures sr"
    by (rule requiredClusterFeatures_spec [OF r(2)])
  with r show "HasController c (m_Name sr) \<longleftrightarrow> features_meet X (requiredClusterFeatures sr) (map_of (cl_features c))"
    by (simp add: gate_inv_active [OF assms(1)] spec_active_def) (simp add: gate_abs_def)
  show "HasController c (m_Name sr) \<or> map_of (cl_pendingControllers c) (m_Name sr) \<noteq> None"
    using r gate_inv_pending [OF assms(1), of "m_Name sr"] gate_inv_active [OF assms(1)] by auto
qed

lemma rule_installs:
  assumes lim: "limiter_ok X (rr_config r)" and spec: "rsr_Spec sr \<noteq> rsr_Spec rule_zero"
    and ok: "\<forall>c \<in> snd ` set (GetAll m). peer_ok X c \<and> controllers_started c"
    and get: "x_GetRule X h req = Inr sr"
  shows "\<exists>m' h'. rule_Reconcile X r req m h = Some ((result_zero, None), m', h')
    \<and> map fst (GetAll m') = map fst (GetAll m)
    \<and> (\<forall>c \<in> snd ` set (GetAll m'). peer_ok X c \<and> runs_rule c sr \<and>
         (HasController c (m_Name sr) \<longleftrightarrow>
            features_meet X (requiredClusterFeatures sr) (map_of (cl_features c))) \<and>
         (HasController c (m_Name sr) \<or> map_of (cl_pendingControllers c) (m_Name sr) \<noteq> None))"
proof -
  obtain ps' h' where s: "sync_clusters X (rr_config r) sr (GetAll m) (h @ [call.GetRule req]) = Some (ps', h')"
    using sync_clusters_total [OF lim, of "GetAll m" sr "h @ [call.GetRule req]"] ok by auto
  let ?m = "m\<lparr>mg_clusters := ps'\<rparr>"
  have r: "rule_Reconcile X r req m h = Some ((result_zero, None), ?m, h')"
    using get s by (simp add: rule_Reconcile_def rule_reconcile_def getRule_def)
  have "\<forall>c \<in> snd ` set (GetAll m). peer_ok X c" using ok by simp
  note p = sync_clusters_spec [OF lim spec this s]
  have "peer_ok X c \<and> runs_rule c sr \<and>
         (HasController c (m_Name sr) \<longleftrightarrow>
            features_meet X (requiredClusterFeatures sr) (map_of (cl_features c))) \<and>
         (HasController c (m_Name sr) \<or> map_of (cl_pendingControllers c) (m_Name sr) \<noteq> None)"
    if "c \<in> snd ` set ps'" for c
    using p that runs_rule_active [of X c sr] by (auto simp: peer_ok_def)
  with r p show ?thesis by (intro exI [of _ ?m] exI [of _ h']) (auto simp: GetAll_def)
qed

subsection \<open>Properties\<close>

text \<open>
  C7. Reconciling a rule installs it everywhere. If every active controller was started, the
  configured rate limiter can be made and the rule's specification is not empty, the
  reconcile ends normally; then every registered cluster has a controller under the rule's name
  that was made from the current specification, active exactly if the cluster's features meet
  the rule's requirements and pending otherwise, and the contract of the feature gate is kept.
\<close>

theorem rule_Reconcile_installs:
  assumes lim: "limiter_ok X (rr_config r)" and spec: "rsr_Spec sr \<noteq> rsr_Spec rule_zero"
    and ok: "\<forall>c \<in> snd ` set (GetAll m). peer_ok X c \<and> controllers_started c"
    and get: "x_GetRule X h req = Inr sr"
  shows "\<exists>m' h'. rule_Reconcile X r req m h = Some ((result_zero, None), m', h')
    \<and> map fst (GetAll m') = map fst (GetAll m)
    \<and> (\<forall>c \<in> snd ` set (GetAll m'). peer_ok X c \<and> runs_rule c sr \<and>
         (HasController c (m_Name sr) \<longleftrightarrow>
            features_meet X (requiredClusterFeatures sr) (map_of (cl_features c))) \<and>
         (HasController c (m_Name sr) \<or> map_of (cl_pendingControllers c) (m_Name sr) \<noteq> None))"
  by (rule rule_installs [OF assms])

text \<open>
  C8. Reconciling a rule that is gone removes its controller from every registered cluster,
  active or pending, and keeps the contract of the feature gate.
\<close>

theorem rule_Reconcile_removes:
  assumes "\<forall>c \<in> snd ` set (GetAll m). peer_ok X c"
    and "x_GetRule X h req = Inl e" and "x_IsNotFound X e"
  shows "\<exists>m' h'. rule_Reconcile X r req m h = Some ((result_zero, None), m', h')
    \<and> map fst (GetAll m') = map fst (GetAll m)
    \<and> (\<forall>c \<in> snd ` set (GetAll m'). peer_ok X c \<and> \<not> HasController c (nn_Name req) \<and>
         map_of (cl_pendingControllers c) (nn_Name req) = None)"
proof -
  obtain ps' h' where r: "remove_everywhere (nn_Name req) (GetAll m) (h @ [call.GetRule req]) = (ps', h')" by fastforce
  have "rule_Reconcile X r req m h = Some ((result_zero, None), m\<lparr>mg_clusters := ps'\<rparr>, h')"
    using assms(2,3) r by (simp add: rule_Reconcile_def rule_reconcile_def getRule_def)
  moreover note p = remove_everywhere_spec [OF assms(1) r]
  moreover have "\<not> HasController c (nn_Name req) \<and> map_of (cl_pendingControllers c) (nn_Name req) = None"
    if "c \<in> snd ` set ps'" for c
    using p that by (auto simp: gate_abs_def HasController_def split: option.splits)
  ultimately show ?thesis by (intro exI [of _ "m\<lparr>mg_clusters := ps'\<rparr>"] exI [of _ h']) (auto simp: GetAll_def)
qed

text \<open>
  A changed rule ends the process if a cluster has its controller active but never started,
  as when the cluster's manager could not be created: the controller's context is nil, and
  waiting for the controller to stop dereferences it.
\<close>

theorem rule_change_nil_context:
  assumes "x_GetRule X h req = Inr sr" and "GetAll m = [(n, c)]"
    and "GetController c (m_Name sr) = Some ctrl" and "\<not> mc_contextSet ctrl"
    and "rsr_Spec (actual_rule ctrl) \<noteq> rsr_Spec sr"
  shows "rule_Reconcile X r req m h = None"
  using assms
  by (simp add: rule_Reconcile_def rule_reconcile_def getRule_def syncClusterController_def
      controller_Stopped_def split_beta)

text \<open>
  A rate for which PerSec cannot be called, such as 0, by which it would divide, ends the process
  with the first rule, as soon as there is a cluster without a controller for it.
\<close>

theorem rate_ends_process:
  assumes "\<not> x_PerSec X (rl_MaxRatePerSecond (scl_RateLimit (cfg_SyncController (rr_config r))))"
    and "x_GetRule X h req = Inr sr" and "GetAll m = (n, c) # ps" and "GetController c (m_Name sr) = None"
  shows "rule_Reconcile X r req m h = None"
  using assms
  by (simp add: rule_Reconcile_def rule_reconcile_def getRule_def syncClusterController_def
      InitNewResourceSyncController_def Let_def)

text \<open>
  Rule names and the names of a cluster's own controllers share one registry. A rule with a
  non-empty specification that is named like the controller \<open>remote-cluster\<close> replaces it: the
  cluster then no longer has the controller that maintains its status.
\<close>

theorem rule_replaces_builtin:
  assumes "gate_inv X c" and "rules_registered c" and "limiter_ok X cfg"
    and "m_Name sr = ''remote-cluster''" and "rsr_Spec sr \<noteq> rsr_Spec rule_zero"
    and "GetController c ''remote-cluster'' = Some ctrl" and "mc_rule ctrl = None" and "mc_contextSet ctrl"
  shows "\<exists>e c' h' rule. syncClusterController X cfg sr c h = Some (e, c', h') \<and>
     snd (gate_abs c') ''remote-cluster'' = Some (Some rule, requiredClusterFeatures rule) \<and>
     rsr_Spec rule = rsr_Spec sr"
proof -
  have "syncClusterController X cfg sr c h \<noteq> None"
    using assms(4-8) Init_total [OF assms(3)]
    by (simp add: syncClusterController_def controller_Stopped_def split_beta del: not_None_eq)
  then obtain e c' h' where s: "syncClusterController X cfg sr c h = Some (e, c', h')" by fastforce
  with syncClusterController_spec [OF assms(1-3,5) s] assms(4) show ?thesis by (auto simp: runs_rule_def)
qed

subsection \<open>Witnesses\<close>

definition sample_rule :: "string \<Rightarrow> ResourceSyncRule" where
  "sample_rule name = rule_zero\<lparr>m_Name := name, rsr_Spec := sample_spec\<rparr>"

definition with_rule :: "string \<Rightarrow> ext" where
  "with_rule name = sample_ext\<lparr>x_GetRule := \<lambda>_ _. Inr (sample_rule name)\<rparr>"

lemma sample_limiter:
  assumes "x_NewMemStore X = (\<lambda>_. None)" and "x_NewGCRARateLimiter X = (\<lambda>_ _. None)"
    and "x_PerSec X (rl_MaxRatePerSecond (scl_RateLimit (cfg_SyncController cfg)))"
  shows "limiter_ok X cfg"
  using assms by (simp add: limiter_ok_def NewRateLimiter_def Let_def)

lemma with_rule_limiter: "limiter_ok (with_rule name) sample_config" "limiter_ok sample_ext sample_config"
  by (rule sample_limiter; simp add: with_rule_def sample_ext_def sample_config_def)+

lemma sample_rule_spec: "rsr_Spec (sample_rule name) \<noteq> rsr_Spec rule_zero"
  by (simp add: sample_rule_def rule_zero_def sample_spec_def)

lemma NewCluster_peer_ok: "peer_ok X (NewCluster name [])"
  by (simp add: peer_ok_def rules_registered_def)

definition sample_rule_reconciler :: ResourceSyncRuleReconciler where
  "sample_rule_reconciler = NewResourceSyncRuleReconciler sample_config"

definition two_peers :: Manager where
  "two_peers = (NewManager [])\<lparr>mg_clusters := [(''a'', NewCluster ''a'' []), (''b'', NewCluster ''b'' [])]\<rparr>"

theorem rule_Reconcile_installs_witness:
  "\<exists>m' h'. rule_Reconcile (with_rule ''r'') sample_rule_reconciler \<lparr>nn_Name = ''r'', nn_Namespace = ''''\<rparr> two_peers [] =
     Some ((result_zero, None), m', h') \<and> map fst (GetAll m') = [''a'', ''b''] \<and>
     (\<forall>c \<in> snd ` set (GetAll m'). runs_rule c (sample_rule ''r''))"
proof -
  have l: "limiter_ok (with_rule ''r'') (rr_config sample_rule_reconciler)"
    using with_rule_limiter(1) by (simp add: sample_rule_reconciler_def NewResourceSyncRuleReconciler_def)
  have "\<forall>c \<in> snd ` set (GetAll two_peers). peer_ok (with_rule ''r'') c \<and> controllers_started c"
    by (simp add: GetAll_def two_peers_def NewCluster_peer_ok controllers_started_def) (simp add: NewCluster_def)
  moreover have "x_GetRule (with_rule ''r'') [] \<lparr>nn_Name = ''r'', nn_Namespace = ''''\<rparr> = Inr (sample_rule ''r'')"
    by (simp add: with_rule_def)

  ultimately have "\<exists>m' h'. rule_Reconcile (with_rule ''r'') sample_rule_reconciler \<lparr>nn_Name = ''r'', nn_Namespace = ''''\<rparr>
      two_peers [] = Some ((result_zero, None), m', h') \<and> map fst (GetAll m') = map fst (GetAll two_peers) \<and>
      (\<forall>c \<in> snd ` set (GetAll m'). peer_ok (with_rule ''r'') c \<and> runs_rule c (sample_rule ''r'') \<and>
         (HasController c (m_Name (sample_rule ''r'')) \<longleftrightarrow>
            features_meet (with_rule ''r'') (requiredClusterFeatures (sample_rule ''r'')) (map_of (cl_features c))) \<and>
         (HasController c (m_Name (sample_rule ''r'')) \<or>
            map_of (cl_pendingControllers c) (m_Name (sample_rule ''r'')) \<noteq> None))"
    by (rule rule_Reconcile_installs [OF l sample_rule_spec])
  then obtain m' h' where "rule_Reconcile (with_rule ''r'') sample_rule_reconciler \<lparr>nn_Name = ''r'', nn_Namespace = ''''\<rparr>
      two_peers [] = Some ((result_zero, None), m', h')" "map fst (GetAll m') = map fst (GetAll two_peers)"
      "\<forall>c \<in> snd ` set (GetAll m'). runs_rule c (sample_rule ''r'')"
    by blast
  then show ?thesis by (auto simp: GetAll_def two_peers_def)
qed

text \<open>Two clusters with a controller for the rule, which is active on the one and pending on the other.\<close>

definition gated_rule :: ResourceSyncRule where
  "gated_rule = (sample_rule ''r'')\<lparr>rsr_Spec := sample_spec\<lparr>rs_ClusterFeatureMatches :=
     [\<lparr>fm_FeatureName = ''mesh'', fm_MatchLabels = [], fm_MatchExpressions = []\<rparr>]\<rparr>\<rparr>"

definition ruled_peers :: Manager where
  "ruled_peers = (NewManager [])\<lparr>mg_clusters :=
     [(''a'', fst (AddController sample_ext (sync_controller (sample_rule ''r'')) (NewCluster ''a'' []) [])),
      (''b'', fst (AddController sample_ext (sync_controller gated_rule) (NewCluster ''b'' []) []))]\<rparr>"

lemma AddController_peer_ok: "peer_ok X (fst (AddController X (sync_controller sr) (NewCluster n []) h))"
proof -
  have "map_of (cl_controllers (NewCluster n [])) (mc_name (sync_controller sr)) = None" by (simp add: NewCluster_def)
  note g = AddController_gate [OF NewCluster_gate(1) this, of X h]
  show ?thesis using g(1) registered_add(1) [OF _ g(2)] by (simp add: peer_ok_def rules_registered_def)
qed

theorem rule_Reconcile_removes_witness:
  "HasController (snd (GetAll ruled_peers ! 0)) ''r'' \<and>
   map_of (cl_pendingControllers (snd (GetAll ruled_peers ! 1))) ''r'' \<noteq> None \<and>
   (\<exists>m' h'. rule_Reconcile sample_ext sample_rule_reconciler \<lparr>nn_Name = ''r'', nn_Namespace = ''''\<rparr> ruled_peers [] =
      Some ((result_zero, None), m', h') \<and> map fst (GetAll m') = [''a'', ''b''] \<and>
      (\<forall>c \<in> snd ` set (GetAll m'). \<not> HasController c ''r'' \<and> map_of (cl_pendingControllers c) ''r'' = None))"
proof (intro conjI)
  have "\<forall>c \<in> snd ` set (GetAll ruled_peers). peer_ok sample_ext c"
    by (simp add: GetAll_def ruled_peers_def AddController_peer_ok)
  moreover have "x_GetRule sample_ext [] \<lparr>nn_Name = ''r'', nn_Namespace = ''''\<rparr> = Inl not_found"
    "x_IsNotFound sample_ext not_found" by (simp_all add: sample_ext_def not_found_def)
  ultimately obtain m' h' where "rule_Reconcile sample_ext sample_rule_reconciler \<lparr>nn_Name = ''r'', nn_Namespace = ''''\<rparr>
        ruled_peers [] = Some ((result_zero, None), m', h')" "map fst (GetAll m') = map fst (GetAll ruled_peers)"
      "\<forall>c \<in> snd ` set (GetAll m'). peer_ok sample_ext c \<and> \<not> HasController c ''r'' \<and>
         map_of (cl_pendingControllers c) ''r'' = None"
    using rule_Reconcile_removes [of ruled_peers sample_ext "[]" "\<lparr>nn_Name = ''r'', nn_Namespace = ''''\<rparr>" not_found
        sample_rule_reconciler] by auto
  moreover have "map fst (GetAll ruled_peers) = [''a'', ''b'']" by (simp add: GetAll_def ruled_peers_def)
  ultimately show "\<exists>m' h'. rule_Reconcile sample_ext sample_rule_reconciler \<lparr>nn_Name = ''r'', nn_Namespace = ''''\<rparr> ruled_peers [] =
      Some ((result_zero, None), m', h') \<and> map fst (GetAll m') = [''a'', ''b''] \<and>
      (\<forall>c \<in> snd ` set (GetAll m'). \<not> HasController c ''r'' \<and> map_of (cl_pendingControllers c) ''r'' = None)"
    by (intro exI [of _ m'] exI [of _ h']) simp

  show "HasController (snd (GetAll ruled_peers ! 0)) ''r''"
    "map_of (cl_pendingControllers (snd (GetAll ruled_peers ! 1))) ''r'' \<noteq> None"
    by (simp_all add: ruled_peers_def GetAll_def AddController_def checkRequiredClusterFeatures_def NewCluster_def
        sync_controller_def NewManagedController_def WithRequiredClusterFeatures_def requiredClusterFeatures_def
        gated_rule_def sample_rule_def sample_spec_def rule_zero_def addController_def addPendingController_def
        HasController_def GetController_def removePendingControllerByName_def IsManagerRunning_def)
qed

definition zero_rate :: ResourceSyncRuleReconciler where
  "zero_rate = NewResourceSyncRuleReconciler (sample_config\<lparr>cfg_SyncController :=
     \<lparr>scl_WorkerCount = 1, scl_RateLimit = \<lparr>rl_MaxKeys = 1024, rl_MaxRatePerSecond = 0, rl_MaxBurst = 10\<rparr>\<rparr>\<rparr>)"

theorem rate_ends_process_witness:
  "rule_Reconcile (with_rule ''r'') zero_rate \<lparr>nn_Name = ''r'', nn_Namespace = ''''\<rparr> two_peers [] = None"
  by (rule rate_ends_process [where sr = "sample_rule ''r''" and n = "''a''" and c = "NewCluster ''a'' []"
        and ps = "[(''b'', NewCluster ''b'' [])]"])
    (simp_all add: zero_rate_def NewResourceSyncRuleReconciler_def with_rule_def sample_ext_def GetAll_def two_peers_def
      GetController_def NewCluster_def)

definition unstarted_cluster :: clusters_Cluster where
  "unstarted_cluster = (NewCluster ''a'' [])\<lparr>cl_controllers := [(''r'', sync_controller (rule_zero\<lparr>m_Name := ''r''\<rparr>))]\<rparr>"

theorem rule_change_nil_context_witness:
  "rule_Reconcile (with_rule ''r'') sample_rule_reconciler \<lparr>nn_Name = ''r'', nn_Namespace = ''''\<rparr>
     ((NewManager [])\<lparr>mg_clusters := [(''a'', unstarted_cluster)]\<rparr>) [] = None"
  using rule_change_nil_context [of "with_rule ''r''" "[]" "\<lparr>nn_Name = ''r'', nn_Namespace = ''''\<rparr>" "sample_rule ''r''"
      "(NewManager [])\<lparr>mg_clusters := [(''a'', unstarted_cluster)]\<rparr>" "''a''" unstarted_cluster
      "sync_controller (rule_zero\<lparr>m_Name := ''r''\<rparr>)" sample_rule_reconciler]
  by (simp add: with_rule_def GetAll_def unstarted_cluster_def GetController_def sample_rule_def sync_controller_def
      NewManagedController_def WithRequiredClusterFeatures_def actual_rule_def rule_zero_def sample_spec_def)

definition builtin_cluster :: clusters_Cluster where
  "builtin_cluster = (NewCluster ''a'' [])\<lparr>cl_controllers :=
     [(''remote-cluster'', (NewManagedController ''remote-cluster'' None [])\<lparr>mc_cancelSet := True, mc_contextSet := True\<rparr>)]\<rparr>"

theorem rule_replaces_builtin_witness:
  "\<exists>e c' h' rule. syncClusterController sample_ext sample_config (sample_rule ''remote-cluster'') builtin_cluster [] =
     Some (e, c', h') \<and> snd (gate_abs c') ''remote-cluster'' = Some (Some rule, requiredClusterFeatures rule)"
proof -
  let ?ctrl = "(NewManagedController ''remote-cluster'' None [])\<lparr>mc_cancelSet := True, mc_contextSet := True\<rparr>"
  have abs: "gate_abs builtin_cluster = (Map.empty, [''remote-cluster'' \<mapsto> (None, [])])"
    by (auto simp: gate_abs_def builtin_cluster_def NewCluster_def NewManagedController_def registration_def)
  have "gate_inv sample_ext builtin_cluster"
    by (auto simp: gate_inv_def registries_wf_def active_met_def pending_unmet_def ctrl_met_def features_meet_def
        builtin_cluster_def NewCluster_def NewManagedController_def alist_wf_def split: if_splits)
  moreover have "rules_registered builtin_cluster" by (simp add: rules_registered_def abs)
  moreover have "m_Name (sample_rule ''remote-cluster'') = ''remote-cluster''" by (simp add: sample_rule_def)
  moreover have "GetController builtin_cluster ''remote-cluster'' = Some ?ctrl"
    by (simp add: GetController_def builtin_cluster_def)
  moreover have "mc_rule ?ctrl = None" "mc_contextSet ?ctrl" by (simp_all add: NewManagedController_def)
  ultimately show ?thesis
    using rule_replaces_builtin [OF _ _ with_rule_limiter(2) _ sample_rule_spec] by blast
qed

end
