(* ===== verification/Url.thy ===== *)
theory Url
  imports External "HOL-Library.Char_ord"
begin

text \<open>
  The functions of Go's packages strings, bytes and net/url that the repository uses. The scheme
  of a URL is computed here; what follows it is treated by a parameter.
\<close>

text \<open>The Contains functions of the packages strings and bytes.\<close>

fun has_prefix :: "string \<Rightarrow> string \<Rightarrow> bool" where
  "has_prefix s [] = True"
| "has_prefix [] (c # cs) = False"
| "has_prefix (d # ds) (c # cs) = (d = c \<and> has_prefix ds cs)"

fun strings_Contains :: "string \<Rightarrow> string \<Rightarrow> bool" where
  "strings_Contains [] sub = (sub = [])"
| "strings_Contains (c # cs) sub = (has_prefix (c # cs) sub \<or> strings_Contains cs sub)"

text \<open>
  The scheme of a URL as net/url reads it: letters, and after the first character also digits
  and the characters plus, minus and dot, up to a colon. Any other character, or the end of the
  text, means that there is no scheme. A colon at the start is an error.
\<close>

definition is_letter :: "char \<Rightarrow> bool" where
  "is_letter c \<longleftrightarrow> (CHR ''a'' \<le> c \<and> c \<le> CHR ''z'') \<or> (CHR ''A'' \<le> c \<and> c \<le> CHR ''Z'')"

definition is_scheme_char :: "char \<Rightarrow> bool" where
  "is_scheme_char c \<longleftrightarrow> (CHR ''0'' \<le> c \<and> c \<le> CHR ''9'') \<or> c \<in> set ''+-.''"

fun scheme_loop :: "string \<Rightarrow> string \<Rightarrow> string \<Rightarrow> (string \<times> string) result" where
  "scheme_loop seen [] raw = Inr ([], raw)"
| "scheme_loop seen (c # cs) raw =
     (if is_letter c then scheme_loop (seen @ [c]) cs raw
      else if is_scheme_char c then
        (if seen = [] then Inr ([], raw) else scheme_loop (seen @ [c]) cs raw)
      else if c = CHR '':'' then
        (if seen = [] then Inl (ErrorString ''missing protocol scheme'') else Inr (seen, cs))
      else Inr ([], raw))"

definition getScheme :: "string \<Rightarrow> (string \<times> string) result" where
  "getScheme raw = scheme_loop [] raw raw"

definition lower_char :: "char \<Rightarrow> char" where
  "lower_char c = (if CHR ''A'' \<le> c \<and> c \<le> CHR ''Z'' then char_of (of_char c + (32 :: nat)) else c)"

text \<open>
  The URL of url.Parse: its scheme in lower case, and the text that String prints after the
  colon of the scheme.
\<close>

record URL =
  u_Scheme :: string
  u_Rest :: string

definition url_Parse :: "ext \<Rightarrow> string \<Rightarrow> URL result" where
  "url_Parse X raw =
     (case getScheme raw of
        Inl e \<Rightarrow> Inl e
      | Inr (scheme, rest) \<Rightarrow>
          (case x_UrlRest X scheme rest of
             Inl e \<Rightarrow> Inl e
           | Inr r \<Rightarrow> Inr \<lparr>u_Scheme = map lower_char scheme, u_Rest = r\<rparr>))"

definition URL_String :: "URL \<Rightarrow> string" where
  "URL_String u = (if u_Scheme u \<noteq> [] then u_Scheme u @ '':'' else []) @ u_Rest u"

subsection \<open>Lemmas\<close>

lemma scheme_loop_letters:
  "list_all is_letter s \<Longrightarrow> scheme_loop seen (s @ cs) raw = scheme_loop (seen @ s) cs raw"
  by (induction s arbitrary: seen) simp_all

lemma slash_colon_class [simp]:
  "\<not> is_letter (CHR ''/'')" "\<not> is_scheme_char (CHR ''/'')"
  "\<not> is_letter (CHR '':'')" "\<not> is_scheme_char (CHR '':'')"
  by (simp_all add: is_letter_def is_scheme_char_def less_eq_char_def)

lemma getScheme_slash [simp]: "getScheme (CHR ''/'' # s) = Inr ([], CHR ''/'' # s)"
  by (simp add: getScheme_def)

lemma getScheme_letters:
  "s \<noteq> [] \<Longrightarrow> list_all is_letter s \<Longrightarrow> getScheme (s @ CHR '':'' # r) = Inr (s, r)"
  by (simp add: getScheme_def scheme_loop_letters)

lemma has_prefix_append [simp]: "has_prefix (s @ t) s"
  by (induction s) simp_all

lemma strings_Contains_append: "strings_Contains (s @ sub @ t) sub"
proof (induction s)
  case Nil
  then show ?case
    using has_prefix_append [of sub t] by (cases "sub @ t") (auto simp del: has_prefix_append)
qed simp

end
