(* ===== verification/KubeconfigUtil.thy ===== *)
theory KubeconfigUtil
  imports Url Settings Common
begin

text \<open>
  Kubeconfigs and the objects made for the local cluster (src/pkg/util/kubeconfig.go,
  cluster\_secret.go and provision\_local\_cluster.go): the address of an API server as a URL,
  the endpoint of a cluster for a network, the reader secret of the local cluster, and the
  cluster resource that is provisioned for it.
\<close>

subsection \<open>Endpoints and kubeconfigs (kubeconfig.go)\<close>

definition getURLWithHTTPSScheme :: "ext \<Rightarrow> string \<Rightarrow> string result" where
  "getURLWithHTTPSScheme X address =
     (let address = (if \<not> strings_Contains address ''//'' then ''//'' @ address else address) in
      case url_Parse X address of
        Inl e \<Rightarrow> Inl e
      | Inr u \<Rightarrow>
          let u = (if u_Scheme u = [] then u\<lparr>u_Scheme := ''https''\<rparr> else u)
          in Inr (URL_String u))"

definition endpoint_zero :: KubernetesAPIEndpoint where
  "endpoint_zero = \<lparr>ep_ClientNetwork = '''', ep_ServerAddress = '''', ep_CABundle = ''''\<rparr>"

fun endpoint_loop ::
  "KubernetesAPIEndpoint list \<Rightarrow> string \<Rightarrow> KubernetesAPIEndpoint \<Rightarrow> KubernetesAPIEndpoint" where
  "endpoint_loop [] network endpoint = endpoint"
| "endpoint_loop (ep # eps) network endpoint =
     (if ep_ClientNetwork ep = network then ep
      else endpoint_loop eps network (if ep_ClientNetwork ep = '''' then ep else endpoint))"

definition GetEndpointForClusterByNetwork :: "Cluster \<Rightarrow> string \<Rightarrow> KubernetesAPIEndpoint" where
  "GetEndpointForClusterByNetwork cluster network =
     endpoint_loop (sp_KubernetesAPIEndpoints (c_Spec cluster)) network endpoint_zero"

definition GetKubeconfigOverridesForClusterByNetwork ::
  "ext \<Rightarrow> Cluster \<Rightarrow> string \<Rightarrow> ConfigOverrides result" where
  "GetKubeconfigOverridesForClusterByNetwork X cluster network =
     (let overrides = \<lparr>ov_Server = '''', ov_CAData = ''''\<rparr> in
      if length (sp_KubernetesAPIEndpoints (c_Spec cluster)) = 0 then Inr overrides
      else
        let endpoint = GetEndpointForClusterByNetwork cluster network in
        case (if ep_ServerAddress endpoint \<noteq> ''''
              then (case getURLWithHTTPSScheme X (ep_ServerAddress endpoint) of
                      Inl e \<Rightarrow> Inl (x_WithStack X e)
                    | Inr address \<Rightarrow> Inr (overrides\<lparr>ov_Server := address\<rparr>))
              else Inr overrides) of
          Inl e \<Rightarrow> Inl e
        | Inr overrides \<Rightarrow>
            Inr (if length (ep_CABundle endpoint) > 0
                 then overrides\<lparr>ov_CAData := ep_CABundle endpoint\<rparr> else overrides))"

definition kubeconfig_for :: "string \<Rightarrow> string \<Rightarrow> string \<Rightarrow> string \<Rightarrow> string \<Rightarrow> Kubeconfig" where
  "kubeconfig_for name username address caData saToken =
     \<lparr>kc_APIVersion = ''v1'', kc_Kind = ''Config'',
      kc_Clusters = [\<lparr>nc_Name = name, nc_CAData = caData, nc_Server = address\<rparr>],
      kc_Contexts = [\<lparr>nx_Name = name, nx_Cluster = name, nx_AuthInfo = username\<rparr>],
      kc_CurrentContext = name,
      kc_AuthInfos = [\<lparr>na_Name = username, na_Token = saToken\<rparr>]\<rparr>"

definition GetKubeconfigWithSAToken ::
  "ext \<Rightarrow> string \<Rightarrow> string \<Rightarrow> string \<Rightarrow> string \<Rightarrow> string \<Rightarrow> string result" where
  "GetKubeconfigWithSAToken X name username endpointURL caData saToken =
     (case getURLWithHTTPSScheme X endpointURL of
        Inl e \<Rightarrow> Inl (x_WithStack X e)
      | Inr address \<Rightarrow> x_MarshalKubeconfig X (kubeconfig_for name username address caData saToken))"

subsection \<open>The reader secret (cluster\_secret.go)\<close>

definition SecretTypeServiceAccountToken :: string where
  "SecretTypeServiceAccountToken = ''kubernetes.io/service-account-token''"
definition ServiceAccountNameKey :: string where
  "ServiceAccountNameKey = ''kubernetes.io/service-account.name''"

fun external_address :: "(string \<times> string) list \<Rightarrow> string option" where
  "external_address [] = None"
| "external_address ((cidr, address) # as) =
     (if cidr = ''0.0.0.0/0'' then Some address else external_address as)"

definition GetExternalAddressOfAPIServer ::
  "ext \<Rightarrow> rest_Config \<Rightarrow> history \<Rightarrow> string result \<times> history" where
  "GetExternalAddressOfAPIServer X kubeConfig h =
     (case x_NewDiscoveryClient X kubeConfig of
        Some e \<Rightarrow> (Inl (x_WithStackIf X e), h)
      | None \<Rightarrow>
          let h1 = h @ [DiscoverServerAddresses] in
          case x_ServerAddresses X h of
            Inl e \<Rightarrow> (Inl (x_WithStackIf X e), h1)
          | Inr as \<Rightarrow>
              (case external_address as of
                 Some a \<Rightarrow> (Inr a, h1)
               | None \<Rightarrow> (Inl (ErrorString ''could not determine external apiserver address''), h1)))"

text \<open>
  The condition of the backoff reads the secret into two variables of the enclosing function,
  which returns what the last reading assigned.
\<close>

definition token_condition ::
  "ext \<Rightarrow> NamespacedName \<Rightarrow> byte_vars \<Rightarrow> history \<Rightarrow> bool result \<times> byte_vars \<times> history" where
  "token_condition X ref vars h =
     (case getSecret X LocalSite ref h of
        (Inl e, h1) \<Rightarrow> (if x_IsNotFound X e then Inr False else Inl e, vars, h1)
      | (Inr s, h1) \<Rightarrow>
          let token = sec_Data s ''token''; caCert = sec_Data s ''ca.crt''
          in (Inr (token \<noteq> None \<and> caCert \<noteq> None), (token, caCert), h1))"

definition defaultBackoff_Steps :: nat where
  "defaultBackoff_Steps = 3"

definition waitForSecretTokenGenerated ::
  "ext \<Rightarrow> NamespacedName \<Rightarrow> history \<Rightarrow> byte_vars result \<times> history" where
  "waitForSecretTokenGenerated X ref h =
     (case x_ExponentialBackoffBytes X defaultBackoff_Steps (token_condition X ref) (None, None) h of
        (Some e, vars, h) \<Rightarrow>
          (Inl (x_WrapIf X e ''fail to wait for the token and CA cert to be generated''), h)
      | (None, vars, h) \<Rightarrow> (Inr vars, h))"

fun find_token_secret :: "Secret list \<Rightarrow> string \<Rightarrow> Secret option" where
  "find_token_secret [] sa = None"
| "find_token_secret (s # ss) sa =
     (if sec_Type s = SecretTypeServiceAccountToken \<and> m_Annotations s ServiceAccountNameKey = Some sa
      then Some s else find_token_secret ss sa)"

text \<open>The metadata of an object built with a name, a namespace and nothing else.\<close>

definition secret_zero :: Secret where
  "secret_zero = \<lparr>m_Name = '''', m_Namespace = '''', m_Labels = Map.empty, m_Annotations = Map.empty,
     m_UID = '''', m_ResourceVersion = '''', m_Generation = 0, m_SelfLink = '''',
     m_CreationTimestamp = 0, m_DeletionTimestamp = 0, m_Finalizers = [], m_OwnerReferences = [],
     m_ManagedFields = [], sec_Type = '''', sec_Data = Map.empty\<rparr>"

definition GetReaderSecretTokenAndCACert ::
  "ext \<Rightarrow> NamespacedName \<Rightarrow> history \<Rightarrow> byte_vars result \<times> history" where
  "GetReaderSecretTokenAndCACert X saRef h =
     (let h1 = h @ [GetServiceAccount saRef] in
      case x_GetServiceAccount X h saRef of
        Inl e \<Rightarrow> (Inl (x_WithStackIf X e), h1)
      | Inr saNamespace \<Rightarrow>
          let h2 = h1 @ [ListSecrets saNamespace] in
          case x_ListSecrets X h1 saNamespace of
            Inl e \<Rightarrow>
              (Inl (x_WrapIf X e ''retrieving kubernetes secrets failed with unexpected error''), h2)
          | Inr ss \<Rightarrow>
              (case find_token_secret ss (nn_Name saRef) of
                 Some s \<Rightarrow> (Inr (sec_Data s ''token'', sec_Data s ''ca.crt''), h2)
               | None \<Rightarrow>
                   let s = secret_zero\<lparr>m_Namespace := nn_Namespace saRef,
                             m_Name := nn_Name saRef @ ''-token'',
                             m_Annotations := [ServiceAccountNameKey \<mapsto> nn_Name saRef],
                             sec_Type := SecretTypeServiceAccountToken\<rparr>;
                       h3 = h2 @ [CreateSecret s]
                   in case x_CreateSecret X h2 s of
                        Some e \<Rightarrow> (Inl (x_WrapIf X e ''creating kubernetes secret failed''), h3)
                      | None \<Rightarrow>
                          waitForSecretTokenGenerated X
                            \<lparr>nn_Name = nn_Name saRef @ ''-token'', nn_Namespace = nn_Namespace saRef\<rparr> h3))"

text \<open>A nil byte slice reads as the empty string where the code converts or appends it.\<close>

definition bytes :: "string option \<Rightarrow> string" where
  "bytes b = (case b of None \<Rightarrow> [] | Some s \<Rightarrow> s)"

definition newline :: string where
  "newline = [CHR 0x0A]"

text \<open>The address: of the cluster resource, else of the configuration, else found, else the host.\<close>

definition reader_address ::
  "ext \<Rightarrow> rest_Config \<Rightarrow> KubernetesAPIEndpoint \<Rightarrow> string \<Rightarrow> history \<Rightarrow> string \<times> history" where
  "reader_address X kubeConfig endpoint address h =
     (let address = (if ep_ServerAddress endpoint \<noteq> '''' then ep_ServerAddress endpoint else address);
          (address, h) =
            (if address = ''''
             then (case GetExternalAddressOfAPIServer X kubeConfig h of
                     (Inl e, h) \<Rightarrow> ('''', h)
                   | (Inr a, h) \<Rightarrow> (a, h))
             else (address, h))
      in (if address = '''' then rc_Host kubeConfig else address, h))"

definition reader_secret ::
  "ext \<Rightarrow> Cluster \<Rightarrow> NamespacedName \<Rightarrow> string \<Rightarrow> string \<Rightarrow> string \<Rightarrow> Secret result" where
  "reader_secret X cluster saRef address caData saToken =
     (case GetKubeconfigWithSAToken X (m_Name cluster) (nn_Name saRef) address caData saToken of
        Inl e \<Rightarrow> Inl (x_WithStackIf X e)
      | Inr kubeconfig \<Rightarrow>
          Inr (secret_zero\<lparr>m_Name := nn_Name (sp_SecretRef (c_Spec cluster)),
                 m_Namespace := nn_Namespace (sp_SecretRef (c_Spec cluster)),
                 sec_Type := SecretTypeClusterRegistry,
                 sec_Data := [''kubeconfig'' \<mapsto> kubeconfig]\<rparr>))"

definition GetReaderSecretForCluster ::
  "ext \<Rightarrow> rest_Config \<Rightarrow> Cluster \<Rightarrow> NamespacedName \<Rightarrow> string \<Rightarrow> history \<Rightarrow> Secret result \<times> history" where
  "GetReaderSecretForCluster X kubeConfig cluster saRef apiServerEndpointAddress h =
     (case GetReaderSecretTokenAndCACert X saRef h of
        (Inl e, h) \<Rightarrow> (Inl (x_WrapIf X e ''error getting reader secret for cluster''), h)
      | (Inr (token, caCert), h) \<Rightarrow>
          let saToken = bytes token;
              caData = bytes caCert;
              caData = (if \<not> strings_Contains caData (rc_CAData kubeConfig)
                        then caData @ newline @ rc_CAData kubeConfig else caData);
              endpoint = GetEndpointForClusterByNetwork cluster '''';
              caData = (if length (ep_CABundle endpoint) > 0
                        then caData @ newline @ ep_CABundle endpoint else caData);
              (address, h) = reader_address X kubeConfig endpoint apiServerEndpointAddress h
          in (reader_secret X cluster saRef address caData saToken, h))"

subsection \<open>The local cluster's resource (provision\_local\_cluster.go)\<close>

definition NewLocalCluster ::
  "ext \<Rightarrow> string \<Rightarrow> string \<Rightarrow> string \<Rightarrow> history \<Rightarrow> Cluster result \<times> history" where
  "NewLocalCluster X namespace name address h =
     (case getNamespace X LocalSite NamespaceSystem h of
        (Inl e, h) \<Rightarrow> (Inl e, h)
      | (Inr uid, h) \<Rightarrow>
          (Inr \<lparr>m_Name = name, m_Namespace = '''', m_Labels = Map.empty, m_Annotations = Map.empty,
                m_UID = '''', m_ResourceVersion = '''', m_Generation = 0, m_SelfLink = '''',
                m_CreationTimestamp = 0, m_DeletionTimestamp = 0, m_Finalizers = [],
                m_OwnerReferences = [], m_ManagedFields = [],
                c_Spec = \<lparr>sp_ClusterID = uid,
                  sp_SecretRef = \<lparr>nn_Name = name, nn_Namespace = namespace\<rparr>,
                  sp_KubernetesAPIEndpoints =
                    [\<lparr>ep_ClientNetwork = '''', ep_ServerAddress = address, ep_CABundle = ''''\<rparr>]\<rparr>,
                c_Status = \<lparr>st_State = '''', st_Message = '''', st_Type = '''', st_Leader = False,
                  st_ClusterMetadata = ClusterMetadata_zero, st_Conditions = []\<rparr>\<rparr>, h))"

definition FailurePolicyIgnore :: string where "FailurePolicyIgnore = ''Ignore''"
definition FailurePolicyFail :: string where "FailurePolicyFail = ''Fail''"

definition relax_webhook :: "ext \<Rightarrow> Configuration \<Rightarrow> history \<Rightarrow> gerror option \<times> history" where
  "relax_webhook X cfg h =
     (case getWebhook X ValidatingWebhook
             \<lparr>nn_Name = cvw_Name (cfg_ClusterValidatorWebhook cfg), nn_Namespace = ''''\<rparr> h of
        (Inl e, h) \<Rightarrow> (Some (x_WrapIf X e ''could not get validating webhook configuration''), h)
      | (Inr w, h) \<Rightarrow>
          (case updateWebhook X
                  (w\<lparr>wc_Webhooks := map (\<lambda>i. i\<lparr>wh_FailurePolicy := FailurePolicyIgnore\<rparr>) (wc_Webhooks w)\<rparr>) h of
             (Some e, h) \<Rightarrow> (Some (x_WrapIf X e ''could not update validating webhook configuration''), h)
           | (None, h) \<Rightarrow> (None, h)))"

text \<open>Any error of the first Get counts as the object being absent.\<close>

definition ProvisionLocalClusterObject :: "ext \<Rightarrow> Configuration \<Rightarrow> history \<Rightarrow> gerror option \<times> history" where
  "ProvisionLocalClusterObject X cfg h =
     (case getCluster X LocalSite
             \<lparr>nn_Name = cfg_ProvisionLocalCluster cfg, nn_Namespace = cfg_Namespace cfg\<rparr> h of
        (Inr c, h) \<Rightarrow> (None, h)
      | (Inl e, h) \<Rightarrow>
          (case (if cvw_Enabled (cfg_ClusterValidatorWebhook cfg) then relax_webhook X cfg h
                 else (None, h)) of
             (Some e, h) \<Rightarrow> (Some e, h)
           | (None, h) \<Rightarrow>
               (case NewLocalCluster X (cfg_Namespace cfg) (cfg_ProvisionLocalCluster cfg)
                       (cfg_APIServerEndpointAddress cfg) h of
                  (Inl e, h) \<Rightarrow> (Some (x_WrapIf X e ''cannot create new local cluster object''), h)
                | (Inr c, h) \<Rightarrow>
                    (case x_CreateCluster X h c of
                       Some e \<Rightarrow>
                         (Some (x_WrapIf X e ''cannot create new local cluster object''), h @ [CreateCluster c])
                     | None \<Rightarrow> (None, h @ [CreateCluster c])))))"

end
