(* ===== verification/ClusterMeta.thy ===== *)
theory ClusterMeta
  imports Url Samples "HOL-Library.Multiset"
begin

text \<open>
  Cluster metadata (src/pkg/clustermeta): the detectors of the cloud provider and of the
  Kubernetes distribution, which look at one node, and the summary of all nodes. A detector is
  given a node or a nil pointer; its answer is None when the code dereferences a nil node.
\<close>

type_synonym answer = "(bool \<times> string) result option"
type_synonym detector = "Node option \<Rightarrow> history \<Rightarrow> answer \<times> history"

subsection \<open>Providers (provider.go, providers.go)\<close>

definition AMAZON :: string where "AMAZON = ''amazon''"
definition AZURE :: string where "AZURE = ''azure''"
definition GOOGLE :: string where "GOOGLE = ''google''"
definition VSPHERE :: string where "VSPHERE = ''vsphere''"
definition KINDP :: string where "KINDP = ''kind''"
definition CISCO :: string where "CISCO = ''cisco''"

definition iks_label :: string where
  "iks_label = ''iks.intersight.cisco.com/version''"

text \<open>errors.As follows the chain of wrapped errors.\<close>

primrec IsUnknownProviderError :: "gerror \<Rightarrow> bool" where
  "IsUnknownProviderError (StatusError r m) = False"
| "IsUnknownProviderError (ErrorString m) = False"
| "IsUnknownProviderError (PermanentError e) = IsUnknownProviderError e"
| "IsUnknownProviderError (Annotated s e) = IsUnknownProviderError e"
| "IsUnknownProviderError UnknownProviderError = True"
| "IsUnknownProviderError UnknownDistributionError = False"

definition getK8sNode :: "ext \<Rightarrow> site \<Rightarrow> history \<Rightarrow> (Node option \<times> bool) result \<times> history" where
  "getK8sNode X s h =
     (case listNodes X s h of
        (Inl e, h) \<Rightarrow> (Inl e, h)
      | (Inr nodes, h) \<Rightarrow>
          (if length nodes = 0 then Inr (None, False) else Inr (Some (nodes ! 0), True), h))"

definition detectNodeByProviderID ::
  "ext \<Rightarrow> site \<Rightarrow> string \<Rightarrow> Node option \<Rightarrow> history \<Rightarrow> (bool \<times> Node option) result \<times> history" where
  "detectNodeByProviderID X s scheme node h =
     (case (case node of
              Some n \<Rightarrow> (Inr (Some n, True), h)
            | None \<Rightarrow> getK8sNode X s h) of
        (Inl e, h) \<Rightarrow> (Inl e, h)
      | (Inr (None, found), h) \<Rightarrow> (Inr (False, None), h)
      | (Inr (Some n, found), h) \<Rightarrow>
          (if node_ProviderID n \<noteq> ''''
           then (case url_Parse X (node_ProviderID n) of
                   Inl e \<Rightarrow> Inl e
                 | Inr u \<Rightarrow> Inr (u_Scheme u = scheme, Some n))
           else Inr (False, Some n), h))"

definition provider_detector :: "ext \<Rightarrow> site \<Rightarrow> string \<Rightarrow> string \<Rightarrow> detector" where
  "provider_detector X s scheme name node h =
     (case detectNodeByProviderID X s scheme node h of
        (Inl e, h) \<Rightarrow> (Some (Inl e), h)
      | (Inr (ok, _), h) \<Rightarrow> (Some (Inr (ok, name)), h))"

definition IsAmazon :: "ext \<Rightarrow> site \<Rightarrow> detector" where
  "IsAmazon X s = provider_detector X s ''aws'' AMAZON"

definition IsAzure :: "ext \<Rightarrow> site \<Rightarrow> detector" where
  "IsAzure X s = provider_detector X s ''azure'' AZURE"

definition IsGoogle :: "ext \<Rightarrow> site \<Rightarrow> detector" where
  "IsGoogle X s = provider_detector X s ''gce'' GOOGLE"

definition IsVsphere :: "ext \<Rightarrow> site \<Rightarrow> detector" where
  "IsVsphere X s node h =
     (case detectNodeByProviderID X s ''vsphere'' node h of
        (Inl e, h) \<Rightarrow> (Some (Inl e), h)
      | (Inr (ok, None), h) \<Rightarrow> (None, h)
      | (Inr (ok, Some n), h) \<Rightarrow>
          (if mget (m_Labels n) iks_label \<noteq> '''' then Some (Inr (False, ''''))
           else Some (Inr (ok, VSPHERE)), h))"

definition IsKind :: "ext \<Rightarrow> site \<Rightarrow> detector" where
  "IsKind X s = provider_detector X s ''kind'' KINDP"

definition IsCisco :: "ext \<Rightarrow> site \<Rightarrow> detector" where
  "IsCisco X s node h =
     (case detectNodeByProviderID X s ''vsphere'' node h of
        (Inl e, h) \<Rightarrow> (Some (Inl e), h)
      | (Inr (ok, None), h) \<Rightarrow> (None, h)
      | (Inr (ok, Some n), h) \<Rightarrow>
          (if mget (m_Labels n) iks_label = '''' then Some (Inr (False, ''''))
           else Some (Inr (ok, CISCO)), h))"

definition knownProviders :: "ext \<Rightarrow> site \<Rightarrow> detector list" where
  "knownProviders X s =
     [IsAmazon X s, IsAzure X s, IsGoogle X s, IsVsphere X s, IsKind X s, IsCisco X s]"

text \<open>The loop that both detections run: the first detector with an error or a match decides.\<close>

primrec detect_loop ::
  "ext \<Rightarrow> gerror \<Rightarrow> detector list \<Rightarrow> Node option \<Rightarrow> history \<Rightarrow> string result option \<times> history" where
  "detect_loop X unknown [] node h = (Some (Inl unknown), h)"
| "detect_loop X unknown (f # fs) node h =
     (if x_CtxDone X h then (Some (Inl unknown), h)
      else case f node h of
             (None, h) \<Rightarrow> (None, h)
           | (Some (Inl e), h) \<Rightarrow> (Some (Inl e), h)
           | (Some (Inr (ok, name)), h) \<Rightarrow>
               if ok then (Some (Inr name), h) else detect_loop X unknown fs node h)"

definition DetectProvider ::
  "ext \<Rightarrow> site \<Rightarrow> Node option \<Rightarrow> history \<Rightarrow> string result option \<times> history" where
  "DetectProvider X s node h = detect_loop X UnknownProviderError (knownProviders X s) node h"

subsection \<open>Distributions (distribution.go, distributions.go)\<close>

definition PKE :: string where "PKE = ''PKE''"
definition EKS :: string where "EKS = ''EKS''"
definition GKE :: string where "GKE = ''GKE''"
definition AKS :: string where "AKS = ''AKS''"
definition KINDD :: string where "KINDD = ''KIND''"
definition IKS :: string where "IKS = ''IKS''"
definition OPENSHIFT :: string where "OPENSHIFT = ''OPENSHIFT''"

definition cri_socket :: string where
  "cri_socket = ''kubeadm.alpha.kubernetes.io/cri-socket''"
definition openshift_label :: string where
  "openshift_label = ''node.openshift.io/os_id''"

primrec IsUnknownDistributionError :: "gerror \<Rightarrow> bool" where
  "IsUnknownDistributionError (StatusError r m) = False"
| "IsUnknownDistributionError (ErrorString m) = False"
| "IsUnknownDistributionError (PermanentError e) = IsUnknownDistributionError e"
| "IsUnknownDistributionError (Annotated s e) = IsUnknownDistributionError e"
| "IsUnknownDistributionError UnknownProviderError = False"
| "IsUnknownDistributionError UnknownDistributionError = True"

text \<open>
  Every distribution detector starts with the node it is given or the first of the cluster; a
  cluster without nodes leaves a nil pointer, which the next line dereferences.
\<close>

definition with_node ::
  "ext \<Rightarrow> site \<Rightarrow> Node option \<Rightarrow> history \<Rightarrow> (Node \<Rightarrow> history \<Rightarrow> answer \<times> history) \<Rightarrow> answer \<times> history" where
  "with_node X s node h k =
     (case node of
        Some n \<Rightarrow> k n h
      | None \<Rightarrow>
          (case getK8sNode X s h of
             (Inl e, h) \<Rightarrow> (Some (Inl e), h)
           | (Inr (None, found), h) \<Rightarrow> (None, h)
           | (Inr (Some n, found), h) \<Rightarrow> k n h))"

text \<open>The end of most detectors: the provider has to be the distribution's own.\<close>

definition require_provider ::
  "ext \<Rightarrow> site \<Rightarrow> string \<Rightarrow> string \<Rightarrow> Node \<Rightarrow> history \<Rightarrow> answer \<times> history" where
  "require_provider X s provider distribution n h =
     (case DetectProvider X s (Some n) h of
        (None, h) \<Rightarrow> (None, h)
      | (Some (Inl e), h) \<Rightarrow>
          (if IsUnknownProviderError e then Some (Inr (False, distribution)) else Some (Inl e), h)
      | (Some (Inr p), h) \<Rightarrow> (Some (Inr (p = provider, distribution)), h))"

definition IsPKE :: "ext \<Rightarrow> site \<Rightarrow> detector" where
  "IsPKE X s node h =
     with_node X s node h (\<lambda>n h.
       if mget (m_Labels n) ''nodepool.banzaicloud.io/name'' = '''' then (Some (Inr (False, PKE)), h)
       else if mget (m_Annotations n) cri_socket = '''' then (Some (Inr (False, PKE)), h)
       else (Some (Inr (True, PKE)), h))"

definition IsEKS :: "ext \<Rightarrow> site \<Rightarrow> detector" where
  "IsEKS X s node h =
     with_node X s node h (\<lambda>n h.
       if m_Annotations n cri_socket \<noteq> None then (Some (Inr (False, EKS)), h)
       else if m_Labels n openshift_label \<noteq> None then (Some (Inr (False, EKS)), h)
       else require_provider X s AMAZON EKS n h)"

definition IsGKE :: "ext \<Rightarrow> site \<Rightarrow> detector" where
  "IsGKE X s node h =
     with_node X s node h (\<lambda>n h.
       if mget (m_Labels n) ''cloud.google.com/gke-nodepool'' = '''' then (Some (Inr (False, GKE)), h)
       else require_provider X s GOOGLE GKE n h)"

definition IsAKS :: "ext \<Rightarrow> site \<Rightarrow> detector" where
  "IsAKS X s node h =
     with_node X s node h (\<lambda>n h.
       if mget (m_Labels n) ''agentpool'' = '''' then (Some (Inr (False, AKS)), h)
       else require_provider X s AZURE AKS n h)"

definition IsKIND :: "ext \<Rightarrow> site \<Rightarrow> detector" where
  "IsKIND X s node h = with_node X s node h (\<lambda>n h. require_provider X s KINDP KINDD n h)"

definition IsIKS :: "ext \<Rightarrow> site \<Rightarrow> detector" where
  "IsIKS X s node h =
     with_node X s node h (\<lambda>n h.
       if mget (m_Labels n) iks_label = '''' then (Some (Inr (False, IKS)), h)
       else require_provider X s CISCO IKS n h)"

definition IsOpenShift :: "ext \<Rightarrow> site \<Rightarrow> detector" where
  "IsOpenShift X s node h =
     with_node X s node h (\<lambda>n h.
       (Some (Inr (mget (m_Labels n) openshift_label \<noteq> '''', OPENSHIFT)), h))"

definition knownDistributions :: "ext \<Rightarrow> site \<Rightarrow> detector list" where
  "knownDistributions X s =
     [IsEKS X s, IsPKE X s, IsGKE X s, IsAKS X s, IsKIND X s, IsIKS X s, IsOpenShift X s]"

definition DetectDistribution ::
  "ext \<Rightarrow> site \<Rightarrow> Node option \<Rightarrow> history \<Rightarrow> string result option \<times> history" where
  "DetectDistribution X s node h = detect_loop X UnknownDistributionError (knownDistributions X s) node h"

subsection \<open>Metadata (metadata.go)\<close>

text \<open>A Go map used as a set: the keys in the order they were first stored.\<close>

definition add_key :: "string \<Rightarrow> string list \<Rightarrow> string list" where
  "add_key k ks = (if k \<in> set ks then ks else ks @ [k])"

text \<open>Reading a label of a node without labels gives the empty string, so the test of their number is implied.\<close>

primrec node_loop ::
  "Node list \<Rightarrow> string list \<times> string list \<times> string list \<times> string list
    \<Rightarrow> string list \<times> string list \<times> string list \<times> string list" where
  "node_loop [] acc = acc"
| "node_loop (n # ns) acc =
     (case acc of (proxies, kubelets, regions, zones) \<Rightarrow>
        let region = mget (m_Labels n) ''topology.kubernetes.io/region'';
            zone = mget (m_Labels n) ''topology.kubernetes.io/zone''
        in node_loop ns
             (add_key (node_KubeProxyVersion n) proxies, add_key (node_KubeletVersion n) kubelets,
              if region \<noteq> '''' then add_key region regions else regions,
              if zone \<noteq> '''' then add_key zone zones else zones))"

fun join_comma :: "string list \<Rightarrow> string" where
  "join_comma [] = []"
| "join_comma [x] = x"
| "join_comma (x # y # ys) = x @ '', '' @ join_comma (y # ys)"

definition node_summary :: "ext \<Rightarrow> string \<Rightarrow> string \<Rightarrow> Node list \<Rightarrow> ClusterMetadata" where
  "node_summary X provider distribution nodes =
     (case node_loop nodes ([], [], [], []) of (proxies, kubelets, regions, zones) \<Rightarrow>
        let md = ClusterMetadata_zero\<lparr>cm_Provider := provider, cm_Distribution := distribution\<rparr>;
            md = (if length proxies > 0
                  then md\<lparr>cm_KubeProxyVersions := x_MapOrder X proxies,
                          cm_Version := x_MapOrder X proxies ! 0\<rparr> else md);
            md = md\<lparr>cm_KubeletVersions := x_MapOrder X kubelets\<rparr>
        in if length regions > 0 \<or> length zones > 0
           then md\<lparr>cm_Locality :=
                  Some \<lparr>loc_Region = (if length regions > 0 then join_comma (x_MapOrder X regions) else ''''),
                        loc_Regions = (if length regions > 0 then x_MapOrder X regions else []),
                        loc_Zones = x_MapOrder X zones\<rparr>\<rparr>
           else md)"

text \<open>An unknown provider or distribution leaves the empty name; other errors end the function.\<close>

definition name_or_unknown :: "(gerror \<Rightarrow> bool) \<Rightarrow> string result \<Rightarrow> string result" where
  "name_or_unknown unknown r =
     (case r of Inl e \<Rightarrow> if \<not> unknown e then Inl e else Inr '''' | Inr name \<Rightarrow> Inr name)"

definition GetClusterMetadata ::
  "ext \<Rightarrow> site \<Rightarrow> history \<Rightarrow> ClusterMetadata result option \<times> history" where
  "GetClusterMetadata X s h =
     (case listNodes X s h of
        (Inl e, h) \<Rightarrow> (Some (Inl e), h)
      | (Inr nodes, h) \<Rightarrow>
          if length nodes = 0 then (Some (Inr ClusterMetadata_zero), h)
          else
            case DetectProvider X s (Some (nodes ! 0)) h of
              (None, h) \<Rightarrow> (None, h)
            | (Some p, h) \<Rightarrow>
                (case name_or_unknown IsUnknownProviderError p of
                   Inl e \<Rightarrow> (Some (Inl e), h)
                 | Inr provider \<Rightarrow>
                     (case DetectDistribution X s (Some (nodes ! 0)) h of
                        (None, h) \<Rightarrow> (None, h)
                      | (Some d, h) \<Rightarrow>
                          (case name_or_unknown IsUnknownDistributionError d of
                             Inl e \<Rightarrow> (Some (Inl e), h)
                           | Inr distribution \<Rightarrow>
                               (Some (Inr (node_summary X provider distribution nodes)), h)))))"

subsection \<open>Detection on a node that is there\<close>

text \<open>
  The contract of a list of detectors: on a node that is there, each answers as a function of
  the node alone and makes no call. Detection then is a search for the first match.
\<close>

fun first_match :: "gerror \<Rightarrow> (bool \<times> string) result list \<Rightarrow> string result" where
  "first_match unknown [] = Inl unknown"
| "first_match unknown (Inl e # rs) = Inl e"
| "first_match unknown (Inr (ok, name) # rs) = (if ok then Inr name else first_match unknown rs)"

locale detection =
  fixes X :: ext
    and detectors :: "detector list"
    and verdicts :: "Node \<Rightarrow> (bool \<times> string) result list"
  assumes pure: "\<not> x_CtxDone X h \<Longrightarrow>
    map (\<lambda>f. f (Some n) h) detectors = map (\<lambda>v. (Some v, h)) (verdicts n)"
begin

lemma detect_first_match:
  assumes "\<not> x_CtxDone X h"
  shows "detect_loop X unknown detectors (Some n) h = (Some (first_match unknown (verdicts n)), h)"
proof -
  have "detect_loop X unknown fs (Some n) h = (Some (first_match unknown vs), h)"
    if "map (\<lambda>f. f (Some n) h) fs = map (\<lambda>v. (Some v, h)) vs" for fs vs
    using that assms
  proof (induction fs arbitrary: vs)
    case (Cons f fs)
    then obtain v vs' where "vs = v # vs'" by (cases vs) auto
    with Cons show ?case by (cases v) (auto split: prod.split)
  qed simp
  from this [OF pure [OF assms]] show ?thesis .
qed

end

definition node_scheme :: "ext \<Rightarrow> Node \<Rightarrow> string result" where
  "node_scheme X n =
     (if node_ProviderID n = '''' then Inr '''' else map_sum id u_Scheme (url_Parse X (node_ProviderID n)))"

definition is_iks :: "Node \<Rightarrow> bool" where
  "is_iks n \<longleftrightarrow> mget (m_Labels n) iks_label \<noteq> ''''"

definition provider_verdicts :: "ext \<Rightarrow> Node \<Rightarrow> (bool \<times> string) result list" where
  "provider_verdicts X n =
     (case node_scheme X n of
        Inl e \<Rightarrow> replicate 6 (Inl e)
      | Inr sch \<Rightarrow>
          [Inr (sch = ''aws'', AMAZON), Inr (sch = ''azure'', AZURE), Inr (sch = ''gce'', GOOGLE),
           (if is_iks n then Inr (False, '''') else Inr (sch = ''vsphere'', VSPHERE)),
           Inr (sch = ''kind'', KINDP),
           (if is_iks n then Inr (sch = ''vsphere'', CISCO) else Inr (False, ''''))])"

lemma detectNodeByProviderID_node:
  "scheme \<noteq> '''' \<Longrightarrow> detectNodeByProviderID X s scheme (Some n) h =
     (case node_scheme X n of Inl e \<Rightarrow> Inl e | Inr sch \<Rightarrow> Inr (sch = scheme, Some n), h)"
  by (auto simp: detectNodeByProviderID_def node_scheme_def split: sum.split)

interpretation providers: detection X "knownProviders X s" "provider_verdicts X" for X s
  by unfold_locales
    (auto simp: knownProviders_def provider_verdicts_def IsAmazon_def IsAzure_def IsGoogle_def
      IsVsphere_def IsKind_def IsCisco_def provider_detector_def detectNodeByProviderID_node is_iks_def
      numeral_eq_Suc split: sum.split)

text \<open>The provider a scheme stands for; vSphere machines with the IKS label are Cisco's.\<close>

definition provider_of :: "string \<Rightarrow> bool \<Rightarrow> string option" where
  "provider_of sch iks =
     (if sch = ''aws'' then Some AMAZON else if sch = ''azure'' then Some AZURE
      else if sch = ''gce'' then Some GOOGLE else if sch = ''kind'' then Some KINDP
      else if sch = ''vsphere'' then Some (if iks then CISCO else VSPHERE) else None)"

definition or_unknown :: "gerror \<Rightarrow> string option \<Rightarrow> string result" where
  "or_unknown unknown p = (case p of Some name \<Rightarrow> Inr name | None \<Rightarrow> Inl unknown)"

definition name_or_empty :: "string option \<Rightarrow> string" where
  "name_or_empty p = (case p of Some name \<Rightarrow> name | None \<Rightarrow> '''')"

lemma DetectProvider_node:
  assumes "\<not> x_CtxDone X h"
  shows "DetectProvider X s (Some n) h =
    (Some (case node_scheme X n of Inl e \<Rightarrow> Inl e
           | Inr sch \<Rightarrow> or_unknown UnknownProviderError (provider_of sch (is_iks n))), h)"
  unfolding DetectProvider_def providers.detect_first_match [OF assms]
  by (auto simp: provider_verdicts_def provider_of_def or_unknown_def numeral_eq_Suc split: sum.split)

text \<open>The distribution that the labels and annotations of a node and its provider stand for.\<close>

definition distribution_of :: "string option \<Rightarrow> Node \<Rightarrow> string option" where
  "distribution_of p n =
     (if m_Annotations n cri_socket = None \<and> m_Labels n openshift_label = None \<and> p = Some AMAZON
      then Some EKS
      else if mget (m_Labels n) ''nodepool.banzaicloud.io/name'' \<noteq> '''' \<and> mget (m_Annotations n) cri_socket \<noteq> ''''
      then Some PKE
      else if mget (m_Labels n) ''cloud.google.com/gke-nodepool'' \<noteq> '''' \<and> p = Some GOOGLE then Some GKE
      else if mget (m_Labels n) ''agentpool'' \<noteq> '''' \<and> p = Some AZURE then Some AKS
      else if p = Some KINDP then Some KINDD
      else if is_iks n \<and> p = Some CISCO then Some IKS
      else if mget (m_Labels n) openshift_label \<noteq> '''' then Some OPENSHIFT
      else None)"

text \<open>What a detector ends with when the provider has to be the distribution's own.\<close>

definition provider_verdict :: "ext \<Rightarrow> string \<Rightarrow> string \<Rightarrow> Node \<Rightarrow> (bool \<times> string) result" where
  "provider_verdict X provider distribution n =
     (case node_scheme X n of
        Inl e \<Rightarrow> if IsUnknownProviderError e then Inr (False, distribution) else Inl e
      | Inr sch \<Rightarrow> Inr (provider_of sch (is_iks n) = Some provider, distribution))"

lemma require_provider_node:
  "\<not> x_CtxDone X h \<Longrightarrow>
   require_provider X s provider distribution n h = (Some (provider_verdict X provider distribution n), h)"
  by (auto simp: require_provider_def DetectProvider_node provider_verdict_def or_unknown_def
      split: sum.split option.split)

definition distribution_verdicts :: "ext \<Rightarrow> Node \<Rightarrow> (bool \<times> string) result list" where
  "distribution_verdicts X n =
     [(if m_Annotations n cri_socket \<noteq> None \<or> m_Labels n openshift_label \<noteq> None then Inr (False, EKS)
       else provider_verdict X AMAZON EKS n),
      Inr (mget (m_Labels n) ''nodepool.banzaicloud.io/name'' \<noteq> '''' \<and> mget (m_Annotations n) cri_socket \<noteq> '''',
        PKE),
      (if mget (m_Labels n) ''cloud.google.com/gke-nodepool'' = '''' then Inr (False, GKE)
       else provider_verdict X GOOGLE GKE n),
      (if mget (m_Labels n) ''agentpool'' = '''' then Inr (False, AKS) else provider_verdict X AZURE AKS n),
      provider_verdict X KINDP KINDD n,
      (if \<not> is_iks n then Inr (False, IKS) else provider_verdict X CISCO IKS n),
      Inr (mget (m_Labels n) openshift_label \<noteq> '''', OPENSHIFT)]"

interpretation distributions: detection X "knownDistributions X s" "distribution_verdicts X" for X s
  by unfold_locales
    (simp add: knownDistributions_def distribution_verdicts_def IsEKS_def IsPKE_def IsGKE_def IsAKS_def
      IsKIND_def IsIKS_def IsOpenShift_def with_node_def require_provider_node is_iks_def)

lemma DetectDistribution_node:
  assumes "\<not> x_CtxDone X h" and "node_scheme X n = Inr sch"
  shows "DetectDistribution X s (Some n) h =
    (Some (or_unknown UnknownDistributionError (distribution_of (provider_of sch (is_iks n)) n)), h)"
  unfolding DetectDistribution_def distributions.detect_first_match [OF assms(1)]
  using assms(2)
  by (simp add: distribution_verdicts_def provider_verdict_def distribution_of_def or_unknown_def)

subsection \<open>Summary of the nodes\<close>

definition region_of :: "Node \<Rightarrow> string" where
  "region_of n = mget (m_Labels n) ''topology.kubernetes.io/region''"
definition zone_of :: "Node \<Rightarrow> string" where
  "zone_of n = mget (m_Labels n) ''topology.kubernetes.io/zone''"

lemma set_add_key [simp]: "set (add_key k ks) = insert k (set ks)"
  by (auto simp: add_key_def)

lemma distinct_add_key [simp]: "distinct (add_key k ks) = distinct ks"
  by (simp add: add_key_def)

lemma node_loop_sets:
  assumes "node_loop ns (p, k, r, z) = (p', k', r', z')"
  shows "set p' = set p \<union> node_KubeProxyVersion ` set ns \<and> set k' = set k \<union> node_KubeletVersion ` set ns
    \<and> set r' = set r \<union> (region_of ` set ns - {''''}) \<and> set z' = set z \<union> (zone_of ` set ns - {''''})
    \<and> (distinct p \<longrightarrow> distinct p') \<and> (distinct k \<longrightarrow> distinct k')
    \<and> (distinct r \<longrightarrow> distinct r') \<and> (distinct z \<longrightarrow> distinct z')"
  using assms
proof (induction ns arbitrary: p k r z)
  case (Cons n ns)
  from Cons.prems have "node_loop ns
      (add_key (node_KubeProxyVersion n) p, add_key (node_KubeletVersion n) k,
       if region_of n \<noteq> '''' then add_key (region_of n) r else r,
       if zone_of n \<noteq> '''' then add_key (zone_of n) z else z) = (p', k', r', z')"
    by (simp only: node_loop.simps Let_def region_of_def zone_of_def prod.case)
  from Cons.IH [OF this] show ?case by (auto split: if_splits)
qed simp

lemma MapOrder_set:
  assumes "mset (x_MapOrder X ks) = mset ks"
  shows "set (x_MapOrder X ks) = set ks" and "distinct (x_MapOrder X ks) = distinct ks"
    and "x_MapOrder X ks = [] \<longleftrightarrow> ks = []"
  using assms mset_eq_setD mset_eq_imp_distinct_iff by (blast, blast, force)

text \<open>Whether a node carries a region or a zone.\<close>

definition located :: "Node \<Rightarrow> bool" where
  "located n \<longleftrightarrow> region_of n \<noteq> '''' \<or> zone_of n \<noteq> ''''"

lemma node_summary_spec:
  fixes X :: ext and provider distribution :: string and nodes :: "Node list"
  assumes order: "\<And>ks. mset (x_MapOrder X ks) = mset ks" and "nodes \<noteq> []"
  defines "md \<equiv> node_summary X provider distribution nodes"
  shows "cm_Provider md = provider" and "cm_Distribution md = distribution"
    and "set (cm_KubeProxyVersions md) = node_KubeProxyVersion ` set nodes" and "distinct (cm_KubeProxyVersions md)"
    and "set (cm_KubeletVersions md) = node_KubeletVersion ` set nodes" and "distinct (cm_KubeletVersions md)"
    and "cm_Version md \<in> node_KubeProxyVersion ` set nodes"
    and "cm_Locality md = None \<longleftrightarrow> \<not> list_ex located nodes"
    and "cm_Locality md = Some l \<Longrightarrow>
      set (loc_Regions l) = region_of ` set nodes - {''''} \<and> set (loc_Zones l) = zone_of ` set nodes - {''''} \<and>
      loc_Region l = join_comma (loc_Regions l)"
proof -
  obtain p k r z where loop: "node_loop nodes ([], [], [], []) = (p, k, r, z)" by (metis prod_cases4)
  note sets = node_loop_sets [OF loop, simplified]
  note ord = MapOrder_set [OF order]
  have "p \<noteq> []" using sets assms(2) by (metis image_is_empty set_empty)
  then have v: "x_MapOrder X p ! 0 \<in> set p" using ord(1,3) by (metis length_greater_0_conv nth_mem)
  have loc: "r = [] \<and> z = [] \<longleftrightarrow> \<not> list_ex located nodes"
  proof -
    have "set r = {} \<and> set z = {} \<longleftrightarrow> \<not> list_ex located nodes"
      using sets by (auto simp: list_ex_iff located_def)
    then show ?thesis by simp
  qed
  note md = md_def node_summary_def loop ClusterMetadata_zero_def
  show "cm_Provider md = provider" "cm_Distribution md = distribution"
    by (simp_all add: md Let_def)
  show "set (cm_KubeProxyVersions md) = node_KubeProxyVersion ` set nodes" "distinct (cm_KubeProxyVersions md)"
    "set (cm_KubeletVersions md) = node_KubeletVersion ` set nodes" "distinct (cm_KubeletVersions md)"
    "cm_Version md \<in> node_KubeProxyVersion ` set nodes"
    using sets ord \<open>p \<noteq> []\<close> v by (simp_all add: md Let_def)
  show "cm_Locality md = None \<longleftrightarrow> \<not> list_ex located nodes"
    using loc by (auto simp: md Let_def)
  show "cm_Locality md = Some l \<Longrightarrow>
      set (loc_Regions l) = region_of ` set nodes - {''''} \<and> set (loc_Zones l) = zone_of ` set nodes - {''''} \<and>
      loc_Region l = join_comma (loc_Regions l)"
    using sets ord by (auto simp: md Let_def split: if_splits)
qed

subsection \<open>Properties\<close>

text \<open>
  C29. Detection on a node that is there makes no call and never fails on a nil pointer: the
  provider is the one the scheme of the node's provider ID stands for (vSphere nodes with the
  IKS label being Cisco's), and the distribution the one of a decision table over the
  provider, the labels and the annotations. A provider ID that is not a URL is reported as the
  error of parsing it.
\<close>

theorem detection_spec:
  assumes "\<not> x_CtxDone X h"
  shows "DetectProvider X s (Some n) h =
      (Some (case node_scheme X n of
               Inl e \<Rightarrow> Inl e
             | Inr sch \<Rightarrow> or_unknown UnknownProviderError (provider_of sch (is_iks n))), h)
    \<and> (\<forall>sch. node_scheme X n = Inr sch \<longrightarrow>
         DetectDistribution X s (Some n) h =
           (Some (or_unknown UnknownDistributionError (distribution_of (provider_of sch (is_iks n)) n)), h))"
  using DetectProvider_node [OF assms] DetectDistribution_node [OF assms] by blast

definition sample_node :: Node where
  "sample_node =
     \<lparr>m_Name = ''node-1'', m_Namespace = '''', m_Labels = [''topology.kubernetes.io/region'' \<mapsto> ''eu-1''],
      m_Annotations = Map.empty, m_UID = ''uid-3'', m_ResourceVersion = ''1'', m_Generation = 1,
      m_SelfLink = '''', m_CreationTimestamp = 5, m_DeletionTimestamp = 0, m_Finalizers = [],
      m_OwnerReferences = [], m_ManagedFields = [], node_ProviderID = ''aws:///eu-1a/i-1'',
      node_KubeProxyVersion = ''v1.21.2'', node_KubeletVersion = ''v1.21.2''\<rparr>"

lemma sample_node_scheme:
  assumes "x_UrlRest X = (\<lambda>_ r. Inr r)"
  shows "node_scheme X sample_node = Inr ''aws''"
proof -
  have "getScheme ''aws:///eu-1a/i-1'' = Inr (''aws'', ''///eu-1a/i-1'')"
    using getScheme_letters [of "''aws''" "''///eu-1a/i-1''"]
    by (simp add: is_letter_def less_eq_char_def)
  then show ?thesis
    using assms by (simp add: node_scheme_def sample_node_def url_Parse_def lower_char_def less_eq_char_def)
qed

theorem detection_spec_witness:
  "DetectProvider sample_ext LocalSite (Some sample_node) [] = (Some (Inr ''amazon''), [])
   \<and> DetectDistribution sample_ext LocalSite (Some sample_node) [] = (Some (Inr ''EKS''), [])"
proof -
  have "\<not> x_CtxDone sample_ext []" by (simp add: sample_ext_def)
  moreover have "node_scheme sample_ext sample_node = Inr ''aws''"
    by (rule sample_node_scheme) (simp add: sample_ext_def)
  ultimately show ?thesis
    using detection_spec [of sample_ext "[]" LocalSite sample_node]
    by (simp add: provider_of_def or_unknown_def AMAZON_def distribution_of_def sample_node_def
        cri_socket_def openshift_label_def EKS_def)
qed

text \<open>
  C30. The metadata of a cluster with nodes, in whatever order Go ranges over its maps: one List
  call, the provider and distribution of the first node (empty when unknown), exactly the
  kube-proxy and kubelet versions of the nodes without repetition, a version that one of the
  nodes has, and a locality exactly if some node has a region or zone label, with exactly the
  regions and zones of the nodes.
\<close>

theorem GetClusterMetadata_spec:
  assumes "x_ListNodes X h s = Inr nodes" and "nodes \<noteq> []"
    and "\<And>ks. mset (x_MapOrder X ks) = mset ks"
    and "\<not> x_CtxDone X (h @ [ListNodes s])" and "node_scheme X (nodes ! 0) = Inr sch"
  shows "\<exists>md. GetClusterMetadata X s h = (Some (Inr md), h @ [ListNodes s])
    \<and> cm_Provider md = name_or_empty (provider_of sch (is_iks (nodes ! 0)))
    \<and> cm_Distribution md =
        name_or_empty (distribution_of (provider_of sch (is_iks (nodes ! 0))) (nodes ! 0))
    \<and> set (cm_KubeProxyVersions md) = node_KubeProxyVersion ` set nodes \<and> distinct (cm_KubeProxyVersions md)
    \<and> set (cm_KubeletVersions md) = node_KubeletVersion ` set nodes \<and> distinct (cm_KubeletVersions md)
    \<and> cm_Version md \<in> node_KubeProxyVersion ` set nodes
    \<and> (case cm_Locality md of
         None \<Rightarrow> \<not> list_ex located nodes
       | Some l \<Rightarrow> list_ex located nodes \<and> set (loc_Regions l) = region_of ` set nodes - {''''} \<and>
           set (loc_Zones l) = zone_of ` set nodes - {''''} \<and> loc_Region l = join_comma (loc_Regions l))"
proof -
  let ?p = "provider_of sch (is_iks (nodes ! 0))"
  let ?d = "distribution_of ?p (nodes ! 0)"
  define md where "md = node_summary X (name_or_empty ?p) (name_or_empty ?d) nodes"
  have "GetClusterMetadata X s h = (Some (Inr md), h @ [ListNodes s])"
    using assms(1,2,4,5)
    by (simp add: GetClusterMetadata_def listNodes_def DetectProvider_node DetectDistribution_node
        name_or_unknown_def or_unknown_def name_or_empty_def md_def split: option.split)
  moreover note node_summary_spec [OF assms(3,2), of "name_or_empty ?p" "name_or_empty ?d",
    folded md_def]
  ultimately show ?thesis
    by (intro exI [of _ md]) (auto split: option.split)
qed

theorem GetClusterMetadata_spec_witness:
  "\<exists>md. GetClusterMetadata (sample_ext\<lparr>x_ListNodes := \<lambda>_ _. Inr [sample_node]\<rparr>) LocalSite [] =
      (Some (Inr md), [ListNodes LocalSite]) \<and> cm_Provider md = ''amazon'' \<and> cm_Version md = ''v1.21.2''"
proof -
  let ?X = "sample_ext\<lparr>x_ListNodes := \<lambda>_ _. Inr [sample_node]\<rparr>"
  have "node_scheme ?X ([sample_node] ! 0) = Inr ''aws''"
    unfolding nth_Cons_0 by (rule sample_node_scheme) (simp add: sample_ext_def)
  from GetClusterMetadata_spec [where X = ?X and h = "[]" and s = LocalSite and nodes = "[sample_node]",
      OF _ _ _ _ this]
  show ?thesis by (force simp: sample_ext_def name_or_empty_def provider_of_def AMAZON_def sample_node_def)
qed

text \<open>
  Given a nil node, the detectors fetch one, but a cluster without nodes leaves the pointer
  nil and they dereference it: both detections end in a nil dereference instead of the error
  for an unknown provider or distribution.
\<close>

theorem detection_without_nodes:
  assumes "\<And>h. \<not> x_CtxDone X h" and "\<And>h. x_ListNodes X h s = Inr []"
  shows "fst (DetectProvider X s None h) = None \<and> fst (DetectDistribution X s None h) = None"
  using assms
  by (simp add: DetectProvider_def knownProviders_def IsAmazon_def IsAzure_def IsGoogle_def IsVsphere_def
      provider_detector_def detectNodeByProviderID_def getK8sNode_def listNodes_def DetectDistribution_def
      knownDistributions_def IsEKS_def with_node_def)

theorem detection_without_nodes_witness:
  "fst (DetectProvider sample_ext LocalSite None []) = None"
  using detection_without_nodes [of sample_ext LocalSite "[]"] by (simp add: sample_ext_def)

end
