(* ===== verification/ClusterCtl.thy ===== *)
theory ClusterCtl
  imports KubeconfigUtil ClusterMeta ClusterManager SyncReconciler
begin

text \<open>
  The cluster reconciler (src/controllers/cluster\_reconciler.go, cluster\_reconciler\_watches.go
  and core\_syncers.go). It keeps one peer cluster in the manager for every cluster resource
  with credentials that is neither local nor disabled, and maintains the status, the reader
  secret and the core sync rules of the local one. The manager is passed along explicitly. The
  field \<open>cr_queue\<close> says whether the work queue was handed over.
\<close>

record ClusterReconciler =
  cr_config :: Configuration
  cr_clusterID :: string
  cr_queue :: bool

definition NewClusterReconciler :: "Configuration \<Rightarrow> ClusterReconciler" where
  "NewClusterReconciler cfg = \<lparr>cr_config = cfg, cr_clusterID = '''', cr_queue = False\<rparr>"

definition cluster_setQueue :: "bool \<Rightarrow> ClusterReconciler \<Rightarrow> ClusterReconciler" where
  "cluster_setQueue q r = r\<lparr>cr_queue := q\<rparr>"

definition cluster_setClusterID ::
  "ext \<Rightarrow> ClusterReconciler \<Rightarrow> history \<Rightarrow> gerror option \<times> ClusterReconciler \<times> history" where
  "cluster_setClusterID X r h =
     (if cr_clusterID r = ''''
      then (case GetClusterID X LocalSite h of
              (Inl e, h) \<Rightarrow> (Some (x_WrapIf X e ''could not get cluster id''), r, h)
            | (Inr i, h) \<Rightarrow> (None, r\<lparr>cr_clusterID := i\<rparr>, h))
      else (None, r, h))"

subsection \<open>Triggers\<close>

definition by_name :: "string \<Rightarrow> NamespacedName" where
  "by_name n = \<lparr>nn_Name = n, nn_Namespace = ''''\<rparr>"

definition triggerClusterReconcile :: "ClusterReconciler \<Rightarrow> Cluster \<Rightarrow> history \<Rightarrow> history" where
  "triggerClusterReconcile r cluster h = (if cr_queue r then queueAdd (by_name (m_Name cluster)) h else h)"

primrec trigger_loop :: "ClusterReconciler \<Rightarrow> Cluster list \<Rightarrow> history \<Rightarrow> history" where
  "trigger_loop r [] h = h"
| "trigger_loop r (c # cs) h =
     trigger_loop r cs
       (if cc_Status (GetCurrentCondition c ClusterConditionTypeLocalConflict) = ConditionTrue
        then triggerClusterReconcile r c h else h)"

definition triggerLocalClusterReconciles ::
  "ext \<Rightarrow> ClusterReconciler \<Rightarrow> history \<Rightarrow> gerror option \<times> history" where
  "triggerLocalClusterReconciles X r h =
     (case listClusters X LocalSite h of
        (Inl e, h) \<Rightarrow> (Some e, h)
      | (Inr cs, h) \<Rightarrow> (None, trigger_loop r cs h))"

subsection \<open>Remote clusters\<close>

definition getK8SConfigForCluster ::
  "ext \<Rightarrow> string \<Rightarrow> string \<Rightarrow> history \<Rightarrow> string result \<times> history" where
  "getK8SConfigForCluster X namespace name h =
     (case getSecret X LocalSite \<lparr>nn_Name = name, nn_Namespace = namespace\<rparr> h of
        (Inl e, h) \<Rightarrow> (Inl e, h)
      | (Inr secret, h) \<Rightarrow>
          (if sec_Type secret \<noteq> SecretTypeClusterRegistry then Inl (x_WithDetails X ErrInvalidSecret)
           else case sec_Data secret KubeconfigKey of
                  Some content \<Rightarrow> Inr content
                | None \<Rightarrow> Inl ErrInvalidSecretContent, h))"

definition removeRemoteCluster :: "string \<Rightarrow> Manager \<Rightarrow> history \<Rightarrow> gerror option \<times> Manager \<times> history" where
  "removeRemoteCluster name m h =
     (case Get m name of
        Inl e \<Rightarrow> (Some e, m, h)
      | Inr c \<Rightarrow> (None, snd (Manager_Remove (Some c) m h)))"

text \<open>errors.Is on the chain of wrapped errors.\<close>

primrec errors_Is :: "gerror \<Rightarrow> gerror \<Rightarrow> bool" where
  "errors_Is (StatusError r m) t = (t = StatusError r m)"
| "errors_Is (ErrorString m) t = (t = ErrorString m)"
| "errors_Is (PermanentError e) t = (t = PermanentError e \<or> errors_Is e t)"
| "errors_Is (Annotated s e) t = (t = Annotated s e \<or> errors_Is e t)"
| "errors_Is UnknownProviderError t = (t = UnknownProviderError)"
| "errors_Is UnknownDistributionError t = (t = UnknownDistributionError)"

text \<open>The test that every use of removeRemoteCluster makes: a missing cluster is no error.\<close>

definition remove_failed :: "ext \<Rightarrow> gerror option \<Rightarrow> gerror option" where
  "remove_failed X e =
     (case e of None \<Rightarrow> None
      | Some e \<Rightarrow> if \<not> errors_Is (x_Cause X e) ErrClusterNotFound then Some (x_WithStackIf X e) else None)"

definition onDeadFunc :: "ClusterReconciler \<Rightarrow> ClusterFunc" where
  "onDeadFunc r name h = (None, if cr_queue r then queueAdd (by_name name) h else h)"

definition secretID_of :: "Cluster \<Rightarrow> string" where
  "secretID_of cluster =
     nn_Namespace (sp_SecretRef (c_Spec cluster)) @ ''/'' @ nn_Name (sp_SecretRef (c_Spec cluster))"

definition new_remote_cluster ::
  "ext \<Rightarrow> ClusterReconciler \<Rightarrow> Cluster \<Rightarrow> string \<Rightarrow> Manager \<Rightarrow> history
    \<Rightarrow> clusters_Cluster result \<times> Manager \<times> history" where
  "new_remote_cluster X r cluster k8sconfig m h =
     (case x_LoadKubeconfig X k8sconfig of
        Some e \<Rightarrow> (Inl (x_WrapIf X e ''could not load kubeconfig''), m, h)
      | None \<Rightarrow>
          (case GetKubeconfigOverridesForClusterByNetwork X cluster (cfg_NetworkName (cr_config r)) of
             Inl e \<Rightarrow> (Inl (x_WithStack X e), m, h)
           | Inr overrides \<Rightarrow>
               (case x_ClientConfig X k8sconfig overrides of
                  Some e \<Rightarrow> (Inl (x_WrapIf X e ''could not create k8s rest config''), m, h)
                | None \<Rightarrow>
                    let c = NewCluster (m_Name cluster)
                              [WithSecretID (secretID_of cluster), WithOnDeadFunc (onDeadFunc r),
                               WithKubeconfig k8sconfig];
                        (c, h) = AddController X (NewManagedController ''remote-cluster'' None []) c h;
                        (c, h) = AddController X (NewManagedController ''remote-cluster-feature'' None []) c h
                    in case cluster_Start X c h of
                         (Some e, c, h) \<Rightarrow> (Inl (x_WrapIf X e ''could not start cluster''), m, h)
                       | (None, c, h) \<Rightarrow>
                           let (m, h) = Manager_Add c m h in (Get m (cl_name c), m, h))))"

definition credentialsChanged :: "clusters_Cluster \<Rightarrow> string \<Rightarrow> string \<Rightarrow> bool" where
  "credentialsChanged c secretID k8sconfig \<longleftrightarrow>
     (cl_secretID c \<noteq> None \<and> cl_secretID c \<noteq> Some secretID) \<or>
     (length (cl_kubeconfig c) > 0 \<and> k8sconfig \<noteq> cl_kubeconfig c)"

definition set_state :: "string \<Rightarrow> Cluster \<Rightarrow> Cluster" where
  "set_state s cluster = cluster\<lparr>c_Status := (c_Status cluster)\<lparr>st_State := s\<rparr>\<rparr>"

definition getRemoteCluster ::
  "ext \<Rightarrow> ClusterReconciler \<Rightarrow> Cluster \<Rightarrow> Manager \<Rightarrow> history
    \<Rightarrow> clusters_Cluster result \<times> Cluster \<times> Manager \<times> history" where
  "getRemoteCluster X r cluster m h =
     (let remote = (case Get m (m_Name cluster) of Inr c \<Rightarrow> Some c | Inl e \<Rightarrow> None);
          ref = sp_SecretRef (c_Spec cluster)
      in case getK8SConfigForCluster X (nn_Namespace ref) (nn_Name ref) h of
           (Inl e, h) \<Rightarrow>
             let (m, h) = snd (Manager_Remove remote m h)
             in (Inl (WrapAsPermanentError e), set_state ClusterStateInvalidAuthInfo cluster, m, h)
         | (Inr k8sconfig, h) \<Rightarrow>
             (case remote of
                None \<Rightarrow>
                  let (res, m, h) = new_remote_cluster X r cluster k8sconfig m h in (res, cluster, m, h)
              | Some c \<Rightarrow>
                  if \<not> IsAlive c
                  then (Inl (WrapAsPermanentError (ErrorString ''remote cluster is not alive'')), cluster, m, h)
                  else if \<not> credentialsChanged c (secretID_of cluster) k8sconfig then (Inr c, cluster, m, h)
                  else
                    let (m, h) = snd (Manager_Remove remote m h);
                        (res, m, h) = new_remote_cluster X r cluster k8sconfig m h
                    in (res, cluster, m, h)))"

definition reconcileRemoteCluster ::
  "ext \<Rightarrow> ClusterReconciler \<Rightarrow> Cluster \<Rightarrow> ClusterConditionsMap \<Rightarrow> Manager \<Rightarrow> history
    \<Rightarrow> gerror option \<times> Cluster \<times> ClusterConditionsMap \<times> Manager \<times> history" where
  "reconcileRemoteCluster X r cluster conds m h =
     (let (conds, h) = SetCondition X conds (LocalClusterCondition False) h;
          ref = sp_SecretRef (c_Spec cluster)
      in if nn_Name ref = '''' \<or> nn_Namespace ref = ''''
         then (None, set_state ClusterStateMissingAuthInfo cluster, conds, m, h)
         else case getRemoteCluster X r cluster m h of
                (Inl e, cluster, m, h) \<Rightarrow>
                  let e = x_WithStackIf X e;
                      (conds, h) = SetCondition X conds (ClustersSyncedCondition X (Some e)) h
                  in (Some (x_WithStackIf X e), cluster, conds, m, h)
              | (Inr c, cluster, m, h) \<Rightarrow> (None, cluster, conds, m, h))"

subsection \<open>Core resources (core\_syncers.go)\<close>

definition CoreResourcesSourceFeatureName :: string where
  "CoreResourcesSourceFeatureName = ''cluster-registry-core-resources-source''"
definition CoreResourceLabelName :: string where
  "CoreResourceLabelName = ''cluster-registry-controller.k8s.cisco.com/core-sync-resource''"

definition registry_kind :: "string \<Rightarrow> GroupVersionKind" where
  "registry_kind k = \<lparr>gvk_Group = ''clusterregistry.k8s.cisco.com'', gvk_Version = ''v1alpha1'', gvk_Kind = k\<rparr>"

definition coreSyncersClusterFeature :: ClusterFeatureCR where
  "coreSyncersClusterFeature =
     \<lparr>m_Name = ''cluster-registry-core-resources'', m_Namespace = '''',
      m_Labels = [CoreResourceLabelName \<mapsto> ''true''], m_Annotations = Map.empty,
      m_UID = '''', m_ResourceVersion = '''', m_Generation = 0, m_SelfLink = '''',
      m_CreationTimestamp = 0, m_DeletionTimestamp = 0, m_Finalizers = [], m_OwnerReferences = [],
      m_ManagedFields = [], cf_FeatureName = CoreResourcesSourceFeatureName\<rparr>"

text \<open>The three core rules differ in their name, their type and the matches of their only rule.\<close>

definition core_rule :: "string \<Rightarrow> GroupVersionKind \<Rightarrow> SyncRuleMatch list \<Rightarrow> ResourceSyncRule" where
  "core_rule name g matches =
     \<lparr>m_Name = name, m_Namespace = '''', m_Labels = [CoreResourceLabelName \<mapsto> ''true''],
      m_Annotations = Map.empty, m_UID = '''', m_ResourceVersion = '''', m_Generation = 0,
      m_SelfLink = '''', m_CreationTimestamp = 0, m_DeletionTimestamp = 0, m_Finalizers = [],
      m_OwnerReferences = [], m_ManagedFields = [],
      rsr_Spec = \<lparr>
        rs_ClusterFeatureMatches =
          [\<lparr>fm_FeatureName = CoreResourcesSourceFeatureName, fm_MatchLabels = [], fm_MatchExpressions = []\<rparr>],
        rs_GVK = g,
        rs_Rules = [\<lparr>sr_Matches = matches,
          sr_Mutations = \<lparr>mu_Annotations = None, mu_GVK = None, mu_Labels = None, mu_Overrides = [],
            mu_SyncStatus = False\<rparr>\<rparr>]\<rparr>\<rparr>"

definition clustersSyncRule :: ResourceSyncRule where
  "clustersSyncRule = core_rule ''cluster-registry-core-resource-clusters-sink'' (registry_kind ''Cluster'') []"

definition clusterSecretsSyncRule :: "ClusterReconciler \<Rightarrow> ResourceSyncRule" where
  "clusterSecretsSyncRule r =
     core_rule ''cluster-registry-core-resource-cluster-secrets-sink''
       \<lparr>gvk_Group = '''', gvk_Version = ''v1'', gvk_Kind = ''Secret''\<rparr>
       [\<lparr>sm_Annotations = [],
         sm_Content = [\<lparr>cs_Key = ''type'', cs_Value = StrVal SecretTypeClusterRegistry\<rparr>],
         sm_Labels = [], sm_Namespaces = [cfg_Namespace (cr_config r)],
         sm_ObjectKey = \<lparr>nn_Name = '''', nn_Namespace = ''''\<rparr>\<rparr>]"

definition resourceSyncRuleSync :: ResourceSyncRule where
  "resourceSyncRuleSync =
     core_rule ''cluster-registry-core-resource-syncrules-sink'' (registry_kind ''ResourceSyncRule'') []"

text \<open>The objects with the state each should be in, keyed by their names: True is present.\<close>

definition core_objects :: "ClusterReconciler \<Rightarrow> (string \<times> owned_object \<times> bool) list" where
  "core_objects r =
     [(m_Name coreSyncersClusterFeature, OwnedFeature coreSyncersClusterFeature,
        cfg_CoreResourcesSourceEnabled (cr_config r)),
      (m_Name clustersSyncRule, OwnedRule clustersSyncRule, True),
      (m_Name (clusterSecretsSyncRule r), OwnedRule (clusterSecretsSyncRule r), True),
      (m_Name resourceSyncRuleSync, OwnedRule resourceSyncRuleSync, True)]"

fun core_loop ::
  "ext \<Rightarrow> Cluster \<Rightarrow> (string \<rightharpoonup> owned_object \<times> bool) \<Rightarrow> string list \<Rightarrow> history \<Rightarrow> gerror option \<times> history" where
  "core_loop X cluster objs [] h = (None, h)"
| "core_loop X cluster objs (k # ks) h =
     (case objs k of
        None \<Rightarrow> core_loop X cluster objs ks h
      | Some (ob, present) \<Rightarrow>
          (case x_SetControllerReference X cluster ob of
             Inl e \<Rightarrow> (Some (x_WrapIf X e ''couldn't set local Cluster as resource owner for resource''), h)
           | Inr ob \<Rightarrow>
               (case reconcileOwned X ob present h of
                  (Some e, h) \<Rightarrow> (Some e, h)
                | (None, h) \<Rightarrow> core_loop X cluster objs ks h)))"

definition reconcileCoreSyncers ::
  "ext \<Rightarrow> ClusterReconciler \<Rightarrow> Cluster \<Rightarrow> history \<Rightarrow> gerror option \<times> history" where
  "reconcileCoreSyncers X r cluster h =
     core_loop X cluster (map_of (core_objects r)) (x_MapOrder X (map fst (core_objects r))) h"

subsection \<open>The local cluster\<close>

definition provisionLocalClusterReaderSecret ::
  "ext \<Rightarrow> ClusterReconciler \<Rightarrow> Cluster \<Rightarrow> history \<Rightarrow> gerror option \<times> history" where
  "provisionLocalClusterReaderSecret X r cluster h =
     (let cfg = cr_config r; ref = sp_SecretRef (c_Spec cluster) in
      if \<not> cfg_ManageLocalClusterSecret cfg then (None, h)
      else if nn_Name ref = '''' \<or> nn_Namespace ref = '''' then (None, h)
      else
        case GetReaderSecretForCluster X (x_RestConfig X) cluster
               \<lparr>nn_Name = cfg_ReaderServiceAccountName cfg, nn_Namespace = cfg_Namespace cfg\<rparr>
               (cfg_APIServerEndpointAddress cfg) h of
          (Inl e, h) \<Rightarrow> (Some (x_WithStackIf X e), h)
        | (Inr secret, h) \<Rightarrow>
            (case reconcileSecret X secret h of
               (Some e, h) \<Rightarrow> (Some (x_WithStackIf X e), h)
             | (None, h) \<Rightarrow> (None, h)))"

fun conflict_loop ::
  "ext \<Rightarrow> ClusterReconciler \<Rightarrow> Cluster \<Rightarrow> Cluster list \<Rightarrow> ClusterConditionsMap \<Rightarrow> history
    \<Rightarrow> gerror option \<times> ClusterConditionsMap \<times> history" where
  "conflict_loop X r cluster [] conds h =
     (let (conds, h) = SetCondition X conds (LocalClusterConflictCondition False) h in (None, conds, h))"
| "conflict_loop X r cluster (c # cs) conds h =
     (if m_UID c = m_UID cluster then conflict_loop X r cluster cs conds h
      else if sp_ClusterID (c_Spec c) = sp_ClusterID (c_Spec cluster)
      then let h = (if cc_Status (GetCurrentCondition c ClusterConditionTypeLocalConflict) = ConditionFalse
                    then triggerClusterReconcile r c h else h);
               (conds, h) = SetCondition X conds (LocalClusterConflictCondition True) h
           in (Some (WrapAsPermanentError ErrLocalClusterConflict), conds, h)
      else conflict_loop X r cluster cs conds h)"

definition checkLocalClusterConflict ::
  "ext \<Rightarrow> ClusterReconciler \<Rightarrow> Cluster \<Rightarrow> ClusterConditionsMap \<Rightarrow> history
    \<Rightarrow> gerror option \<times> ClusterConditionsMap \<times> history" where
  "checkLocalClusterConflict X r cluster conds h =
     (case listClusters X LocalSite h of
        (Inl e, h) \<Rightarrow> (Some (x_WrapIf X e ''could not list objects''), conds, h)
      | (Inr cs, h) \<Rightarrow> conflict_loop X r cluster cs conds h)"

text \<open>
  The metadata as the reconcilers get it. The detectors are only given nodes that are there, so
  the nil dereference is unreachable (lemma \<open>metadata_of_total\<close>) and any value would do for it.
\<close>

definition metadata_of :: "ext \<Rightarrow> site \<Rightarrow> history \<Rightarrow> ClusterMetadata result \<times> history" where
  "metadata_of X s h =
     (case GetClusterMetadata X s h of
        (Some r, h) \<Rightarrow> (r, h)
      | (None, h) \<Rightarrow> (Inl (ErrorString ''nil pointer dereference''), h))"

definition reconcileLocalCluster ::
  "ext \<Rightarrow> ClusterReconciler \<Rightarrow> Cluster \<Rightarrow> ClusterConditionsMap \<Rightarrow> history
    \<Rightarrow> gerror option \<times> Cluster \<times> ClusterConditionsMap \<times> history" where
  "reconcileLocalCluster X r cluster conds h =
     (let (conds, h) = SetCondition X conds (LocalClusterCondition True) h in
      case checkLocalClusterConflict X r cluster conds h of
        (Some e, conds, h) \<Rightarrow> (Some (x_WithStackIf X e), cluster, conds, h)
      | (None, conds, h) \<Rightarrow>
          (case metadata_of X LocalSite h of
             (Inl e, h) \<Rightarrow>
               let (conds, h) = SetCondition X conds (ClusterMetadataCondition X (Some e)) h
               in (Some (x_WithStackIf X e), cluster, conds, h)
           | (Inr md, h) \<Rightarrow>
               let (conds, h) = SetCondition X conds (ClusterMetadataCondition X None) h;
                   cluster = cluster\<lparr>c_Status := (c_Status cluster)\<lparr>st_ClusterMetadata := md\<rparr>\<rparr>
               in case provisionLocalClusterReaderSecret X r cluster h of
                    (Some e, h) \<Rightarrow> (Some (x_WithStackIf X e), cluster, conds, h)
                  | (None, h) \<Rightarrow>
                      (case reconcileCoreSyncers X r cluster h of
                         (Some e, h) \<Rightarrow> (Some (x_WithStackIf X e), cluster, conds, h)
                       | (None, h) \<Rightarrow> (None, cluster, conds, h))))"

subsection \<open>Reconcile\<close>

type_synonym cluster_outcome = "(Result \<times> gerror option) \<times> Manager \<times> history"

definition fail_with :: "gerror \<Rightarrow> Manager \<Rightarrow> history \<Rightarrow> cluster_outcome" where
  "fail_with e m h = ((result_zero, Some e), m, h)"

text \<open>The resource is gone.\<close>

definition cluster_gone ::
  "ext \<Rightarrow> ClusterReconciler \<Rightarrow> string \<Rightarrow> Manager \<Rightarrow> history \<Rightarrow> cluster_outcome" where
  "cluster_gone X r name m h =
     (let (removeErr, m, h) = removeRemoteCluster name m h in
      case remove_failed X removeErr of
        Some e \<Rightarrow> fail_with e m h
      | None \<Rightarrow>
          (case triggerLocalClusterReconciles X r h of
             (Some e, h) \<Rightarrow> fail_with (x_WithStackIf X e) m h
           | (None, h) \<Rightarrow> ((result_zero, None), m, h)))"

definition requeue :: "ClusterReconciler \<Rightarrow> Result" where
  "requeue r = result_zero\<lparr>res_RequeueAfter := ccl_RefreshIntervalSeconds (cfg_ClusterController (cr_config r))\<rparr>"

text \<open>The last part: the status is written for a local cluster and after an error.\<close>

definition write_status ::
  "ext \<Rightarrow> ClusterReconciler \<Rightarrow> bool \<Rightarrow> gerror option \<Rightarrow> Cluster \<Rightarrow> ClusterConditionsMap \<Rightarrow> Manager
    \<Rightarrow> history \<Rightarrow> cluster_outcome" where
  "write_status X r isLocal reconcileError cluster conds m h =
     (if isLocal \<or> reconcileError \<noteq> None
      then (case UpdateCluster X reconcileError LocalSite cluster conds h of
              (Some e, cluster, h) \<Rightarrow> fail_with e m h
            | (None, cluster, h) \<Rightarrow> ((requeue r, None), m, h))
      else ((requeue r, None), m, h))"

definition set_type :: "string \<Rightarrow> Cluster \<Rightarrow> Cluster" where
  "set_type t cluster = cluster\<lparr>c_Status := (c_Status cluster)\<lparr>st_Type := t\<rparr>\<rparr>"

definition reset_status :: "Cluster \<Rightarrow> Cluster" where
  "reset_status cluster = cluster\<lparr>c_Status := ClusterStatus_Reset (c_Status cluster)\<rparr>"

definition cluster_disabled ::
  "ext \<Rightarrow> ClusterReconciler \<Rightarrow> bool \<Rightarrow> Cluster \<Rightarrow> Manager \<Rightarrow> history \<Rightarrow> cluster_outcome" where
  "cluster_disabled X r isLocal cluster m h =
     (let (removeErr, m, h) = removeRemoteCluster (m_Name cluster) m h in
      case remove_failed X removeErr of
        Some e \<Rightarrow> fail_with e m h
      | None \<Rightarrow>
          (case UpdateCluster X None LocalSite (set_state ClusterStateDisabled (reset_status cluster)) [] h of
             (Some e, cluster, h) \<Rightarrow> fail_with e m h
           | (None, cluster, h) \<Rightarrow> write_status X r isLocal None cluster [] m h))"

text \<open>The variable err that the Ready condition is made from is nil here: it has the error of the Get.\<close>

definition cluster_enabled ::
  "ext \<Rightarrow> ClusterReconciler \<Rightarrow> bool \<Rightarrow> Cluster \<Rightarrow> Manager \<Rightarrow> history \<Rightarrow> cluster_outcome" where
  "cluster_enabled X r isLocal cluster m h =
     (let conds = GetCurrentConditions cluster;
          (reconcileError, cluster, conds, m, h) =
            (if isLocal
             then (case reconcileLocalCluster X r cluster conds h of
                     (e, cluster, conds, h) \<Rightarrow> (e, cluster, conds, m, h))
             else reconcileRemoteCluster X r cluster conds m h);
          (conds, h) = SetCondition X conds (ClusterReadyCondition X None) h
      in write_status X r isLocal reconcileError cluster conds m h)"

definition cluster_found ::
  "ext \<Rightarrow> ClusterReconciler \<Rightarrow> Cluster \<Rightarrow> Manager \<Rightarrow> history \<Rightarrow> cluster_outcome" where
  "cluster_found X r cluster m h =
     (let isLocal = (sp_ClusterID (c_Spec cluster) = cr_clusterID r);
          cluster = reset_status cluster;
          (failed, cluster, m, h) =
            (if isLocal
             then (let (removeErr, m, h) = removeRemoteCluster (m_Name cluster) m h in
                   (remove_failed X removeErr, set_type ClusterTypeLocal cluster, m, h))
             else if st_Type (c_Status cluster) = ClusterTypeLocal
             then (let (e, h) = triggerLocalClusterReconciles X r h in
                   (map_option (x_WithStackIf X) e, cluster, m, h))
             else (None, cluster, m, h))
      in case failed of
           Some e \<Rightarrow> fail_with e m h
         | None \<Rightarrow>
             if m_Annotations cluster ClusterDisabledAnnotation \<noteq> None
             then cluster_disabled X r isLocal cluster m h
             else cluster_enabled X r isLocal cluster m h)"

definition cluster_Reconcile ::
  "ext \<Rightarrow> ClusterReconciler \<Rightarrow> NamespacedName \<Rightarrow> Manager \<Rightarrow> history
    \<Rightarrow> (Result \<times> gerror option) \<times> ClusterReconciler \<times> Manager \<times> history" where
  "cluster_Reconcile X r req m h =
     (case cluster_setClusterID X r h of
        (Some e, r, h) \<Rightarrow> ((result_zero, Some (x_WithStackIf X e)), r, m, h)
      | (None, r, h) \<Rightarrow>
          let (res, m, h) =
            (case getCluster X LocalSite req h of
               (Inl e, h) \<Rightarrow>
                 if x_IsNotFound X e then cluster_gone X r (nn_Name req) m h
                 else fail_with (x_WrapIf X e ''could not get object'') m h
             | (Inr cluster, h) \<Rightarrow> cluster_found X r cluster m h)
          in (res, r, m, h))"

subsection \<open>Watches (cluster\_reconciler\_watches.go and SetupWithController)\<close>

text \<open>The clusters by ID as a Go map ranges over them; the map keeps one cluster for each ID.\<close>

definition range_clusters :: "ext \<Rightarrow> Cluster list \<Rightarrow> Cluster list" where
  "range_clusters X cs =
     List.map_filter (clusters_loop cs Map.empty)
       (x_MapOrder X (remdups (map (\<lambda>c. sp_ClusterID (c_Spec c)) cs)))"

definition request_for :: "Cluster \<Rightarrow> NamespacedName" where
  "request_for c = \<lparr>nn_Name = m_Name c, nn_Namespace = m_Namespace c\<rparr>"

definition watchLocalClustersForConflict :: "ext \<Rightarrow> history \<Rightarrow> NamespacedName list \<times> history" where
  "watchLocalClustersForConflict X h =
     (case listClusters X LocalSite h of
        (Inl e, h) \<Rightarrow> ([], h)
      | (Inr cs, h) \<Rightarrow>
          (map request_for
             (filter (\<lambda>c. st_Type (c_Status c) = ClusterTypeLocal) (range_clusters X cs)), h))"

definition watchClusterRegistrySecrets :: "ext \<Rightarrow> Secret \<Rightarrow> history \<Rightarrow> NamespacedName list \<times> history" where
  "watchClusterRegistrySecrets X secret h =
     (if sec_Type secret \<noteq> SecretTypeClusterRegistry then ([], h)
      else
        case listClusters X LocalSite h of
          (Inl e, h) \<Rightarrow> ([], h)
        | (Inr cs, h) \<Rightarrow>
            (map request_for
               (filter (\<lambda>c. nn_Name (sp_SecretRef (c_Spec c)) = m_Name secret \<and>
                            nn_Namespace (sp_SecretRef (c_Spec c)) = m_Namespace secret)
                  (range_clusters X cs)), h))"

definition localClusterMapFunc :: "ext \<Rightarrow> history \<Rightarrow> NamespacedName list \<times> history" where
  "localClusterMapFunc X h =
     (case listClusters X LocalSite h of
        (Inl e, h) \<Rightarrow> ([], h)
      | (Inr cs, h) \<Rightarrow>
          (map request_for (filter (\<lambda>c. st_Type (c_Status c) = ClusterTypeLocal) cs), h))"

text \<open>The predicates on updates: of core resources, and of cluster resources.\<close>

definition core_update_event :: "strmap \<Rightarrow> bool" where
  "core_update_event oldLabels \<longleftrightarrow> oldLabels CoreResourceLabelName = Some ''true''"

definition cluster_update_event :: "Cluster \<Rightarrow> Cluster \<Rightarrow> bool" where
  "cluster_update_event oldObject newObject \<longleftrightarrow>
     (if m_Generation newObject \<noteq> m_Generation oldObject then True
      else if m_Annotations oldObject \<noteq> m_Annotations newObject then True
      else False)"

text \<open>
  SetupWithController registers three watches and SetupWithManager builds the controller; the
  names say which registration is made, and each may fail.
\<close>

definition cluster_SetupWithController ::
  "ext \<Rightarrow> history \<Rightarrow> gerror option \<times> history" where
  "cluster_SetupWithController X h =
     (case setupController X ''clusters'' ''watch ResourceSyncRule'' h of
        (Some e, h) \<Rightarrow> (Some (x_WithStack X e), h)
      | (None, h) \<Rightarrow>
          (case setupController X ''clusters'' ''watch ClusterFeature'' h of
             (Some e, h) \<Rightarrow> (Some (x_WithStack X e), h)
           | (None, h) \<Rightarrow>
               (case setupController X ''clusters'' ''watch InMemorySource'' h of
                  (Some e, h) \<Rightarrow> (Some (x_WithStack X e), h)
                | (None, h) \<Rightarrow> (None, h))))"

definition cluster_SetupWithManager ::
  "ext \<Rightarrow> history \<Rightarrow> gerror option \<times> history" where
  "cluster_SetupWithManager X h =
     (case setupController X ''clusters'' ''build'' h of
        (Some e, h) \<Rightarrow> (Some e, h)
      | (None, h) \<Rightarrow> cluster_SetupWithController X h)"

subsection \<open>Lemmas\<close>

lemma detect_loop_total:
  "\<forall>f \<in> set fs. \<forall>h. fst (f node h) \<noteq> None \<Longrightarrow> fst (detect_loop X unknown fs node h) \<noteq> None"
proof (induction fs arbitrary: h)
  case (Cons f fs)
  obtain a h' where f: "f node h = (Some a, h')" using Cons.prems by (metis list.set_intros(1) option.exhaust prod.collapse)
  show ?case
  proof (cases a)
    case (Inr b)
    with f Cons show ?thesis by (cases b) simp
  qed (simp add: f)
qed simp

lemma DetectProvider_total: "fst (DetectProvider X s (Some n) h) \<noteq> None"
  unfolding DetectProvider_def
  by (rule detect_loop_total)
    (auto simp: knownProviders_def IsAmazon_def IsAzure_def IsGoogle_def IsVsphere_def IsKind_def IsCisco_def
      provider_detector_def detectNodeByProviderID_node split: sum.split)

lemma require_provider_total: "fst (require_provider X s p d n h) \<noteq> None"
  using DetectProvider_total [of X s n h]
  by (auto simp: require_provider_def split: prod.split option.split sum.split)

lemma DetectDistribution_total: "fst (DetectDistribution X s (Some n) h) \<noteq> None"
  unfolding DetectDistribution_def
  by (rule detect_loop_total)
    (auto simp: knownDistributions_def IsEKS_def IsPKE_def IsGKE_def IsAKS_def IsKIND_def IsIKS_def
      IsOpenShift_def with_node_def require_provider_total simp del: not_None_eq)

lemma metadata_of_total: "fst (GetClusterMetadata X s h) \<noteq> None"
proof (cases "x_ListNodes X h s")
  case (Inr nodes)
  let ?n = "nodes ! 0" and ?h = "h @ [ListNodes s]"
  obtain p h1 where p: "DetectProvider X s (Some ?n) ?h = (Some p, h1)"
    using DetectProvider_total by (metis option.exhaust prod.collapse)
  obtain d h2 where d: "DetectDistribution X s (Some ?n) h1 = (Some d, h2)"
    using DetectDistribution_total by (metis option.exhaust prod.collapse)
  from Inr p d show ?thesis
    by (simp add: GetClusterMetadata_def listNodes_def split: sum.split)
qed (simp add: GetClusterMetadata_def listNodes_def)

text \<open>Removing a cluster by name: afterwards it is not there, the others are as before.\<close>

definition removed :: "string \<Rightarrow> Manager \<Rightarrow> Manager \<Rightarrow> bool" where
  "removed name m m' \<longleftrightarrow> manager_wf m' \<and>
     (\<forall>n. Get m' n = (if n = name then Inl ErrClusterNotFound else Get m n))"

lemma removed_trans: "removed name m m' \<Longrightarrow> removed name m' m'' \<Longrightarrow> removed name m m''"
  by (auto simp: removed_def)

lemma removeRemoteCluster_removed:
  assumes wf: "manager_wf m" and r: "removeRemoteCluster name m h = (e, m', h')"
  shows "removed name m m'" and "e \<in> {None, Some ErrClusterNotFound}"
proof -
  have "removed name m m' \<and> e \<in> {None, Some ErrClusterNotFound}"
  proof (cases "map_of (mg_clusters m) name")
    case None
    with r wf show ?thesis by (auto simp: removeRemoteCluster_def Get_def removed_def)
  next
    case (Some c)
    then have name: "cl_name c = name" using wf by (simp add: manager_wf_def)
    with Some have "map_of (mg_clusters m) (cl_name c) \<noteq> None" by simp
    with wf obtain c2 h2 where "Manager_Remove (Some c) m h =
        (Some c2, m\<lparr>mg_clusters := AList.delete (cl_name c) (mg_clusters m)\<rparr>, h2)"
      by (rule Manager_Remove_effect)
    with r Some name have "m' = m\<lparr>mg_clusters := AList.delete name (mg_clusters m)\<rparr>" "e = None"
      by (simp_all add: removeRemoteCluster_def Get_def)
    moreover have "manager_wf (m\<lparr>mg_clusters := AList.delete name (mg_clusters m)\<rparr>)"
      using wf by (auto simp: manager_wf_def)
    ultimately show ?thesis by (simp add: removed_def Get_def)
  qed
  then show "removed name m m'" and "e \<in> {None, Some ErrClusterNotFound}" by auto
qed

text \<open>The documented behaviour of errors.Cause: an error that wraps no other is its own cause.\<close>

definition cause_of_plain :: "ext \<Rightarrow> bool" where
  "cause_of_plain X \<longleftrightarrow> (\<forall>m. x_Cause X (ErrorString m) = ErrorString m)"

lemma remove_failed_None:
  "cause_of_plain X \<Longrightarrow> e \<in> {None, Some ErrClusterNotFound} \<Longrightarrow> remove_failed X e = None"
  by (auto simp: remove_failed_def cause_of_plain_def ErrClusterNotFound_def)

lemma write_status_manager [simp]:
  "fst (snd (write_status X r isLocal e cluster conds m h)) = m"
  by (simp add: write_status_def fail_with_def split: option.split prod.split)

lemma cluster_gone_removed:
  assumes "manager_wf m" and "cause_of_plain X"
  shows "removed name m (fst (snd (cluster_gone X r name m h)))"
proof -
  obtain e m' h' where r: "removeRemoteCluster name m h = (e, m', h')" by (metis prod_cases3)
  note rem = removeRemoteCluster_removed [OF assms(1) r]
  from rem(1) remove_failed_None [OF assms(2) rem(2)] show ?thesis
    by (auto simp: cluster_gone_def r fail_with_def split: option.split prod.split)
qed

lemma cluster_disabled_removed:
  assumes "manager_wf m" and "cause_of_plain X"
  shows "removed (m_Name cluster) m (fst (snd (cluster_disabled X r isLocal cluster m h)))"
proof -
  obtain e m' h' where r: "removeRemoteCluster (m_Name cluster) m h = (e, m', h')" by (metis prod_cases3)
  note rem = removeRemoteCluster_removed [OF assms(1) r]
  from rem(1) remove_failed_None [OF assms(2) rem(2)] show ?thesis
    by (auto simp: cluster_disabled_def r fail_with_def split: option.split prod.split)
qed

lemma cluster_enabled_local [simp]:
  "fst (snd (cluster_enabled X r True cluster m h)) = m"
  by (simp add: cluster_enabled_def Let_def split_beta)

lemma status_fields [simp]:
  "m_Name (reset_status c) = m_Name c" "m_Annotations (reset_status c) = m_Annotations c"
  "c_Spec (reset_status c) = c_Spec c" "st_Type (c_Status (reset_status c)) = ClusterTypePeer"
  "m_Name (set_type t c) = m_Name c" "m_Annotations (set_type t c) = m_Annotations c"
  "m_Name (set_state s c) = m_Name c" "c_Spec (set_state s c) = c_Spec c"
  by (simp_all add: reset_status_def set_type_def set_state_def ClusterStatus_Reset_def)

text \<open>A cluster that must have no peer in the manager: the own cluster, or one that is disabled.\<close>

definition without_peer :: "string \<Rightarrow> Cluster \<Rightarrow> bool" where
  "without_peer clusterID c \<longleftrightarrow>
     sp_ClusterID (c_Spec c) = clusterID \<or> m_Annotations c ClusterDisabledAnnotation \<noteq> None"

lemma cluster_found_removed:
  assumes "manager_wf m" and "cause_of_plain X" and "without_peer (cr_clusterID r) c"
  shows "removed (m_Name c) m (fst (snd (cluster_found X r c m h)))"
proof (cases "sp_ClusterID (c_Spec c) = cr_clusterID r")
  case True
  obtain e m' h' where r: "removeRemoteCluster (m_Name c) m h = (e, m', h')" by (metis prod_cases3)
  note rem = removeRemoteCluster_removed [OF assms(1) r]
  let ?c = "set_type ClusterTypeLocal (reset_status c)"
  have eq: "cluster_found X r c m h =
      (if m_Annotations c ClusterDisabledAnnotation \<noteq> None then cluster_disabled X r True ?c m' h'
       else cluster_enabled X r True ?c m' h')"
    using True by (simp add: cluster_found_def Let_def r remove_failed_None [OF assms(2) rem(2)])
  show ?thesis
  proof (cases "m_Annotations c ClusterDisabledAnnotation = None")
    case True
    with eq rem(1) show ?thesis by simp
  next
    case False
    have "manager_wf m'" using rem(1) by (simp add: removed_def)
    from cluster_disabled_removed [OF this assms(2), of ?c r True h'] False eq rem(1) show ?thesis
      by (auto intro: removed_trans)
  qed
next
  case False
  with assms(3) have "cluster_found X r c m h = cluster_disabled X r False (reset_status c) m h"
    by (auto simp: cluster_found_def Let_def without_peer_def)
  with cluster_disabled_removed [OF assms(1,2), of "reset_status c" r False h] show ?thesis by simp
qed

text \<open>A callback of the manager that leaves a peer's identity and its state alone.\<close>

definition keeps_peer :: "ManagerFunc \<Rightarrow> bool" where
  "keeps_peer f \<longleftrightarrow> (\<forall>c h. cl_name (fst (f c h)) = cl_name c \<and> cl_kubeconfig (fst (f c h)) = cl_kubeconfig c \<and>
     cl_secretID (fst (f c h)) = cl_secretID c \<and> cl_alive (fst (f c h)) = cl_alive c)"

definition same_peer :: "clusters_Cluster \<Rightarrow> clusters_Cluster \<Rightarrow> bool" where
  "same_peer c c' \<longleftrightarrow> cl_name c' = cl_name c \<and> cl_kubeconfig c' = cl_kubeconfig c \<and>
     cl_secretID c' = cl_secretID c \<and> cl_alive c' = cl_alive c"

lemma run_manager_funcs_peer:
  "\<forall>f \<in> snd ` set fs. keeps_peer f \<Longrightarrow> same_peer c (fst (run_manager_funcs fs c h))"
proof (induction fs arbitrary: c h)
  case (Cons p fs)
  have "keeps_peer (snd p)" using Cons.prems by simp
  then have "same_peer c (fst (snd p c h))" by (simp add: keeps_peer_def same_peer_def)
  with Cons.IH [of "fst (snd p c h)" "snd (snd p c h)"] Cons.prems show ?case
    by (simp add: split_beta same_peer_def)
qed (simp add: same_peer_def)

text \<open>The callbacks of a manager.\<close>

definition peer_callbacks :: "Manager \<Rightarrow> bool" where
  "peer_callbacks m \<longleftrightarrow>
     (\<forall>f \<in> snd ` set (mg_onBeforeAddFuncs m) \<union> snd ` set (mg_onAfterAddFuncs m) \<union>
        snd ` set (mg_onBeforeDeleteFuncs m). keeps_peer f)"

lemma Manager_Add_peer:
  assumes "peer_callbacks m" and "Manager_Add c m h = (m', h')"
  shows "\<exists>c'. same_peer c c' \<and> (\<forall>n. Get m' n = (if n = cl_name c then Inr c' else Get m n))"
proof -
  define p where "p = run_manager_funcs (mg_onBeforeAddFuncs m) c h"
  define q where "q = run_manager_funcs (mg_onAfterAddFuncs m) (fst p) (snd p)"
  have p: "same_peer c (fst p)"
    unfolding p_def by (rule run_manager_funcs_peer) (use assms in \<open>auto simp: peer_callbacks_def\<close>)
  have q: "same_peer (fst p) (fst q)"
    unfolding q_def by (rule run_manager_funcs_peer) (use assms in \<open>auto simp: peer_callbacks_def\<close>)
  have "m' = m\<lparr>mg_clusters := AList.update (cl_name (fst p)) (fst q) (mg_clusters m)\<rparr>"
    using assms(2) by (simp add: Manager_Add_def Let_def split_beta p_def q_def)
  with p q show ?thesis by (intro exI [of _ "fst q"]) (auto simp: same_peer_def Get_def)
qed

lemma AddController_peer: "same_peer c (fst (AddController X ctrl c h))"
  by (simp add: same_peer_def AddController_def addController_def addPendingController_def
      removePendingControllerByName_def Let_def split_beta)

lemma StartManager_peer: "same_peer c (fst (snd (StartManager X c h)))"
  by (simp add: same_peer_def StartManager_def Let_def split_beta split: option.split)

lemma setAlive_peer [simp]:
  "cl_alive (fst (setAlive X c h))" "cl_name (fst (setAlive X c h)) = cl_name c"
  "cl_kubeconfig (fst (setAlive X c h)) = cl_kubeconfig c" "cl_secretID (fst (setAlive X c h)) = cl_secretID c"
  using StartManager_peer [of c X h] by (simp_all add: setAlive_def Let_def split_beta same_peer_def)

lemma cluster_Start_peer:
  assumes "cluster_Start X c h = (None, c', h')"
  shows "cl_alive c' \<and> cl_name c' = cl_name c \<and> cl_kubeconfig c' = cl_kubeconfig c \<and> cl_secretID c' = cl_secretID c"
  using assms
  by (auto simp: cluster_Start_def livenessCheck_def Let_def split_beta split: option.splits sum.splits)

text \<open>What a new remote cluster is: alive, registered under its name, with the given credentials.\<close>

lemma new_remote_cluster_spec:
  assumes cb: "peer_callbacks m" and n: "new_remote_cluster X r cluster k m h = (Inr c, m', h')"
  shows "cl_alive c \<and> cl_kubeconfig c = k \<and> cl_secretID c = Some (secretID_of cluster) \<and>
     (\<forall>n. Get m' n = (if n = m_Name cluster then Inr c else Get m n))"
proof -
  define c0 where "c0 = NewCluster (m_Name cluster) [WithSecretID (secretID_of cluster),
    WithOnDeadFunc (onDeadFunc r), WithKubeconfig k]"
  define p1 where "p1 = AddController X (NewManagedController ''remote-cluster'' None []) c0 h"
  define p2 where "p2 = AddController X (NewManagedController ''remote-cluster-feature'' None []) (fst p1) (snd p1)"
  obtain e c3 h3 where s: "cluster_Start X (fst p2) (snd p2) = (e, c3, h3)" by (metis prod_cases3)
  obtain m4 h4 where a: "Manager_Add c3 m h3 = (m4, h4)" by fastforce
  have "e = None" and r: "Get m4 (cl_name c3) = Inr c" "m' = m4"
    using n s a unfolding new_remote_cluster_def
    by (auto simp: c0_def [symmetric] p1_def [symmetric] p2_def [symmetric] split_beta Let_def
        split: option.splits sum.splits)
  have "cl_name c0 = m_Name cluster" "cl_kubeconfig c0 = k" "cl_secretID c0 = Some (secretID_of cluster)"
    by (simp_all add: c0_def NewCluster_def WithSecretID_def WithOnDeadFunc_def AddOnDeadFunc_def WithKubeconfig_def)
  moreover have "same_peer c0 (fst p1)" "same_peer (fst p1) (fst p2)"
    unfolding p1_def p2_def by (rule AddController_peer)+
  moreover have "cl_alive c3 \<and> cl_name c3 = cl_name (fst p2) \<and> cl_kubeconfig c3 = cl_kubeconfig (fst p2)
      \<and> cl_secretID c3 = cl_secretID (fst p2)"
    using s \<open>e = None\<close> cluster_Start_peer by blast
  ultimately have c3: "cl_name c3 = m_Name cluster" "cl_kubeconfig c3 = k"
    "cl_secretID c3 = Some (secretID_of cluster)" "cl_alive c3"
    by (simp_all add: same_peer_def)
  obtain c' where "same_peer c3 c'" "\<forall>n. Get m4 n = (if n = cl_name c3 then Inr c' else Get m n)"
    using Manager_Add_peer [OF cb a] by blast
  with r c3 show ?thesis by (auto simp: same_peer_def)
qed

lemma Get_Remove:
  assumes "manager_wf m" and "Get m name = Inr c"
  shows "removed name m (fst (snd (Manager_Remove (Some c) m h)))"
  by (rule removeRemoteCluster_removed(1) [OF assms(1), of name h None _ "snd (snd (Manager_Remove (Some c) m h))"])
    (simp add: removeRemoteCluster_def assms(2))

lemma Manager_Remove_callbacks:
  "peer_callbacks (fst (snd (Manager_Remove co m h))) = peer_callbacks m"
  by (simp add: Manager_Remove_def peer_callbacks_def Let_def split_beta split: option.split)

subsection \<open>Properties\<close>

text \<open>
  C13. Reconciling a cluster resource that is gone, that describes the own cluster, or that is
  disabled leaves no peer for it in the manager, whatever the API server answers after that, and
  does not touch the other peers.
\<close>

theorem Reconcile_unregisters:
  assumes "manager_wf m" and "cause_of_plain X"
    and "cluster_setClusterID X r h = (None, r1, h1)"
    and "case x_GetCluster X h1 LocalSite req of
           Inl e \<Rightarrow> x_IsNotFound X e
         | Inr c \<Rightarrow> m_Name c = nn_Name req \<and> without_peer (cr_clusterID r1) c"
    and "cluster_Reconcile X r req m h = (res, r', m', h')"
  shows "manager_wf m' \<and> (\<forall>n. Get m' n = (if n = nn_Name req then Inl ErrClusterNotFound else Get m n))"
proof -
  have "removed (nn_Name req) m m'"
  proof (cases "x_GetCluster X h1 LocalSite req")
    case (Inl e)
    with assms(3-5) have "m' = fst (snd (cluster_gone X r1 (nn_Name req) m (h1 @ [GetCluster LocalSite req])))"
      by (auto simp: cluster_Reconcile_def getCluster_def Let_def split_beta)
    then show ?thesis using cluster_gone_removed [OF assms(1,2)] by simp
  next
    case (Inr c)
    with assms(3-5) have "m' = fst (snd (cluster_found X r1 c m (h1 @ [GetCluster LocalSite req])))"
      by (auto simp: cluster_Reconcile_def getCluster_def Let_def split_beta)
    then show ?thesis using cluster_found_removed [OF assms(1,2), of r1 c] assms(4) Inr by simp
  qed
  then show ?thesis by (simp add: removed_def)
qed

definition sample_reconciler :: ClusterReconciler where
  "sample_reconciler = cluster_setQueue True (NewClusterReconciler sample_config)"

definition one_peer :: Manager where
  "one_peer = (NewManager [])\<lparr>mg_clusters := [(''peer'', NewCluster ''peer'' [])]\<rparr>"

lemma one_peer_wf: "manager_wf one_peer"
  by (simp add: manager_wf_def one_peer_def NewManager_def NewCluster_def alist_wf_def)

theorem Reconcile_unregisters_witness:
  "case cluster_Reconcile sample_ext sample_reconciler (by_name ''peer'') one_peer [] of
     (res, r', m', h') \<Rightarrow> Get one_peer ''peer'' \<noteq> Get m' ''peer''"
proof -
  obtain res r' m' h' where e: "cluster_Reconcile sample_ext sample_reconciler (by_name ''peer'') one_peer []
      = (res, r', m', h')" by (metis prod_cases4)
  have s: "cluster_setClusterID sample_ext sample_reconciler [] =
      (None, sample_reconciler\<lparr>cr_clusterID := NamespaceSystem\<rparr>, [GetNamespace LocalSite NamespaceSystem])"
    by (simp add: cluster_setClusterID_def sample_reconciler_def cluster_setQueue_def NewClusterReconciler_def
        GetClusterID_def getNamespace_def sample_ext_def)
  have "cause_of_plain sample_ext" by (simp add: cause_of_plain_def sample_ext_def)
  from Reconcile_unregisters [OF one_peer_wf this s _ e] have "Get m' ''peer'' = Inl ErrClusterNotFound"
    by (simp add: sample_ext_def not_found_def by_name_def)
  with e show ?thesis by (simp add: Get_def one_peer_def)
qed

text \<open>
  C15. When getRemoteCluster succeeds, the manager has a live peer under the name of the
  resource, and no other entry of the manager has changed. The peer's kubeconfig is the content
  of the referenced secret and its secret ID the reference, except that a peer that was
  registered without the one or the other is kept. In particular a change of the secret
  or of the reference replaces the peer.
\<close>

theorem getRemoteCluster_current:
  assumes wf: "manager_wf m" and cb: "peer_callbacks m"
    and g: "getRemoteCluster X r cluster m h = (Inr c, cluster', m', h')"
  shows "\<exists>k. fst (getK8SConfigForCluster X (nn_Namespace (sp_SecretRef (c_Spec cluster)))
            (nn_Name (sp_SecretRef (c_Spec cluster))) h) = Inr k
      \<and> cl_alive c \<and> cl_kubeconfig c \<in> {k, ''''} \<and> cl_secretID c \<in> {Some (secretID_of cluster), None}
      \<and> (\<forall>n. Get m' n = (if n = m_Name cluster then Inr c else Get m n))"
proof -
  obtain a h1 where k: "getK8SConfigForCluster X (nn_Namespace (sp_SecretRef (c_Spec cluster)))
      (nn_Name (sp_SecretRef (c_Spec cluster))) h = (a, h1)" by fastforce
  show ?thesis
  proof (cases a)
    case (Inl e)
    with g k show ?thesis by (simp add: getRemoteCluster_def Let_def split_beta)
  next
    case (Inr cfg)
    show ?thesis
    proof (cases "Get m (m_Name cluster)")
      case (Inl e)
      obtain res m2 h2 where n: "new_remote_cluster X r cluster cfg m h1 = (res, m2, h2)" by (metis prod_cases3)
      with g k Inr Inl have "res = Inr c" "m' = m2" by (simp_all add: getRemoteCluster_def)
      with new_remote_cluster_spec [OF cb] n k Inr show ?thesis by auto
    next
      fix c0 assume c0: "Get m (m_Name cluster) = Inr c0"
      define m1 where "m1 = fst (snd (Manager_Remove (Some c0) m h1))"
      have rem: "removed (m_Name cluster) m m1" unfolding m1_def by (rule Get_Remove [OF wf c0])
      have cb1: "peer_callbacks m1" unfolding m1_def by (simp add: Manager_Remove_callbacks cb)
      obtain res m2 h2 where n:
        "new_remote_cluster X r cluster cfg m1 (snd (snd (Manager_Remove (Some c0) m h1))) = (res, m2, h2)"
        by (metis prod_cases3)
      have alive: "IsAlive c0" and cases: "\<not> credentialsChanged c0 (secretID_of cluster) cfg \<and> c = c0 \<and> m' = m
          \<or> res = Inr c \<and> m' = m2"
        using g k Inr c0 n by (auto simp: getRemoteCluster_def Let_def split_beta m1_def split: if_splits)
      from cases show ?thesis
      proof
        assume "\<not> credentialsChanged c0 (secretID_of cluster) cfg \<and> c = c0 \<and> m' = m"
        with alive k Inr c0 show ?thesis by (auto simp: credentialsChanged_def IsAlive_def)
      next
        assume "res = Inr c \<and> m' = m2"
        with new_remote_cluster_spec [OF cb1] n have "cl_alive c \<and> cl_kubeconfig c = cfg \<and>
            cl_secretID c = Some (secretID_of cluster) \<and>
            (\<forall>n. Get m' n = (if n = m_Name cluster then Inr c else Get m1 n))" by blast
        with rem k Inr show ?thesis by (auto simp: removed_def)
      qed
    qed
  qed
qed

definition sample_secret :: Secret where
  "sample_secret = secret_zero\<lparr>m_Name := ''demo'', m_Namespace := ''reg'',
     sec_Type := SecretTypeClusterRegistry, sec_Data := [KubeconfigKey \<mapsto> ''kubeconfig-1'']\<rparr>"

definition with_secret :: ext where
  "with_secret = sample_ext\<lparr>x_GetSecret := \<lambda>_ _ _. Inr sample_secret\<rparr>"

lemma with_secret_ext [simp]:
  "x_GetSecret with_secret h s ref = Inr sample_secret" "x_LoadKubeconfig with_secret k = None"
  "x_ClientConfig with_secret k ov = None" "x_NewClientset with_secret h n = None"
  "x_ProbeNamespace with_secret h n = Inr (''id-'' @ n)" "x_NewManager with_secret h n = None"
  by (simp_all add: with_secret_def sample_ext_def)

theorem getRemoteCluster_current_witness:
  "case getRemoteCluster with_secret sample_reconciler sample_cluster (NewManager []) [] of
     (res, cluster', m', h') \<Rightarrow> \<exists>c. res = Inr c \<and> Get m' ''demo'' = Inr c \<and> cl_kubeconfig c \<in> {''kubeconfig-1'', ''''}"
proof -
  obtain res cluster' m' h' where
    g: "getRemoteCluster with_secret sample_reconciler sample_cluster (NewManager []) [] = (res, cluster', m', h')"
    by (metis prod_cases4)
  have "\<not> isl res"
    using g
    by (auto simp: getRemoteCluster_def new_remote_cluster_def getK8SConfigForCluster_def getSecret_def
        sample_cluster_def sample_secret_def secret_zero_def Get_def NewManager_def
        GetKubeconfigOverridesForClusterByNetwork_def cluster_Start_def livenessCheck_def Let_def split_beta
        Manager_Add_def)
  then obtain c where c: "res = Inr c" by (cases res) auto
  have "manager_wf (NewManager [])" "peer_callbacks (NewManager [])"
    by (simp_all add: manager_wf_def peer_callbacks_def NewManager_def)
  from getRemoteCluster_current [OF this g [unfolded c]]
  obtain k where "fst (getK8SConfigForCluster with_secret ''reg'' ''demo'' []) = Inr k" "cl_kubeconfig c \<in> {k, ''''}"
    "Get m' ''demo'' = Inr c"
    by (auto simp: sample_cluster_def)
  with c g show ?thesis
    by (auto simp: getK8SConfigForCluster_def getSecret_def sample_secret_def)
qed

end
