(* ===== verification/KubeconfigChecks.thy ===== *)
theory KubeconfigChecks
  imports KubeconfigUtil
begin

text \<open>
  The endpoint of a cluster for a network, the scheme of an address, and the provisioning of the
  local cluster's resource.
\<close>

subsection \<open>Endpoints\<close>

text \<open>The endpoint as the comments describe it: of this network, else of no network, else none.\<close>

definition endpoint_for :: "KubernetesAPIEndpoint list \<Rightarrow> string \<Rightarrow> KubernetesAPIEndpoint \<Rightarrow> KubernetesAPIEndpoint" where
  "endpoint_for eps network none =
     (case find (\<lambda>e. ep_ClientNetwork e = network) eps of
        Some e \<Rightarrow> e
      | None \<Rightarrow> last (none # filter (\<lambda>e. ep_ClientNetwork e = '''') eps))"

lemma endpoint_loop_eq: "endpoint_loop eps network endpoint = endpoint_for eps network endpoint"
  by (induction eps network endpoint rule: endpoint_loop.induct) (auto simp: endpoint_for_def split: option.split)

text \<open>
  C31. The loop that selects the endpoint of a cluster for a network returns the first endpoint of
  this network; if there is none, the last one that is not bound to a network; and if there is
  none of these either, the empty endpoint.
\<close>

theorem endpoint_selection:
  "GetEndpointForClusterByNetwork cluster network =
     endpoint_for (sp_KubernetesAPIEndpoints (c_Spec cluster)) network endpoint_zero"
  by (simp add: GetEndpointForClusterByNetwork_def endpoint_loop_eq)

subsection \<open>Addresses\<close>

lemma url_Parse_slash:
  "url_Parse X (''//'' @ a) = (case x_UrlRest X [] (''//'' @ a) of Inl e \<Rightarrow> Inl e | Inr r \<Rightarrow> Inr \<lparr>u_Scheme = [], u_Rest = r\<rparr>)"
  by (simp add: url_Parse_def split: sum.split)

text \<open>
  An address always becomes a URL with a scheme: https if the address has no double slash, the
  scheme in front of a double slash, in lower case, if there is one.
\<close>

theorem getURL_scheme:
  assumes "getURLWithHTTPSScheme X address = Inr u"
  shows "(\<exists>s r. u = s @ '':'' @ r \<and> s \<noteq> [])
    \<and> (\<not> strings_Contains address ''//'' \<longrightarrow> (\<exists>r. x_UrlRest X [] (''//'' @ address) = Inr r \<and> u = ''https:'' @ r))
    \<and> (\<forall>s rest. address = s @ ''://'' @ rest \<longrightarrow> s \<noteq> [] \<longrightarrow> list_all is_letter s \<longrightarrow>
         (\<exists>r. x_UrlRest X s (''//'' @ rest) = Inr r \<and> u = map lower_char s @ '':'' @ r))"
proof (intro conjI impI allI)
  show "\<exists>s r. u = s @ '':'' @ r \<and> s \<noteq> []"
  proof -
    obtain v where "u = URL_String v" "u_Scheme v \<noteq> []"
      using assms by (auto simp: getURLWithHTTPSScheme_def Let_def split: sum.splits if_splits)
    then have "u = u_Scheme v @ '':'' @ u_Rest v \<and> u_Scheme v \<noteq> []" by (simp add: URL_String_def)
    then show ?thesis by blast
  qed
next
  assume "\<not> strings_Contains address ''//''"
  with assms show "\<exists>r. x_UrlRest X [] (''//'' @ address) = Inr r \<and> u = ''https:'' @ r"
    using url_Parse_slash [of X address]
    by (auto simp: getURLWithHTTPSScheme_def URL_String_def Let_def split: sum.splits)
next
  fix s rest assume a: "address = s @ ''://'' @ rest" and s: "s \<noteq> []" "list_all is_letter s"
  have c: "strings_Contains address ''//''"
    using strings_Contains_append [of "s @ '':''" "''//''" rest] by (simp add: a)
  have g: "getScheme address = Inr (s, ''//'' @ rest)"
    using getScheme_letters [OF s, of "''//'' @ rest"] by (simp add: a)
  show "\<exists>r. x_UrlRest X s (''//'' @ rest) = Inr r \<and> u = map lower_char s @ '':'' @ r"
    using assms s(1) c g
    by (auto simp: getURLWithHTTPSScheme_def url_Parse_def URL_String_def Let_def split: sum.splits)
qed

theorem getURL_scheme_witness:
  "getURLWithHTTPSScheme sample_ext ''10.0.0.1:443'' = Inr ''https://10.0.0.1:443''"
proof -
  have X: "x_UrlRest sample_ext s r = Inr r" for s r by (simp add: sample_ext_def)
  have n: "\<not> strings_Contains ''10.0.0.1:443'' ''//''" by simp
  obtain u where u: "getURLWithHTTPSScheme sample_ext ''10.0.0.1:443'' = Inr u"
    using n by (simp add: getURLWithHTTPSScheme_def url_Parse_def X)
  from getURL_scheme [OF this] n X show ?thesis by (auto simp: u)
qed

subsection \<open>Provisioning\<close>

text \<open>A write of the provisioning: it relaxes webhooks or creates this cluster.\<close>

definition provision_call :: "Cluster \<Rightarrow> call \<Rightarrow> bool" where
  "provision_call c x =
     (case x of
        CreateCluster d \<Rightarrow> d = c
      | UpdateWebhook w \<Rightarrow> list_all (\<lambda>i. wh_FailurePolicy i = FailurePolicyIgnore) (wc_Webhooks w)
      | _ \<Rightarrow> \<not> is_write x)"

lemma relax_webhook_calls: "relax_webhook X cfg h = (e, h') \<Longrightarrow> extends (provision_call c) h h'"
  by (auto simp: relax_webhook_def getWebhook_def updateWebhook_def extends_def provision_call_def
      is_write_def list_all_iff split: sum.splits option.splits)

lemma NewLocalCluster_spec:
  assumes "NewLocalCluster X namespace name address h = (Inr c, h')"
  shows "x_GetNamespace X h LocalSite NamespaceSystem = Inr (sp_ClusterID (c_Spec c))"
    and "m_Name c = name" and "sp_SecretRef (c_Spec c) = \<lparr>nn_Name = name, nn_Namespace = namespace\<rparr>"
    and "extends (\<lambda>x. \<not> is_write x) h h'"
  using assms
  by (auto simp: NewLocalCluster_def getNamespace_def is_write_def split: sum.splits)

lemma provision_cases:
  assumes "ProvisionLocalClusterObject X cfg h = (None, h')"
    and "x_GetCluster X h LocalSite
       \<lparr>nn_Name = cfg_ProvisionLocalCluster cfg, nn_Namespace = cfg_Namespace cfg\<rparr> = Inl e"
  obtains h1 h2 c where "extends (provision_call c) h h1"
    and "NewLocalCluster X (cfg_Namespace cfg) (cfg_ProvisionLocalCluster cfg)
       (cfg_APIServerEndpointAddress cfg) h1 = (Inr c, h2)"
    and "h' = h2 @ [CreateCluster c]" and "x_CreateCluster X h2 c = None"
proof -
  let ?h = "h @ [GetCluster LocalSite
       \<lparr>nn_Name = cfg_ProvisionLocalCluster cfg, nn_Namespace = cfg_Namespace cfg\<rparr>]"
  have g: "extends (provision_call c) h ?h" for c by (simp add: provision_call_def is_write_def)
  obtain h1 where r: "(if cvw_Enabled (cfg_ClusterValidatorWebhook cfg) then relax_webhook X cfg ?h else (None, ?h)) = (None, h1)"
    and n: "(case NewLocalCluster X (cfg_Namespace cfg) (cfg_ProvisionLocalCluster cfg)
                       (cfg_APIServerEndpointAddress cfg) h1 of
                  (Inl e, h) \<Rightarrow> (Some (x_WrapIf X e ''cannot create new local cluster object''), h)
                | (Inr c, h) \<Rightarrow>
                    (case x_CreateCluster X h c of
                       Some e \<Rightarrow>
                         (Some (x_WrapIf X e ''cannot create new local cluster object''), h @ [CreateCluster c])
                     | None \<Rightarrow> (None, h @ [CreateCluster c]))) = (None, h')"
    using assms by (auto simp: ProvisionLocalClusterObject_def getCluster_def split: prod.splits option.splits)
  have "extends (provision_call c) h h1" for c
    using r extends_trans [OF g] relax_webhook_calls by (auto split: if_splits)
  with n that show thesis by (auto split: prod.splits sum.splits option.splits)
qed

text \<open>
  Provisioning that ends without an error leaves an existing resource alone, without any
  write. If there is none, it creates exactly one, as its last call: under the configured name,
  with the UID of the namespace kube-system as its cluster ID and the secret of the same name in
  the controller's namespace. The only other write sets the failure policy of the validating
  webhook to Ignore, so that the creation does not wait for the webhook that is not yet running.
\<close>

theorem provisioning_spec:
  assumes "ProvisionLocalClusterObject X cfg h = (None, h')"
  shows "(\<exists>c. x_GetCluster X h LocalSite
       \<lparr>nn_Name = cfg_ProvisionLocalCluster cfg, nn_Namespace = cfg_Namespace cfg\<rparr> = Inr c \<and>
       extends (\<lambda>x. \<not> is_write x) h h') \<or>
    (\<exists>c h1 h2. h' = h2 @ [CreateCluster c] \<and> extends (provision_call c) h h2 \<and>
       x_CreateCluster X h2 c = None \<and> m_Name c = cfg_ProvisionLocalCluster cfg \<and>
       x_GetNamespace X h1 LocalSite NamespaceSystem = Inr (sp_ClusterID (c_Spec c)) \<and>
       sp_SecretRef (c_Spec c) = \<lparr>nn_Name = cfg_ProvisionLocalCluster cfg, nn_Namespace = cfg_Namespace cfg\<rparr>)"
proof (cases "x_GetCluster X h LocalSite
       \<lparr>nn_Name = cfg_ProvisionLocalCluster cfg, nn_Namespace = cfg_Namespace cfg\<rparr>")
  case (Inl e)
  from assms Inl show ?thesis
  proof (rule provision_cases)
    fix h1 h2 c
    assume e: "extends (provision_call c) h h1"
      and n: "NewLocalCluster X (cfg_Namespace cfg) (cfg_ProvisionLocalCluster cfg)
        (cfg_APIServerEndpointAddress cfg) h1 = (Inr c, h2)"
      and h': "h' = h2 @ [CreateCluster c]" and k: "x_CreateCluster X h2 c = None"
    have "extends (provision_call c) h1 h2"
      using NewLocalCluster_spec(4) [OF n] by (rule extends_mono) (auto simp: provision_call_def is_write_def split: call.split)
    with e have "extends (provision_call c) h h2" by (rule extends_trans)
    with h' k NewLocalCluster_spec(1-3) [OF n] show ?thesis by blast
  qed
next
  case (Inr c)
  with assms show ?thesis by (auto simp: ProvisionLocalClusterObject_def getCluster_def is_write_def)
qed

definition quiet_config :: Configuration where
  "quiet_config = sample_config\<lparr>cfg_ProvisionLocalCluster := ''local'',
     cfg_ClusterValidatorWebhook := (cfg_ClusterValidatorWebhook sample_config)\<lparr>cvw_Enabled := False\<rparr>\<rparr>"

theorem provisioning_spec_witness:
  "\<exists>c h. ProvisionLocalClusterObject sample_ext quiet_config [] = (None, h @ [CreateCluster c]) \<and> m_Name c = ''local''"
proof -
  let ?n = "\<lparr>nn_Name = cfg_ProvisionLocalCluster quiet_config, nn_Namespace = cfg_Namespace quiet_config\<rparr>"
  have X: "x_GetCluster sample_ext = (\<lambda>_ _ _. Inl not_found)" "x_CreateCluster sample_ext = (\<lambda>_ _. None)"
    "x_GetNamespace sample_ext = (\<lambda>_ _ n. Inr n)"
    by (simp_all add: sample_ext_def)
  have q: "cfg_ProvisionLocalCluster quiet_config = ''local''" "\<not> cvw_Enabled (cfg_ClusterValidatorWebhook quiet_config)"
    by (simp_all add: quiet_config_def)
  obtain h' where p: "ProvisionLocalClusterObject sample_ext quiet_config [] = (None, h')"
    using q by (simp add: ProvisionLocalClusterObject_def getCluster_def NewLocalCluster_def getNamespace_def X)
  from provisioning_spec [OF this] show ?thesis unfolding X p q by auto
qed

end
