(* ===== verification/ClusterChecks.thy ===== *)
theory ClusterChecks
  imports ClusterCtl KubeconfigChecks
begin

text \<open>
  What the cluster reconciler reports: conflicts between local clusters, the status of a
  disabled cluster, the Ready condition, and the reader secret, which the reconcilers of the
  peers read back as a kubeconfig; and what it does for the resource of a reachable peer.
\<close>

subsection \<open>Lemmas\<close>

text \<open>What setting a condition leaves behind, without the times.\<close>

lemma SetCondition_effect:
  assumes "SetCondition X conds c h = (conds', h')"
  shows "(\<exists>c'. map_of conds' (cc_Type c) = Some c' \<and> cc_Status c' = cc_Status c)"
    and "t \<noteq> cc_Type c \<Longrightarrow> map_of conds' t = map_of conds t"
    and "extends (\<lambda>x. write_site x = None) h h'"
  using assms
  by (cases "map_of conds (cc_Type c)"; auto simp: SetCondition_def Let_def recordEvent_def split: if_splits)+

lemma SetCondition_wf:
  assumes wf: "conditions_wf conds"
  shows "conditions_wf (fst (SetCondition X conds c h))"
proof (cases "map_of conds (cc_Type c)")
  case None
  have "\<exists>cur. fst (SetCondition X conds c h) = AList.update (cc_Type cur) cur conds"
    using None
    by (auto simp: SetCondition_def Let_def
        intro: exI [of _ "c\<lparr>cc_LastTransitionTime := _, cc_LastHeartbeatTime := _\<rparr>"] exI [of _ "c\<lparr>cc_LastHeartbeatTime := _\<rparr>"])
  then show ?thesis by (auto intro: conditions_wf_update [OF wf])
next
  case (Some c0)
  then have t: "cc_Type c = cc_Type c0" using wf by (simp add: conditions_wf_def)
  define cur where "cur = (let c1 = (if cc_Status c0 \<noteq> cc_Status c then c0\<lparr>cc_LastTransitionTime := x_Now X h\<rparr> else c0);
     h1 = (if cc_Status c0 \<noteq> cc_Status c then recordEvent (condition_event c) (cc_Reason c) (cc_Message c) h else h);
     c2 = c1\<lparr>cc_Message := cc_Message c, cc_Reason := cc_Reason c, cc_Status := cc_Status c\<rparr>;
     c3 = (if cc_LastTransitionTime c2 = 0 then c2\<lparr>cc_LastTransitionTime := x_Now X h1\<rparr> else c2)
     in c3\<lparr>cc_LastHeartbeatTime := x_Now X h1\<rparr>)"
  have "fst (SetCondition X conds c h) = AList.update (cc_Type c) cur conds"
    unfolding SetCondition_def Let_def split_beta fst_conv snd_conv cur_def by (simp add: Some)
  moreover have "cc_Type cur = cc_Type c" by (simp add: cur_def Let_def t)
  ultimately show ?thesis using conditions_wf_update [OF wf, of cur] by simp
qed

lemma reconcileRemoteCluster_wf:
  assumes "conditions_wf conds"
  shows "conditions_wf (fst (snd (snd (reconcileRemoteCluster X r cluster conds m h))))"
  by (simp add: reconcileRemoteCluster_def Let_def split_beta assms SetCondition_wf split: sum.split)

lemma triggerClusterReconcile_calls: "extends (\<lambda>x. write_site x = None) h (triggerClusterReconcile r c h)"
  by (simp add: triggerClusterReconcile_def queueAdd_def)

text \<open>Another cluster resource with the same cluster ID.\<close>

definition conflicting :: "Cluster \<Rightarrow> Cluster \<Rightarrow> bool" where
  "conflicting cluster c \<longleftrightarrow>
     m_UID c \<noteq> m_UID cluster \<and> sp_ClusterID (c_Spec c) = sp_ClusterID (c_Spec cluster)"

lemma conflict_loop_spec:
  assumes "conflict_loop X r cluster cs conds h = (e, conds', h')"
  shows "e = (if list_ex (conflicting cluster) cs then Some (WrapAsPermanentError ErrLocalClusterConflict) else None)"
    and "\<exists>c. map_of conds' ClusterConditionTypeLocalConflict = Some c \<and>
       cc_Status c = (if list_ex (conflicting cluster) cs then ConditionTrue else ConditionFalse)"
    and "extends (\<lambda>x. write_site x = None) h h'"
proof -
  have "e = (if list_ex (conflicting cluster) cs then Some (WrapAsPermanentError ErrLocalClusterConflict) else None)
    \<and> (\<exists>c. map_of conds' ClusterConditionTypeLocalConflict = Some c \<and>
       cc_Status c = (if list_ex (conflicting cluster) cs then ConditionTrue else ConditionFalse))
    \<and> extends (\<lambda>x. write_site x = None) h h'"
    using assms
  proof (induction cs)
    case Nil
    then show ?case
      using SetCondition_effect [of X conds "LocalClusterConflictCondition False" h conds' h']
      by (auto simp: split_beta condition_defs)
  next
    case (Cons c cs)
    show ?case
    proof (cases "conflicting cluster c")
      case True
      define h1 where "h1 = (if cc_Status (GetCurrentCondition c ClusterConditionTypeLocalConflict) = ConditionFalse
        then triggerClusterReconcile r c h else h)"
      have h1: "extends (\<lambda>x. write_site x = None) h h1"
        unfolding h1_def by (simp add: triggerClusterReconcile_calls)
      obtain conds2 h2 where s: "SetCondition X conds (LocalClusterConflictCondition True) h1 = (conds2, h2)"
        by fastforce
      have "e = Some (WrapAsPermanentError ErrLocalClusterConflict)" "conds' = conds2" "h' = h2"
        using Cons.prems s True by (simp_all add: conflicting_def Let_def h1_def)
      with SetCondition_effect(1,3) [OF s] extends_trans [OF h1] True show ?thesis
        by (auto simp: condition_defs)
    next
      case False
      then have "conflict_loop X r cluster (c # cs) conds h = conflict_loop X r cluster cs conds h"
        by (auto simp: conflicting_def)
      with Cons False show ?thesis by simp
    qed
  qed
  then show "e = (if list_ex (conflicting cluster) cs
      then Some (WrapAsPermanentError ErrLocalClusterConflict) else None)"
    "\<exists>c. map_of conds' ClusterConditionTypeLocalConflict = Some c \<and>
       cc_Status c = (if list_ex (conflicting cluster) cs then ConditionTrue else ConditionFalse)"
    "extends (\<lambda>x. write_site x = None) h h'" by auto
qed

lemma status_conditions_keep:
  "map_of conds t = Some c \<Longrightarrow> cc_Type c \<noteq> ClusterConditionTypeClustersSynced \<Longrightarrow>
   c \<in> set (status_conditions type conds)"
  by (drule map_of_SomeD) (force simp: status_conditions_eq)

subsection \<open>Properties\<close>

text \<open>
  C24. The conflict check reports an error exactly if another cluster resource has the same
  cluster ID. The error is permanent, the LocalConflict condition says the same, and the check
  writes to no API server.
\<close>

theorem checkLocalClusterConflict_spec:
  assumes "x_ListClusters X h LocalSite = Inr cs"
    and "checkLocalClusterConflict X r cluster conds h = (e, conds', h')"
  shows "e = (if list_ex (conflicting cluster) cs then Some (WrapAsPermanentError ErrLocalClusterConflict) else None)
    \<and> (\<exists>c. map_of conds' ClusterConditionTypeLocalConflict = Some c \<and>
         cc_Status c = (if list_ex (conflicting cluster) cs then ConditionTrue else ConditionFalse))
    \<and> extends (\<lambda>x. write_site x = None) h h'"
proof -
  have l: "conflict_loop X r cluster cs conds (h @ [ListClusters LocalSite]) = (e, conds', h')"
    using assms by (simp add: checkLocalClusterConflict_def listClusters_def)
  have "extends (\<lambda>x. write_site x = None) h (h @ [ListClusters LocalSite])" by simp
  from conflict_loop_spec(1,2) [OF l] extends_trans [OF this conflict_loop_spec(3) [OF l]]
  show ?thesis by blast
qed

theorem checkLocalClusterConflict_spec_witness:
  "fst (checkLocalClusterConflict (sample_ext\<lparr>x_ListClusters := \<lambda>_ _. Inr [sample_cluster\<lparr>m_UID := ''uid-9''\<rparr>]\<rparr>)
     sample_reconciler sample_cluster [] []) = Some (WrapAsPermanentError ErrLocalClusterConflict)"
proof -
  let ?X = "sample_ext\<lparr>x_ListClusters := \<lambda>_ _. Inr [sample_cluster\<lparr>m_UID := ''uid-9''\<rparr>]\<rparr>"
  obtain e c h where s: "checkLocalClusterConflict ?X sample_reconciler sample_cluster [] [] = (e, c, h)"
    by (metis prod_cases3)
  from checkLocalClusterConflict_spec [OF _ s] s show ?thesis
    by (simp add: conflicting_def sample_cluster_def)
qed

text \<open>
  The watch that is to trigger the local clusters after a cluster resource appears or
  goes ranges over a map with one entry for each cluster ID. Of two local clusters that are in
  conflict, which have the same ID, it triggers only one.
\<close>

theorem conflict_watch_misses:
  assumes "x_ListClusters X h LocalSite = Inr [a, b]" and "\<And>ks. mset (x_MapOrder X ks) = mset ks"
    and "sp_ClusterID (c_Spec a) = sp_ClusterID (c_Spec b)"
    and "st_Type (c_Status a) = ClusterTypeLocal" and "st_Type (c_Status b) = ClusterTypeLocal"
  shows "fst (watchLocalClustersForConflict X h) = [request_for b]"
proof -
  have "x_MapOrder X [sp_ClusterID (c_Spec b)] = [sp_ClusterID (c_Spec b)]"
    using assms(2) [of "[sp_ClusterID (c_Spec b)]"] by simp
  with assms show ?thesis
    by (simp add: watchLocalClustersForConflict_def listClusters_def range_clusters_def map_filter_simps)
qed

definition sample_local :: "string \<Rightarrow> Cluster" where
  "sample_local name = set_type ClusterTypeLocal (sample_cluster\<lparr>m_Name := name, m_UID := name\<rparr>)"

theorem conflict_watch_misses_witness:
  "fst (watchLocalClustersForConflict
     (sample_ext\<lparr>x_ListClusters := \<lambda>_ _. Inr [sample_local ''a'', sample_local ''b'']\<rparr>) []) =
   [\<lparr>nn_Name = ''b'', nn_Namespace = ''''\<rparr>]"
  using conflict_watch_misses [of
      "sample_ext\<lparr>x_ListClusters := \<lambda>_ _. Inr [sample_local ''a'', sample_local ''b'']\<rparr>" "[]"
      "sample_local ''a''" "sample_local ''b''"]
  by (simp add: sample_ext_def sample_local_def sample_cluster_def set_type_def request_for_def)

text \<open>
  A remote cluster whose reconciliation fails gets the status Failed (or keeps the state
  that says what is wrong) and, in the same status, a Ready condition that is true: the
  condition is made from a variable that is always nil there.
\<close>

theorem ready_despite_error:
  assumes "reconcileRemoteCluster X r cluster (GetCurrentConditions cluster) m h = (Some e, cluster1, conds1, m1, h1)"
  shows "\<exists>conds2 h2 ready.
      cluster_enabled X r False cluster m h = write_status X r False (Some e) cluster1 conds2 m1 h2
    \<and> st_State (c_Status (fst (snd (UpdateCluster X (Some e) LocalSite cluster1 conds2 h2)))) \<noteq> ClusterStateReady
    \<and> map_of conds2 ClusterConditionTypeReady = Some ready \<and> cc_Status ready = ConditionTrue
    \<and> ready \<in> set (st_Conditions (c_Status (fst (snd (UpdateCluster X (Some e) LocalSite cluster1 conds2 h2)))))"
proof -
  obtain conds2 h2 where s: "SetCondition X conds1 (ClusterReadyCondition X None) h1 = (conds2, h2)" by fastforce
  then obtain ready where r: "map_of conds2 ClusterConditionTypeReady = Some ready" "cc_Status ready = ConditionTrue"
    using SetCondition_effect(1) [OF s] by (auto simp: ClusterReadyCondition_def new_condition_def)
  have "cluster_enabled X r False cluster m h = write_status X r False (Some e) cluster1 conds2 m1 h2"
    using assms s by (simp add: cluster_enabled_def Let_def)
  moreover have "st_State (c_Status (fst (snd (UpdateCluster X (Some e) LocalSite cluster1 conds2 h2)))) \<noteq> ClusterStateReady"
    by (simp add: UpdateCluster_def Let_def cluster_state_defs)
  moreover have "conditions_wf conds2"
    using SetCondition_wf [of conds1 X "ClusterReadyCondition X None" h1] s assms
      reconcileRemoteCluster_wf [OF GetCurrentConditions_wf, of X r cluster cluster m h] by simp
  then have "cc_Type ready = ClusterConditionTypeReady" using r(1) by (simp add: conditions_wf_def)
  then have "ready \<in> set (st_Conditions (c_Status (fst (snd (UpdateCluster X (Some e) LocalSite cluster1 conds2 h2)))))"
    using r(1) by (auto simp: UpdateCluster_def Let_def condition_type_defs intro!: status_conditions_keep)
  ultimately show ?thesis using r by blast
qed

theorem ready_despite_error_witness:
  "\<exists>conds2 h2 ready. cluster_enabled sample_ext sample_reconciler False sample_cluster (NewManager []) [] =
     write_status sample_ext sample_reconciler False (Some (WrapAsPermanentError not_found))
       (set_state ClusterStateInvalidAuthInfo sample_cluster) conds2 (NewManager []) h2
   \<and> map_of conds2 ClusterConditionTypeReady = Some ready \<and> cc_Status ready = ConditionTrue"
proof -
  obtain e cl conds1 m1 h1 where r: "reconcileRemoteCluster sample_ext sample_reconciler sample_cluster
      (GetCurrentConditions sample_cluster) (NewManager []) [] = (e, cl, conds1, m1, h1)" by (metis prod_cases5)
  then have "e = Some (WrapAsPermanentError not_found)" "cl = set_state ClusterStateInvalidAuthInfo sample_cluster"
    "m1 = NewManager []"
    by (auto simp: reconcileRemoteCluster_def getRemoteCluster_def getK8SConfigForCluster_def getSecret_def
        sample_ext_def sample_cluster_def Get_def NewManager_def Manager_Remove_def Let_def split_beta)
  with ready_despite_error r show ?thesis by blast
qed

text \<open>
  A remote cluster without a secret reference is meant to get the state MissingAuthInfo, but
  the reconciler returns no error for it and writes the status only after an error: no write is
  made, and the reconcile ends successfully.
\<close>

theorem missing_auth_not_written:
  assumes "nn_Name (sp_SecretRef (c_Spec cluster)) = '''' \<or> nn_Namespace (sp_SecretRef (c_Spec cluster)) = ''''"
  shows "\<exists>h'. cluster_enabled X r False cluster m h = ((requeue r, None), m, h') \<and>
     extends (\<lambda>x. write_site x = None) h h'"
proof -
  obtain conds1 h1 where 1: "SetCondition X (GetCurrentConditions cluster) (LocalClusterCondition False) h = (conds1, h1)"
    by fastforce
  obtain conds2 h2 where 2: "SetCondition X conds1 (ClusterReadyCondition X None) h1 = (conds2, h2)" by fastforce
  have "cluster_enabled X r False cluster m h = ((requeue r, None), m, h2)"
    using assms 1 2 by (auto simp: cluster_enabled_def reconcileRemoteCluster_def Let_def write_status_def)
  moreover have "extends (\<lambda>x. write_site x = None) h h2"
    using extends_trans [OF SetCondition_effect(3) [OF 1] SetCondition_effect(3) [OF 2]] .
  ultimately show ?thesis by blast
qed

theorem missing_auth_not_written_witness:
  "\<exists>h'. cluster_enabled sample_ext sample_reconciler False
     (sample_cluster\<lparr>c_Spec := (c_Spec sample_cluster)\<lparr>sp_SecretRef := by_name ''''\<rparr>\<rparr>) (NewManager []) [] =
     ((requeue sample_reconciler, None), NewManager [], h')"
  using missing_auth_not_written [of "sample_cluster\<lparr>c_Spec := (c_Spec sample_cluster)\<lparr>sp_SecretRef := by_name ''''\<rparr>\<rparr>"
      sample_ext sample_reconciler "NewManager []" "[]"]
  by (auto simp: by_name_def)

definition disabled_status :: ClusterStatus where
  "disabled_status = \<lparr>st_State = ClusterStateDisabled, st_Message = '''', st_Type = ClusterTypePeer,
     st_Leader = False, st_ClusterMetadata = ClusterMetadata_zero, st_Conditions = []\<rparr>"

definition disabled_call :: "string \<Rightarrow> call \<Rightarrow> bool" where
  "disabled_call name c \<longleftrightarrow>
     (case c of
        UpdateClusterStatusCall s c' \<Rightarrow> s = LocalSite \<and> m_Name c' = name \<and> c_Status c' = disabled_status
      | GetCluster s n \<Rightarrow> s = LocalSite
      | _ \<Rightarrow> False)"

lemma UpdateCluster_disabled:
  assumes "c_Status cluster = disabled_status" and "UpdateCluster X None LocalSite cluster [] h = (e, cluster', h')"
  shows "cluster' = cluster" and "extends (disabled_call (m_Name cluster)) h h'"
proof -
  have c: "cluster\<lparr>c_Status := (c_Status cluster)\<lparr>st_Conditions := []\<rparr>\<rparr> = cluster"
    using assms(1) by (simp add: disabled_status_def)
  have u: "cluster' = cluster \<and> h' = snd (UpdateClusterStatus X LocalSite cluster h)"
    using assms(2) unfolding UpdateCluster_def by (auto simp: Let_def c split: option.splits prod.splits)
  then show "cluster' = cluster" by simp
  have "extends (disabled_call (m_Name cluster)) h (snd (UpdateClusterStatus X LocalSite cluster h))"
    by (rule extends_mono [OF UpdateClusterStatus_calls])
      (auto simp: disabled_call_def assms(1) split: call.splits)
  with u show "extends (disabled_call (m_Name cluster)) h h'" by simp
qed

text \<open>
  For a disabled cluster, once its peer is removed, every status the reconciler writes is
  that of the state Disabled with no conditions. Its type is Peer, also for the own cluster,
  since the status is reset a second time after the type was set.
\<close>

theorem disabled_cluster_status:
  assumes "manager_wf m" and "cause_of_plain X"
    and "removeRemoteCluster (m_Name cluster) m h = (e, m1, h1)"
    and "cluster_disabled X r isLocal cluster m h = (res, m', h')"
  shows "m' = m1 \<and> extends (disabled_call (m_Name cluster)) h1 h'"
proof -
  let ?c = "set_state ClusterStateDisabled (reset_status cluster)"
  define c where "c = ?c\<lparr>c_Status := (c_Status ?c)\<lparr>st_Conditions := []\<rparr>\<rparr>"
  have st: "c_Status c = disabled_status" and nm: "m_Name c = m_Name cluster"
    by (simp_all add: c_def set_state_def reset_status_def ClusterStatus_Reset_def disabled_status_def)
  have eq: "UpdateCluster X None LocalSite ?c [] h1 = UpdateCluster X None LocalSite c [] h1"
    by (simp add: UpdateCluster_def c_def)
  obtain e1 c1 h2 where u: "UpdateCluster X None LocalSite c [] h1 = (e1, c1, h2)" by (metis prod_cases3)
  note u' = UpdateCluster_disabled [OF st u]
  obtain e2 c2 h3 where v: "UpdateCluster X None LocalSite c [] h2 = (e2, c2, h3)" by (metis prod_cases3)
  have "remove_failed X e = None"
    by (rule remove_failed_None [OF assms(2) removeRemoteCluster_removed(2) [OF assms(1,3)]])
  then have d: "(res, m', h') =
      (case e1 of Some e \<Rightarrow> fail_with e m1 h2 | None \<Rightarrow> write_status X r isLocal None c1 [] m1 h2)"
    unfolding assms(4) [symmetric] cluster_disabled_def by (simp add: assms(3) eq u split: option.split)
  have "m' = m1 \<and> (h' = h2 \<or> h' = h3)"
  proof (cases e1)
    case None
    with d u'(1) v show ?thesis
      by (cases isLocal; cases e2) (simp_all add: write_status_def fail_with_def)
  next
    case (Some e)
    with d show ?thesis by (simp add: fail_with_def)
  qed
  then show ?thesis
    using u'(2) extends_trans [OF u'(2) UpdateCluster_disabled(2) [OF st v]] nm by auto
qed

theorem disabled_cluster_status_witness:
  "extends (disabled_call ''peer'') [ClusterStop ''peer'']
     (snd (snd (cluster_disabled sample_ext sample_reconciler True (sample_local ''peer'') one_peer [])))"
proof -
  obtain e m1 h1 where r: "removeRemoteCluster (m_Name (sample_local ''peer'')) one_peer [] = (e, m1, h1)"
    by (metis prod_cases3)
  then have "h1 = [ClusterStop ''peer'']"
    by (auto simp: removeRemoteCluster_def sample_local_def Get_def one_peer_def Manager_Remove_def NewManager_def
        NewCluster_def cluster_Stop_def)
  moreover obtain res m' h' where d: "cluster_disabled sample_ext sample_reconciler True (sample_local ''peer'') one_peer []
      = (res, m', h')" by (metis prod_cases3)
  moreover have "cause_of_plain sample_ext" by (simp add: cause_of_plain_def sample_ext_def)
  ultimately show ?thesis
    using disabled_cluster_status [OF one_peer_wf _ r d] by (simp add: sample_local_def)
qed

text \<open>Documented behaviour of the back-off: it reports no error only when the condition returned true last.\<close>

definition backoff_law :: "ext \<Rightarrow> bool" where
  "backoff_law X \<longleftrightarrow> (\<forall>n f v h v' h'. x_ExponentialBackoffBytes X n f v h = (None, v', h') \<longrightarrow>
     (\<exists>u k. f u k = (Inr True, v', h')))"

text \<open>
  A secret with the token of a service account: listed as a token secret of this account, or
  created for it and read back complete.
\<close>

definition account_secret :: "ext \<Rightarrow> NamespacedName \<Rightarrow> Secret \<Rightarrow> bool" where
  "account_secret X saRef s \<longleftrightarrow>
     (\<exists>h ns ss. x_ListSecrets X h ns = Inr ss \<and> s \<in> set ss \<and>
        sec_Type s = SecretTypeServiceAccountToken \<and> m_Annotations s ServiceAccountNameKey = Some (nn_Name saRef)) \<or>
     (\<exists>h. x_GetSecret X h LocalSite \<lparr>nn_Name = nn_Name saRef @ ''-token'', nn_Namespace = nn_Namespace saRef\<rparr> = Inr s \<and>
        sec_Data s ''token'' \<noteq> None \<and> sec_Data s ''ca.crt'' \<noteq> None)"

lemma find_token_secret_Some:
  "find_token_secret ss sa = Some s \<Longrightarrow> s \<in> set ss \<and> sec_Type s = SecretTypeServiceAccountToken \<and>
     m_Annotations s ServiceAccountNameKey = Some sa"
  by (induction ss) (auto split: if_splits)

lemma waitForSecretTokenGenerated_reads:
  assumes "backoff_law X" and "waitForSecretTokenGenerated X ref h = (Inr (token, ca), h')"
  shows "\<exists>k s. x_GetSecret X k LocalSite ref = Inr s \<and> token = sec_Data s ''token'' \<and> ca = sec_Data s ''ca.crt'' \<and>
    token \<noteq> None \<and> ca \<noteq> None"
proof -
  have "x_ExponentialBackoffBytes X defaultBackoff_Steps (token_condition X ref) (None, None) h = (None, (token, ca), h')"
    using assms(2) by (auto simp: waitForSecretTokenGenerated_def split: prod.splits option.splits)
  then obtain u k where "token_condition X ref u k = (Inr True, (token, ca), h')"
    using assms(1) unfolding backoff_law_def by blast
  then show ?thesis
    by (auto simp: token_condition_def getSecret_def Let_def split: sum.splits if_splits)
qed

lemma GetReaderSecretTokenAndCACert_account:
  assumes "backoff_law X" and "GetReaderSecretTokenAndCACert X saRef h = (Inr (token, ca), h')"
  obtains s where "account_secret X saRef s" "token = sec_Data s ''token''" "ca = sec_Data s ''ca.crt''"
proof -
  obtain ns ss where ss: "x_GetServiceAccount X h saRef = Inr ns" "x_ListSecrets X (h @ [GetServiceAccount saRef]) ns = Inr ss"
    using assms(2) by (auto simp: GetReaderSecretTokenAndCACert_def Let_def split: sum.splits)
  show thesis
  proof (cases "find_token_secret ss (nn_Name saRef)")
    case (Some s)
    then have "account_secret X saRef s" using ss(2) find_token_secret_Some [OF Some] by (auto simp: account_secret_def)
    with Some show thesis using that assms(2) ss by (simp add: GetReaderSecretTokenAndCACert_def Let_def)
  next
    case None
    then obtain k where "waitForSecretTokenGenerated X
        \<lparr>nn_Name = nn_Name saRef @ ''-token'', nn_Namespace = nn_Namespace saRef\<rparr> k = (Inr (token, ca), h')"
      using assms(2) ss by (auto simp: GetReaderSecretTokenAndCACert_def Let_def split: option.splits)
    from waitForSecretTokenGenerated_reads [OF assms(1) this] show thesis
      using that by (auto simp: account_secret_def)
  qed
qed

lemma GetReaderSecretForCluster_shape:
  assumes "backoff_law X" and "GetReaderSecretForCluster X rest cluster saRef address h = (Inr secret, h')"
  obtains s ca h1 where "account_secret X saRef s"
    and "reader_secret X cluster saRef (fst (reader_address X rest (GetEndpointForClusterByNetwork cluster '''') address h1))
      (bytes (sec_Data s ''ca.crt'') @ ca) (bytes (sec_Data s ''token'')) = Inr secret"
proof -
  obtain token cert h1 where t: "GetReaderSecretTokenAndCACert X saRef h = (Inr (token, cert), h1)"
    using assms(2) by (auto simp: GetReaderSecretForCluster_def split: prod.splits sum.splits)
  obtain s where s: "account_secret X saRef s" "token = sec_Data s ''token''" "cert = sec_Data s ''ca.crt''"
    using assms(1) t by (rule GetReaderSecretTokenAndCACert_account)
  let ?ep = "GetEndpointForClusterByNetwork cluster ''''"
  let ?c = "bytes cert @ (if \<not> strings_Contains (bytes cert) (rc_CAData rest) then newline @ rc_CAData rest else [])"
  let ?ca = "?c @ (if length (ep_CABundle ?ep) > 0 then newline @ ep_CABundle ?ep else [])"
  have "reader_secret X cluster saRef (fst (reader_address X rest ?ep address h1)) ?ca (bytes token) = Inr secret"
    using assms(2) t by (simp add: GetReaderSecretForCluster_def Let_def split_beta split: if_splits)
  then show thesis using that [OF s(1), of h1] s by simp
qed

lemma reader_secret_shape:
  assumes "reader_secret X cluster saRef addr ca token = Inr secret"
  obtains kubeconfig url where
    "secret = secret_zero\<lparr>m_Name := nn_Name (sp_SecretRef (c_Spec cluster)),
          m_Namespace := nn_Namespace (sp_SecretRef (c_Spec cluster)),
          sec_Type := SecretTypeClusterRegistry, sec_Data := [''kubeconfig'' \<mapsto> kubeconfig]\<rparr>"
    and "getURLWithHTTPSScheme X addr = Inr url"
    and "x_MarshalKubeconfig X (kubeconfig_for (m_Name cluster) (nn_Name saRef) url ca token) = Inr kubeconfig"
  using assms that by (auto simp: reader_secret_def GetKubeconfigWithSAToken_def split: sum.splits)

text \<open>
  C25. The reader secret that a cluster makes for itself is one that the reconcilers of its peers
  accept: read back under the name of the cluster's secret reference, it is taken as a
  registry secret, and the kubeconfig found in it is the encoding of one that names the cluster,
  carries the token of the reader account as the API server has it, begins its certificates with
  the account's, and points to the address of the cluster's endpoint, of the configuration or of
  the server, with a scheme.
\<close>

theorem reader_secret_roundtrip:
  assumes "backoff_law X" and "GetReaderSecretForCluster X rest cluster saRef address h = (Inr secret, h')"
    and "x_GetSecret X h2 LocalSite (sp_SecretRef (c_Spec cluster)) = Inr secret"
  shows "m_Name secret = nn_Name (sp_SecretRef (c_Spec cluster)) \<and>
     m_Namespace secret = nn_Namespace (sp_SecretRef (c_Spec cluster)) \<and>
     (\<exists>s h1 ca url kubeconfig. account_secret X saRef s \<and>
        fst (getK8SConfigForCluster X (nn_Namespace (sp_SecretRef (c_Spec cluster)))
          (nn_Name (sp_SecretRef (c_Spec cluster))) h2) = Inr kubeconfig \<and>
        x_MarshalKubeconfig X (kubeconfig_for (m_Name cluster) (nn_Name saRef) url
          (bytes (sec_Data s ''ca.crt'') @ ca) (bytes (sec_Data s ''token''))) = Inr kubeconfig \<and>
        getURLWithHTTPSScheme X
          (fst (reader_address X rest (GetEndpointForClusterByNetwork cluster '''') address h1)) = Inr url \<and>
        (\<exists>scheme r. url = scheme @ '':'' @ r \<and> scheme \<noteq> []))"
proof -
  have eta: "\<lparr>nn_Name = nn_Name n, nn_Namespace = nn_Namespace n\<rparr> = n" for n :: NamespacedName by simp
  obtain s ca h1 where a: "account_secret X saRef s"
    and r: "reader_secret X cluster saRef (fst (reader_address X rest (GetEndpointForClusterByNetwork cluster '''') address h1))
      (bytes (sec_Data s ''ca.crt'') @ ca) (bytes (sec_Data s ''token'')) = Inr secret"
    using assms(1,2) by (rule GetReaderSecretForCluster_shape)
  obtain kubeconfig url where
    s: "secret = secret_zero\<lparr>m_Name := nn_Name (sp_SecretRef (c_Spec cluster)),
          m_Namespace := nn_Namespace (sp_SecretRef (c_Spec cluster)),
          sec_Type := SecretTypeClusterRegistry, sec_Data := [''kubeconfig'' \<mapsto> kubeconfig]\<rparr>"
    and u: "getURLWithHTTPSScheme X
        (fst (reader_address X rest (GetEndpointForClusterByNetwork cluster '''') address h1)) = Inr url"
    and k: "x_MarshalKubeconfig X (kubeconfig_for (m_Name cluster) (nn_Name saRef) url
        (bytes (sec_Data s ''ca.crt'') @ ca) (bytes (sec_Data s ''token''))) = Inr kubeconfig"
    using r by (rule reader_secret_shape)
  have "fst (getK8SConfigForCluster X (nn_Namespace (sp_SecretRef (c_Spec cluster)))
      (nn_Name (sp_SecretRef (c_Spec cluster))) h2) = Inr kubeconfig"
    using assms(3) by (simp add: getK8SConfigForCluster_def getSecret_def eta s KubeconfigKey_def)
  moreover have "\<exists>scheme r. url = scheme @ '':'' @ r \<and> scheme \<noteq> []" using getURL_scheme [OF u] by blast
  moreover have "m_Name secret = nn_Name (sp_SecretRef (c_Spec cluster))"
    "m_Namespace secret = nn_Namespace (sp_SecretRef (c_Spec cluster))" by (simp_all add: s)
  ultimately show ?thesis using a u k by blast
qed

definition token_secret :: Secret where
  "token_secret = secret_zero\<lparr>m_Name := ''reader-token'', m_Annotations := [ServiceAccountNameKey \<mapsto> ''reader''],
     sec_Type := SecretTypeServiceAccountToken, sec_Data := [''token'' \<mapsto> ''tok'', ''ca.crt'' \<mapsto> ''ca'']\<rparr>"

definition reader_ext :: ext where
  "reader_ext = sample_ext\<lparr>x_ListSecrets := \<lambda>_ _. Inr [token_secret],
     x_GetSecret := \<lambda>_ _ _. Inr (sample_secret\<lparr>sec_Data := [''kubeconfig'' \<mapsto> ''https://10.0.0.1tok'']\<rparr>)\<rparr>"

lemma sample_backoff_law: "sample_backoff n f v h = (None, v', h') \<Longrightarrow> \<exists>u k. f u k = (Inr True, v', h')"
  by (induction n arbitrary: v h) (auto split: prod.splits sum.splits if_splits)

theorem reader_secret_roundtrip_witness:
  "fst (getK8SConfigForCluster reader_ext ''reg'' ''demo'' []) = Inr ''https://10.0.0.1tok'' \<and>
   (\<exists>s url. account_secret reader_ext \<lparr>nn_Name = ''reader'', nn_Namespace = ''cluster-registry''\<rparr> s \<and>
      ''https://10.0.0.1tok'' = url @ bytes (sec_Data s ''token''))"
proof -
  let ?sa = "\<lparr>nn_Name = ''reader'', nn_Namespace = ''cluster-registry''\<rparr>"
  let ?s = "sample_secret\<lparr>sec_Data := [''kubeconfig'' \<mapsto> ''https://10.0.0.1tok'']\<rparr>"
  have ext: "x_GetServiceAccount reader_ext = (\<lambda>_ n. Inr (nn_Namespace n))"
    "x_ListSecrets reader_ext = (\<lambda>_ _. Inr [token_secret])" "x_UrlRest reader_ext = (\<lambda>_ r. Inr r)"
    "x_MarshalKubeconfig reader_ext = (\<lambda>k. Inr (concat (map nc_Server (kc_Clusters k) @ map na_Token (kc_AuthInfos k))))"
    "x_GetSecret reader_ext = (\<lambda>_ _ _. Inr ?s)" "x_ExponentialBackoffBytes reader_ext = sample_backoff"
    by (simp_all add: reader_ext_def sample_ext_def)
  have law: "backoff_law reader_ext" using sample_backoff_law by (simp add: backoff_law_def ext)
  have "\<exists>h'. GetReaderSecretForCluster reader_ext \<lparr>rc_Host = '''', rc_CAData = ''ca''\<rparr> sample_cluster ?sa ''10.0.0.1'' [] =
      (Inr ?s, h')"
    by (simp add: GetReaderSecretForCluster_def GetReaderSecretTokenAndCACert_def ext token_secret_def secret_zero_def
        bytes_def GetEndpointForClusterByNetwork_def sample_cluster_def endpoint_zero_def reader_address_def
        reader_secret_def GetKubeconfigWithSAToken_def getURLWithHTTPSScheme_def url_Parse_def URL_String_def
        kubeconfig_for_def sample_secret_def)
  then obtain h' where g: "GetReaderSecretForCluster reader_ext \<lparr>rc_Host = '''', rc_CAData = ''ca''\<rparr> sample_cluster ?sa
      ''10.0.0.1'' [] = (Inr ?s, h')" ..
  have k: "fst (getK8SConfigForCluster reader_ext ''reg'' ''demo'' []) = Inr ''https://10.0.0.1tok''"
    by (simp add: getK8SConfigForCluster_def getSecret_def ext sample_secret_def KubeconfigKey_def)
  have ref: "sp_SecretRef (c_Spec sample_cluster) = \<lparr>nn_Name = ''demo'', nn_Namespace = ''reg''\<rparr>"
    by (simp add: sample_cluster_def)
  have "x_GetSecret reader_ext [] LocalSite (sp_SecretRef (c_Spec sample_cluster)) = Inr ?s" by (simp add: ext)
  from reader_secret_roundtrip [OF law g this] obtain s h1 ca url kubeconfig where a: "account_secret reader_ext ?sa s"
    and f: "fst (getK8SConfigForCluster reader_ext (nn_Namespace (sp_SecretRef (c_Spec sample_cluster)))
          (nn_Name (sp_SecretRef (c_Spec sample_cluster))) []) = Inr kubeconfig"
    and m: "x_MarshalKubeconfig reader_ext (kubeconfig_for (m_Name sample_cluster) (nn_Name ?sa) url
          (bytes (sec_Data s ''ca.crt'') @ ca) (bytes (sec_Data s ''token''))) = Inr kubeconfig"
    by blast
  have "kubeconfig = ''https://10.0.0.1tok''" using f k by (simp add: ref)
  moreover have "kubeconfig = url @ bytes (sec_Data s ''token'')" using m by (simp add: ext kubeconfig_for_def)
  ultimately have "\<exists>s url. account_secret reader_ext ?sa s \<and> ''https://10.0.0.1tok'' = url @ bytes (sec_Data s ''token'')"
    using a by blast
  with k show ?thesis by blast
qed

subsection \<open>Registering a peer\<close>

text \<open>A reachable API server: a client can be made, the probe is answered, and a manager can be created.\<close>

definition reachable :: "ext \<Rightarrow> string \<Rightarrow> bool" where
  "reachable X name \<longleftrightarrow>
     (\<forall>h. x_NewClientset X h name = None \<and> (\<exists>uid. x_ProbeNamespace X h name = Inr uid) \<and> x_NewManager X h name = None)"

text \<open>Callbacks that are told of a new cluster and leave it alone, as the one main registers.\<close>

definition passive_callbacks :: "Manager \<Rightarrow> bool" where
  "passive_callbacks m \<longleftrightarrow>
     (\<forall>f \<in> snd ` set (mg_onBeforeAddFuncs m) \<union> snd ` set (mg_onAfterAddFuncs m). \<forall>c h. fst (f c h) = c)"

lemma run_manager_funcs_passive:
  "\<forall>f \<in> snd ` set fs. \<forall>c h. fst (f c h) = c \<Longrightarrow> fst (run_manager_funcs fs c h) = c"
  by (induction fs arbitrary: c h) (auto simp: split_beta)

lemma Manager_Add_passive:
  assumes "passive_callbacks m"
  obtains h' where "Manager_Add c m h = (m\<lparr>mg_clusters := AList.update (cl_name c) c (mg_clusters m)\<rparr>, h')"
proof -
  have "fst (run_manager_funcs (mg_onBeforeAddFuncs m) c h) = c" for h
    by (rule run_manager_funcs_passive) (use assms in \<open>auto simp: passive_callbacks_def\<close>)
  moreover have "fst (run_manager_funcs (mg_onAfterAddFuncs m) c h) = c" for h
    by (rule run_manager_funcs_passive) (use assms in \<open>auto simp: passive_callbacks_def\<close>)
  ultimately show thesis by (simp add: Manager_Add_def Let_def split_beta that)
qed

text \<open>What becomes of the resource of a reachable peer: a live cluster with its own two controllers started.\<close>

definition own_controllers :: controllers where
  "own_controllers = map (\<lambda>n. (n, (NewManagedController n None [])\<lparr>mc_cancelSet := True, mc_contextSet := True\<rparr>))
     [''remote-cluster'', ''remote-cluster-feature'']"

definition fresh_peer :: "Cluster \<Rightarrow> string \<Rightarrow> clusters_Cluster \<Rightarrow> bool" where
  "fresh_peer cluster k c \<longleftrightarrow>
     cl_name c = m_Name cluster \<and> IsAlive c \<and> IsManagerRunning c \<and> cl_kubeconfig c = k \<and>
     cl_secretID c = Some (secretID_of cluster) \<and> cl_features c = [] \<and> cl_pendingControllers c = [] \<and>
     cl_controllers c = own_controllers"

lemma AddController_new:
  assumes "\<not> cl_mgr c" and "map_of (cl_controllers c) n = None"
  shows "AddController X (NewManagedController n None []) c h =
    (c\<lparr>cl_pendingControllers := AList.delete n (cl_pendingControllers c),
       cl_controllers := AList.update n (NewManagedController n None []) (cl_controllers c)\<rparr>, h)"
  using assms
  by (simp add: AddController_def addController_def checkRequiredClusterFeatures_def NewManagedController_def
      GetController_def removePendingControllerByName_def IsManagerRunning_def)

lemma cluster_Start_reachable:
  assumes "reachable X (cl_name c)" and "\<not> cl_alive c" and "cl_mgrCtx c = None" and "\<not> cl_mgrStopped c"
  shows "\<exists>c' h' k. cluster_Start X c h = (None, c', h') \<and> IsAlive c' \<and> IsManagerRunning c' \<and>
    cl_controllers c' = fst (start_controllers (cl_name c) (cl_controllers c) k) \<and>
    cl_name c' = cl_name c \<and> cl_kubeconfig c' = cl_kubeconfig c \<and> cl_secretID c' = cl_secretID c \<and>
    cl_features c' = cl_features c \<and> cl_pendingControllers c' = cl_pendingControllers c"
proof -
  from assms(1) obtain uid where "x_NewClientset X h (cl_name c) = None" "x_ProbeNamespace X h (cl_name c) = Inr uid"
    "\<And>k. x_NewManager X k (cl_name c) = None" by (auto simp: reachable_def)
  then show ?thesis using assms(2-4)
    by (auto simp: cluster_Start_def livenessCheck_def setAlive_def StartManager_def IsAlive_def
        IsManagerRunning_def Let_def split_beta)
qed

lemma new_remote_cluster_registers:
  assumes "passive_callbacks m" and "reachable X (m_Name cluster)" and "x_LoadKubeconfig X k = None"
    and "GetKubeconfigOverridesForClusterByNetwork X cluster (cfg_NetworkName (cr_config r)) = Inr ov"
    and "x_ClientConfig X k ov = None"
  obtains c h1 m' h' where "new_remote_cluster X r cluster k m h = (Inr c, m', h')"
    and "Manager_Add c m h1 = (m', h')" and "fresh_peer cluster k c"
proof -
  define c0 where "c0 = NewCluster (m_Name cluster) [WithSecretID (secretID_of cluster),
    WithOnDeadFunc (onDeadFunc r), WithKubeconfig k]"
  let ?add = "\<lambda>n c. c\<lparr>cl_pendingControllers := AList.delete n (cl_pendingControllers c),
       cl_controllers := AList.update n (NewManagedController n None []) (cl_controllers c)\<rparr>"
  define c2 where "c2 = ?add ''remote-cluster-feature'' (?add ''remote-cluster'' c0)"
  have c0: "cl_name c0 = m_Name cluster" "cl_kubeconfig c0 = k" "cl_secretID c0 = Some (secretID_of cluster)"
    "cl_controllers c0 = []" "\<not> cl_mgr c0" "\<not> cl_alive c0" "cl_mgrCtx c0 = None" "\<not> cl_mgrStopped c0"
    "cl_features c0 = []" "cl_pendingControllers c0 = []"
    by (simp_all add: c0_def NewCluster_def WithSecretID_def WithOnDeadFunc_def AddOnDeadFunc_def WithKubeconfig_def)
  have add: "AddController X (NewManagedController ''remote-cluster'' None []) c0 h = (?add ''remote-cluster'' c0, h)"
    "AddController X (NewManagedController ''remote-cluster-feature'' None []) (?add ''remote-cluster'' c0) h = (c2, h)"
    by (simp_all add: AddController_new c0 c2_def)
  have "fst (start_controllers n (cl_controllers c2) h3) = own_controllers" for n h3
    by (simp add: c2_def c0 own_controllers_def controller_Start_def NewManagedController_def)
  with cluster_Start_reachable [of X c2 h] assms(2) obtain c h1 where
    s: "cluster_Start X c2 h = (None, c, h1)" and f: "fresh_peer cluster k c"
    by (auto simp: fresh_peer_def c0 c2_def)
  then have n: "cl_name c = m_Name cluster" by (simp add: fresh_peer_def)
  obtain h' where a: "Manager_Add c m h1 = (m\<lparr>mg_clusters := AList.update (cl_name c) c (mg_clusters m)\<rparr>, h')"
    by (rule Manager_Add_passive [OF assms(1)])
  have "new_remote_cluster X r cluster k m h =
      (Inr c, m\<lparr>mg_clusters := AList.update (cl_name c) c (mg_clusters m)\<rparr>, h')"
    unfolding new_remote_cluster_def c0_def [symmetric]
    by (simp add: assms(3-5) add s a Get_def)
  then show thesis using a f by (rule that)
qed

lemma reset_status_peer:
  "fresh_peer (reset_status cluster) = fresh_peer cluster"
  "GetKubeconfigOverridesForClusterByNetwork X (reset_status cluster) n =
     GetKubeconfigOverridesForClusterByNetwork X cluster n"
proof -
  show "fresh_peer (reset_status cluster) = fresh_peer cluster"
    by (simp add: fresh_peer_def secretID_of_def fun_eq_iff)
  have "GetEndpointForClusterByNetwork (reset_status cluster) n = GetEndpointForClusterByNetwork cluster n"
    by (simp add: GetEndpointForClusterByNetwork_def)
  then show "GetKubeconfigOverridesForClusterByNetwork X (reset_status cluster) n =
      GetKubeconfigOverridesForClusterByNetwork X cluster n"
    by (simp add: GetKubeconfigOverridesForClusterByNetwork_def Let_def)
qed

text \<open>
  The resource of a peer that is neither local nor disabled, with a secret that has a kubeconfig
  for a reachable server.
\<close>

definition peer_resource :: "ext \<Rightarrow> ClusterReconciler \<Rightarrow> Cluster \<Rightarrow> string \<Rightarrow> bool" where
  "peer_resource X r cluster k \<longleftrightarrow>
     (let ref = sp_SecretRef (c_Spec cluster) in
      \<not> without_peer (cr_clusterID r) cluster \<and> reachable X (m_Name cluster) \<and>
      nn_Name ref \<noteq> '''' \<and> nn_Namespace ref \<noteq> '''' \<and>
      (\<forall>h. fst (getK8SConfigForCluster X (nn_Namespace ref) (nn_Name ref) h) = Inr k) \<and>
      x_LoadKubeconfig X k = None \<and>
      (\<exists>ov. GetKubeconfigOverridesForClusterByNetwork X cluster (cfg_NetworkName (cr_config r)) = Inr ov \<and>
         x_ClientConfig X k ov = None))"

lemma SetCondition_after: "extends (\<lambda>_. True) h (snd (SetCondition X conds c h))"
  by (auto simp: SetCondition_def recordEvent_def Let_def split: option.split)

lemma Reconcile_registers:
  assumes "passive_callbacks m" and "peer_resource X r1 cluster k" and "Get m (m_Name cluster) = Inl e"
    and "cluster_setClusterID X r h = (None, r1, h1)" and "x_GetCluster X h1 LocalSite req = Inr cluster"
  obtains c h2 m' h3 h' where "cluster_Reconcile X r req m h = ((requeue r1, None), r1, m', h')"
    and "Manager_Add c m h2 = (m', h3)" and "fresh_peer cluster k c" and "extends (\<lambda>_. True) h3 h'"
proof -
  let ?cl = "reset_status cluster" and ?ref = "sp_SecretRef (c_Spec cluster)"
  let ?h = "h1 @ [GetCluster LocalSite req]"
  from assms(2) obtain ov where P: "\<not> without_peer (cr_clusterID r1) cluster" "reachable X (m_Name cluster)"
    "nn_Name ?ref \<noteq> ''''" "nn_Namespace ?ref \<noteq> ''''" "x_LoadKubeconfig X k = None" "x_ClientConfig X k ov = None"
    "GetKubeconfigOverridesForClusterByNetwork X cluster (cfg_NetworkName (cr_config r1)) = Inr ov"
    "\<And>h. fst (getK8SConfigForCluster X (nn_Namespace ?ref) (nn_Name ?ref) h) = Inr k"
    by (auto simp: peer_resource_def Let_def)
  obtain conds h4 where c1: "SetCondition X (GetCurrentConditions ?cl) (LocalClusterCondition False) ?h = (conds, h4)"
    by fastforce
  obtain h5 where k: "getK8SConfigForCluster X (nn_Namespace ?ref) (nn_Name ?ref) h4 = (Inr k, h5)"
    using P(8) by (metis prod.collapse)
  obtain c h2 m' h3 where n: "new_remote_cluster X r1 ?cl k m h5 = (Inr c, m', h3)"
    and a: "Manager_Add c m h2 = (m', h3)" and f: "fresh_peer ?cl k c"
    by (rule new_remote_cluster_registers [of m X ?cl k r1 ov h5])
      (use assms(1) P in \<open>simp_all add: reset_status_peer\<close>)
  have "getRemoteCluster X r1 ?cl m h4 = (Inr c, ?cl, m', h3)"
    using n k assms(3) by (simp add: getRemoteCluster_def Let_def)
  then have R: "reconcileRemoteCluster X r1 ?cl (GetCurrentConditions ?cl) m ?h = (None, ?cl, conds, m', h3)"
    using c1 P(3,4) by (simp add: reconcileRemoteCluster_def Let_def)
  obtain conds' h' where c2: "SetCondition X conds (ClusterReadyCondition X None) h3 = (conds', h')" by fastforce
  have "cluster_found X r1 cluster m ?h = ((requeue r1, None), m', h')"
    using P(1) R c2
    by (simp add: cluster_found_def cluster_enabled_def without_peer_def write_status_def Let_def)
  then have "cluster_Reconcile X r req m h = ((requeue r1, None), r1, m', h')"
    using assms(4,5) by (simp add: cluster_Reconcile_def getCluster_def Let_def)
  moreover have "extends (\<lambda>_. True) h3 h'" using SetCondition_after [of h3 X conds] c2 by (metis snd_conv)
  ultimately show thesis using that a f by (simp add: reset_status_peer)
qed

text \<open>
  C14. Reconciling the resource of a peer that is neither local nor disabled, whose secret has a
  kubeconfig for a reachable server and that is not registered yet, succeeds and registers it:
  afterwards the registry has a live cluster under its name, made from the secret, with a
  running manager and both of its own controllers started; the other entries stay.
\<close>

theorem reachable_peer_registered:
  assumes "passive_callbacks m" and "peer_resource X r1 cluster k" and "Get m (m_Name cluster) = Inl e"
    and "cluster_setClusterID X r h = (None, r1, h1)" and "x_GetCluster X h1 LocalSite req = Inr cluster"
  shows "\<exists>c m' h'. cluster_Reconcile X r req m h = ((requeue r1, None), r1, m', h') \<and> fresh_peer cluster k c \<and>
    (\<forall>n. Get m' n = (if n = m_Name cluster then Inr c else Get m n))"
  using assms
proof (rule Reconcile_registers)
  fix c h2 m' h3 h'
  assume r: "cluster_Reconcile X r req m h = ((requeue r1, None), r1, m', h')"
    and a: "Manager_Add c m h2 = (m', h3)" and f: "fresh_peer cluster k c"
  obtain h4 where "Manager_Add c m h2 = (m\<lparr>mg_clusters := AList.update (cl_name c) c (mg_clusters m)\<rparr>, h4)"
    using assms(1) by (rule Manager_Add_passive)
  with a f have "\<forall>n. Get m' n = (if n = m_Name cluster then Inr c else Get m n)"
    by (auto simp: Get_def fresh_peer_def)
  with r f show ?thesis by blast
qed

definition peer_ext :: ext where
  "peer_ext = with_secret\<lparr>x_GetCluster := \<lambda>_ _ _. Inr sample_cluster\<rparr>"

lemma sample_peer_resource:
  assumes "Y = with_secret\<lparr>x_GetCluster := g, x_ListRules := l, x_GetRule := q\<rparr>"
  shows "peer_resource Y (sample_reconciler\<lparr>cr_clusterID := NamespaceSystem\<rparr>) sample_cluster ''kubeconfig-1''"
proof -
  have "reachable Y n" for n by (simp add: reachable_def assms)
  moreover have "fst (getK8SConfigForCluster Y ns n h) = Inr ''kubeconfig-1''" for ns n h
    by (simp add: getK8SConfigForCluster_def getSecret_def assms) (simp add: sample_secret_def)
  moreover have "GetKubeconfigOverridesForClusterByNetwork Y sample_cluster n =
      Inr \<lparr>ov_Server = '''', ov_CAData = ''''\<rparr>" for n
    by (simp add: GetKubeconfigOverridesForClusterByNetwork_def sample_cluster_def)
  moreover have "x_LoadKubeconfig Y k = None" "x_ClientConfig Y k ov = None" for k ov
    by (simp_all add: assms)
  ultimately show ?thesis
    by (simp add: peer_resource_def without_peer_def) (simp add: sample_cluster_def NamespaceSystem_def)
qed

lemma peer_ext_resource:
  "peer_resource peer_ext (sample_reconciler\<lparr>cr_clusterID := NamespaceSystem\<rparr>) sample_cluster ''kubeconfig-1''"
  by (rule sample_peer_resource [where l = "x_ListRules with_secret" and q = "x_GetRule with_secret"])
    (simp add: peer_ext_def)

theorem reachable_peer_registered_witness:
  "\<exists>c res r' m' h'. cluster_Reconcile peer_ext sample_reconciler (by_name ''demo'') (NewManager []) [] =
      ((res, None), r', m', h') \<and> Get m' ''demo'' = Inr c \<and> IsAlive c \<and> cl_kubeconfig c = ''kubeconfig-1''"
proof -
  have s: "cluster_setClusterID peer_ext sample_reconciler [] =
      (None, sample_reconciler\<lparr>cr_clusterID := NamespaceSystem\<rparr>, [GetNamespace LocalSite NamespaceSystem])"
    by (simp add: cluster_setClusterID_def sample_reconciler_def cluster_setQueue_def NewClusterReconciler_def
        GetClusterID_def getNamespace_def peer_ext_def with_secret_def sample_ext_def)
  have n: "Get (NewManager []) (m_Name sample_cluster) = Inl ErrClusterNotFound" "passive_callbacks (NewManager [])"
    "x_GetCluster peer_ext h LocalSite req = Inr sample_cluster" for h req
    by (simp_all add: Get_def NewManager_def passive_callbacks_def peer_ext_def)
  from reachable_peer_registered [OF n(2) peer_ext_resource n(1) s n(3), of "by_name ''demo''"]
  show ?thesis by (auto simp: fresh_peer_def sample_cluster_def)
qed

end
