(* ===== verification/RemoteCtl.thy ===== *)
theory RemoteCtl
  imports ClusterChecks
begin

text \<open>
  The two controllers that run on every peer: the one that keeps the status of the peer's
  cluster resource (src/controllers/remote\_cluster\_reconciler.go) and the one that hands the
  peer's features to the feature gate (src/controllers/remote\_cluster\_feature\_reconciler.go).
  Both read from the peer; the first writes to the local API server.
\<close>

record RemoteClusterReconciler =
  rr_name :: string
  rr_clusterID :: string

definition NewRemoteClusterReconciler :: "string \<Rightarrow> RemoteClusterReconciler" where
  "NewRemoteClusterReconciler name = \<lparr>rr_name = name, rr_clusterID = ''''\<rparr>"

subsection \<open>The status of a peer\<close>

definition remote_setClusterID ::
  "ext \<Rightarrow> RemoteClusterReconciler \<Rightarrow> history \<Rightarrow> gerror option \<times> RemoteClusterReconciler \<times> history" where
  "remote_setClusterID X r h =
     (if rr_clusterID r = ''''
      then (case GetClusterID X (RemoteSite (rr_name r)) h of
              (Inl e, h) \<Rightarrow> (Some (x_WrapIf X e ''could not get cluster id''), r, h)
            | (Inr i, h) \<Rightarrow> (None, r\<lparr>rr_clusterID := i\<rparr>, h))
      else (None, r, h))"

text \<open>GetClusters, as the values that ranging over its map visits.\<close>

definition GetClusters_range :: "ext \<Rightarrow> site \<Rightarrow> history \<Rightarrow> Cluster list result \<times> history" where
  "GetClusters_range X s h =
     (case listClusters X s h of
        (Inl e, h) \<Rightarrow> (Inl (x_WrapIf X e ''could not list clusters''), h)
      | (Inr cs, h) \<Rightarrow> (Inr (range_clusters X cs), h))"

definition quoted :: "string \<Rightarrow> string" where
  "quoted s = [CHR 0x27] @ s @ [CHR 0x27]"

definition append_error :: "ext \<Rightarrow> gerror option \<Rightarrow> string \<Rightarrow> gerror option" where
  "append_error X errs msg = Some (x_Append X errs (x_WithDetails X (ErrorString msg)))"

primrec sync_loop :: "ext \<Rightarrow> (string \<rightharpoonup> Cluster) \<Rightarrow> Cluster list \<Rightarrow> gerror option \<Rightarrow> gerror option" where
  "sync_loop X remote [] errs = errs"
| "sync_loop X remote (c # cs) errs =
     sync_loop X remote cs
       (case remote (sp_ClusterID (c_Spec c)) of
          Some rc \<Rightarrow>
            let errs = (if m_Name c \<noteq> m_Name rc
                        then append_error X errs (''cluster name mismatch '' @ m_Name c @ '' != '' @ m_Name rc)
                        else errs)
            in if st_State (c_Status rc) \<noteq> ClusterStateReady
               then append_error X errs (''cluster '' @ quoted (m_Name rc) @ '' status is not ready'') else errs
        | None \<Rightarrow> append_error X errs (''cluster '' @ quoted (m_Name c) @ '' not found at remote side''))"

definition syncClusters :: "ext \<Rightarrow> RemoteClusterReconciler \<Rightarrow> history \<Rightarrow> gerror option \<times> history" where
  "syncClusters X r h =
     (case GetClusters_range X LocalSite h of
        (Inl e, h) \<Rightarrow> (Some (x_WrapIf X e ''could not get local clusters''), h)
      | (Inr local, h) \<Rightarrow>
          (case GetClusters X (RemoteSite (rr_name r)) h of
             (Inl e, h) \<Rightarrow> (Some (x_WrapIf X e ''could not get remote clusters''), h)
           | (Inr remote, h) \<Rightarrow> (sync_loop X remote local None, h)))"

definition remote_reconcile ::
  "ext \<Rightarrow> RemoteClusterReconciler \<Rightarrow> Cluster \<Rightarrow> ClusterConditionsMap \<Rightarrow> history
    \<Rightarrow> gerror option \<times> Cluster \<times> ClusterConditionsMap \<times> history" where
  "remote_reconcile X r cluster conds h =
     (if rr_clusterID r \<noteq> sp_ClusterID (c_Spec cluster)
      then (Some (WrapAsPermanentError (x_WithDetails X ErrInvalidClusterID)), cluster, conds, h)
      else
        case metadata_of X (RemoteSite (rr_name r)) h of
          (Inl e, h) \<Rightarrow>
            let (conds, h) = SetCondition X conds (ClusterMetadataCondition X (Some e)) h;
                e = x_WithStackIf X e;
                (conds, h) = SetCondition X conds (ClustersSyncedCondition X (Some e)) h
            in (Some (x_WithStackIf X e), cluster, conds, h)
        | (Inr md, h) \<Rightarrow>
            let (conds, h) = SetCondition X conds (ClusterMetadataCondition X None) h;
                cluster = cluster\<lparr>c_Status := (c_Status cluster)\<lparr>st_ClusterMetadata := md\<rparr>\<rparr>;
                (err, h) = syncClusters X r h;
                (conds, h) = SetCondition X conds (ClustersSyncedCondition X err) h
            in (None, cluster, conds, h))"

definition remote_found ::
  "ext \<Rightarrow> RemoteClusterReconciler \<Rightarrow> Cluster \<Rightarrow> history \<Rightarrow> (Result \<times> gerror option) \<times> history" where
  "remote_found X r cluster h =
     (let cluster = reset_status cluster;
          (reconcileError, cluster, conds, h) = remote_reconcile X r cluster (GetCurrentConditions cluster) h;
          (conds, h) =
            (case reconcileError of
               None \<Rightarrow> (conds, h)
             | Some e \<Rightarrow> SetCondition X conds (ClustersSyncedCondition X (Some e)) h)
      in case UpdateCluster X reconcileError LocalSite cluster conds h of
           (Some e, cluster, h) \<Rightarrow> ((result_zero, Some e), h)
         | (None, cluster, h) \<Rightarrow> ((result_zero, None), h))"

definition remote_Reconcile ::
  "ext \<Rightarrow> RemoteClusterReconciler \<Rightarrow> NamespacedName \<Rightarrow> history
    \<Rightarrow> (Result \<times> gerror option) \<times> RemoteClusterReconciler \<times> history" where
  "remote_Reconcile X r req h =
     (case remote_setClusterID X r h of
        (Some e, r, h) \<Rightarrow> ((result_zero, Some (x_WithStackIf X e)), r, h)
      | (None, r, h) \<Rightarrow>
          (case getCluster X LocalSite req h of
             (Inl e, h) \<Rightarrow>
               (if x_IsNotFound X e then (result_zero, None)
                else (result_zero, Some (x_WrapIf X e ''could not get object'')), r, h)
           | (Inr cluster, h) \<Rightarrow> let (res, h) = remote_found X r cluster h in (res, r, h)))"

text \<open>
  SetupWithController: a change of a cluster resource, remote or local, asks for the resource of
  this peer; a remote update counts only if the state or the message changed.
\<close>

definition peer_request :: "RemoteClusterReconciler \<Rightarrow> NamespacedName list" where
  "peer_request r = [\<lparr>nn_Name = rr_name r, nn_Namespace = ''''\<rparr>]"

definition remote_update_event :: "Cluster option \<Rightarrow> Cluster option \<Rightarrow> bool" where
  "remote_update_event oldObject newObject =
     (case oldObject of
        None \<Rightarrow> False
      | Some a \<Rightarrow>
          (case newObject of
             None \<Rightarrow> False
           | Some b \<Rightarrow>
               if st_State (c_Status a) \<noteq> st_State (c_Status b) \<or> st_Message (c_Status a) \<noteq> st_Message (c_Status b)
               then True else False))"

definition remote_SetupWithController ::
  "ext \<Rightarrow> RemoteClusterReconciler \<Rightarrow> history \<Rightarrow> gerror option \<times> history" where
  "remote_SetupWithController X r h =
     (case setupController X (rr_name r) ''watch remote clusters'' h of
        (Some e, h) \<Rightarrow> (Some (x_WrapIf X e ''could not create watch for remote clusters''), h)
      | (None, h) \<Rightarrow>
          (case setupController X (rr_name r) ''informer for local clusters'' h of
             (Some e, h) \<Rightarrow> (Some (x_WrapIf X e ''could not create local informer for clusters''), h)
           | (None, h) \<Rightarrow>
               (case setupController X (rr_name r) ''watch local informer'' h of
                  (Some e, h) \<Rightarrow> (Some (x_WrapIf X e ''could not create watch for local informer''), h)
                | (None, h) \<Rightarrow> (None, h))))"

subsection \<open>The features of a peer\<close>

definition feature_Reconcile ::
  "ext \<Rightarrow> NamespacedName \<Rightarrow> clusters_Cluster \<Rightarrow> history
    \<Rightarrow> (Result \<times> gerror option) \<times> clusters_Cluster \<times> history" where
  "feature_Reconcile X req c h =
     (case getFeature X (RemoteSite (cl_name c)) req h of
        (Inl e, h) \<Rightarrow>
          if x_IsNotFound X e
          then ((result_zero, None), RemoveFeature X (x_RequestString X req) c h)
          else ((result_zero, Some (x_WrapIf X e ''could not get object'')), c, h)
      | (Inr feature, h) \<Rightarrow>
          ((result_zero, None),
           AddFeature X (NewClusterFeature (x_RequestString X req) (cf_FeatureName feature) (m_Labels feature)) c h))"

definition feature_SetupWithController :: "ext \<Rightarrow> string \<Rightarrow> history \<Rightarrow> gerror option \<times> history" where
  "feature_SetupWithController X name h =
     (case setupController X name ''watch cluster features'' h of
        (Some e, h) \<Rightarrow> (Some (x_WrapIf X e ''could not create watch for cluster features''), h)
      | (None, h) \<Rightarrow> (None, h))"

subsection \<open>Lemmas\<close>

lemma AddFeature_features:
  "cl_features (fst (AddFeature X f c h)) = AList.update (f_UID f) f (cl_features c)"
proof -
  have "cl_features (fst (AddController X p c h)) = cl_features c" for p c h
    by (auto simp: AddController_def addController_def addPendingController_def removePendingControllerByName_def
        Let_def split_beta)
  then have "cl_features (fst (add_pending_loop X ps c h)) = cl_features c" for ps c h
    by (induction ps arbitrary: c h) (simp_all add: split_beta)
  then show ?thesis by (simp add: AddFeature_def Let_def)
qed

text \<open>A cluster is in sync with the peer's: known there, under the same name, and ready.\<close>

definition in_sync :: "(string \<rightharpoonup> Cluster) \<Rightarrow> Cluster \<Rightarrow> bool" where
  "in_sync remote c \<longleftrightarrow>
     (case remote (sp_ClusterID (c_Spec c)) of
        None \<Rightarrow> False
      | Some rc \<Rightarrow> m_Name rc = m_Name c \<and> st_State (c_Status rc) = ClusterStateReady)"

lemma sync_loop_None: "sync_loop X remote cs errs = None \<longleftrightarrow> errs = None \<and> list_all (in_sync remote) cs"
  by (induction cs arbitrary: errs) (auto simp: in_sync_def append_error_def Let_def split: option.split)

lemma clusters_loop_dom: "clusters_loop cs m i \<noteq> None \<longleftrightarrow> m i \<noteq> None \<or> (\<exists>c \<in> set cs. sp_ClusterID (c_Spec c) = i)"
  by (induction cs arbitrary: m) auto

text \<open>Ranging over the clusters by ID visits the last cluster listed with each ID.\<close>

lemma set_range_clusters:
  assumes "\<And>ks. mset (x_MapOrder X ks) = mset ks"
  shows "set (range_clusters X cs) = ran (clusters_loop cs Map.empty)"
proof -
  have "set (x_MapOrder X (remdups (map (\<lambda>c. sp_ClusterID (c_Spec c)) cs))) = (\<lambda>c. sp_ClusterID (c_Spec c)) ` set cs"
    using mset_eq_setD [OF assms, of "remdups (map (\<lambda>c. sp_ClusterID (c_Spec c)) cs)"] by simp
  moreover have "i \<in> (\<lambda>c. sp_ClusterID (c_Spec c)) ` set cs" if "clusters_loop cs Map.empty i = Some c" for i c
    using clusters_loop_sound [OF that] by auto
  ultimately show ?thesis by (force simp: range_clusters_def List.map_filter_def ran_def image_iff)
qed

definition local_writes :: "call \<Rightarrow> bool" where
  "local_writes c \<longleftrightarrow> write_site c \<in> {None, Some LocalSite}"

lemma SetCondition_local: "extends local_writes h (snd (SetCondition X conds c h))"
proof -
  obtain conds' h' where s: "SetCondition X conds c h = (conds', h')" by fastforce
  from extends_mono [OF SetCondition_effect(3) [OF this]] s show ?thesis by (auto simp: local_writes_def)
qed

lemma detect_loop_history:
  assumes "\<forall>f \<in> set fs. \<forall>h. snd (f node h) = h"
  shows "snd (detect_loop X unknown fs node h) = h"
  using assms
proof (induction fs arbitrary: h)
  case (Cons f fs)
  obtain a h' where f: "f node h = (a, h')" by fastforce
  then have "h' = h" using Cons.prems by (metis list.set_intros(1) snd_conv)
  with f Cons show ?case by (auto split: option.split sum.split prod.split)
qed simp

lemma DetectProvider_history: "snd (DetectProvider X s (Some n) h) = h"
  unfolding DetectProvider_def
  by (rule detect_loop_history)
    (auto simp: knownProviders_def IsAmazon_def IsAzure_def IsGoogle_def IsVsphere_def IsKind_def IsCisco_def
      provider_detector_def detectNodeByProviderID_node split: sum.split)

lemma require_provider_history: "snd (require_provider X s p d n h) = h"
  using DetectProvider_history [of X s n h]
  by (auto simp: require_provider_def split: prod.split option.split sum.split)

lemma DetectDistribution_history: "snd (DetectDistribution X s (Some n) h) = h"
  unfolding DetectDistribution_def
  by (rule detect_loop_history)
    (auto simp: knownDistributions_def IsEKS_def IsPKE_def IsGKE_def IsAKS_def IsKIND_def IsIKS_def
      IsOpenShift_def with_node_def require_provider_history)

lemma metadata_of_history: "snd (metadata_of X s h) = h @ [ListNodes s]"
proof (cases "x_ListNodes X h s")
  case (Inr nodes)
  obtain p where p: "DetectProvider X s (Some (nodes ! 0)) (h @ [ListNodes s]) = (p, h @ [ListNodes s])"
    using DetectProvider_history by (metis prod.collapse)
  obtain d where d: "DetectDistribution X s (Some (nodes ! 0)) (h @ [ListNodes s]) = (d, h @ [ListNodes s])"
    using DetectDistribution_history by (metis prod.collapse)
  from Inr p d show ?thesis
    by (simp add: metadata_of_def GetClusterMetadata_def listNodes_def split: option.split sum.split)
qed (simp add: metadata_of_def GetClusterMetadata_def listNodes_def)

lemma syncClusters_local: "extends local_writes h (snd (syncClusters X r h))"
  by (auto simp: syncClusters_def GetClusters_range_def GetClusters_def listClusters_def extends_def local_writes_def
      split: sum.split)

lemma UpdateCluster_local: "extends local_writes h (snd (snd (UpdateCluster X e LocalSite cluster conds h)))"
proof -
  have u: "extends local_writes h (snd (UpdateClusterStatus X LocalSite c h))" for c
    by (rule extends_mono [OF UpdateClusterStatus_calls]) (auto simp: local_writes_def split: call.splits)
  show ?thesis
  proof (cases e)
    case (Some e')
    then show ?thesis by (simp add: UpdateCluster_def Let_def u)
  next
    case None
    define c where "c = cluster\<lparr>c_Status := (c_Status cluster)\<lparr>st_Conditions :=
      status_conditions (st_Type (c_Status cluster)) conds\<rparr>\<rparr>"
    obtain e1 h1 where "UpdateClusterStatus X LocalSite c h = (e1, h1)" by fastforce
    with u [of c] None show ?thesis
      by (cases e1) (simp_all add: UpdateCluster_def Let_def c_def)
  qed
qed

lemma remote_reconcile_local:
  "extends local_writes h (snd (snd (snd (remote_reconcile X r cluster conds h))))"
proof (cases "rr_clusterID r = sp_ClusterID (c_Spec cluster)")
  case True
  let ?s = "RemoteSite (rr_name r)"
  have md: "extends local_writes h (h @ [ListNodes ?s])" by (simp add: local_writes_def)
  obtain a where a: "metadata_of X ?s h = (a, h @ [ListNodes ?s])" using metadata_of_history by (metis prod.collapse)
  show ?thesis
  proof (cases a)
    case (Inl e)
    obtain c1 h1 where 1: "SetCondition X conds (ClusterMetadataCondition X (Some e)) (h @ [ListNodes ?s]) = (c1, h1)"
      by fastforce
    have h1: "extends local_writes h h1" using extends_trans [OF md SetCondition_local] 1 by (metis snd_conv)
    from extends_trans [OF h1 SetCondition_local] True a Inl 1 show ?thesis
      by (simp add: remote_reconcile_def Let_def split_beta)
  next
    case (Inr md0)
    obtain c1 h1 where 1: "SetCondition X conds (ClusterMetadataCondition X None) (h @ [ListNodes ?s]) = (c1, h1)"
      by fastforce
    have h1: "extends local_writes h h1" using extends_trans [OF md SetCondition_local] 1 by (metis snd_conv)
    from extends_trans [OF extends_trans [OF h1 syncClusters_local] SetCondition_local] True a Inr 1 show ?thesis
      by (simp add: remote_reconcile_def Let_def split_beta)
  qed
qed (simp add: remote_reconcile_def)

lemma remote_found_local: "extends local_writes h (snd (remote_found X r cluster h))"
proof -
  define c0 where "c0 = reset_status cluster"
  obtain e c conds h1 where r: "remote_reconcile X r c0 (GetCurrentConditions c0) h = (e, c, conds, h1)"
    by (metis prod_cases4)
  have h1: "extends local_writes h h1" using remote_reconcile_local r by (metis snd_conv)
  define p where "p = (case e of None \<Rightarrow> (conds, h1) | Some e \<Rightarrow> SetCondition X conds (ClustersSyncedCondition X (Some e)) h1)"
  have h2: "extends local_writes h (snd p)"
    using h1 extends_trans [OF h1 SetCondition_local] by (cases e) (simp_all add: p_def)
  obtain e3 c3 h3 where u: "UpdateCluster X e LocalSite c (fst p) (snd p) = (e3, c3, h3)" by (metis prod_cases3)
  then have "extends local_writes h h3" using extends_trans [OF h2 UpdateCluster_local] by (metis snd_conv)
  moreover have "snd (remote_found X r cluster h) = h3"
    using r u by (cases e; cases e3) (simp_all add: remote_found_def Let_def c0_def [symmetric] p_def split_beta)
  ultimately show ?thesis by simp
qed

subsection \<open>Properties\<close>

text \<open>
  C40. The status controller of a peer never writes to the peer: whatever it does in one
  reconcile, every write goes to the local API server.
\<close>

theorem remote_Reconcile_writes_locally:
  "extends (\<lambda>c. write_site c \<in> {None, Some LocalSite}) h (snd (snd (remote_Reconcile X r req h)))"
proof -
  obtain e r1 h1 where s: "remote_setClusterID X r h = (e, r1, h1)" by (metis prod_cases3)
  then have h1: "extends local_writes h h1"
    by (auto simp: remote_setClusterID_def GetClusterID_def getNamespace_def local_writes_def
        split: if_splits sum.splits)
  have h2: "extends local_writes h (h1 @ [GetCluster LocalSite req])"
    by (rule extends_snocI [OF h1]) (simp add: local_writes_def)
  have "extends local_writes h (snd (snd (remote_Reconcile X r req h)))"
    using h1 h2 extends_trans [OF h2 remote_found_local]
    by (auto simp: remote_Reconcile_def s getCluster_def split_beta Let_def split: option.split sum.split)
  then show ?thesis by (simp add: local_writes_def [abs_def])
qed

text \<open>
  C21. The synchronisation check of a peer reports no error exactly if both lists of clusters
  can be read and every local cluster (by ID; the last one listed counts) is known to the
  peer under the same name and is ready there.
\<close>

theorem syncClusters_spec:
  assumes order: "\<And>ks. mset (x_MapOrder X ks) = mset ks"
  shows "fst (syncClusters X r h) = None \<longleftrightarrow>
    (\<exists>ls rs. x_ListClusters X h LocalSite = Inr ls \<and>
       x_ListClusters X (h @ [ListClusters LocalSite]) (RemoteSite (rr_name r)) = Inr rs \<and>
       (\<forall>c \<in> ran (clusters_loop ls Map.empty). in_sync (clusters_loop rs Map.empty) c))"
proof -
  have "list_all P (range_clusters X ls) \<longleftrightarrow> (\<forall>c \<in> ran (clusters_loop ls Map.empty). P c)" for P ls
    by (simp add: list_all_iff set_range_clusters [OF order])
  then show ?thesis
    by (auto simp: syncClusters_def GetClusters_range_def GetClusters_def listClusters_def sync_loop_None
        split: sum.split)
qed

theorem syncClusters_spec_witness:
  "fst (syncClusters sample_ext (NewRemoteClusterReconciler ''peer'') []) = None"
proof -
  have "\<And>ks. mset (x_MapOrder sample_ext ks) = mset ks" by (simp add: sample_ext_def)
  from syncClusters_spec [OF this, of "NewRemoteClusterReconciler ''peer''" "[]"] show ?thesis
    by (simp add: sample_ext_def)
qed

text \<open>
  C20. The feature controller drives the feature gate. A feature resource that is gone removes the
  feature under the identifier of the request; one that is there adds it, provided that no
  feature is stored under this identifier that differs from it; either way the gate's contract
  is kept, and controllers then are active exactly if their requirements are met. Where a
  feature is replaced by a different one, only the new feature is sure to be stored, and active
  controllers stay active. When the resource cannot be read, nothing changes and the error is
  returned.
\<close>

theorem feature_Reconcile_refines:
  assumes inv: "gate_inv X c" and r: "feature_Reconcile X req c h = (res, c', h')"
    and id: "i = x_RequestString X req"
  shows "case x_GetFeature X h (RemoteSite (cl_name c)) req of
      Inl e \<Rightarrow>
        if x_IsNotFound X e
        then res = (result_zero, None) \<and> gate_inv X c' \<and>
          gate_abs c' = spec_step (GateRemoveFeature i) (gate_abs c) \<and>
          (\<forall>n. HasController c' n \<longleftrightarrow> spec_active X (gate_abs c') n)
        else snd res \<noteq> None \<and> c' = c
    | Inr f \<Rightarrow>
        let ft = NewClusterFeature i (cf_FeatureName f) (m_Labels f) in
        res = (result_zero, None) \<and>
        (if fst (gate_abs c) i = None \<or> fst (gate_abs c) i = Some ft
         then gate_inv X c' \<and> gate_abs c' = spec_step (GateAddFeature ft) (gate_abs c) \<and>
           (\<forall>n. HasController c' n \<longleftrightarrow> spec_active X (gate_abs c') n)
         else fst (gate_abs c') i = Some ft \<and> (\<forall>n. HasController c n \<longrightarrow> HasController c' n))"
proof -
  let ?h = "h @ [GetFeature (RemoteSite (cl_name c)) req]"
  have step: "gate_inv X d \<and> gate_abs d = spec_step x (gate_abs c) \<and>
      (\<forall>n. HasController d n \<longleftrightarrow> spec_active X (gate_abs d) n)"
    if "d = fst (gate_step X x (c, ?h))" "spec_ok X x (gate_abs c)" for d x
    using gate_step_gate [of X "(c, ?h)" x] inv that gate_inv_active [of X d] by auto
  show ?thesis
  proof (cases "x_GetFeature X h (RemoteSite (cl_name c)) req")
    case (Inl e)
    with r step [of c' "GateRemoveFeature i"] id show ?thesis
      by (auto simp: feature_Reconcile_def getFeature_def split: if_splits)
  next
    case (Inr f)
    let ?ft = "NewClusterFeature i (cf_FeatureName f) (m_Labels f)"
    have r': "res = (result_zero, None)" "c' = fst (AddFeature X ?ft c ?h)"
      using r Inr id by (auto simp: feature_Reconcile_def getFeature_def)
    have u: "f_UID ?ft = i" by (simp add: NewClusterFeature_def)
    have kept: "HasController c' n" if has: "HasController c n" for n
    proof -
      obtain ctrl where "GetController c n = Some ctrl" using has by (auto simp: HasController_def GetController_def)
      then have "GetController c' n = Some ctrl"
        using add_pending_loop_keeps_active [of "c\<lparr>cl_features := AList.update i ?ft (cl_features c)\<rparr>" n ctrl]
        by (simp add: r' AddFeature_def Let_def u GetController_def)
      then show ?thesis by (auto simp: HasController_def GetController_def)
    qed
    have "fst (gate_abs c') i = Some ?ft" by (simp add: r' gate_abs_def AddFeature_features u)
    with Inr r' kept step [of c' "GateAddFeature ?ft"] show ?thesis by (simp add: Let_def u)
  qed
qed

text \<open>The peer gets the feature that a pending controller needs, and loses it again.\<close>

definition waiting_cluster :: clusters_Cluster where
  "waiting_cluster = fst (gate_step sample_ext (GateAddController gate_controller) (NewCluster ''peer'' [], []))"

definition mesh_feature :: ClusterFeatureCR where
  "mesh_feature = \<lparr>m_Name = ''f'', m_Namespace = '''', m_Labels = Map.empty, m_Annotations = Map.empty,
     m_UID = '''', m_ResourceVersion = '''', m_Generation = 0, m_SelfLink = '''', m_CreationTimestamp = 0,
     m_DeletionTimestamp = 0, m_Finalizers = [], m_OwnerReferences = [], m_ManagedFields = [],
     cf_FeatureName = ''mesh''\<rparr>"

definition mesh_ext :: ext where
  "mesh_ext = sample_ext\<lparr>x_GetFeature := \<lambda>h _ _. if h = [] then Inr mesh_feature else Inl not_found\<rparr>"

theorem feature_Reconcile_refines_witness:
  "\<not> HasController waiting_cluster ''sync'' \<and>
   (let c = fst (snd (feature_Reconcile mesh_ext (by_name ''f'') waiting_cluster [])) in
    HasController c ''sync'' \<and>
    \<not> HasController (fst (snd (feature_Reconcile mesh_ext (by_name ''f'') c [ListRules]))) ''sync'')"
proof -
  let ?i = "x_RequestString mesh_ext (by_name ''f'')" let ?ft = "NewClusterFeature ?i ''mesh'' Map.empty"
  let ?R = "[''sync'' \<mapsto> registration gate_controller]"
  have x: "x_GetFeature mesh_ext h s n = (if h = [] then Inr mesh_feature else Inl not_found)"
    "x_IsNotFound mesh_ext not_found" "cf_FeatureName mesh_feature = ''mesh''" "m_Labels mesh_feature = Map.empty" for h s n
    by (simp_all add: mesh_ext_def sample_ext_def mesh_feature_def not_found_def)
  have s: "spec_active mesh_ext (F, ?R) ''sync'' \<longleftrightarrow> (\<exists>u f. F u = Some f \<and> f_Name f = ''mesh'')" for F
    by (simp add: spec_active_def gate_sample_defs registration_def features_meet_def meets_def) metis
  have "waiting_cluster = fst (gate_step mesh_ext (GateAddController gate_controller) (NewCluster ''peer'' [], []))"
    by (simp add: waiting_cluster_def AddController_def checkRequiredClusterFeatures_def NewCluster_def gate_sample_defs)
  then have w: "gate_inv mesh_ext waiting_cluster" "gate_abs waiting_cluster = (Map.empty, ?R)"
    using gate_step_gate [of mesh_ext "(NewCluster ''peer'' [], [])" "GateAddController gate_controller"]
    by (simp_all add: spec_active_def) (simp add: gate_sample_defs)
  obtain res c h where 1: "feature_Reconcile mesh_ext (by_name ''f'') waiting_cluster [] = (res, c, h)"
    by (metis prod_cases3)
  have c: "gate_inv mesh_ext c" "gate_abs c = ([?i \<mapsto> ?ft], ?R)"
    "HasController c ''sync'' \<longleftrightarrow> spec_active mesh_ext (gate_abs c) ''sync''"
    using feature_Reconcile_refines [OF w(1) 1 refl] by (simp_all add: x w(2) Let_def NewClusterFeature_def)
  obtain res2 d h2 where 2: "feature_Reconcile mesh_ext (by_name ''f'') c [ListRules] = (res2, d, h2)"
    by (metis prod_cases3)
  have "gate_abs d = (Map.empty, ?R)" "HasController d ''sync'' \<longleftrightarrow> spec_active mesh_ext (gate_abs d) ''sync''"
    using feature_Reconcile_refines [OF c(1) 2 refl] by (simp_all add: x c(2) Let_def)
  moreover have "HasController c ''sync''" by (simp add: c s NewClusterFeature_def)
  moreover have "\<not> HasController waiting_cluster ''sync''" using gate_inv_active [OF w(1)] by (simp add: w(2) s)
  ultimately show ?thesis by (simp add: 1 2 s)
qed

end
