(* ===== verification/Cert.thy ===== *)
theory Cert
  imports Samples "HOL-Library.Multiset"
begin

text \<open>
  Certificates (src/pkg/cert/certificate.go). A byte
  slice is a string option, whose None is the nil slice; a pointer to a certificate or to a
  renewer is an option as well. The cryptographic packages and the file system are parameters.
\<close>

subsection \<open>Paths\<close>

text \<open>path.Join of a directory and a file name: the cleaned path of the two parts.\<close>

fun split_slash :: "string \<Rightarrow> string \<Rightarrow> string list" where
  "split_slash acc [] = [acc]"
| "split_slash acc (c # cs) = (if c = CHR ''/'' then acc # split_slash [] cs else split_slash (acc @ [c]) cs)"

fun clean_loop :: "bool \<Rightarrow> string list \<Rightarrow> string list \<Rightarrow> string list" where
  "clean_loop rooted out [] = out"
| "clean_loop rooted out (p # ps) =
     (if p = '''' \<or> p = ''.'' then clean_loop rooted out ps
      else if p = ''..'' then
        if out \<noteq> [] \<and> last out \<noteq> ''..'' then clean_loop rooted (butlast out) ps
        else if rooted then clean_loop rooted out ps
        else clean_loop rooted (out @ [''..'']) ps
      else clean_loop rooted (out @ [p]) ps)"

definition join_slash :: "string list \<Rightarrow> string" where
  "join_slash ps = (if ps = [] then '''' else concat (map (\<lambda>p. p @ ''/'') (butlast ps)) @ last ps)"

definition path_Clean :: "string \<Rightarrow> string" where
  "path_Clean s =
     (let rooted = (s \<noteq> '''' \<and> hd s = CHR ''/'');
          r = (if rooted then ''/'' else '''') @ join_slash (clean_loop rooted [] (split_slash [] s))
      in if r = '''' then ''.'' else r)"

definition path_Join :: "string \<Rightarrow> string \<Rightarrow> string" where
  "path_Join dir name =
     (if dir = '''' then (if name = '''' then '''' else path_Clean name)
      else if name = '''' then path_Clean dir else path_Clean (dir @ ''/'' @ name))"

subsection \<open>Certificates\<close>

definition caCertificateFileName :: string where "caCertificateFileName = ''ca.crt''"
definition caPrivateKeyFileName :: string where "caPrivateKeyFileName = ''ca.key''"
definition serverCertificateFileName :: string where "serverCertificateFileName = ''tls.crt''"
definition serverPrivateKeyFileName :: string where "serverPrivateKeyFileName = ''tls.key''"

record Certificate =
  crt_CACertificate :: "string option"
  crt_CAPrivateKey :: "string option"
  crt_ServerCertificate :: "string option"
  crt_ServerPrivateKey :: "string option"

definition generateKey :: "ext \<Rightarrow> nat \<Rightarrow> history \<Rightarrow> string result \<times> history" where
  "generateKey X n h = (x_GenerateKey X h n, h @ [GenerateKey n])"

definition common_name :: "string list \<Rightarrow> string" where
  "common_name dnsNames = (case dnsNames of [] \<Rightarrow> ''unspecified'' | d # _ \<Rightarrow> d)"

definition ca_configuration :: "ext \<Rightarrow> string list \<Rightarrow> history \<Rightarrow> x509_Certificate" where
  "ca_configuration X dnsNames h =
     \<lparr>xc_DNSNames = [], xc_SerialNumber = 2020, xc_CommonName = common_name dnsNames,
      xc_NotBefore = x_Now X h, xc_NotAfter = x_AddDate X (x_Now X h) 1 0 0, xc_IsCA = True,
      xc_BasicConstraintsValid = True, xc_SubjectKeyId = [],
      xc_ExtKeyUsage = [''ClientAuth'', ''ServerAuth''], xc_KeyUsage = [''DigitalSignature'', ''CertSign'']\<rparr>"

definition server_configuration :: "ext \<Rightarrow> string list \<Rightarrow> history \<Rightarrow> x509_Certificate" where
  "server_configuration X dnsNames h =
     \<lparr>xc_DNSNames = dnsNames, xc_SerialNumber = 1658, xc_CommonName = common_name dnsNames,
      xc_NotBefore = x_Now X h, xc_NotAfter = x_AddDate X (x_Now X h) 1 0 0, xc_IsCA = False,
      xc_BasicConstraintsValid = False, xc_SubjectKeyId = [1, 2, 3, 4, 6],
      xc_ExtKeyUsage = [''ClientAuth'', ''ServerAuth''], xc_KeyUsage = [''DigitalSignature'']\<rparr>"

text \<open>
  The server part of a certificate, signed by the authority. When a block cannot be encoded,
  the code wraps the last error, which is nil there, so it returns neither a certificate nor
  an error.
\<close>

definition server_certificate ::
  "ext \<Rightarrow> string list \<Rightarrow> x509_Certificate \<Rightarrow> string \<Rightarrow> Certificate \<Rightarrow> history
    \<Rightarrow> Certificate option result \<times> history" where
  "server_certificate X dnsNames ca caKey crt h =
     (case generateKey X 4096 h of
        (Inl e, h1) \<Rightarrow> (Inl (x_Wrap X e ''generating server private key failed''), h1)
      | (Inr key, h1) \<Rightarrow>
          (case x_PemEncode X ''RSA PRIVATE KEY'' (x_MarshalPrivateKey X key) of
             None \<Rightarrow> (Inr None, h1)
           | Some kp \<Rightarrow>
               (case x_CreateCertificate X (server_configuration X dnsNames h1) ca (x_PublicKey X key) caKey of
                  Inl e \<Rightarrow> (Inl (x_Wrap X e ''creating server certificate failed''), h1)
                | Inr b \<Rightarrow>
                    (case x_PemEncode X ''CERTIFICATE'' b of
                       None \<Rightarrow> (Inr None, h1)
                     | Some cp \<Rightarrow>
                         (Inr (Some (crt\<lparr>crt_ServerCertificate := Some cp, crt_ServerPrivateKey := Some kp\<rparr>)), h1)))))"

definition NewCertificate :: "ext \<Rightarrow> string list \<Rightarrow> history \<Rightarrow> Certificate option result \<times> history" where
  "NewCertificate X dnsNames h =
     (case generateKey X 2048 h of
        (Inl e, h1) \<Rightarrow> (Inl (x_Wrap X e ''generating CA private key failed''), h1)
      | (Inr key, h1) \<Rightarrow>
          (case x_PemEncode X ''RSA PRIVATE KEY'' (x_MarshalPrivateKey X key) of
             None \<Rightarrow> (Inr None, h1)
           | Some kp \<Rightarrow>
               let ca = ca_configuration X dnsNames h1 in
               (case x_CreateCertificate X ca ca (x_PublicKey X key) key of
                  Inl e \<Rightarrow> (Inl (x_Wrap X e ''creating CA certificate failed''), h1)
                | Inr b \<Rightarrow>
                    (case x_PemEncode X ''CERTIFICATE'' b of
                       None \<Rightarrow> (Inr None, h1)
                     | Some cp \<Rightarrow>
                         server_certificate X dnsNames ca key
                           \<lparr>crt_CACertificate = Some cp, crt_CAPrivateKey = Some kp,
                            crt_ServerCertificate = None, crt_ServerPrivateKey = None\<rparr> h1))))"

subsection \<open>Reading and writing\<close>

definition certificate_files :: "string list" where
  "certificate_files =
     [caCertificateFileName, caPrivateKeyFileName, serverCertificateFileName, serverPrivateKeyFileName]"

definition readFile :: "ext \<Rightarrow> string \<Rightarrow> history \<Rightarrow> string result \<times> history" where
  "readFile X p h = (x_ReadFile X h p, h @ [ReadFile p])"

definition writeFile :: "ext \<Rightarrow> string \<Rightarrow> string option \<Rightarrow> history \<Rightarrow> gerror option \<times> history" where
  "writeFile X p content h =
     (let s = (case content of None \<Rightarrow> '''' | Some s \<Rightarrow> s) in (x_WriteFile X h p s, h @ [WriteFile p s]))"

fun read_loop ::
  "ext \<Rightarrow> string \<Rightarrow> string list \<Rightarrow> (string \<rightharpoonup> string) \<Rightarrow> gerror list \<Rightarrow> history
    \<Rightarrow> (string \<rightharpoonup> string) \<times> gerror list \<times> history" where
  "read_loop X dir [] contents errs h = (contents, errs, h)"
| "read_loop X dir (f # fs) contents errs h =
     (case readFile X (path_Join dir f) h of
        (Inl e, h1) \<Rightarrow>
          read_loop X dir fs (contents(f := None))
            (errs @ [x_WithDetails X (x_Wrap X e ''reading certificate file failed'')]) h1
      | (Inr s, h1) \<Rightarrow> read_loop X dir fs (contents(f \<mapsto> s)) errs h1)"

definition NewCertificateFromFileContents :: "(string \<rightharpoonup> string) \<Rightarrow> Certificate" where
  "NewCertificateFromFileContents contents =
     \<lparr>crt_CACertificate = contents caCertificateFileName,
      crt_CAPrivateKey = contents caPrivateKeyFileName,
      crt_ServerCertificate = contents serverCertificateFileName,
      crt_ServerPrivateKey = contents serverPrivateKeyFileName\<rparr>"

definition NewCertificateFromDirectory :: "ext \<Rightarrow> string \<Rightarrow> history \<Rightarrow> Certificate result \<times> history" where
  "NewCertificateFromDirectory X dir h =
     (case read_loop X dir (x_MapOrder X certificate_files) Map.empty [] h of
        (contents, errs, h1) \<Rightarrow>
          if errs \<noteq> [] then (Inl (x_Combine X errs), h1)
          else (Inr (NewCertificateFromFileContents contents), h1))"

definition file_content :: "Certificate \<Rightarrow> string \<Rightarrow> string option" where
  "file_content crt f =
     (if f = caCertificateFileName then crt_CACertificate crt
      else if f = caPrivateKeyFileName then crt_CAPrivateKey crt
      else if f = serverCertificateFileName then crt_ServerCertificate crt
      else if f = serverPrivateKeyFileName then crt_ServerPrivateKey crt else None)"

fun write_loop ::
  "ext \<Rightarrow> string \<Rightarrow> Certificate \<Rightarrow> string list \<Rightarrow> history \<Rightarrow> gerror option \<times> history" where
  "write_loop X dir crt [] h = (None, h)"
| "write_loop X dir crt (f # fs) h =
     (case writeFile X (path_Join dir f) (file_content crt f) h of
        (Some e, h1) \<Rightarrow> (Some (x_WithDetails X (x_Wrap X e ''writing certificate file failed'')), h1)
      | (None, h1) \<Rightarrow> write_loop X dir crt fs h1)"

definition Certificate_Write :: "ext \<Rightarrow> string \<Rightarrow> Certificate option \<Rightarrow> history \<Rightarrow> gerror option \<times> history" where
  "Certificate_Write X dir crt h =
     (case crt of
        None \<Rightarrow> (Some (ErrorString ''invalid nil certificate''), h)
      | Some c \<Rightarrow>
          (case x_MkdirAll X h dir of
             Some e \<Rightarrow> (Some (x_WithDetails X (x_Wrap X e ''creating directory path failed'')), h @ [MkdirAll dir])
           | None \<Rightarrow> write_loop X dir c (x_MapOrder X certificate_files) (h @ [MkdirAll dir])))"

definition Verify :: "ext \<Rightarrow> Certificate option \<Rightarrow> string \<Rightarrow> nat \<Rightarrow> bool" where
  "Verify X certificate dnsName checkTime =
     (case certificate of
        None \<Rightarrow> False
      | Some c \<Rightarrow>
          (case (crt_CACertificate c, crt_ServerPrivateKey c, crt_ServerCertificate c) of
             (Some ca, Some key, Some crt) \<Rightarrow>
               if x_X509KeyPair X crt key \<noteq> None then False
               else if \<not> x_AppendCertsFromPEM X ca then False
               else (case x_PemDecode X crt of
                       None \<Rightarrow> False
                     | Some b \<Rightarrow>
                         if x_ParseCertificate X b \<noteq> None then False
                         else x_VerifyCertificate X b ca dnsName checkTime = None)
           | _ \<Rightarrow> False))"

subsection \<open>Lemmas on paths\<close>

definition plain_name :: "string \<Rightarrow> bool" where
  "plain_name f \<longleftrightarrow> CHR ''/'' \<notin> set f \<and> f \<noteq> '''' \<and> f \<noteq> ''.'' \<and> f \<noteq> ''..''"

lemma split_slash_append: "split_slash acc (s @ CHR ''/'' # f) = split_slash acc s @ split_slash [] f"
  by (induction acc s rule: split_slash.induct) simp_all

lemma split_slash_plain: "CHR ''/'' \<notin> set f \<Longrightarrow> split_slash acc f = [acc @ f]"
  by (induction f arbitrary: acc) auto

lemma clean_loop_snoc: "plain_name f \<Longrightarrow> clean_loop r out (ps @ [f]) = clean_loop r out ps @ [f]"
  by (induction r out ps rule: clean_loop.induct) (auto simp: plain_name_def)

lemma path_Join_plain:
  obtains pre where "\<And>f. plain_name f \<Longrightarrow> path_Join dir f = pre @ f"
proof (cases "dir = ''''")
  case True
  have "path_Join dir g = [] @ g" if "plain_name g" for g
  proof -
    have "hd g \<noteq> CHR ''/''" using that by (cases g) (auto simp: plain_name_def)
    then show ?thesis
      using that clean_loop_snoc [OF that, of False "[]" "[]"]
      by (simp add: True path_Join_def path_Clean_def split_slash_plain plain_name_def join_slash_def Let_def)
  qed
  then show ?thesis by (rule that)
next
  case False
  define r where "r = (hd dir = CHR ''/'')"
  define cs where "cs = clean_loop r [] (split_slash [] dir)"
  have "path_Join dir g = ((if r then ''/'' else []) @ concat (map (\<lambda>p. p @ ''/'') cs)) @ g" if g: "plain_name g" for g
  proof -
    have "clean_loop r [] (split_slash [] (dir @ CHR ''/'' # g)) = cs @ [g]"
      using clean_loop_snoc [OF g] g
      by (simp add: split_slash_append split_slash_plain plain_name_def cs_def)
    then show ?thesis
      using False g by (auto simp: path_Join_def path_Clean_def join_slash_def r_def plain_name_def Let_def)
  qed
  then show ?thesis by (rule that)
qed

lemma path_Join_inject:
  assumes "plain_name f" "plain_name g"
  shows "path_Join dir f = path_Join dir g \<longleftrightarrow> f = g"
proof -
  obtain pre where "\<And>f. plain_name f \<Longrightarrow> path_Join dir f = pre @ f"
    using path_Join_plain by blast
  with assms show ?thesis by simp
qed

lemmas file_names =
  caCertificateFileName_def caPrivateKeyFileName_def serverCertificateFileName_def
  serverPrivateKeyFileName_def

lemma certificate_files_plain: "f \<in> set certificate_files \<Longrightarrow> plain_name f"
  by (auto simp: certificate_files_def file_names plain_name_def)

lemma certificate_files_distinct: "distinct certificate_files"
  by (simp add: certificate_files_def file_names)

subsection \<open>Files written and read back\<close>

text \<open>The file system keeps what was written to a path until the next write to it.\<close>

definition file_system :: "ext \<Rightarrow> bool" where
  "file_system X \<longleftrightarrow>
     (\<forall>h p s h'. x_WriteFile X h p s = None \<longrightarrow> list_all (\<lambda>c. \<forall>t. c \<noteq> WriteFile p t) h' \<longrightarrow>
        x_ReadFile X (h @ WriteFile p s # h') p = Inr s)"

definition written :: "ext \<Rightarrow> string \<Rightarrow> string \<Rightarrow> history \<Rightarrow> bool" where
  "written X p s h \<longleftrightarrow>
     (\<exists>h1 h2. h = h1 @ WriteFile p s # h2 \<and> x_WriteFile X h1 p s = None \<and>
        list_all (\<lambda>c. \<forall>t. c \<noteq> WriteFile p t) h2)"

lemma written_append:
  "written X p s h \<Longrightarrow> list_all (\<lambda>c. \<forall>t. c \<noteq> WriteFile p t) h' \<Longrightarrow> written X p s (h @ h')"
  unfolding written_def by fastforce

lemma written_read: "file_system X \<Longrightarrow> written X p s h \<Longrightarrow> x_ReadFile X h p = Inr s"
  by (auto simp: written_def file_system_def)

lemma write_loop_keeps:
  "write_loop X dir crt fs h = (e, h') \<Longrightarrow> p \<notin> path_Join dir ` set fs \<Longrightarrow> written X p s h \<Longrightarrow> written X p s h'"
proof (induction fs arbitrary: h)
  case (Cons f fs)
  obtain e1 h1 where w: "writeFile X (path_Join dir f) (file_content crt f) h = (e1, h1)" by fastforce
  have "written X p s h1"
    using written_append [OF Cons.prems(3), of "[WriteFile (path_Join dir f) t]" for t] w Cons.prems(2)
    by (auto simp: writeFile_def Let_def)
  with Cons w show ?case by (cases e1) auto
qed simp

lemma write_loop_written:
  assumes "write_loop X dir crt fs h = (None, h')" and "distinct fs" and "\<forall>f \<in> set fs. plain_name f"
    and "f \<in> set fs" and "file_content crt f = Some s"
  shows "written X (path_Join dir f) s h'"
  using assms
proof (induction fs arbitrary: h)
  case (Cons g fs)
  obtain h1 where w: "writeFile X (path_Join dir g) (file_content crt g) h = (None, h1)"
    and l: "write_loop X dir crt fs h1 = (None, h')"
    using Cons.prems(1) by (auto split: prod.splits option.splits)
  show ?case
  proof (cases "f = g")
    case True
    have "written X (path_Join dir f) s h1"
      using w Cons.prems(5)
      unfolding written_def by (intro exI [of _ h] exI [of _ "[]"]) (auto simp: writeFile_def True Let_def)
    moreover have "path_Join dir f \<notin> path_Join dir ` set fs"
      using Cons.prems(2,3) True path_Join_inject by fastforce
    ultimately show ?thesis using write_loop_keeps [OF l] by blast
  next
    case False
    then show ?thesis using Cons.IH [OF l] Cons.prems by simp
  qed
qed simp

lemma read_loop_written:
  assumes "file_system X"
    and "\<forall>f \<in> set fs. written X (path_Join dir f) (the (g f)) h \<and> g f \<noteq> None"
  shows "\<exists>h'. read_loop X dir fs m errs h = (\<lambda>f. if f \<in> set fs then g f else m f, errs, h')"
  using assms(2)
proof (induction fs arbitrary: m h)
  case (Cons f fs)
  let ?h = "h @ [ReadFile (path_Join dir f)]"
  have r: "x_ReadFile X h (path_Join dir f) = Inr (the (g f))"
    using written_read [OF assms(1)] Cons.prems by simp
  have "\<forall>k \<in> set fs. written X (path_Join dir k) (the (g k)) ?h \<and> g k \<noteq> None"
    using Cons.prems written_append by simp
  from Cons.IH [OF this, of "m(f \<mapsto> the (g f))"] obtain h' where
    i: "read_loop X dir fs (m(f \<mapsto> the (g f))) errs ?h =
      (\<lambda>k. if k \<in> set fs then g k else (m(f \<mapsto> the (g f))) k, errs, h')" by blast
  have "(\<lambda>k. if k \<in> set fs then g k else (m(f \<mapsto> the (g f))) k) =
      (\<lambda>k. if k \<in> set (f # fs) then g k else m k)"
    using Cons.prems by auto
  with i show ?case by (auto simp: readFile_def r)
qed simp

lemma order_files:
  assumes "\<And>ks. mset (x_MapOrder X ks) = mset ks"
  shows "set (x_MapOrder X certificate_files) = set certificate_files"
    and "distinct (x_MapOrder X certificate_files)"
  using assms [of certificate_files] certificate_files_distinct
  by (metis set_mset_mset, metis distinct_count_atmost_1 set_mset_mset)

text \<open>A certificate with a content for each of its files.\<close>

definition complete :: "Certificate \<Rightarrow> bool" where
  "complete crt \<longleftrightarrow> list_all (\<lambda>f. file_content crt f \<noteq> None) certificate_files"

lemma file_content_contents:
  "NewCertificateFromFileContents (\<lambda>f. if f \<in> set certificate_files then file_content crt f else m f) = crt"
  by (simp add: NewCertificateFromFileContents_def file_content_def certificate_files_def file_names)

lemma directory_roundtrip:
  assumes "file_system X" and "\<And>ks. mset (x_MapOrder X ks) = mset ks"
    and "complete crt" and "Certificate_Write X dir (Some crt) h = (None, h')"
  shows "\<exists>h2. NewCertificateFromDirectory X dir h' = (Inr crt, h2)"
proof -
  have l: "write_loop X dir crt (x_MapOrder X certificate_files) (h @ [MkdirAll dir]) = (None, h')"
    using assms(4) by (auto simp: Certificate_Write_def split: option.splits)
  have "\<forall>f \<in> set (x_MapOrder X certificate_files).
      written X (path_Join dir f) (the (file_content crt f)) h' \<and> file_content crt f \<noteq> None"
    using write_loop_written [OF l order_files(2) [OF assms(2)]] assms(3) certificate_files_plain
    by (auto simp: order_files(1) [OF assms(2)] complete_def list_all_iff)
  from read_loop_written [OF assms(1) this, of Map.empty "[]"] show ?thesis
    using file_content_contents [of crt Map.empty]
    by (auto simp: NewCertificateFromDirectory_def order_files(1) [OF assms(2)])
qed

subsection \<open>New certificates\<close>

text \<open>
  What the code relies on in encoding/pem, crypto/tls and crypto/x509: decoding an encoded
  block gives its bytes; a created certificate can be parsed, goes with the private key of its
  public key and can be added to a pool; and a certificate signed by a self-signed authority
  verifies against the pool with this authority, for its DNS names, while both are valid. (The
  names are host names, such as those of services; crypto/x509 does not look for an IP literal
  among the DNS names.)
\<close>

definition x509_laws :: "ext \<Rightarrow> bool" where
  "x509_laws X \<longleftrightarrow>
     (\<forall>ty b p. x_PemEncode X ty b = Some p \<longrightarrow> x_PemDecode X p = Some b) \<and>
     (\<forall>tm pa key signer b p q. x_CreateCertificate X tm pa (x_PublicKey X key) signer = Inr b \<longrightarrow>
        x_PemEncode X ''CERTIFICATE'' b = Some p \<longrightarrow>
        x_PemEncode X ''RSA PRIVATE KEY'' (x_MarshalPrivateKey X key) = Some q \<longrightarrow>
        x_X509KeyPair X p q = None \<and> x_AppendCertsFromPEM X p \<and> x_ParseCertificate X b = None) \<and>
     (\<forall>ca key cb cp tm pub b dns t. x_CreateCertificate X ca ca (x_PublicKey X key) key = Inr cb \<longrightarrow>
        x_PemEncode X ''CERTIFICATE'' cb = Some cp \<longrightarrow> x_CreateCertificate X tm ca pub key = Inr b \<longrightarrow>
        xc_IsCA ca \<and> xc_BasicConstraintsValid ca \<and> ''CertSign'' \<in> set (xc_KeyUsage ca) \<and>
          ''ServerAuth'' \<in> set (xc_ExtKeyUsage ca) \<and> ''ServerAuth'' \<in> set (xc_ExtKeyUsage tm) \<longrightarrow>
        xc_NotBefore ca \<le> t \<and> t \<le> xc_NotAfter ca \<and> xc_NotBefore tm \<le> t \<and> t \<le> xc_NotAfter tm \<longrightarrow>
        dns \<in> set (xc_DNSNames tm) \<longrightarrow> x_VerifyCertificate X b cp dns t = None)"

lemma x509_lawsD:
  assumes "x509_laws X"
  shows "x_PemEncode X ty b = Some p \<Longrightarrow> x_PemDecode X p = Some b"
    and "x_CreateCertificate X tm pa (x_PublicKey X key) signer = Inr b \<Longrightarrow>
        x_PemEncode X ''CERTIFICATE'' b = Some p \<Longrightarrow>
        x_PemEncode X ''RSA PRIVATE KEY'' (x_MarshalPrivateKey X key) = Some q \<Longrightarrow>
        x_X509KeyPair X p q = None \<and> x_AppendCertsFromPEM X p \<and> x_ParseCertificate X b = None"
  using assms unfolding x509_laws_def by blast+

lemma NewCertificate_cases:
  assumes "NewCertificate X dnsNames h = (Inr (Some crt), h')"
  obtains key kp cb cp skey skp b p where
    "h' = h @ [GenerateKey 2048, GenerateKey 4096]"
    "x_PemEncode X ''RSA PRIVATE KEY'' (x_MarshalPrivateKey X key) = Some kp"
    "x_CreateCertificate X (ca_configuration X dnsNames (h @ [GenerateKey 2048]))
       (ca_configuration X dnsNames (h @ [GenerateKey 2048])) (x_PublicKey X key) key = Inr cb"
    "x_PemEncode X ''CERTIFICATE'' cb = Some cp"
    "x_PemEncode X ''RSA PRIVATE KEY'' (x_MarshalPrivateKey X skey) = Some skp"
    "x_CreateCertificate X (server_configuration X dnsNames h')
       (ca_configuration X dnsNames (h @ [GenerateKey 2048])) (x_PublicKey X skey) key = Inr b"
    "x_PemEncode X ''CERTIFICATE'' b = Some p"
    "crt = \<lparr>crt_CACertificate = Some cp, crt_CAPrivateKey = Some kp,
       crt_ServerCertificate = Some p, crt_ServerPrivateKey = Some skp\<rparr>"
  using assms
  by (auto simp: NewCertificate_def server_certificate_def generateKey_def Let_def
      split: sum.splits option.splits)

lemma NewCertificate_complete: "NewCertificate X dnsNames h = (Inr (Some crt), h') \<Longrightarrow> complete crt"
  by (erule NewCertificate_cases) (simp add: complete_def file_content_def certificate_files_def file_names)

lemma NewCertificate_verifies:
  assumes laws: "x509_laws X" and new: "NewCertificate X dnsNames h = (Inr (Some crt), h')"
    and dns: "d \<in> set dnsNames"
    and t: "\<And>k. k \<in> {h @ [GenerateKey 2048], h'} \<Longrightarrow> x_Now X k \<le> t \<and> t \<le> x_AddDate X (x_Now X k) 1 0 0"
  shows "Verify X (Some crt) d t"
  using new
proof (rule NewCertificate_cases)
  fix key kp cb cp skey skp b p
  let ?ca = "ca_configuration X dnsNames (h @ [GenerateKey 2048])"
  let ?tm = "server_configuration X dnsNames h'"
  assume c: "x_PemEncode X ''RSA PRIVATE KEY'' (x_MarshalPrivateKey X key) = Some kp"
      "x_CreateCertificate X ?ca ?ca (x_PublicKey X key) key = Inr cb"
      "x_PemEncode X ''CERTIFICATE'' cb = Some cp"
      "x_PemEncode X ''RSA PRIVATE KEY'' (x_MarshalPrivateKey X skey) = Some skp"
      "x_CreateCertificate X ?tm ?ca (x_PublicKey X skey) key = Inr b"
      "x_PemEncode X ''CERTIFICATE'' b = Some p"
    and crt: "crt = \<lparr>crt_CACertificate = Some cp, crt_CAPrivateKey = Some kp,
       crt_ServerCertificate = Some p, crt_ServerPrivateKey = Some skp\<rparr>"
  have ca: "x_AppendCertsFromPEM X cp" using x509_lawsD(2) [OF laws c(2,3,1)] by simp
  have server: "x_X509KeyPair X p skp = None \<and> x_ParseCertificate X b = None"
    using x509_lawsD(2) [OF laws c(5,6,4)] by simp
  have conf: "xc_IsCA ?ca \<and> xc_BasicConstraintsValid ?ca \<and> ''CertSign'' \<in> set (xc_KeyUsage ?ca) \<and>
      ''ServerAuth'' \<in> set (xc_ExtKeyUsage ?ca) \<and> ''ServerAuth'' \<in> set (xc_ExtKeyUsage ?tm)"
    "xc_NotBefore ?ca \<le> t \<and> t \<le> xc_NotAfter ?ca \<and> xc_NotBefore ?tm \<le> t \<and> t \<le> xc_NotAfter ?tm"
    "d \<in> set (xc_DNSNames ?tm)"
    using t dns by (simp_all add: ca_configuration_def server_configuration_def)
  have "x_VerifyCertificate X b cp d t = None"
    using laws c(2,3,5) conf unfolding x509_laws_def by blast
  with ca server x509_lawsD(1) [OF laws c(6)] show ?thesis by (simp add: Verify_def crt)
qed

end
