(* ===== verification/Renewal.thy ===== *)
theory Renewal
  imports Cert
begin

text \<open>
  The renewal of certificates (src/pkg/cert/renewer.go). The callbacks of a renewer change the
  state of the one who registered them, the type parameter of its record; a callback that
  dereferences nil has no result.
\<close>

type_synonym 's AfterCheckFunctionType =
  "Certificate option \<Rightarrow> bool \<Rightarrow> 's \<Rightarrow> history \<Rightarrow> (gerror option \<times> 's \<times> history) option"

record 's Renewer =
  rn_dnsNames :: "string list"
  rn_certificateDirectoryPath :: string
  rn_afterCheckFunctions :: "'s AfterCheckFunctionType list"

definition renewCertificate :: "ext \<Rightarrow> 's Renewer option \<Rightarrow> history \<Rightarrow> Certificate option result \<times> history" where
  "renewCertificate X renewer h =
     (case renewer of
        None \<Rightarrow> (Inl (ErrorString ''invalid nil renewer''), h)
      | Some r \<Rightarrow>
          (case NewCertificate X (rn_dnsNames r) h of
             (Inl e, h1) \<Rightarrow>
               (Inl (x_WithDetails X (x_Wrap X e ''creating new certificate for DNS names failed'')), h1)
           | (Inr crt, h1) \<Rightarrow>
               (case Certificate_Write X (rn_certificateDirectoryPath r) crt h1 of
                  (Some e, h2) \<Rightarrow>
                    (Inl (x_WithDetails X (x_Wrap X e ''writing renewed certificate to directory failed'')), h2)
                | (None, h2) \<Rightarrow> (Inr crt, h2))))"

fun verify_loop :: "ext \<Rightarrow> Certificate \<Rightarrow> nat \<Rightarrow> string list \<Rightarrow> bool" where
  "verify_loop X crt t [] = True"
| "verify_loop X crt t (d # ds) = (if \<not> Verify X (Some crt) d t then False else verify_loop X crt t ds)"

definition verifyCertificate ::
  "ext \<Rightarrow> 's Renewer option \<Rightarrow> history \<Rightarrow> bool \<times> Certificate option \<times> gerror option \<times> history" where
  "verifyCertificate X renewer h =
     (case renewer of
        None \<Rightarrow> (False, None, Some (ErrorString ''invalid nil renewer''), h)
      | Some r \<Rightarrow>
          (case NewCertificateFromDirectory X (rn_certificateDirectoryPath r) h of
             (Inl e, h1) \<Rightarrow>
               (False, None, Some (x_WithDetails X (x_Wrap X e ''loading certificate from directory failed'')), h1)
           | (Inr crt, h1) \<Rightarrow>
               let dnsNames = (if rn_dnsNames r = [] then [''''] else rn_dnsNames r) in
               (verify_loop X crt (x_AddDate X (x_Now X h1) 0 6 0) dnsNames, Some crt, None, h1)))"

fun after_loop ::
  "'s AfterCheckFunctionType list \<Rightarrow> Certificate option \<Rightarrow> bool \<Rightarrow> 's \<Rightarrow> history \<Rightarrow> ('s \<times> history) option" where
  "after_loop [] crt needsUpdate s h = Some (s, h)"
| "after_loop (f # fs) crt needsUpdate s h =
     (case f crt needsUpdate s h of
        None \<Rightarrow> None
      | Some (e, s1, h1) \<Rightarrow> after_loop fs crt needsUpdate s1 h1)"

text \<open>A failed renewal is only logged: the callbacks then get a nil certificate.\<close>

definition checkCertificate ::
  "ext \<Rightarrow> bool \<Rightarrow> 's Renewer option \<Rightarrow> 's \<Rightarrow> history \<Rightarrow> (gerror option \<times> 's \<times> history) option" where
  "checkCertificate X wasTriggered renewer s h =
     (case renewer of
        None \<Rightarrow> Some (Some (ErrorString ''invalid nil renewer''), s, h)
      | Some r \<Rightarrow>
          (case verifyCertificate X renewer h of
             (isValid, crt, e, h1) \<Rightarrow>
               let (crt, wasRenewed, h2) =
                 (if isValid then (crt, False, h1)
                  else case renewCertificate X renewer h1 of
                    (Inl e, h2) \<Rightarrow> (None, True, h2)
                  | (Inr c, h2) \<Rightarrow> (c, True, h2))
               in map_option (\<lambda>(s, h). (None, s, h))
                    (after_loop (rn_afterCheckFunctions r) crt (wasRenewed \<or> wasTriggered) s h2)))"

definition NewRenewer ::
  "ext \<Rightarrow> string list \<Rightarrow> string \<Rightarrow> bool \<Rightarrow> 's AfterCheckFunctionType list \<Rightarrow> 's \<Rightarrow> history
    \<Rightarrow> ('s Renewer result \<times> 's \<times> history) option" where
  "NewRenewer X dnsNames dir shouldCheckCertificate afterChecks s h =
     (let r = \<lparr>rn_dnsNames = dnsNames, rn_certificateDirectoryPath = dir, rn_afterCheckFunctions = afterChecks\<rparr> in
      if shouldCheckCertificate then
        (case checkCertificate X True (Some r) s h of
           None \<Rightarrow> None
         | Some (Some e, s1, h1) \<Rightarrow> Some (Inl (x_Wrap X e ''checking certificate failed''), s1, h1)
         | Some (None, s1, h1) \<Rightarrow> Some (Inr r, s1, h1))
      else Some (Inr r, s, h))"

definition WithAfterCheckFunctions ::
  "'s AfterCheckFunctionType list \<Rightarrow> 's Renewer option \<Rightarrow> 's Renewer option" where
  "WithAfterCheckFunctions fs renewer =
     map_option (\<lambda>r. r\<lparr>rn_afterCheckFunctions := rn_afterCheckFunctions r @ fs\<rparr>) renewer"

definition WithDNSNames :: "string list \<Rightarrow> 's Renewer option \<Rightarrow> 's Renewer option" where
  "WithDNSNames dnsNames renewer = map_option (\<lambda>r. r\<lparr>rn_dnsNames := dnsNames\<rparr>) renewer"

text \<open>
  The loop of Start, on the events its select receives in turn. It returns when the context is
  done; when the events are used up it still waits.
\<close>

datatype renewer_event = Triggered | Ticked | ContextDone

fun renewer_loop ::
  "ext \<Rightarrow> 's Renewer option \<Rightarrow> renewer_event list \<Rightarrow> 's \<Rightarrow> history \<Rightarrow> (bool \<times> 's \<times> history) option" where
  "renewer_loop X renewer [] s h = Some (False, s, h)"
| "renewer_loop X renewer (ContextDone # es) s h = Some (True, s, h)"
| "renewer_loop X renewer (Triggered # es) s h =
     (case checkCertificate X True renewer s h of
        None \<Rightarrow> None
      | Some (e, s1, h1) \<Rightarrow> renewer_loop X renewer es s1 h1)"
| "renewer_loop X renewer (Ticked # es) s h =
     (case checkCertificate X False renewer s h of
        None \<Rightarrow> None
      | Some (e, s1, h1) \<Rightarrow> renewer_loop X renewer es s1 h1)"

definition Renewer_Start ::
  "ext \<Rightarrow> 's Renewer option \<Rightarrow> renewer_event list \<Rightarrow> 's \<Rightarrow> history
    \<Rightarrow> ((gerror + bool) \<times> 's \<times> history) option" where
  "Renewer_Start X renewer es s h =
     (if renewer = None then Some (Inl (ErrorString ''invalid nil renewer''), s, h)
      else
        case checkCertificate X True renewer s h of
          None \<Rightarrow> None
        | Some (Some e, s1, h1) \<Rightarrow> Some (Inl (x_Wrap X e ''checking certificate failed''), s1, h1)
        | Some (None, s1, h1) \<Rightarrow>
            map_option (\<lambda>(b, s, h). (Inr b, s, h)) (renewer_loop X renewer es s1 h1))"

subsection \<open>Lemmas\<close>

lemma verify_loop_iff: "verify_loop X crt t ds \<longleftrightarrow> list_all (\<lambda>d. Verify X (Some crt) d t) ds"
  by (induction ds) simp_all

lemma renewCertificate_cases:
  assumes "renewCertificate X (Some r) h = (Inr (Some crt), h')"
  obtains h1 where "NewCertificate X (rn_dnsNames r) h = (Inr (Some crt), h1)"
    and "Certificate_Write X (rn_certificateDirectoryPath r) (Some crt) h1 = (None, h')"
  using assms by (auto simp: renewCertificate_def split: prod.splits sum.splits option.splits)

lemma renewed_has_certificate:
  assumes "renewCertificate X renewer h = (Inr c, h')"
  shows "c \<noteq> None"
  using assms by (auto simp: renewCertificate_def Certificate_Write_def split: prod.splits sum.splits option.splits)

lemma checkCertificate_no_error: "checkCertificate X b (Some r) s h = Some (e, s', h') \<Longrightarrow> e = None"
  by (auto simp: checkCertificate_def Let_def split: prod.splits if_splits sum.splits)

lemma Certificate_Write_extends: "Certificate_Write X dir crt h = (e, h') \<Longrightarrow> extends (\<lambda>_. True) h h'"
proof -
  have l: "extends (\<lambda>_. True) k k'" if "write_loop X dir c fs k = (e, k')" for c fs k k'
    using that
    by (induction fs arbitrary: k)
      (auto simp: writeFile_def Let_def extends_def split: option.splits, fastforce+)
  show "Certificate_Write X dir crt h = (e, h') \<Longrightarrow> extends (\<lambda>_. True) h h'"
    by (auto simp: Certificate_Write_def extends_def dest!: l split: option.splits)
qed

lemma directory_extends: "NewCertificateFromDirectory X dir h = (c, h') \<Longrightarrow> extends (\<lambda>_. True) h h'"
proof -
  have l: "extends (\<lambda>_. True) k k'" if "read_loop X dir fs m es k = (m', es', k')" for fs m es k m' es' k'
    using that
    by (induction fs arbitrary: m es k)
      (auto simp: readFile_def extends_def split: sum.splits, fastforce+)
  show "NewCertificateFromDirectory X dir h = (c, h') \<Longrightarrow> extends (\<lambda>_. True) h h'"
    by (auto simp: NewCertificateFromDirectory_def dest!: l split: prod.splits if_splits)
qed

subsection \<open>A concrete disk\<close>

text \<open>A disk whose files are the last ones written, and a clock that stands still.\<close>

definition written_by :: "call \<Rightarrow> string \<Rightarrow> string option" where
  "written_by c p = (case c of WriteFile q s \<Rightarrow> if q = p then Some s else None | _ \<Rightarrow> None)"

primrec disk_file :: "history \<Rightarrow> string \<Rightarrow> string option" where
  "disk_file [] p = None"
| "disk_file (c # h) p = (case disk_file h p of Some s \<Rightarrow> Some s | None \<Rightarrow> written_by c p)"

definition disk_read :: "history \<Rightarrow> string \<Rightarrow> string result" where
  "disk_read h p = (case disk_file h p of None \<Rightarrow> Inl (ErrorString ''no such file'') | Some s \<Rightarrow> Inr s)"

definition disk_ext :: ext where
  "disk_ext = sample_ext\<lparr>x_ReadFile := disk_read, x_Now := \<lambda>_. 5\<rparr>"

lemma disk_ext_simps [simp]:
  "x_ReadFile disk_ext = disk_read" "x_Now disk_ext = (\<lambda>_. 5)" "x_MapOrder disk_ext ks = ks"
  "x_WriteFile disk_ext = (\<lambda>_ _ _. None)" "x_MkdirAll disk_ext = (\<lambda>_ _. None)"
  "x_AddDate disk_ext t y m d = t + 31536000 * y + 2592000 * m + 86400 * d"
  by (simp_all add: disk_ext_def sample_ext_def)

lemma disk_crypto:
  "x_GenerateKey disk_ext = (\<lambda>_ n. Inr (if n = 2048 then ''key-2048'' else ''key''))"
  "x_PemEncode disk_ext = (\<lambda>_ b. Some b)" "x_CreateCertificate disk_ext = (\<lambda>_ _ p k. Inr (p @ ''/'' @ k))"
  by (simp_all add: disk_ext_def sample_ext_def)

lemma disk_file_append:
  "disk_file (h @ k) p = (case disk_file k p of Some s \<Rightarrow> Some s | None \<Rightarrow> disk_file h p)"
  by (induction h) (auto split: option.split)

lemma disk_file_unwritten: "list_all (\<lambda>c. \<forall>t. c \<noteq> WriteFile p t) h \<Longrightarrow> disk_file h p = None"
proof (induction h)
  case (Cons c h)
  then show ?case by (cases c) (auto simp: written_by_def)
qed simp

lemma disk_file_system: "file_system disk_ext"
  by (simp add: file_system_def disk_read_def disk_file_append disk_file_unwritten written_by_def)

lemma disk_x509: "x509_laws disk_ext"
  by (simp add: x509_laws_def disk_ext_def sample_ext_def)

lemma disk_writes: "fst (write_loop disk_ext dir crt fs h) = None"
  by (induction fs arbitrary: h) (simp_all add: writeFile_def Let_def)

lemma disk_Write: "fst (Certificate_Write disk_ext dir (Some crt) h) = None"
  by (simp add: Certificate_Write_def disk_writes)

subsection \<open>Properties\<close>

text \<open>
  A certificate that was written to a directory is read back from it as it was, for every
  order in which the files are written and read, when all its parts are present and the file
  system keeps what is written to a path.
\<close>

theorem certificate_roundtrip:
  assumes "file_system X" and "\<And>ks. mset (x_MapOrder X ks) = mset ks"
    and "complete crt" and "Certificate_Write X dir (Some crt) h = (None, h')"
  shows "\<exists>h2. NewCertificateFromDirectory X dir h' = (Inr crt, h2)"
  by (rule directory_roundtrip [OF assms])

definition sample_certificate :: Certificate where
  "sample_certificate =
     \<lparr>crt_CACertificate = Some ''ca'', crt_CAPrivateKey = Some ''key'',
      crt_ServerCertificate = Some ''crt'', crt_ServerPrivateKey = Some ''skey''\<rparr>"

theorem certificate_roundtrip_witness:
  "fst (NewCertificateFromDirectory disk_ext ''/tmp/certs''
     (snd (Certificate_Write disk_ext ''/tmp/certs'' (Some sample_certificate) []))) = Inr sample_certificate"
proof -
  obtain h' where w: "Certificate_Write disk_ext ''/tmp/certs'' (Some sample_certificate) [] = (None, h')"
    by (metis disk_Write prod.collapse)
  have "complete sample_certificate"
    by (simp add: complete_def sample_certificate_def file_content_def certificate_files_def file_names)
  with certificate_roundtrip [OF disk_file_system _ _ w] w show ?thesis by auto
qed

text \<open>
  C26. A renewed certificate is accepted by the next check: the certificate is read back from the
  directory as it was generated and, since it is valid for a year, verifies for every DNS name
  six months ahead. The hypotheses on time say that the steps of the renewal and of the check
  are less than six months apart.
\<close>

theorem renewed_certificate_valid:
  assumes laws: "file_system X" "x509_laws X" "\<And>ks. mset (x_MapOrder X ks) = mset ks"
    and r: "rn_dnsNames r \<noteq> []" "renewCertificate X (Some r) h = (Inr (Some crt), h')"
      "verifyCertificate X (Some r) h' = (valid, c, e, h2)"
    and time: "\<And>k. extends (\<lambda>_. True) h k \<Longrightarrow> extends (\<lambda>_. True) k h2 \<Longrightarrow>
        x_Now X k \<le> x_AddDate X (x_Now X h2) 0 6 0 \<and>
        x_AddDate X (x_Now X h2) 0 6 0 \<le> x_AddDate X (x_Now X k) 1 0 0"
  shows "valid \<and> c = Some crt \<and> e = None"
proof -
  obtain h1 where n: "NewCertificate X (rn_dnsNames r) h = (Inr (Some crt), h1)"
    and w: "Certificate_Write X (rn_certificateDirectoryPath r) (Some crt) h1 = (None, h')"
    using r(2) by (rule renewCertificate_cases)
  obtain k2 where d: "NewCertificateFromDirectory X (rn_certificateDirectoryPath r) h' = (Inr crt, k2)"
    using directory_roundtrip [OF laws(1,3) NewCertificate_complete [OF n] w] by blast
  then have k2: "k2 = h2" using r(3) by (simp add: verifyCertificate_def)
  have h1: "h1 = h @ [GenerateKey 2048, GenerateKey 4096]" using n by (rule NewCertificate_cases)
  have e: "extends (\<lambda>_. True) h1 h2"
    using extends_trans [OF Certificate_Write_extends [OF w] directory_extends [OF d]] k2 by simp
  have "x_Now X k \<le> x_AddDate X (x_Now X h2) 0 6 0 \<and>
      x_AddDate X (x_Now X h2) 0 6 0 \<le> x_AddDate X (x_Now X k) 1 0 0"
    if "k \<in> {h @ [GenerateKey 2048], h1}" for k
    using time [of k] that extends_trans [OF _ e, of k] by (auto simp: h1 extends_def)
  from NewCertificate_verifies [OF laws(2) n _ this]
  have "verify_loop X crt (x_AddDate X (x_Now X h2) 0 6 0) (rn_dnsNames r)"
    by (simp add: verify_loop_iff list_all_iff)
  then show ?thesis using d r(1,3) k2 by (simp add: verifyCertificate_def)
qed

theorem renewed_certificate_valid_witness:
  "\<exists>crt h. renewCertificate disk_ext (Some \<lparr>rn_dnsNames = [''a.b.svc''], rn_certificateDirectoryPath = ''/tmp/certs'',
       rn_afterCheckFunctions = [] :: unit AfterCheckFunctionType list\<rparr>) [] = (Inr (Some crt), h) \<and>
     fst (verifyCertificate disk_ext (Some \<lparr>rn_dnsNames = [''a.b.svc''], rn_certificateDirectoryPath = ''/tmp/certs'',
       rn_afterCheckFunctions = [] :: unit AfterCheckFunctionType list\<rparr>) h)"
proof -
  let ?r = "\<lparr>rn_dnsNames = [''a.b.svc''], rn_certificateDirectoryPath = ''/tmp/certs'',
    rn_afterCheckFunctions = [] :: unit AfterCheckFunctionType list\<rparr>"
  obtain crt h1 where c: "NewCertificate disk_ext [''a.b.svc''] [] = (Inr (Some crt), h1)"
    by (simp add: NewCertificate_def server_certificate_def generateKey_def disk_crypto Let_def)
  obtain h2 where "Certificate_Write disk_ext ''/tmp/certs'' (Some crt) h1 = (None, h2)"
    by (metis disk_Write prod.collapse)
  then have new: "\<exists>crt h. renewCertificate disk_ext (Some ?r) [] = (Inr (Some crt), h)"
    using c by (simp add: renewCertificate_def)
  obtain crt h where n: "renewCertificate disk_ext (Some ?r) [] = (Inr (Some crt), h)"
    using new by blast
  obtain v c e h2 where v: "verifyCertificate disk_ext (Some ?r) h = (v, c, e, h2)" by (metis prod_cases4)
  have "v \<and> c = Some crt \<and> e = None"
    by (rule renewed_certificate_valid [OF disk_file_system disk_x509 _ _ n v]) simp_all
  with n v show ?thesis by auto
qed

end
