(* ===== verification/Certifier.thy ===== *)
theory Certifier
  imports Renewal KubeconfigUtil
begin

text \<open>
  The certifier of the validating webhook (src/pkg/cert/webhook\_certifier.go): it loads the
  webhook configuration, has a renewer keep the server certificate valid, and writes the
  certificate of the authority into the configuration. A pointer to a configuration is an
  option; a nil dereference has the result None. The client's Update writes the server's
  answer into the stored configuration; the model keeps the configuration as it was sent.
\<close>

record WebhookCertifier =
  ce_webhookName :: string
  ce_webhookNamespace :: string
  ce_mutating :: "WebhookConfiguration option"
  ce_validating :: "WebhookConfiguration option"
  ce_webhookCertBundleReadyz :: bool

definition NewWebhookCertifier :: "string \<Rightarrow> string \<Rightarrow> bool \<Rightarrow> WebhookCertifier" where
  "NewWebhookCertifier name namespace ready =
     \<lparr>ce_webhookName = name, ce_webhookNamespace = namespace, ce_mutating = None,
      ce_validating = None, ce_webhookCertBundleReadyz = ready\<rparr>"

text \<open>The configuration the switch statements choose, and its update in place.\<close>

definition chosen :: "WebhookCertifier \<Rightarrow> WebhookConfiguration option" where
  "chosen ce = (case ce_mutating ce of Some w \<Rightarrow> Some w | None \<Rightarrow> ce_validating ce)"

definition put_chosen :: "WebhookConfiguration \<Rightarrow> WebhookCertifier \<Rightarrow> WebhookCertifier" where
  "put_chosen w ce =
     (if ce_mutating ce \<noteq> None then ce\<lparr>ce_mutating := Some w\<rparr> else ce\<lparr>ce_validating := Some w\<rparr>)"

definition chosen_kind :: "WebhookCertifier \<Rightarrow> webhook_kind" where
  "chosen_kind ce = (if ce_mutating ce \<noteq> None then MutatingWebhook else ValidatingWebhook)"

definition kind_name :: "webhook_kind \<Rightarrow> string" where
  "kind_name k =
     (case k of MutatingWebhook \<Rightarrow> ''MutatingWebhookConfiguration''
      | ValidatingWebhook \<Rightarrow> ''ValidatingWebhookConfiguration'')"

definition webhook_zero :: "webhook_kind \<Rightarrow> WebhookConfiguration" where
  "webhook_zero k = \<lparr>m_Name = '''', m_Namespace = '''', m_Labels = Map.empty, m_Annotations = Map.empty,
     m_UID = '''', m_ResourceVersion = '''', m_Generation = 0, m_SelfLink = '''',
     m_CreationTimestamp = 0, m_DeletionTimestamp = 0, m_Finalizers = [], m_OwnerReferences = [],
     m_ManagedFields = [], wc_Kind = k, wc_Webhooks = []\<rparr>"

definition webhook_key :: "WebhookCertifier \<Rightarrow> NamespacedName" where
  "webhook_key ce = \<lparr>nn_Name = ce_webhookName ce, nn_Namespace = ce_webhookNamespace ce\<rparr>"

text \<open>The DNS names of the webhooks' services; a webhook without a service is a nil dereference.\<close>

primrec dns_loop :: "Webhook list \<Rightarrow> string list option" where
  "dns_loop [] = Some []"
| "dns_loop (w # ws) =
     (case wh_Service w of
        None \<Rightarrow> None
      | Some (name, namespace) \<Rightarrow>
          map_option (Cons (name @ ''.'' @ namespace @ ''.svc'')) (dns_loop ws))"

definition dnsNames :: "WebhookCertifier \<Rightarrow> string list option" where
  "dnsNames ce = (case chosen ce of None \<Rightarrow> Some [] | Some w \<Rightarrow> dns_loop (wc_Webhooks w))"

text \<open>
  The first Get uses the name of the webhook as its namespace, too. After both failed, the
  pointer to the validating configuration points to an empty one.
\<close>

definition loadWebhookConfiguration ::
  "ext \<Rightarrow> WebhookCertifier \<Rightarrow> history \<Rightarrow> gerror option \<times> WebhookCertifier \<times> history" where
  "loadWebhookConfiguration X ce h =
     (case getWebhook X MutatingWebhook
             \<lparr>nn_Name = ce_webhookName ce, nn_Namespace = ce_webhookName ce\<rparr> h of
        (Inr w, h) \<Rightarrow> (None, ce\<lparr>ce_mutating := Some w\<rparr>, h)
      | (Inl mutatingErr, h) \<Rightarrow>
          (case getWebhook X ValidatingWebhook (webhook_key ce) h of
             (Inr w, h) \<Rightarrow> (None, ce\<lparr>ce_mutating := None, ce_validating := Some w\<rparr>, h)
           | (Inl validatingErr, h) \<Rightarrow>
               (Some (x_Wrap X (x_Combine X [mutatingErr, validatingErr])
                  ''retrieving webhook configuration failed for each known webhook type''),
                ce\<lparr>ce_mutating := None, ce_validating := Some (webhook_zero ValidatingWebhook)\<rparr>, h)))"

definition startWebhookConfigurationInformer ::
  "ext \<Rightarrow> WebhookCertifier \<Rightarrow> history \<Rightarrow> gerror option \<times> history" where
  "startWebhookConfigurationInformer X ce h =
     (if chosen ce = None
      then (Some (ErrorString ''invalid certifier, all known webhook configurations are nil''), h)
      else
        let kind = kind_name (chosen_kind ce); h1 = h @ [InitInformer kind] in
        case x_GetInformer X h kind of
          Some e \<Rightarrow> (Some (x_Wrap X e ''retrieving informer for webhook failed''), h1)
        | None \<Rightarrow> (None, h1))"

text \<open>
  The informer's update function: whether an update of a configuration of this kind and name
  triggers the renewer.
\<close>

definition webhook_update_event ::
  "ext \<Rightarrow> WebhookCertifier \<Rightarrow> WebhookConfiguration \<Rightarrow> history \<Rightarrow> bool \<times> history" where
  "webhook_update_event X ce newConfig h =
     (let ok = (chosen ce \<noteq> None \<and> wc_Kind newConfig = chosen_kind ce) in
      if ok \<and> m_Name newConfig = ce_webhookName ce
      then (case getWebhook X (wc_Kind newConfig) (webhook_key ce) h of
              (Inl e, h) \<Rightarrow> (False, h)
            | (Inr w, h) \<Rightarrow> (True, h))
      else (False, h))"

text \<open>
  The last part of updateCertificate: the annotation is set before the resource version of the
  current configuration, both on the stored configuration.
\<close>

definition send_update ::
  "ext \<Rightarrow> WebhookConfiguration \<Rightarrow> WebhookConfiguration \<Rightarrow> WebhookCertifier \<Rightarrow> history
    \<Rightarrow> gerror option \<times> WebhookCertifier \<times> history" where
  "send_update X current desired ce h =
     (case x_SetLastAppliedAnnotation X desired of
        Inl e \<Rightarrow>
          (Some (x_Wrap X e ''setting last applied annotation on webhook configuration failed''), ce, h)
      | Inr annotated \<Rightarrow>
          let w = annotated\<lparr>m_ResourceVersion := m_ResourceVersion current\<rparr>; ce1 = put_chosen w ce in
          (case updateWebhook X w h of
             (Some e, h) \<Rightarrow> (Some (x_Wrap X e ''updating webhook configuration failed''), ce1, h)
           | (None, h) \<Rightarrow> (None, ce1, h)))"

definition apply_patch ::
  "ext \<Rightarrow> WebhookConfiguration \<Rightarrow> WebhookConfiguration \<Rightarrow> WebhookCertifier \<Rightarrow> history
    \<Rightarrow> gerror option \<times> WebhookCertifier \<times> history" where
  "apply_patch X current desired ce h =
     (case x_WebhookPatchIsEmpty X current desired of
        Inl e \<Rightarrow> (Some (x_WithDetails X (x_Wrap X e ''calculating config patch failed'')), ce, h)
      | Inr isEmpty \<Rightarrow> if isEmpty then (None, ce, h) else send_update X current desired ce h)"

text \<open>A configuration that is not found counts as an empty one.\<close>

definition updateCertificate ::
  "ext \<Rightarrow> WebhookCertifier \<Rightarrow> history \<Rightarrow> gerror option \<times> WebhookCertifier \<times> history" where
  "updateCertificate X ce h =
     (case chosen ce of
        None \<Rightarrow> (Some (ErrorString ''invalid certifier, all webhook configurations are nil''), ce, h)
      | Some desired \<Rightarrow>
          (case getWebhook X (chosen_kind ce) (webhook_key ce) h of
             (Inl e, h) \<Rightarrow>
               if \<not> x_IsNotFound X e
               then (Some (x_Wrap X e ''retrieving webhook configuration failed''), ce, h)
               else apply_patch X (webhook_zero (chosen_kind ce)) desired ce h
           | (Inr current, h) \<Rightarrow> apply_patch X current desired ce h))"

text \<open>The loop over the webhooks of the stored configuration: each gets the policy and the bundle.\<close>

definition certify_webhook :: "Certificate \<Rightarrow> Webhook \<Rightarrow> Webhook" where
  "certify_webhook c w =
     w\<lparr>wh_FailurePolicy := FailurePolicyFail,
       wh_CABundle := (case crt_CACertificate c of None \<Rightarrow> '''' | Some s \<Rightarrow> s)\<rparr>"

primrec certify_loop :: "Certificate option \<Rightarrow> Webhook list \<Rightarrow> Webhook list option" where
  "certify_loop c [] = Some []"
| "certify_loop c (w # ws) =
     (case c of
        None \<Rightarrow> None
      | Some crt \<Rightarrow> map_option (Cons (certify_webhook crt w)) (certify_loop c ws))"

definition certifier_afterCheck :: "ext \<Rightarrow> WebhookCertifier AfterCheckFunctionType" where
  "certifier_afterCheck X c needsUpdate ce h =
     (case chosen ce of
        None \<Rightarrow>
          Some (Some (ErrorString ''invalid certifier, all known webhook configurations are nil''), ce, h)
      | Some w \<Rightarrow>
          (case certify_loop c (wc_Webhooks w) of
             None \<Rightarrow> None
           | Some ws \<Rightarrow>
               let ce1 = put_chosen (w\<lparr>wc_Webhooks := ws\<rparr>) ce in
               if needsUpdate
               then (case updateCertificate X ce1 h of
                       (Some e, ce2, h) \<Rightarrow> Some (Some (x_Wrap X e ''updating webhook certificate failed''), ce2, h)
                     | (None, ce2, h) \<Rightarrow> Some (None, ce2\<lparr>ce_webhookCertBundleReadyz := True\<rparr>, h))
               else Some (None, ce1, h)))"

definition certifier_Start ::
  "ext \<Rightarrow> WebhookCertifier Renewer \<Rightarrow> renewer_event list \<Rightarrow> WebhookCertifier \<Rightarrow> history
    \<Rightarrow> ((gerror + bool) \<times> WebhookCertifier \<times> history) option" where
  "certifier_Start X renewer es ce h =
     (case loadWebhookConfiguration X ce h of
        (Some e, ce, h) \<Rightarrow> Some (Inl (x_Wrap X e ''loading webhook configuration failed''), ce, h)
      | (None, ce, h) \<Rightarrow>
          (case startWebhookConfigurationInformer X ce h of
             (Some e, h) \<Rightarrow>
               Some (Inl (x_Wrap X e ''starting webhook configuration informer failed''), ce, h)
           | (None, h) \<Rightarrow>
               (case dnsNames ce of
                  None \<Rightarrow> None
                | Some names \<Rightarrow>
                    Renewer_Start X
                      (WithAfterCheckFunctions [certifier_afterCheck X] (WithDNSNames names (Some renewer)))
                      es ce h)))"

definition WebhookCertBundleReadyzChecker :: "WebhookCertifier \<Rightarrow> gerror option" where
  "WebhookCertBundleReadyzChecker ce =
     (if \<not> ce_webhookCertBundleReadyz ce then Some (ErrorString ''webhook cert bundle is not ready yet'')
      else None)"

subsection \<open>Lemmas\<close>

definition certified :: "string \<Rightarrow> WebhookConfiguration \<Rightarrow> bool" where
  "certified ca w \<longleftrightarrow>
     list_all (\<lambda>x. wh_FailurePolicy x = FailurePolicyFail \<and> wh_CABundle x = ca) (wc_Webhooks w)"

lemma certify_loop_Some: "certify_loop (Some c) ws = Some (map (certify_webhook c) ws)"
  by (induction ws) simp_all

lemma certify_loop_None: "certify_loop None ws = None \<longleftrightarrow> ws \<noteq> []"
  by (cases ws) simp_all

lemma certified_map:
  "crt_CACertificate c = Some ca \<Longrightarrow> certified ca (w\<lparr>wc_Webhooks := map (certify_webhook c) ws\<rparr>)"
  by (simp add: certified_def certify_webhook_def list_all_iff)

lemma chosen_put [simp]: "chosen ce \<noteq> None \<Longrightarrow> chosen (put_chosen w ce) = Some w"
  by (auto simp: chosen_def put_chosen_def split: option.splits)

lemma put_chosen_ready [simp]:
  "ce_webhookCertBundleReadyz (put_chosen w ce) = ce_webhookCertBundleReadyz ce"
  by (simp add: put_chosen_def)

lemma chosen_ready [simp]: "chosen (ce\<lparr>ce_webhookCertBundleReadyz := b\<rparr>) = chosen ce"
  by (simp add: chosen_def cong: option.case_cong)

text \<open>Annotating a configuration leaves its webhooks alone.\<close>

definition annotation_law :: "ext \<Rightarrow> bool" where
  "annotation_law X \<longleftrightarrow> (\<forall>w w'. x_SetLastAppliedAnnotation X w = Inr w' \<longrightarrow> wc_Webhooks w' = wc_Webhooks w)"

definition certified_call :: "string \<Rightarrow> call \<Rightarrow> bool" where
  "certified_call ca c = (case c of UpdateWebhook w \<Rightarrow> certified ca w | _ \<Rightarrow> \<not> is_write c)"

lemma send_update_certified:
  assumes "annotation_law X" and "certified ca desired" and "chosen ce = Some desired"
    and "send_update X current desired ce h = (e, ce', h')"
  shows "(\<exists>w. chosen ce' = Some w \<and> certified ca w) \<and>
    ce_webhookCertBundleReadyz ce' = ce_webhookCertBundleReadyz ce \<and> extends (certified_call ca) h h'"
proof (cases "x_SetLastAppliedAnnotation X desired")
  case (Inl x)
  with assms show ?thesis by (auto simp: send_update_def)
next
  case (Inr a)
  with assms(1) have "wc_Webhooks a = wc_Webhooks desired" by (auto simp: annotation_law_def)
  with assms Inr show ?thesis
    by (auto simp: send_update_def updateWebhook_def certified_def certified_call_def Let_def
        split: option.splits)
qed

lemma updateCertificate_certified:
  assumes "annotation_law X" and "certified ca desired" and "chosen ce = Some desired"
    and "updateCertificate X ce h = (e, ce', h')"
  shows "(\<exists>w. chosen ce' = Some w \<and> certified ca w) \<and>
    ce_webhookCertBundleReadyz ce' = ce_webhookCertBundleReadyz ce \<and> extends (certified_call ca) h h'"
proof -
  let ?h = "h @ [GetWebhook (chosen_kind ce) (webhook_key ce)]"
  have g: "extends (certified_call ca) h ?h" by (simp add: certified_call_def is_write_def)
  have p: ?thesis if "apply_patch X current desired ce ?h = (e, ce', h')" for current
    using that assms(2,3) g send_update_certified [OF assms(1-3)] extends_trans [OF g]
    by (auto simp: apply_patch_def split: sum.splits if_splits)
  show ?thesis
    using assms(2-4) g p
    by (auto simp: updateCertificate_def getWebhook_def split: sum.splits if_splits)
qed

subsection \<open>Properties\<close>

text \<open>
  C27. A check with a certificate writes to the cluster only configurations in which every webhook
  has the failure policy Fail and the certificate of the authority; the stored configuration is
  such a one afterwards. The certifier becomes ready only by a check that had to update and
  whose update succeeded, and it never becomes unready.
\<close>

theorem certifier_afterCheck_spec:
  assumes "annotation_law X" and "chosen ce \<noteq> None" and "crt_CACertificate crt = Some ca"
    and "certifier_afterCheck X (Some crt) needsUpdate ce h = Some (e, ce', h')"
  shows "(\<exists>w. chosen ce' = Some w \<and> certified ca w)
    \<and> extends (certified_call ca) h h' \<and> (needsUpdate \<or> h' = h)
    \<and> (WebhookCertBundleReadyzChecker ce' = None \<longleftrightarrow>
         WebhookCertBundleReadyzChecker ce = None \<or> needsUpdate \<and> e = None)"
proof -
  obtain w where w: "chosen ce = Some w" using assms(2) by blast
  let ?w = "w\<lparr>wc_Webhooks := map (certify_webhook crt) (wc_Webhooks w)\<rparr>"
  let ?ce = "put_chosen ?w ce"
  have c: "chosen ?ce = Some ?w" using w by simp
  note r = WebhookCertBundleReadyzChecker_def
  show ?thesis
  proof (cases needsUpdate)
    case True
    obtain e1 ce1 h1 where u: "updateCertificate X ?ce h = (e1, ce1, h1)" by (metis prod_cases3)
    note U = updateCertificate_certified [OF assms(1) certified_map [OF assms(3)] c u]
    show ?thesis using assms(4) w u U True
      by (cases e1) (auto simp: certifier_afterCheck_def certify_loop_Some r)
  next
    case False
    with assms(4) w c certified_map [OF assms(3)] show ?thesis
      by (auto simp: certifier_afterCheck_def certify_loop_Some r)
  qed
qed

text \<open>
  When the certificate cannot be renewed, the callback gets a nil certificate and dereferences
  it, as soon as the configuration has a webhook: the check does not return.
\<close>

theorem failed_renewal_panics:
  assumes "verifyCertificate X (Some r) h = (False, c, e, h1)"
    and "renewCertificate X (Some r) h1 = (Inl e2, h2)"
    and "rn_afterCheckFunctions r = [certifier_afterCheck X]"
    and "chosen ce = Some w" and "wc_Webhooks w \<noteq> []"
  shows "checkCertificate X wasTriggered (Some r) ce h = None"
proof -
  have "certify_loop None (wc_Webhooks w) = None" using assms(5) by (simp add: certify_loop_None)
  with assms show ?thesis by (simp add: checkCertificate_def certifier_afterCheck_def)
qed

text \<open>A webhook configuration and a certifier for it.\<close>

definition sample_webhook :: WebhookConfiguration where
  "sample_webhook = (webhook_zero ValidatingWebhook)\<lparr>m_Name := ''cluster-validator-webhook'',
     wc_Webhooks := [\<lparr>wh_FailurePolicy = FailurePolicyIgnore, wh_CABundle = '''',
       wh_Service = Some (''controller'', ''registry'')\<rparr>]\<rparr>"

definition sample_certifier :: WebhookCertifier where
  "sample_certifier =
     (NewWebhookCertifier ''cluster-validator-webhook'' ''registry'' False)\<lparr>ce_validating := Some sample_webhook\<rparr>"

lemma sample_certifier_chosen: "chosen sample_certifier = Some sample_webhook"
  by (simp add: chosen_def sample_certifier_def NewWebhookCertifier_def)

theorem certifier_afterCheck_spec_witness:
  "\<exists>ce h. certifier_afterCheck sample_ext (Some sample_certificate) True sample_certifier [] = Some (None, ce, h) \<and>
     WebhookCertBundleReadyzChecker ce = None"
proof -
  have X: "x_SetLastAppliedAnnotation sample_ext = Inr" "x_UpdateWebhook sample_ext = (\<lambda>_ _. None)"
    "x_GetWebhook sample_ext = (\<lambda>_ _ _. Inl not_found)" "x_IsNotFound sample_ext not_found"
    "x_WebhookPatchIsEmpty sample_ext = (\<lambda>c d. Inr (c = d))"
    by (simp_all add: sample_ext_def not_found_def)
  have a: "annotation_law sample_ext" by (simp add: annotation_law_def X)
  have c: "crt_CACertificate sample_certificate = Some ''ca''" by (simp add: sample_certificate_def)
  have n: "chosen sample_certifier \<noteq> None" by (simp add: sample_certifier_chosen)
  have "\<exists>ce h. certifier_afterCheck sample_ext (Some sample_certificate) True sample_certifier [] = Some (None, ce, h)"
    by (simp add: certifier_afterCheck_def sample_certifier_chosen certify_loop_Some updateCertificate_def
        getWebhook_def updateWebhook_def apply_patch_def send_update_def X Let_def)
  then obtain ce h where
    s: "certifier_afterCheck sample_ext (Some sample_certificate) True sample_certifier [] = Some (None, ce, h)" by blast
  from certifier_afterCheck_spec [OF a n c s] s show ?thesis by blast
qed

end
