(* ===== verification/Validator.thy ===== *)
theory Validator
  imports Common
begin

text \<open>
  The validating webhook for cluster resources (src/pkg/webhooks/cluster\_validator.go). The
  decoder is injected after construction; without it, handling a request dereferences a nil
  pointer, here the result None.
\<close>

record ClusterValidator =
  cv_decoder :: bool

definition NewClusterValidator :: ClusterValidator where
  "NewClusterValidator = \<lparr>cv_decoder = False\<rparr>"

definition InjectDecoder :: "ClusterValidator \<Rightarrow> ClusterValidator" where
  "InjectDecoder v = v\<lparr>cv_decoder := True\<rparr>"

text \<open>The admission responses the code makes, with the HTTP status of a refusal.\<close>

datatype admission_response = Allowed | Errored nat gerror

definition StatusBadRequest :: nat where "StatusBadRequest = 400"
definition StatusConflict :: nat where "StatusConflict = 409"

fun unique_loop :: "Cluster \<Rightarrow> Cluster list \<Rightarrow> gerror option" where
  "unique_loop newCluster [] = None"
| "unique_loop newCluster (c # cs) =
     (if st_Type (c_Status c) = ClusterTypeLocal \<and>
         sp_ClusterID (c_Spec c) = sp_ClusterID (c_Spec newCluster) \<and>
         m_Name c \<noteq> m_Name newCluster
      then Some (ErrorString (''a local cluster CR with name '' @ m_Name c @
             '' already exists with the same clusterID '' @ sp_ClusterID (c_Spec newCluster)))
      else unique_loop newCluster cs)"

definition validateUniqueLocalCluster :: "Cluster \<Rightarrow> Cluster list \<Rightarrow> gerror option" where
  "validateUniqueLocalCluster newCluster oldClusters =
     (if st_Type (c_Status newCluster) = ClusterTypePeer then None else unique_loop newCluster oldClusters)"

definition Handle ::
  "ext \<Rightarrow> ClusterValidator \<Rightarrow> string \<Rightarrow> history \<Rightarrow> admission_response option \<times> history" where
  "Handle X v request h =
     (if \<not> cv_decoder v then (None, h)
      else
        case x_Decode X request of
          Inl e \<Rightarrow>
            (Some (Errored StatusBadRequest
               (x_Wrap X e ''decoding admission request as new cluster CR failed'')), h)
        | Inr newCluster \<Rightarrow>
            (case listClusters X LocalSite h of
               (Inl e, h) \<Rightarrow>
                 (Some (Errored StatusConflict (x_Wrap X e ''listing existing cluster CRs failed'')), h)
             | (Inr oldClusters, h) \<Rightarrow>
                 (case validateUniqueLocalCluster newCluster oldClusters of
                    Some e \<Rightarrow>
                      (Some (Errored StatusConflict (x_Wrap X e ''validating unique local cluster CR failed'')), h)
                  | None \<Rightarrow> (Some Allowed, h))))"

subsection \<open>Lemmas\<close>

text \<open>An existing local cluster under another name with the same ID.\<close>

definition rival :: "Cluster \<Rightarrow> Cluster \<Rightarrow> bool" where
  "rival newCluster c \<longleftrightarrow>
     st_Type (c_Status c) = ClusterTypeLocal \<and>
     sp_ClusterID (c_Spec c) = sp_ClusterID (c_Spec newCluster) \<and> m_Name c \<noteq> m_Name newCluster"

lemma unique_loop_None: "unique_loop newCluster cs = None \<longleftrightarrow> list_all (\<lambda>c. \<not> rival newCluster c) cs"
  by (induction cs) (auto simp: rival_def)

lemma validate_None:
  "validateUniqueLocalCluster newCluster cs = None \<longleftrightarrow>
     st_Type (c_Status newCluster) = ClusterTypePeer \<or> list_all (\<lambda>c. \<not> rival newCluster c) cs"
  by (simp add: validateUniqueLocalCluster_def unique_loop_None)

text \<open>The stored clusters after a create or an update, keyed by name.\<close>

definition store_cluster :: "Cluster \<Rightarrow> Cluster list \<Rightarrow> Cluster list" where
  "store_cluster c cs = c # filter (\<lambda>d. m_Name d \<noteq> m_Name c) cs"

text \<open>No two stored clusters have this ID.\<close>

definition unique_id :: "string \<Rightarrow> Cluster list \<Rightarrow> bool" where
  "unique_id i cs \<longleftrightarrow>
     (\<forall>c \<in> set cs. \<forall>d \<in> set cs. sp_ClusterID (c_Spec c) = i \<longrightarrow> sp_ClusterID (c_Spec d) = i \<longrightarrow> m_Name c = m_Name d)"

subsection \<open>Properties\<close>

text \<open>
  C23. The webhook admits a cluster resource exactly if it can be decoded, the existing ones can
  be listed, and the resource is explicitly a peer or no existing local cluster of another name
  has its ID. A refusal is status 400 for a request that cannot be decoded and 409 otherwise,
  and handling a request writes nothing.
\<close>

theorem Handle_spec:
  assumes "cv_decoder v" and "Handle X v request h = (res, h')"
  shows "(res = Some Allowed \<longleftrightarrow>
      (\<exists>c cs. x_Decode X request = Inr c \<and> x_ListClusters X h LocalSite = Inr cs \<and>
         (st_Type (c_Status c) = ClusterTypePeer \<or> list_all (\<lambda>d. \<not> rival c d) cs)))
    \<and> (\<exists>r. res = Some r \<and>
         (\<forall>code e. r = Errored code e \<longrightarrow> code = (if isl (x_Decode X request) then 400 else 409)))
    \<and> extends (\<lambda>x. write_site x = None) h h'"
proof (cases "x_Decode X request")
  case (Inl e)
  with assms show ?thesis by (auto simp: Handle_def StatusBadRequest_def)
next
  case (Inr c)
  show ?thesis
  proof (cases "x_ListClusters X h LocalSite")
    case (Inl e)
    with assms Inr show ?thesis by (auto simp: Handle_def listClusters_def StatusConflict_def)
  next
    fix cs assume l: "x_ListClusters X h LocalSite = Inr cs"
    show ?thesis
      using assms Inr l validate_None [of c cs]
      by (cases "validateUniqueLocalCluster c cs") (auto simp: Handle_def listClusters_def StatusConflict_def)
  qed
qed

definition local_sample :: Cluster where
  "local_sample = sample_cluster\<lparr>c_Status := (c_Status sample_cluster)\<lparr>st_Type := ClusterTypeLocal\<rparr>\<rparr>"

definition newcomer :: Cluster where
  "newcomer = local_sample\<lparr>m_Name := ''other''\<rparr>"

lemma newcomer_rival: "rival newcomer local_sample"
  by (simp add: rival_def newcomer_def local_sample_def sample_cluster_def)

definition rival_ext :: ext where
  "rival_ext = (sample_ext\<lparr>x_Decode := \<lambda>_. Inr newcomer\<rparr>)\<lparr>x_ListClusters := \<lambda>_ _. Inr [local_sample]\<rparr>"

lemma rival_ext_simps:
  "x_Decode rival_ext s = Inr newcomer" "x_ListClusters rival_ext h c = Inr [local_sample]"
  by (simp_all add: rival_ext_def sample_ext_def)

theorem Handle_spec_witness:
  "fst (Handle rival_ext (InjectDecoder NewClusterValidator) ''{}'' []) \<noteq> Some Allowed"
proof -
  let ?v = "InjectDecoder NewClusterValidator"
  have p: "st_Type (c_Status newcomer) \<noteq> ClusterTypePeer"
    by (simp add: newcomer_def local_sample_def ClusterTypeLocal_def ClusterTypePeer_def)
  obtain res h' where h: "Handle rival_ext ?v ''{}'' [] = (res, h')" by (metis surj_pair)
  have "cv_decoder ?v" by (simp add: InjectDecoder_def)
  from Handle_spec [OF this h, THEN conjunct1] show ?thesis
    unfolding h by (simp add: rival_ext_simps newcomer_rival p)
qed

subsection \<open>The stored clusters\<close>

text \<open>
  How the stored clusters change: the server stores a resource that the webhook has admitted,
  whatever becomes of its status, the controllers write the status of a stored cluster, and
  clusters are deleted. The validation looks at the recorded types only, so a resource is
  admitted at a time when each stored cluster with the ID \<open>i\<close> is marked as local, and one that
  has this ID is not marked as a peer beforehand.
\<close>

definition settled :: "string \<Rightarrow> Cluster list \<Rightarrow> bool" where
  "settled i cs \<longleftrightarrow> list_all (\<lambda>c. sp_ClusterID (c_Spec c) = i \<longrightarrow> st_Type (c_Status c) = ClusterTypeLocal) cs"

inductive registry_run :: "string \<Rightarrow> Cluster list \<Rightarrow> Cluster list \<Rightarrow> bool" for i where
  reg_none: "registry_run i cs cs"
| reg_admit: "registry_run i cs cs1 \<Longrightarrow> settled i cs1 \<Longrightarrow> x_ListClusters X h LocalSite = Inr cs1 \<Longrightarrow>
    Handle X v request h = (Some Allowed, h') \<Longrightarrow> x_Decode X request = Inr c \<Longrightarrow>
    (sp_ClusterID (c_Spec c) = i \<Longrightarrow> st_Type (c_Status c) \<noteq> ClusterTypePeer) \<Longrightarrow>
    registry_run i cs (store_cluster (c\<lparr>c_Status := s\<rparr>) cs1)"
| reg_status: "registry_run i cs cs1 \<Longrightarrow> c \<in> set cs1 \<Longrightarrow> registry_run i cs (store_cluster (c\<lparr>c_Status := s\<rparr>) cs1)"
| reg_delete: "registry_run i cs cs1 \<Longrightarrow> registry_run i cs (filter (\<lambda>d. m_Name d \<noteq> n) cs1)"

lemma Handle_Allowed:
  assumes "Handle X v request h = (Some Allowed, h')" and "x_Decode X request = Inr c"
    and "x_ListClusters X h LocalSite = Inr cs"
  shows "validateUniqueLocalCluster c cs = None"
  using assms by (auto simp: Handle_def listClusters_def split: if_splits option.splits)

lemma store_unique:
  assumes "unique_id i cs"
    and "\<And>d. d \<in> set cs \<Longrightarrow> sp_ClusterID (c_Spec d) = i \<Longrightarrow> sp_ClusterID (c_Spec c) = i \<Longrightarrow> m_Name d = m_Name c"
  shows "unique_id i (store_cluster c cs)"
proof -
  have old: "m_Name d = m_Name d'" if "d \<in> set cs" "d' \<in> set cs"
      "sp_ClusterID (c_Spec d) = i" "sp_ClusterID (c_Spec d') = i" for d d'
    using assms(1) that unfolding unique_id_def by blast
  show ?thesis
    unfolding unique_id_def store_cluster_def by (simp, metis assms(2) old)
qed

text \<open>
  C22. Whatever sequence of admissions, status updates and deletions the stored clusters go
  through, at most one name has the cluster ID \<open>i\<close>, if that held at first. Admissions are not
  concurrent with each other, take place when each stored cluster with this ID is marked as
  local, and a resource with this ID that is marked as a peer, which the webhook does not check,
  is not sent.
\<close>

theorem validation_keeps_unique:
  assumes "registry_run i cs cs'" and "unique_id i cs"
  shows "unique_id i cs'"
  using assms
proof induction
  case (reg_admit cs cs1 X h v request h' c s)
  have "m_Name d = m_Name c" if d: "d \<in> set cs1" "sp_ClusterID (c_Spec d) = i" "sp_ClusterID (c_Spec c) = i" for d
  proof -
    have "list_all (\<lambda>c'. \<not> rival c c') cs1"
      using Handle_Allowed [OF reg_admit.hyps(4,5,3)] reg_admit.hyps(6) [OF d(3)] by (simp add: validate_None)
    moreover have "st_Type (c_Status d) = ClusterTypeLocal"
      using reg_admit.hyps(2) d(1,2) by (simp add: settled_def list_all_iff)
    ultimately show ?thesis using d by (simp add: list_all_iff rival_def)
  qed
  then show ?case using reg_admit.IH [OF reg_admit.prems] by (intro store_unique) simp_all
next
  case (reg_status cs cs1 c s)
  have u: "unique_id i cs1" by (rule reg_status.IH [OF reg_status.prems])
  have "m_Name d = m_Name c" if "d \<in> set cs1" "sp_ClusterID (c_Spec d) = i" "sp_ClusterID (c_Spec c) = i" for d
    using u that reg_status.hyps(2) unfolding unique_id_def by blast
  then show ?case using u by (intro store_unique) simp_all
next
  case (reg_delete cs cs1 n)
  have "unique_id i cs1" by (rule reg_delete.IH [OF reg_delete.prems])
  then show ?case unfolding unique_id_def by simp
qed simp

text \<open>
  Between the admission of a resource and the first status the controller writes for it, its type
  is not recorded: in this time the webhook admits a second resource with the same ID.
\<close>

theorem untyped_rival_admitted:
  assumes "cv_decoder v" and "x_Decode X request = Inr c" and "x_ListClusters X h LocalSite = Inr cs"
    and "\<forall>d \<in> set cs. st_Type (c_Status d) = ''''"
  shows "fst (Handle X v request h) = Some Allowed"
proof -
  have "validateUniqueLocalCluster c cs = None"
    using assms(4) by (auto simp: validate_None list_all_iff rival_def ClusterTypeLocal_def)
  then show ?thesis using assms(1-3) by (simp add: Handle_def listClusters_def)
qed

definition untyped :: "Cluster \<Rightarrow> Cluster" where
  "untyped c = c\<lparr>c_Status := (c_Status c)\<lparr>st_Type := ''''\<rparr>\<rparr>"

theorem untyped_rival_admitted_witness:
  "fst (Handle (rival_ext\<lparr>x_ListClusters := \<lambda>_ _. Inr [untyped local_sample]\<rparr>) (InjectDecoder NewClusterValidator) ''{}'' [])
     = Some Allowed \<and> \<not> unique_id ''id-demo'' [newcomer, untyped local_sample]"
proof
  show "fst (Handle (rival_ext\<lparr>x_ListClusters := \<lambda>_ _. Inr [untyped local_sample]\<rparr>) (InjectDecoder NewClusterValidator) ''{}'' [])
     = Some Allowed"
    by (rule untyped_rival_admitted [where c = newcomer and cs = "[untyped local_sample]"])
      (simp_all add: InjectDecoder_def rival_ext_simps untyped_def)
  show "\<not> unique_id ''id-demo'' [newcomer, untyped local_sample]"
    by (simp add: unique_id_def newcomer_def untyped_def local_sample_def sample_cluster_def)
qed

text \<open>The own cluster is admitted without a type, marked as local, and updated.\<close>

definition store_ext :: "Cluster list \<Rightarrow> ext" where
  "store_ext cs = sample_ext\<lparr>x_Decode := \<lambda>_. Inr (untyped local_sample), x_ListClusters := \<lambda>_ _. Inr cs\<rparr>"

theorem validation_keeps_unique_witness:
  "\<exists>cs. registry_run ''id-demo'' [] cs \<and> untyped local_sample \<in> set cs \<and> unique_id ''id-demo'' cs"
proof -
  let ?u = "untyped local_sample" let ?v = "InjectDecoder NewClusterValidator"
  have u: "?u\<lparr>c_Status := c_Status ?u\<rparr> = ?u" "?u\<lparr>c_Status := c_Status local_sample\<rparr> = local_sample"
    "m_Name ?u = m_Name local_sample" "st_Type (c_Status ?u) \<noteq> ClusterTypePeer"
    "st_Type (c_Status local_sample) = ClusterTypeLocal"
    by (simp_all add: untyped_def local_sample_def ClusterTypePeer_def)
  have x: "x_Decode (store_ext cs) s = Inr ?u" "x_ListClusters (store_ext cs) h c = Inr cs" for cs s h c
    by (simp_all add: store_ext_def sample_ext_def)
  have adm: "\<exists>h'. Handle (store_ext cs) ?v ''{}'' [] = (Some Allowed, h')" if "list_all (\<lambda>c. \<not> rival ?u c) cs" for cs
    using that by (simp add: Handle_def InjectDecoder_def x listClusters_def validate_None [THEN iffD2])
  obtain h1 where 1: "Handle (store_ext []) ?v ''{}'' [] = (Some Allowed, h1)" using adm [of "[]"] by auto
  have r1: "registry_run ''id-demo'' [] [?u]"
    using reg_admit [OF reg_none _ x(2) 1 x(1), of "''id-demo''" "c_Status ?u"] u
    by (simp add: settled_def store_cluster_def)
  have r2: "registry_run ''id-demo'' [] [local_sample]"
    using reg_status [OF r1, of ?u "c_Status local_sample"] u by (simp add: store_cluster_def)
  obtain h2 where 2: "Handle (store_ext [local_sample]) ?v ''{}'' [] = (Some Allowed, h2)"
    using adm [of "[local_sample]"] u by (auto simp: rival_def)
  have r3: "registry_run ''id-demo'' [] [?u]"
    using reg_admit [OF r2 _ x(2) 2 x(1), of "c_Status ?u"] u by (simp add: settled_def store_cluster_def)
  have "unique_id ''id-demo'' [?u]" by (rule validation_keeps_unique [OF r3]) (simp add: unique_id_def)
  with r3 show ?thesis by (intro exI [of _ "[?u]"]) simp
qed

end
