(* ===== verification/Startup.thy ===== *)
theory Startup
  imports RuleCtl RemoteCtl Certifier Validator KubeconfigChecks
begin

text \<open>
  The start of the program (src/cmd/manager/main.go, the function configure of
  src/cmd/manager/config.go, src/pkg/signals/signals.go): reading the configuration,
  provisioning the local cluster, setting up the webhook and the controllers, and running the
  manager until a signal arrives.
\<close>

subsection \<open>The configuration\<close>

text \<open>
  What the flag and configuration packages and the YAML encoder answer: the error of parsing
  the arguments, of binding an environment variable, the decoded configuration, and the two
  flags that print something and end the program.
\<close>

record cli =
  cli_Parse :: "gerror option"
  cli_BindEnv :: "string \<Rightarrow> gerror option"
  cli_Unmarshal :: "Configuration result"
  cli_version :: bool
  cli_dumpConfig :: bool
  cli_Marshal :: "Configuration \<Rightarrow> gerror option"

datatype 'a outcome = Panicked | Exited nat | Returned 'a

definition configure :: "cli \<Rightarrow> Configuration outcome" where
  "configure c =
     (if cli_Parse c \<noteq> None then Panicked
      else
        case bindEnvs (cli_BindEnv c) Configuration_fields [] of
          Inl e \<Rightarrow> Panicked
        | Inr ks \<Rightarrow>
            (case cli_Unmarshal c of
               Inl e \<Rightarrow> Panicked
             | Inr cfg \<Rightarrow>
                 if cli_version c then Exited 0
                 else if cli_dumpConfig c then (if cli_Marshal c cfg \<noteq> None then Panicked else Exited 0)
                 else Returned cfg))"

subsection \<open>Logging\<close>

text \<open>
  The level of the JSON logger is computed as an int8: subtracting the verbosity from zero. The
  console logger takes the verbosity as an int.
\<close>

datatype log_setup = ConsoleLogger int | JSONLogger "8 word"

definition zap_level :: "8 word \<Rightarrow> 8 word" where
  "zap_level verbosity = 0 - verbosity"

definition setup_logging :: "Configuration \<Rightarrow> log_setup" where
  "setup_logging cfg =
     (if log_Format (cfg_Logging cfg) = LogFormatConsole
      then ConsoleLogger (sint (log_Verbosity (cfg_Logging cfg)))
      else JSONLogger (zap_level (log_Verbosity (cfg_Logging cfg))))"

subsection \<open>Signals\<close>

text \<open>
  The goroutine of NotifyContext: it waits for a signal or the end of the context; after the
  first signal the context is cancelled and a second one ends the process.
\<close>

datatype signal_state = Watching | Cancelled | Finished | Killed nat

datatype signal_event = Signal | ParentDone

fun notify_step :: "signal_state \<Rightarrow> signal_event \<Rightarrow> signal_state" where
  "notify_step Watching Signal = Cancelled"
| "notify_step Watching ParentDone = Finished"
| "notify_step Cancelled Signal = Killed 1"
| "notify_step Cancelled ParentDone = Cancelled"
| "notify_step Finished e = Finished"
| "notify_step (Killed n) e = Killed n"

definition NotifyContext :: "signal_event list \<Rightarrow> signal_state" where
  "NotifyContext es = foldl notify_step Watching es"

subsection \<open>main\<close>

record manager_options =
  mo_MetricsBindAddress :: string
  mo_LeaderElection :: LeaderElection
  mo_HealthProbeBindAddress :: string
  mo_CertDir :: string
  mo_Port :: nat

definition options_of :: "Configuration \<Rightarrow> manager_options" where
  "options_of cfg =
     (let o1 = \<lparr>mo_MetricsBindAddress = cfg_MetricsAddr cfg, mo_LeaderElection = cfg_LeaderElection cfg,
                mo_HealthProbeBindAddress = cfg_HealthAddr cfg, mo_CertDir = '''', mo_Port = 0\<rparr>;
          wh = cfg_ClusterValidatorWebhook cfg
      in if cvw_Enabled wh then o1\<lparr>mo_CertDir := cvw_CertificateDirectory wh, mo_Port := cvw_Port wh\<rparr> else o1)"

text \<open>The readiness check: a plain ping, or that of the certifier when the webhook is enabled.\<close>

datatype readyz = Ping | CertBundle WebhookCertifier

definition provision_step :: "ext \<Rightarrow> Configuration \<Rightarrow> history \<Rightarrow> gerror option \<times> history" where
  "provision_step X cfg h =
     (if cfg_ProvisionLocalCluster cfg \<noteq> ''''
      then (case x_NewClient X h of
              Some e \<Rightarrow> (Some e, h)
            | None \<Rightarrow> ProvisionLocalClusterObject X cfg h)
      else (None, h))"

text \<open>
  The webhook part. The renewer checks the certificate once, without callbacks, before the
  webhook server needs it.
\<close>

definition webhook_step :: "ext \<Rightarrow> Configuration \<Rightarrow> history \<Rightarrow> (readyz result \<times> history) option" where
  "webhook_step X cfg h =
     (let wh = cfg_ClusterValidatorWebhook cfg;
          ce = NewWebhookCertifier (cvw_Name wh) (cfg_Namespace cfg) False
      in if \<not> cvw_Enabled wh then Some (Inr Ping, h)
         else
           case NewRenewer X [] (cvw_CertificateDirectory wh) True [] ce
                  (h @ [SetupController ''webhook'' ''/validate-cluster'']) of
             None \<Rightarrow> None
           | Some (Inl e, s, h) \<Rightarrow> Some (Inl e, h)
           | Some (Inr r, s, h) \<Rightarrow>
               (case managerCall X ''Add'' h of
                  (Some e, h) \<Rightarrow> Some (Inl e, h)
                | (None, h) \<Rightarrow> Some (Inr (CertBundle ce), h)))"

text \<open>
  The rule reconciler while the manager runs: its in-memory source was started and has handed it
  a queue.
\<close>

definition running_rules :: "Configuration \<Rightarrow> ResourceSyncRuleReconciler" where
  "running_rules cfg = InMemorySource_Start rule_setQueue (NewResourceSyncRuleReconciler cfg)"

text \<open>
  The controllers, the readiness check and the run of the manager, in this order. The callback
  that the rule reconciler registers runs while the manager does.
\<close>

definition run_step :: "ext \<Rightarrow> Configuration \<Rightarrow> string \<Rightarrow> history \<Rightarrow> gerror option \<times> Manager \<times> history" where
  "run_step X cfg now h =
     (case rule_SetupWithManager X (running_rules cfg) now (NewManager []) h of
        (Some e, m, h) \<Rightarrow> (Some e, m, h)
      | (None, m, h) \<Rightarrow>
          (case cluster_SetupWithManager X h of
             (Some e, h) \<Rightarrow> (Some e, m, h)
           | (None, h) \<Rightarrow>
               (case managerCall X ''AddReadyzCheck'' h of
                  (Some e, h) \<Rightarrow> (Some e, m, h)
                | (None, h) \<Rightarrow>
                    (case managerCall X ''Start'' h of
                       (Some e, h) \<Rightarrow> (Some e, m, h)
                     | (None, h) \<Rightarrow> (None, m, h)))))"

text \<open>
  What main has set up when it calls Start of the manager: the logger, the manager's options, the
  readiness check, the rule reconciler and the registry of peer clusters. Start blocks while the controllers run; they
  work on this registry.
\<close>

record program =
  pr_logger :: log_setup
  pr_options :: manager_options
  pr_readyz :: readyz
  pr_rules :: ResourceSyncRuleReconciler
  pr_clusters :: Manager

text \<open>
  Every error of a step is logged and ends the process with exit code 1. GetConfigOrDie, which
  reads the kubeconfig, is taken to succeed.
\<close>

definition main :: "ext \<Rightarrow> cli \<Rightarrow> string \<Rightarrow> history \<Rightarrow> program outcome \<times> history" where
  "main X c now h =
     (case configure c of
        Panicked \<Rightarrow> (Panicked, h)
      | Exited n \<Rightarrow> (Exited n, h)
      | Returned cfg \<Rightarrow>
          (case provision_step X cfg h of
             (Some e, h) \<Rightarrow> (Exited 1, h)
           | (None, h) \<Rightarrow>
               (case managerCall X ''NewManager'' h of
                  (Some e, h) \<Rightarrow> (Exited 1, h)
                | (None, h) \<Rightarrow>
                    (case webhook_step X cfg h of
                       None \<Rightarrow> (Panicked, h)
                     | Some (Inl e, h) \<Rightarrow> (Exited 1, h)
                     | Some (Inr ready, h) \<Rightarrow>
                         (case run_step X cfg now h of
                            (Some e, m, h) \<Rightarrow> (Exited 1, h)
                          | (None, m, h) \<Rightarrow>
                              (Returned \<lparr>pr_logger = setup_logging cfg, pr_options = options_of cfg,
                                 pr_readyz = ready, pr_rules = running_rules cfg, pr_clusters = m\<rparr>, h))))))"

subsection \<open>Properties\<close>

lemma run_step_Manager:
  assumes "run_step X cfg now h = (None, m, h')"
  shows "mg_clusters m = []" and "mg_onBeforeAddFuncs m = []"
    and "mg_onAfterAddFuncs m = [(''trigger-resource-sync-rule-reconcile'', trigger_rules X True)]"
    and "\<exists>k. h' = k @ [ManagerCall ''Start'']"
  using assms
  by (auto simp: run_step_def rule_SetupWithManager_def rule_SetupWithController_def NewManager_def
      running_rules_def InMemorySource_Start_def rule_setQueue_def AddOnAfterAddFunc_def callback_id_def setupController_def managerCall_def
      split: option.splits prod.splits)

lemma webhook_step_ready:
  assumes "webhook_step X cfg h = Some (Inr ready, h')"
  shows "case ready of
      Ping \<Rightarrow> \<not> cvw_Enabled (cfg_ClusterValidatorWebhook cfg)
    | CertBundle ce \<Rightarrow> cvw_Enabled (cfg_ClusterValidatorWebhook cfg) \<and> WebhookCertBundleReadyzChecker ce \<noteq> None"
  using assms
  by (auto simp: webhook_step_def NewWebhookCertifier_def WebhookCertBundleReadyzChecker_def managerCall_def Let_def
      split: if_splits option.splits sum.splits prod.splits)

lemma main_steps:
  assumes "main X c now h = (Returned p, h')"
  obtains cfg h1 h2 h3 where "configure c = Returned cfg" "provision_step X cfg h = (None, h1)"
    "pr_options p = options_of cfg" "webhook_step X cfg h2 = Some (Inr (pr_readyz p), h3)"
    "run_step X cfg now h3 = (None, pr_clusters p, h')"
  using assms by (auto simp: main_def split: outcome.splits prod.splits option.splits sum.splits)

text \<open>
  C39. When main runs the manager, it does so with its last call and with everything in place: the
  configured local cluster was provisioned without an error, the registry of peer clusters is
  empty and has the callback that reconciles every rule for a new cluster, and readiness is a
  plain ping exactly without the webhook and otherwise the certifier's check, which still fails.
  The webhook server has a port and a certificate directory exactly if it is enabled.
\<close>

theorem main_starts:
  assumes "main X c now h = (Returned p, h')"
  shows "\<exists>cfg h1 k. configure c = Returned cfg
    \<and> provision_step X cfg h = (None, h1)
    \<and> h' = k @ [ManagerCall ''Start'']
    \<and> mg_clusters (pr_clusters p) = []
    \<and> mg_onAfterAddFuncs (pr_clusters p) = [(''trigger-resource-sync-rule-reconcile'', trigger_rules X True)]
    \<and> (mo_CertDir (pr_options p), mo_Port (pr_options p)) =
        (let wh = cfg_ClusterValidatorWebhook cfg in
         if cvw_Enabled wh then (cvw_CertificateDirectory wh, cvw_Port wh) else ('''', 0))
    \<and> (case pr_readyz p of
         Ping \<Rightarrow> \<not> cvw_Enabled (cfg_ClusterValidatorWebhook cfg)
       | CertBundle ce \<Rightarrow> cvw_Enabled (cfg_ClusterValidatorWebhook cfg) \<and> WebhookCertBundleReadyzChecker ce \<noteq> None)"
proof -
  obtain cfg h1 h2 h3 where c: "configure c = Returned cfg" "provision_step X cfg h = (None, h1)"
    "pr_options p = options_of cfg"
    and w: "webhook_step X cfg h2 = Some (Inr (pr_readyz p), h3)"
    and r: "run_step X cfg now h3 = (None, pr_clusters p, h')"
    by (rule main_steps [OF assms])
  have "(mo_CertDir (pr_options p), mo_Port (pr_options p)) =
        (let wh = cfg_ClusterValidatorWebhook cfg in
         if cvw_Enabled wh then (cvw_CertificateDirectory wh, cvw_Port wh) else ('''', 0))"
    by (simp add: c(3) options_of_def Let_def)
  with c(1,2) run_step_Manager [OF r] webhook_step_ready [OF w] show ?thesis by blast
qed

text \<open>A command line that sets nothing, for the configuration without the webhook.\<close>

definition sample_cli :: cli where
  "sample_cli = \<lparr>cli_Parse = None, cli_BindEnv = (\<lambda>_. None), cli_Unmarshal = Inr quiet_config,
     cli_version = False, cli_dumpConfig = False, cli_Marshal = (\<lambda>_. None)\<rparr>"

lemma sample_configure: "configure sample_cli = Returned quiet_config"
  by (simp add: configure_def sample_cli_def bindEnvs_paths)

theorem main_starts_witness:
  "\<exists>p h. main sample_ext sample_cli ''now'' [] = (Returned p, h) \<and> mg_clusters (pr_clusters p) = []"
proof -
  have X: "x_GetCluster sample_ext = (\<lambda>_ _ _. Inl not_found)" "x_CreateCluster sample_ext = (\<lambda>_ _. None)"
    "x_GetNamespace sample_ext = (\<lambda>_ _ n. Inr n)" "x_ManagerCall sample_ext = (\<lambda>_ _. None)"
    "x_SetupController sample_ext = (\<lambda>_ _ _. None)" "x_NewClient sample_ext = (\<lambda>_. None)"
    by (simp_all add: sample_ext_def)
  have q: "cfg_ProvisionLocalCluster quiet_config = ''local''" "\<not> cvw_Enabled (cfg_ClusterValidatorWebhook quiet_config)"
    by (simp_all add: quiet_config_def)
  obtain h1 where p: "provision_step sample_ext quiet_config [] = (None, h1)"
    using q by (simp add: provision_step_def ProvisionLocalClusterObject_def getCluster_def NewLocalCluster_def getNamespace_def X)
  obtain m h where r: "run_step sample_ext quiet_config ''now'' (h1 @ [ManagerCall ''NewManager'']) = (None, m, h)"
    by (simp add: run_step_def rule_SetupWithManager_def rule_SetupWithController_def
        cluster_SetupWithManager_def cluster_SetupWithController_def setupController_def managerCall_def X)
  obtain p where "main sample_ext sample_cli ''now'' [] = (Returned p, h)"
    using p r q(2) by (simp add: main_def sample_configure managerCall_def X webhook_step_def Let_def)
  from main_starts [OF this] this show ?thesis by blast
qed

subsection \<open>Signals\<close>

lemma notify_from:
  "foldl notify_step Finished es = Finished"
  "foldl notify_step (Killed n) es = Killed n"
  "foldl notify_step Cancelled es = (if Signal \<in> set es then Killed 1 else Cancelled)"
proof -
  show "foldl notify_step Finished es = Finished" by (induction es) simp_all
  show k: "foldl notify_step (Killed n) es = Killed n" for n es by (induction es) simp_all
  show "foldl notify_step Cancelled es = (if Signal \<in> set es then Killed 1 else Cancelled)"
  proof (induction es)
    case (Cons e es)
    then show ?case by (cases e) (simp_all add: k)
  qed simp
qed

text \<open>
  The first signal cancels the context, a second one ends the process with exit code 1; if the
  context ends before any signal, signals are no longer handled here.
\<close>

lemma NotifyContext_spec:
  "NotifyContext es =
     (case es of
        [] \<Rightarrow> Watching
      | ParentDone # _ \<Rightarrow> Finished
      | Signal # rest \<Rightarrow> if Signal \<in> set rest then Killed 1 else Cancelled)"
  by (auto simp: NotifyContext_def notify_from split: list.split signal_event.split)

end
