(* ===== verification/DeepCopy.thy ===== *)
theory DeepCopy
  imports Prelude "HOL-Library.Sublist"
begin

text \<open>
  The generated deep copies of the API types (src/api/v1alpha1/zz\_generated.deepcopy.go), over an
  explicit store. The other theories treat a resource as an immutable value, for which a copy is
  the value itself; this theory justifies it: a deep copy has the content of its original and
  shares no memory with it, so that a write through the one is not seen through the other.

  A Go type is a value of \<open>gtype\<close>, a Go value one of \<open>gval\<close>. A map, a slice and a
  pointer refer to a cell of the store or are nil; a slice refers to a part of an array. The
  store is a list of cells, and new cells are appended.
\<close>

subsection \<open>Values and the store\<close>

datatype gtype =
    GFlat
  | GMap
  | GSlice gtype
  | GPtr gtype
  | GStruct "(string \<times> gtype) list"

datatype gval =
    VFlat string
  | VMap "nat option"
  | VSlice "(nat \<times> nat \<times> nat) option"
  | VPtr "nat option"
  | VStruct "(string \<times> gval) list"

datatype cell = CMap "(string \<times> string) list" | CArr "gval list" | CVal gval

type_synonym store = "cell list"

definition cell_at :: "store \<Rightarrow> nat \<Rightarrow> cell option" where
  "cell_at h a = (if a < length h then Some (h ! a) else None)"

text \<open>The elements of a slice, given by its array, the offset and the length.\<close>

definition elements :: "store \<Rightarrow> nat \<times> nat \<times> nat \<Rightarrow> gval list option" where
  "elements h s =
     (case s of (a, off, n) \<Rightarrow>
        (case cell_at h a of
           Some (CArr vs) \<Rightarrow> if off + n \<le> length vs then Some (take n (drop off vs)) else None
         | _ \<Rightarrow> None))"

text \<open>The content of a value of a type; None if the value is not of the type or refers to nothing.\<close>

datatype tree =
    Leaf string
  | NilRef
  | MapOf "string \<rightharpoonup> string"
  | ListOf "tree list"
  | PtrTo tree
  | RecOf "(string \<times> tree) list"

fun content :: "gtype \<Rightarrow> store \<Rightarrow> gval \<Rightarrow> tree option"
  and content_fields :: "(string \<times> gtype) list \<Rightarrow> store \<Rightarrow> (string \<times> gval) list \<Rightarrow> (string \<times> tree) list option" where
  "content GFlat h v = (case v of VFlat s \<Rightarrow> Some (Leaf s) | _ \<Rightarrow> None)"
| "content GMap h v =
     (case v of
        VMap None \<Rightarrow> Some NilRef
      | VMap (Some a) \<Rightarrow>
          (case cell_at h a of
             Some (CMap m) \<Rightarrow> if distinct (map fst m) then Some (MapOf (map_of m)) else None
           | _ \<Rightarrow> None)
      | _ \<Rightarrow> None)"
| "content (GSlice t) h v =
     (case v of
        VSlice None \<Rightarrow> Some NilRef
      | VSlice (Some s) \<Rightarrow>
          (case elements h s of
             Some vs \<Rightarrow> map_option ListOf (those (map (content t h) vs))
           | None \<Rightarrow> None)
      | _ \<Rightarrow> None)"
| "content (GPtr t) h v =
     (case v of
        VPtr None \<Rightarrow> Some NilRef
      | VPtr (Some a) \<Rightarrow>
          (case cell_at h a of Some (CVal x) \<Rightarrow> map_option PtrTo (content t h x) | _ \<Rightarrow> None)
      | _ \<Rightarrow> None)"
| "content (GStruct ts) h v =
     (case v of VStruct fs \<Rightarrow> map_option RecOf (content_fields ts h fs) | _ \<Rightarrow> None)"
| "content_fields [] h fs = (case fs of [] \<Rightarrow> Some [] | _ \<Rightarrow> None)"
| "content_fields ((n, t) # ts) h fs =
     (case fs of
        [] \<Rightarrow> None
      | g # gs \<Rightarrow>
          if fst g = n
          then (case content t h (snd g) of
                  None \<Rightarrow> None
                | Some c \<Rightarrow> map_option (Cons (n, c)) (content_fields ts h gs))
          else None)"

text \<open>The cells a value refers to, directly or through other cells.\<close>

fun refs :: "gtype \<Rightarrow> store \<Rightarrow> gval \<Rightarrow> nat list"
  and refs_fields :: "(string \<times> gtype) list \<Rightarrow> store \<Rightarrow> (string \<times> gval) list \<Rightarrow> nat list" where
  "refs GFlat h v = []"
| "refs GMap h v = (case v of VMap (Some a) \<Rightarrow> [a] | _ \<Rightarrow> [])"
| "refs (GSlice t) h v =
     (case v of
        VSlice (Some s) \<Rightarrow>
          fst s # (case elements h s of Some vs \<Rightarrow> concat (map (refs t h) vs) | None \<Rightarrow> [])
      | _ \<Rightarrow> [])"
| "refs (GPtr t) h v =
     (case v of
        VPtr (Some a) \<Rightarrow> a # (case cell_at h a of Some (CVal x) \<Rightarrow> refs t h x | _ \<Rightarrow> [])
      | _ \<Rightarrow> [])"
| "refs (GStruct ts) h v = (case v of VStruct fs \<Rightarrow> refs_fields ts h fs | _ \<Rightarrow> [])"
| "refs_fields [] h fs = []"
| "refs_fields ((n, t) # ts) h fs =
     (case fs of [] \<Rightarrow> [] | g # gs \<Rightarrow> refs t h (snd g) @ refs_fields ts h gs)"

text \<open>A type without references.\<close>

fun flat :: "gtype \<Rightarrow> bool" and flat_fields :: "(string \<times> gtype) list \<Rightarrow> bool" where
  "flat GFlat = True"
| "flat (GStruct ts) = flat_fields ts"
| "flat _ = False"
| "flat_fields [] = True"
| "flat_fields ((n, t) # ts) = (flat t \<and> flat_fields ts)"

subsection \<open>Frame lemmas\<close>

lemma elements_cong: "cell_at h' (fst s) = cell_at h (fst s) \<Longrightarrow> elements h' s = elements h s"
  by (cases s) (simp add: elements_def)

lemma elements_in_store: "elements h s = Some vs \<Longrightarrow> fst s < length h"
  by (auto simp: elements_def cell_at_def split: if_splits prod.splits)

lemma content_frame:
  "(\<And>a. a \<in> set (refs t h v) \<Longrightarrow> cell_at h' a = cell_at h a)
     \<Longrightarrow> content t h' v = content t h v \<and> refs t h' v = refs t h v"
  "(\<And>a. a \<in> set (refs_fields ts h fs) \<Longrightarrow> cell_at h' a = cell_at h a)
     \<Longrightarrow> content_fields ts h' fs = content_fields ts h fs \<and> refs_fields ts h' fs = refs_fields ts h fs"
proof (induction t h v and ts h fs rule: refs_refs_fields.induct)
  case (3 t h v)
  show ?case
  proof (cases "\<exists>s. v = VSlice (Some s)")
    case True
    then obtain s where s: "v = VSlice (Some s)" by blast
    have e: "elements h' s = elements h s" using 3(2) s by (intro elements_cong) simp
    show ?thesis
    proof (cases "elements h s")
      case None
      then show ?thesis using s e by simp
    next
      case (Some vs)
      have "content t h' x = content t h x \<and> refs t h' x = refs t h x" if "x \<in> set vs" for x
        using 3(1) [OF s refl Some that] 3(2) s Some that by auto
      then have "map (content t h') vs = map (content t h) vs" "map (refs t h') vs = map (refs t h) vs" by auto
      then show ?thesis using s e Some by (simp del: map_eq_conv)
    qed
  next
    case False
    then show ?thesis by (auto split: gval.split option.split)
  qed
next
  case (7 n t ts h fs)
  then show ?case by (cases fs) (auto split: option.split)
qed (auto split: option.splits cell.splits gval.splits)

lemma those_map_cong:
  assumes "those (map f xs) = Some cs" and "length ys = length xs"
    and "\<And>i c. i < length xs \<Longrightarrow> f (xs ! i) = Some c \<Longrightarrow> g (ys ! i) = Some c"
  shows "those (map g ys) = Some cs"
  using assms
proof (induction xs arbitrary: ys cs)
  case (Cons x xs)
  obtain y ys' where ys: "ys = y # ys'" "length ys' = length xs" using Cons.prems(2) by (cases ys) auto
  obtain c cs' where c: "f x = Some c" "those (map f xs) = Some cs'" "cs = c # cs'"
    using Cons.prems(1) by (auto split: option.splits)
  have "g y = Some c" using Cons.prems(3) [of 0] c(1) ys by simp
  moreover have "those (map g ys') = Some cs'"
    using Cons.IH [OF c(2) ys(2)] Cons.prems(3) [of "Suc i" for i] ys by simp
  ultimately show ?case by (simp add: ys c)
qed simp

lemma cell_at_append [simp]: "a < length h \<Longrightarrow> cell_at (h @ k) a = cell_at h a"
  by (simp add: cell_at_def nth_append)

lemma those_Some: "those (map f xs) = Some cs \<Longrightarrow> x \<in> set xs \<Longrightarrow> \<exists>c. f x = Some c"
  by (induction xs arbitrary: cs) (auto split: option.splits)

text \<open>A value with a content refers to cells of the store only.\<close>

lemma content_refs:
  "content t h v = Some c \<Longrightarrow> set (refs t h v) \<subseteq> {..<length h}"
  "content_fields ts h fs = Some cs \<Longrightarrow> set (refs_fields ts h fs) \<subseteq> {..<length h}"
proof (induction t h v and ts h fs arbitrary: c and cs rule: content_content_fields.induct)
  case (3 t h v)
  show ?case
  proof (cases "\<exists>s. v = VSlice (Some s)")
    case True
    then obtain s where s: "v = VSlice (Some s)" by blast
    with 3(2) obtain vs ls where vs: "elements h s = Some vs" "those (map (content t h) vs) = Some ls"
      by (auto split: option.splits)
    have "set (refs t h x) \<subseteq> {..<length h}" if "x \<in> set vs" for x
      using those_Some [OF vs(2) that] 3(1) [OF s refl vs(1) that] by blast
    then show ?thesis using s vs(1) elements_in_store [OF vs(1)] by auto
  next
    case False
    then show ?thesis by (auto split: gval.split option.split)
  qed
next
  case (4 t h v)
  show ?case
  proof (cases "\<exists>a. v = VPtr (Some a)")
    case True
    then obtain a where a: "v = VPtr (Some a)" by blast
    with 4(2) obtain x d where x: "cell_at h a = Some (CVal x)" "content t h x = Some d"
      by (auto split: option.splits cell.splits)
    have "a < length h" using x(1) by (simp add: cell_at_def split: if_splits)
    with 4(1) [OF a refl x(1) refl x(2)] a x(1) show ?thesis by simp
  next
    case False
    then show ?thesis by (auto split: gval.split option.split)
  qed
next
  case (7 n t ts h fs)
  then obtain g gs c ds where g: "fs = g # gs" "fst g = n" "content t h (snd g) = Some c"
    "content_fields ts h gs = Some ds"
    by (auto split: list.splits option.splits if_splits)
  from 7(1) [OF g(1,2,3)] 7(2) [OF g(1,2,3,4)] show ?case by (simp add: g(1))
qed (auto simp: cell_at_def split: option.splits cell.splits if_splits gval.splits)

lemma content_append:
  assumes "content t h v = Some c"
  shows "content t (h @ k) v = Some c" and "refs t (h @ k) v = refs t h v"
proof -
  have "\<And>a. a \<in> set (refs t h v) \<Longrightarrow> cell_at (h @ k) a = cell_at h a"
    using content_refs(1) [OF assms] by auto
  from content_frame(1) [OF this] assms
  show "content t (h @ k) v = Some c" "refs t (h @ k) v = refs t h v" by simp_all
qed

lemma content_update:
  assumes "content t h v = Some c" and "a \<notin> set (refs t h v)"
  shows "content t (h[a := x]) v = Some c" and "refs t (h[a := x]) v = refs t h v"
proof -
  have "\<And>b. b \<in> set (refs t h v) \<Longrightarrow> cell_at (h[a := x]) b = cell_at h b"
    using assms(2) by (metis cell_at_def length_list_update nth_list_update_neq)
  from content_frame(1) [OF this] assms(1)
  show "content t (h[a := x]) v = Some c" "refs t (h[a := x]) v = refs t h v" by simp_all
qed

lemma flat_refs:
  "flat t \<Longrightarrow> refs t h v = []"
  "flat_fields ts \<Longrightarrow> refs_fields ts h fs = []"
  by (induction t h v and ts h fs rule: refs_refs_fields.induct) (auto split: gval.split list.split)

subsection \<open>The statements of the generated functions\<close>

text \<open>
  A copier takes the store and a value and gives the value written to the target and the store
  afterwards. The elements of a new array or the target of a new pointer are zero until they are
  assigned, here the empty struct; they are not read before.
\<close>

type_synonym copier = "store \<Rightarrow> gval \<Rightarrow> gval \<times> store"

text \<open>An assignment such as \<open>out.Spec = in.Spec\<close> or \<open>**out = **in\<close>.\<close>

definition assign :: copier where
  "assign h v = (v, h)"

text \<open>A map of strings: a new map, filled by ranging over the old one.\<close>

definition copyMap :: copier where
  "copyMap h v =
     (case v of
        VMap (Some a) \<Rightarrow>
          (case cell_at h a of
             Some (CMap m) \<Rightarrow> (VMap (Some (length h)), h @ [CMap (fold (\<lambda>(k, x). AList.update k x) m [])])
           | _ \<Rightarrow> (v, h))
      | _ \<Rightarrow> (v, h))"

text \<open>The loop over the elements of a slice.\<close>

primrec copy_loop :: "copier \<Rightarrow> store \<Rightarrow> gval list \<Rightarrow> gval list \<times> store" where
  "copy_loop f h [] = ([], h)"
| "copy_loop f h (v # vs) =
     (let (v', h) = f h v; (vs', h) = copy_loop f h vs in (v' # vs', h))"

definition makeSlice :: "copier \<Rightarrow> store \<Rightarrow> gval list \<Rightarrow> gval \<times> store" where
  "makeSlice f h vs =
     (let (vs', h') = copy_loop f (h @ [CArr (replicate (length vs) (VStruct []))]) vs
      in (VSlice (Some (length h, 0, length vs)), h'[length h := CArr vs']))"

definition copySlice :: "copier \<Rightarrow> copier" where
  "copySlice f h v =
     (case v of
        VSlice (Some s) \<Rightarrow> (case elements h s of Some vs \<Rightarrow> makeSlice f h vs | None \<Rightarrow> (v, h))
      | _ \<Rightarrow> (v, h))"

text \<open>A pointer: a new target, into which the old one is copied.\<close>

definition copyPtr :: "copier \<Rightarrow> copier" where
  "copyPtr f h v =
     (case v of
        VPtr (Some a) \<Rightarrow>
          (case cell_at h a of
             Some (CVal x) \<Rightarrow>
               let (x', h') = f (h @ [CVal (VStruct [])]) x
               in (VPtr (Some (length h)), h'[length h := CVal x'])
           | _ \<Rightarrow> (v, h))
      | _ \<Rightarrow> (v, h))"

text \<open>A struct: the assignment of the whole, then the statements for single fields.\<close>

definition get_field :: "string \<Rightarrow> gval \<Rightarrow> gval" where
  "get_field n v = (case v of VStruct fs \<Rightarrow> (case map_of fs n of Some x \<Rightarrow> x | None \<Rightarrow> VStruct []) | _ \<Rightarrow> VStruct [])"

definition set_field :: "string \<Rightarrow> gval \<Rightarrow> gval \<Rightarrow> gval" where
  "set_field n x v = (case v of VStruct fs \<Rightarrow> VStruct (map (\<lambda>(k, y). (k, if k = n then x else y)) fs) | _ \<Rightarrow> v)"

primrec field_statements :: "(string \<times> copier) list \<Rightarrow> gval \<Rightarrow> gval \<Rightarrow> store \<Rightarrow> gval \<times> store" where
  "field_statements [] inp out h = (out, h)"
| "field_statements (s # ss) inp out h =
     (let (x, h) = snd s h (get_field (fst s) inp) in field_statements ss inp (set_field (fst s) x out) h)"

definition copyStruct :: "(string \<times> copier) list \<Rightarrow> copier" where
  "copyStruct ss h inp = field_statements ss inp inp h"

subsection \<open>Deep copies\<close>

definition deep :: "gtype \<Rightarrow> copier \<Rightarrow> bool" where
  "deep t f \<longleftrightarrow> (\<forall>h v c. content t h v = Some c \<longrightarrow>
     (\<exists>v' k. f h v = (v', h @ k) \<and> content t (h @ k) v' = Some c \<and>
        (\<forall>a \<in> set (refs t (h @ k) v'). length h \<le> a)))"

lemma deepE:
  assumes "deep t f" "content t h v = Some c"
  obtains v' k where "f h v = (v', h @ k)" "content t (h @ k) v' = Some c"
    "(\<forall>a \<in> set (refs t (h @ k) v'). length h \<le> a)"
  using assms unfolding deep_def by blast

lemma deep_assign: "flat t \<Longrightarrow> deep t assign"
  by (simp add: deep_def assign_def flat_refs)

lemma fold_update: "distinct (map fst (acc @ m)) \<Longrightarrow> fold (\<lambda>(k, x). AList.update k x) m acc = acc @ m"
proof (induction m arbitrary: acc)
  case (Cons p m)
  obtain k x where p: "p = (k, x)" by fastforce
  have "k \<notin> fst ` set acc" using Cons.prems p by auto
  then have "AList.update k x acc = acc @ [(k, x)]" by (induction acc) auto
  then show ?case using Cons.IH [of "acc @ [(k, x)]"] Cons.prems p by simp
qed simp

lemma deep_map: "deep GMap copyMap"
proof -
  have "\<exists>v' k. copyMap h v = (v', h @ k) \<and> content GMap (h @ k) v' = Some c \<and>
        (\<forall>a \<in> set (refs GMap (h @ k) v'). length h \<le> a)" if c: "content GMap h v = Some c" for h v c
  proof (cases "v = VMap None")
    case True
    then show ?thesis using c by (intro exI [of _ v] exI [of _ "[]"]) (simp add: copyMap_def)
  next
    case False
    with c obtain a m where a: "v = VMap (Some a)" "cell_at h a = Some (CMap m)" "distinct (map fst m)"
      "c = MapOf (map_of m)"
      by (auto split: gval.splits option.splits cell.splits if_splits)
    have "copyMap h v = (VMap (Some (length h)), h @ [CMap m])"
      using fold_update [of "[]" m] a(3) by (simp add: copyMap_def a(1,2))
    moreover have "cell_at (h @ [CMap m]) (length h) = Some (CMap m)" by (simp add: cell_at_def)
    ultimately show ?thesis using a(3,4) by (intro exI [of _ "VMap (Some (length h))"] exI [of _ "[CMap m]"]) simp
  qed
  then show ?thesis unfolding deep_def by blast
qed

lemma those_append:
  "those (map (content t h) vs) = Some cs \<Longrightarrow> those (map (content t (h @ k)) vs) = Some cs"
  by (induction vs arbitrary: cs) (auto simp: content_append split: option.splits)

lemma copy_loop_deep:
  assumes "deep t f" and "those (map (content t h) vs) = Some cs"
  shows "\<exists>vs' k. copy_loop f h vs = (vs', h @ k) \<and> length vs' = length vs
    \<and> those (map (content t (h @ k)) vs') = Some cs
    \<and> (\<forall>x \<in> set vs'. (\<forall>a \<in> set (refs t (h @ k) x). length h \<le> a))"
  using assms(2)
proof (induction vs arbitrary: h cs)
  case (Cons v vs)
  obtain c ds where c: "content t h v = Some c" "those (map (content t h) vs) = Some ds" "cs = c # ds"
    using Cons.prems by (auto split: option.splits)
  obtain v' k where v: "f h v = (v', h @ k)" "content t (h @ k) v' = Some c"
    "(\<forall>a \<in> set (refs t (h @ k) v'). length h \<le> a)" using assms(1) c(1) by (rule deepE)
  obtain vs' l where l: "copy_loop f (h @ k) vs = (vs', (h @ k) @ l)" "length vs' = length vs"
    "those (map (content t ((h @ k) @ l)) vs') = Some ds"
    "\<forall>x \<in> set vs'. (\<forall>a \<in> set (refs t ((h @ k) @ l) x). length (h @ k) \<le> a)"
    using Cons.IH [OF those_append [OF c(2)], of k] by blast
  have "(\<forall>a \<in> set (refs t (h @ k @ l) x). length h \<le> a)" if "x \<in> set (v' # vs')" for x
    using that v(3) l(4) content_append(2) [OF v(2), of l] by fastforce
  moreover have "those (map (content t (h @ k @ l)) (v' # vs')) = Some cs"
    using l(3) content_append(1) [OF v(2), of l] c(3) by simp
  moreover have "copy_loop f h (v # vs) = (v' # vs', h @ k @ l)" using v(1) l(1) by simp
  ultimately show ?case using l(2) by (intro exI [of _ "v' # vs'"] exI [of _ "k @ l"]) simp
qed simp

lemma those_update:
  assumes "those (map (content t h) vs) = Some cs" and "\<forall>x \<in> set vs. a \<notin> set (refs t h x)"
  shows "those (map (content t (h[a := y])) vs) = Some cs"
    and "map (refs t (h[a := y])) vs = map (refs t h) vs"
proof -
  show "those (map (content t (h[a := y])) vs) = Some cs"
    using assms by (induction vs arbitrary: cs) (auto simp: content_update split: option.splits)
  show "map (refs t (h[a := y])) vs = map (refs t h) vs"
    using those_Some [OF assms(1)] assms(2) content_update(2) by fastforce
qed

lemma makeSlice_deep:
  assumes "deep t f" and "those (map (content t h) vs) = Some cs"
  shows "\<exists>v' k. makeSlice f h vs = (v', h @ k) \<and> content (GSlice t) (h @ k) v' = Some (ListOf cs)
    \<and> (\<forall>a \<in> set (refs (GSlice t) (h @ k) v'). length h \<le> a)"
proof -
  let ?z = "CArr (replicate (length vs) (VStruct []))"
  let ?h = "h @ [?z]"
  obtain vs' k where l: "copy_loop f ?h vs = (vs', ?h @ k)" "length vs' = length vs"
    "those (map (content t (?h @ k)) vs') = Some cs"
    "\<forall>x \<in> set vs'. (\<forall>a \<in> set (refs t (?h @ k) x). length ?h \<le> a)"
    using copy_loop_deep [OF assms(1) those_append [OF assms(2), of "[?z]"]] by blast
  let ?k = "CArr vs' # k" and ?v = "VSlice (Some (length h, 0, length vs))"
  have u: "(?h @ k)[length h := CArr vs'] = h @ ?k" by simp
  have n: "\<forall>x \<in> set vs'. length h \<notin> set (refs t (?h @ k) x)" using l(4) by fastforce
  note w = those_update [OF l(3) n, of "CArr vs'", unfolded u]
  have e: "elements (h @ ?k) (length h, 0, length vs) = Some vs'"
    using l(2) by (simp add: elements_def cell_at_def)
  have "(\<forall>a \<in> set (refs (GSlice t) (h @ ?k) ?v). length h \<le> a)"
    using e w(2) l(4) by (fastforce simp del: map_eq_conv)
  moreover have "content (GSlice t) (h @ ?k) ?v = Some (ListOf cs)" using e w(1) by simp
  moreover have "makeSlice f h vs = (?v, h @ ?k)" using l(1) u by (simp add: makeSlice_def)
  ultimately show ?thesis by blast
qed

lemma deep_slice:
  assumes "deep t f"
  shows "deep (GSlice t) (copySlice f)"
  unfolding deep_def
proof (intro allI impI)
  fix h v c
  assume c: "content (GSlice t) h v = Some c"
  show "\<exists>v' k. copySlice f h v = (v', h @ k) \<and> content (GSlice t) (h @ k) v' = Some c \<and>
        (\<forall>a \<in> set (refs (GSlice t) (h @ k) v'). length h \<le> a)"
  proof (cases "v = VSlice None")
    case True
    then show ?thesis using c by (intro exI [of _ v] exI [of _ "[]"]) (simp add: copySlice_def)
  next
    case False
    with c obtain s vs cs where "v = VSlice (Some s)" "elements h s = Some vs"
      "those (map (content t h) vs) = Some cs" "c = ListOf cs"
      by (auto split: gval.splits option.splits)
    then show ?thesis using makeSlice_deep [OF assms, of h vs cs] by (simp add: copySlice_def)
  qed
qed

lemma deep_ptr:
  assumes "deep t f"
  shows "deep (GPtr t) (copyPtr f)"
  unfolding deep_def
proof (intro allI impI)
  fix h v c
  assume c: "content (GPtr t) h v = Some c"
  show "\<exists>v' k. copyPtr f h v = (v', h @ k) \<and> content (GPtr t) (h @ k) v' = Some c \<and>
        (\<forall>a \<in> set (refs (GPtr t) (h @ k) v'). length h \<le> a)"
  proof (cases "v = VPtr None")
    case True
    then show ?thesis using c by (intro exI [of _ v] exI [of _ "[]"]) (simp add: copyPtr_def)
  next
    case False
    with c obtain a x d where a: "v = VPtr (Some a)" "cell_at h a = Some (CVal x)" "content t h x = Some d" "c = PtrTo d"
      by (auto split: gval.splits option.splits cell.splits)
    let ?h = "h @ [CVal (VStruct [])]"
    obtain x' k where k: "f ?h x = (x', ?h @ k)" "content t (?h @ k) x' = Some d"
      "(\<forall>a \<in> set (refs t (?h @ k) x'). length ?h \<le> a)"
      using assms content_append(1) [OF a(3)] by (rule deepE)
    let ?k = "CVal x' # k"
    have u: "(?h @ k)[length h := CVal x'] = h @ ?k" by simp
    have "length h \<notin> set (refs t (?h @ k) x')" using k(3) by auto
    note w = content_update [OF k(2) this, of "CVal x'", unfolded u]
    have l: "cell_at (h @ ?k) (length h) = Some (CVal x')" by (simp add: cell_at_def)
    have "(\<forall>a \<in> set (refs (GPtr t) (h @ ?k) (VPtr (Some (length h)))). length h \<le> a)"
      using l w(2) k(3) by auto
    moreover have "content (GPtr t) (h @ ?k) (VPtr (Some (length h))) = Some c" using l w(1) a(4) by simp
    moreover have "copyPtr f h v = (VPtr (Some (length h)), h @ ?k)" using a(1,2) k(1) u by (simp add: copyPtr_def)
    ultimately show ?thesis by blast
  qed
qed

subsection \<open>Structs\<close>

lemma content_get_field:
  assumes "content_fields ts h fs = Some cs" and "distinct (map fst ts)" and "(n, t) \<in> set ts"
  shows "\<exists>c. map_of cs n = Some c \<and> content t h (get_field n (VStruct fs)) = Some c"
  using assms
proof (induction ts arbitrary: fs cs)
  case (Cons p ts)
  obtain k u where p: "p = (k, u)" by fastforce
  with Cons.prems(1) obtain g gs c ds where g: "fs = g # gs" "fst g = k" "content u h (snd g) = Some c"
    "content_fields ts h gs = Some ds" "cs = (k, c) # ds"
    by (auto split: list.splits option.splits if_splits)
  show ?case
  proof (cases "n = k")
    case True
    then have "t = u" using Cons.prems(2,3) p by (auto simp: rev_image_eqI)
    with True g show ?thesis by (cases g) (simp add: get_field_def)
  next
    case False
    with Cons.IH [OF g(4)] Cons.prems(2,3) p
    have "\<exists>c. map_of ds n = Some c \<and> content t h (get_field n (VStruct gs)) = Some c" by auto
    with False g show ?thesis by (cases g) (simp add: get_field_def)
  qed
qed simp

text \<open>The fields of a set of names, and those of types without references, refer to new cells only.\<close>

definition fresh_fields :: "string set \<Rightarrow> (string \<times> gtype) list \<Rightarrow> nat \<Rightarrow> store \<Rightarrow> (string \<times> gval) list \<Rightarrow> bool" where
  "fresh_fields D ts b h fs \<longleftrightarrow>
     list_all2 (\<lambda>(n, t) (k, v). n \<in> D \<or> flat t \<longrightarrow> (\<forall>a \<in> set (refs t h v). b \<le> a)) ts fs"

lemma fresh_fields_Nil [simp]: "fresh_fields D [] b h fs \<longleftrightarrow> fs = []"
  by (simp add: fresh_fields_def)

lemma fresh_fields_Cons [simp]:
  "fresh_fields D ((n, t) # ts) b h ((k, v) # fs) \<longleftrightarrow>
     (n \<in> D \<or> flat t \<longrightarrow> (\<forall>a \<in> set (refs t h v). b \<le> a)) \<and> fresh_fields D ts b h fs"
  by (simp add: fresh_fields_def)

lemma fresh_fields_ConsE:
  assumes "fresh_fields D (p # ts) b h fs"
  obtains k v gs where "fs = (k, v) # gs"
  using assms by (auto simp: fresh_fields_def list_all2_Cons1)

abbreviation put :: "string \<Rightarrow> gval \<Rightarrow> (string \<times> gval) list \<Rightarrow> (string \<times> gval) list" where
  "put n x fs \<equiv> map (\<lambda>(k, y). (k, if k = n then x else y)) fs"

lemma put_absent: "content_fields ts h fs = Some cs \<Longrightarrow> n \<notin> fst ` set ts \<Longrightarrow> put n x fs = fs"
  by (induction ts h fs arbitrary: cs rule: content_content_fields.induct(2) [where P = "\<lambda>_ _ _. True"])
    (auto split: list.splits option.splits if_splits)

lemma put_field:
  assumes "content_fields ts h fs = Some cs" and "distinct (map fst ts)" and "(n, t) \<in> set ts"
    and "map_of cs n = Some c" and "content t h x = Some c"
  shows "content_fields ts h (put n x fs) = Some cs"
    and "fresh_fields D ts b h fs \<Longrightarrow> \<forall>a \<in> set (refs t h x). b \<le> a \<Longrightarrow> fresh_fields (insert n D) ts b h (put n x fs)"
proof -
  have "content_fields ts h (put n x fs) = Some cs \<and>
    (fresh_fields D ts b h fs \<and> (\<forall>a \<in> set (refs t h x). b \<le> a) \<longrightarrow> fresh_fields (insert n D) ts b h (put n x fs))"
    using assms(1-4)
  proof (induction ts arbitrary: fs cs)
    case (Cons p ts)
    obtain k u where p: "p = (k, u)" by fastforce
    with Cons.prems(1) obtain g gs d ds where g: "fs = g # gs" "fst g = k" "content u h (snd g) = Some d"
      "content_fields ts h gs = Some ds" "cs = (k, d) # ds"
      by (auto split: list.splits option.splits if_splits)
    obtain w where w: "g = (k, w)" using g(2) by (cases g) simp
    show ?case
    proof (cases "n = k")
      case True
      have t: "t = u" using True Cons.prems(2,3) p by (auto simp: rev_image_eqI)
      have "n \<notin> fst ` set ts" using True Cons.prems(2) p by simp
      then have a: "put n x gs = gs" by (rule put_absent [OF g(4)])
      have "fresh_fields (insert n D) ts b h gs" if "fresh_fields D ts b h gs"
        using that \<open>n \<notin> fst ` set ts\<close> unfolding fresh_fields_def list_all2_conv_all_nth split_beta
        by (metis image_eqI insert_iff nth_mem)
      with True t g w a p Cons.prems(4) assms(5) show ?thesis by (auto simp: fresh_fields_def)
    next
      case False
      with Cons.IH [OF g(4)] Cons.prems(2-4) p g
      have "content_fields ts h (put n x gs) = Some ds \<and>
        (fresh_fields D ts b h gs \<and> (\<forall>a \<in> set (refs t h x). b \<le> a) \<longrightarrow> fresh_fields (insert n D) ts b h (put n x gs))"
        by auto
      with False g w p show ?thesis by (auto simp: fresh_fields_def)
    qed
  qed simp
  then show "content_fields ts h (put n x fs) = Some cs"
    "fresh_fields D ts b h fs \<Longrightarrow> \<forall>a \<in> set (refs t h x). b \<le> a \<Longrightarrow> fresh_fields (insert n D) ts b h (put n x fs)"
    by blast+
qed

lemma fresh_refs:
  assumes "fresh_fields D ts b h fs" and "\<forall>(n, t) \<in> set ts. n \<in> D \<or> flat t"
  shows "\<forall>a \<in> set (refs_fields ts h fs). b \<le> a"
  using assms
proof (induction ts arbitrary: fs)
  case (Cons p ts)
  obtain n t where p: "p = (n, t)" by fastforce
  obtain k v gs where fs: "fs = (k, v) # gs" using Cons.prems(1) by (rule fresh_fields_ConsE)
  have f: "fresh_fields D ts b h gs" "n \<in> D \<or> flat t \<longrightarrow> (\<forall>a \<in> set (refs t h v). b \<le> a)"
    using Cons.prems(1) by (simp_all add: p fs)
  have "n \<in> D \<or> flat t" using Cons.prems(2) by (simp add: p)
  with f(2) have "\<forall>a \<in> set (refs t h v). b \<le> a" by blast
  with Cons.IH [OF f(1)] Cons.prems(2) show ?case by (simp add: p fs ball_Un)
qed simp

lemma content_fields_append:
  assumes "content_fields ts h fs = Some cs"
  shows "content_fields ts (h @ k) fs = Some cs"
    and "fresh_fields D ts b h fs \<Longrightarrow> fresh_fields D ts b (h @ k) fs"
proof -
  have "content_fields ts (h @ k) fs = Some cs \<and> (fresh_fields D ts b h fs \<longrightarrow> fresh_fields D ts b (h @ k) fs)"
    using assms
  proof (induction ts arbitrary: fs cs)
    case (Cons p ts)
    obtain n t where p: "p = (n, t)" by fastforce
    with Cons.prems obtain g gs c ds where g: "fs = g # gs" "fst g = n" "content t h (snd g) = Some c"
      "content_fields ts h gs = Some ds" "cs = (n, c) # ds"
      by (auto split: list.splits option.splits if_splits)
    obtain v where v: "g = (n, v)" using g(2) by (cases g) simp
    from Cons.IH [OF g(4)] content_append [OF g(3), of k] show ?case
      using g(5) by (simp add: p g(1) v)
  qed (simp split: list.splits)
  then show "content_fields ts (h @ k) fs = Some cs"
    "fresh_fields D ts b h fs \<Longrightarrow> fresh_fields D ts b (h @ k) fs"
    by blast+
qed

lemma field_statements_deep:
  assumes "distinct (map fst ts)" and "\<forall>(n, f) \<in> set ss. \<exists>t. (n, t) \<in> set ts \<and> deep t f"
    and "content_fields ts h fs = Some cs" and "content_fields ts h os = Some cs"
    and "fresh_fields D ts b h os" and "b \<le> length h"
  shows "\<exists>os' k. field_statements ss (VStruct fs) (VStruct os) h = (VStruct os', h @ k)
    \<and> content_fields ts (h @ k) os' = Some cs \<and> fresh_fields (D \<union> fst ` set ss) ts b (h @ k) os'"
  using assms(2-6)
proof (induction ss arbitrary: h os D)
  case Nil
  then show ?case by (intro exI [of _ os] exI [of _ "[]"]) simp
next
  case (Cons s ss)
  obtain n f where s: "s = (n, f)" by fastforce
  with Cons.prems(1) obtain t where t: "(n, t) \<in> set ts" "deep t f" by auto
  obtain c where c: "map_of cs n = Some c" "content t h (get_field n (VStruct fs)) = Some c"
    using content_get_field [OF Cons.prems(2) assms(1) t(1)] by blast
  obtain x k where x: "f h (get_field n (VStruct fs)) = (x, h @ k)" "content t (h @ k) x = Some c"
    "\<forall>a \<in> set (refs t (h @ k) x). length h \<le> a" using t(2) c(2) by (rule deepE)
  have b: "\<forall>a \<in> set (refs t (h @ k) x). b \<le> a" using x(3) Cons.prems(5) by fastforce
  note p = put_field [OF content_fields_append(1) [OF Cons.prems(3)] assms(1) t(1) c(1) x(2)]
  note fr = p(2) [OF content_fields_append(2) [OF Cons.prems(3,4)] b]
  have r: "\<forall>(n, f) \<in> set ss. \<exists>t. (n, t) \<in> set ts \<and> deep t f" using Cons.prems(1) by simp
  obtain os' l where l: "field_statements ss (VStruct fs) (VStruct (put n x os)) (h @ k) = (VStruct os', (h @ k) @ l)"
    "content_fields ts ((h @ k) @ l) os' = Some cs" "fresh_fields (insert n D \<union> fst ` set ss) ts b ((h @ k) @ l) os'"
    using Cons.IH [OF r content_fields_append(1) [OF Cons.prems(2)] p(1) fr] Cons.prems(5) by auto
  then show ?case
    by (intro exI [of _ os'] exI [of _ "k @ l"]) (simp add: s x(1) set_field_def)
qed

lemma fresh_fields_start: "content_fields ts h fs = Some cs \<Longrightarrow> fresh_fields {} ts b h fs"
proof (induction ts arbitrary: fs cs)
  case (Cons p ts)
  obtain n t where p: "p = (n, t)" by fastforce
  with Cons.prems obtain g gs ds where "fs = g # gs" "content_fields ts h gs = Some ds"
    by (auto split: list.splits option.splits if_splits)
  with Cons.IH [of gs ds] show ?case by (cases g) (simp add: p flat_refs)
qed (simp split: list.splits)

lemma deep_struct:
  assumes "distinct (map fst ts)" and "\<forall>(n, f) \<in> set ss. \<exists>t. (n, t) \<in> set ts \<and> deep t f"
    and "\<forall>(n, t) \<in> set ts. n \<in> fst ` set ss \<or> flat t"
  shows "deep (GStruct ts) (copyStruct ss)"
  unfolding deep_def
proof (intro allI impI)
  fix h v c
  assume "content (GStruct ts) h v = Some c"
  then obtain fs cs where v: "v = VStruct fs" "content_fields ts h fs = Some cs" "c = RecOf cs"
    by (auto split: gval.splits)
  from field_statements_deep [OF assms(1,2) v(2,2) fresh_fields_start [OF v(2)] order_refl] obtain os k where
    k: "copyStruct ss h v = (VStruct os, h @ k)" "content_fields ts (h @ k) os = Some cs"
    "fresh_fields (fst ` set ss) ts (length h) (h @ k) os"
    by (auto simp: copyStruct_def v(1))
  from fresh_refs [OF k(3) assms(3)] k(1,2) v(3)
  show "\<exists>v' k. copyStruct ss h v = (v', h @ k) \<and> content (GStruct ts) (h @ k) v' = Some c \<and>
        (\<forall>a \<in> set (refs (GStruct ts) (h @ k) v'). length h \<le> a)"
    by (intro exI [of _ "VStruct os"] exI [of _ k]) simp
qed

subsection \<open>The API types and their copies\<close>

text \<open>
  The types from other packages: what they are made of, and their DeepCopyInto. Four of them are
  only assigned, which copies them if they have no references; those with a DeepCopyInto have one
  that makes a deep copy. A time is a value, its time zone being immutable.
\<close>

record ext_types =
  xt_type :: "string \<Rightarrow> gtype"
  xt_DeepCopyInto :: "string \<Rightarrow> copier"

definition ext_types_ok :: "ext_types \<Rightarrow> bool" where
  "ext_types_ok E \<longleftrightarrow>
     list_all (\<lambda>n. flat (xt_type E n)) [''TypeMeta'', ''GroupVersionKind'', ''IntOrString'', ''ObjectKey''] \<and>
     list_all (\<lambda>n. deep (xt_type E n) (xt_DeepCopyInto E n))
       [''ObjectMeta'', ''ListMeta'', ''Time'', ''LabelSelector'', ''LabelSelectorRequirement'',
        ''K8SResourceOverlayPatch'']"

definition ty_NamespacedName :: "gtype" where
  "ty_NamespacedName = GStruct
     [(''Name'', GFlat), (''Namespace'', GFlat)]"

definition DeepCopyInto_NamespacedName :: "copier" where
  "DeepCopyInto_NamespacedName = copyStruct
     []"

definition ty_AuthInfo :: "gtype" where
  "ty_AuthInfo = GStruct
     [(''SecretRef'', ty_NamespacedName)]"

definition DeepCopyInto_AuthInfo :: "copier" where
  "DeepCopyInto_AuthInfo = copyStruct
     [(''SecretRef'', assign)]"

definition ty_KubernetesAPIEndpoint :: "gtype" where
  "ty_KubernetesAPIEndpoint = GStruct
     [(''ClientNetwork'', GFlat), (''ServerAddress'', GFlat), (''CABundle'', GSlice GFlat)]"

definition DeepCopyInto_KubernetesAPIEndpoint :: "copier" where
  "DeepCopyInto_KubernetesAPIEndpoint = copyStruct
     [(''CABundle'', copySlice assign)]"

definition ty_ClusterSpec :: "gtype" where
  "ty_ClusterSpec = GStruct
     [(''ClusterID'', GFlat), (''AuthInfo'', ty_AuthInfo),
      (''KubernetesAPIEndpoints'', GSlice ty_KubernetesAPIEndpoint)]"

definition DeepCopyInto_ClusterSpec :: "copier" where
  "DeepCopyInto_ClusterSpec = copyStruct
     [(''AuthInfo'', assign),
      (''KubernetesAPIEndpoints'', copySlice DeepCopyInto_KubernetesAPIEndpoint)]"

definition ty_Locality :: "gtype" where
  "ty_Locality = GStruct
     [(''Region'', GFlat), (''Regions'', GSlice GFlat), (''Zones'', GSlice GFlat)]"

definition DeepCopyInto_Locality :: "copier" where
  "DeepCopyInto_Locality = copyStruct
     [(''Regions'', copySlice assign), (''Zones'', copySlice assign)]"

definition ty_ClusterMetadata :: "gtype" where
  "ty_ClusterMetadata = GStruct
     [(''Provider'', GFlat), (''Distribution'', GFlat), (''KubeProxyVersions'', GSlice GFlat),
      (''KubeletVersions'', GSlice GFlat), (''Version'', GFlat),
      (''Locality'', GPtr ty_Locality)]"

definition DeepCopyInto_ClusterMetadata :: "copier" where
  "DeepCopyInto_ClusterMetadata = copyStruct
     [(''KubeProxyVersions'', copySlice assign), (''KubeletVersions'', copySlice assign),
      (''Locality'', copyPtr DeepCopyInto_Locality)]"

definition ty_ClusterCondition :: "ext_types \<Rightarrow> gtype" where
  "ty_ClusterCondition E = GStruct
     [(''Type'', GFlat), (''Status'', GFlat), (''LastHeartbeatTime'', xt_type E ''Time''),
      (''LastTransitionTime'', xt_type E ''Time''), (''Reason'', GFlat), (''Message'', GFlat),
      (''TrueIsFailure'', GFlat)]"

definition DeepCopyInto_ClusterCondition :: "ext_types \<Rightarrow> copier" where
  "DeepCopyInto_ClusterCondition E = copyStruct
     [(''LastHeartbeatTime'', xt_DeepCopyInto E ''Time''),
      (''LastTransitionTime'', xt_DeepCopyInto E ''Time'')]"

definition ty_ClusterStatus :: "ext_types \<Rightarrow> gtype" where
  "ty_ClusterStatus E = GStruct
     [(''State'', GFlat), (''Message'', GFlat), (''Type'', GFlat), (''Leader'', GFlat),
      (''ClusterMetadata'', ty_ClusterMetadata),
      (''Conditions'', GSlice (ty_ClusterCondition E))]"

definition DeepCopyInto_ClusterStatus :: "ext_types \<Rightarrow> copier" where
  "DeepCopyInto_ClusterStatus E = copyStruct
     [(''ClusterMetadata'', DeepCopyInto_ClusterMetadata),
      (''Conditions'', copySlice (DeepCopyInto_ClusterCondition E))]"

definition ty_Cluster :: "ext_types \<Rightarrow> gtype" where
  "ty_Cluster E = GStruct
     [(''TypeMeta'', xt_type E ''TypeMeta''), (''ObjectMeta'', xt_type E ''ObjectMeta''),
      (''Spec'', ty_ClusterSpec), (''Status'', ty_ClusterStatus E)]"

definition DeepCopyInto_Cluster :: "ext_types \<Rightarrow> copier" where
  "DeepCopyInto_Cluster E = copyStruct
     [(''TypeMeta'', assign), (''ObjectMeta'', xt_DeepCopyInto E ''ObjectMeta''),
      (''Spec'', DeepCopyInto_ClusterSpec), (''Status'', DeepCopyInto_ClusterStatus E)]"

definition ty_ClusterList :: "ext_types \<Rightarrow> gtype" where
  "ty_ClusterList E = GStruct
     [(''TypeMeta'', xt_type E ''TypeMeta''), (''ListMeta'', xt_type E ''ListMeta''),
      (''Items'', GSlice (ty_Cluster E))]"

definition DeepCopyInto_ClusterList :: "ext_types \<Rightarrow> copier" where
  "DeepCopyInto_ClusterList E = copyStruct
     [(''TypeMeta'', assign), (''ListMeta'', xt_DeepCopyInto E ''ListMeta''),
      (''Items'', copySlice (DeepCopyInto_Cluster E))]"

definition ty_ClusterFeatureSpec :: "gtype" where
  "ty_ClusterFeatureSpec = GStruct
     [(''FeatureName'', GFlat)]"

definition DeepCopyInto_ClusterFeatureSpec :: "copier" where
  "DeepCopyInto_ClusterFeatureSpec = copyStruct
     []"

definition ty_ClusterFeatureStatus :: "gtype" where
  "ty_ClusterFeatureStatus = GStruct
     []"

definition DeepCopyInto_ClusterFeatureStatus :: "copier" where
  "DeepCopyInto_ClusterFeatureStatus = copyStruct
     []"

definition ty_ClusterFeature :: "ext_types \<Rightarrow> gtype" where
  "ty_ClusterFeature E = GStruct
     [(''TypeMeta'', xt_type E ''TypeMeta''), (''ObjectMeta'', xt_type E ''ObjectMeta''),
      (''Spec'', ty_ClusterFeatureSpec), (''Status'', ty_ClusterFeatureStatus)]"

definition DeepCopyInto_ClusterFeature :: "ext_types \<Rightarrow> copier" where
  "DeepCopyInto_ClusterFeature E = copyStruct
     [(''TypeMeta'', assign), (''ObjectMeta'', xt_DeepCopyInto E ''ObjectMeta''),
      (''Spec'', assign), (''Status'', assign)]"

definition ty_ClusterFeatureList :: "ext_types \<Rightarrow> gtype" where
  "ty_ClusterFeatureList E = GStruct
     [(''TypeMeta'', xt_type E ''TypeMeta''), (''ListMeta'', xt_type E ''ListMeta''),
      (''Items'', GSlice (ty_ClusterFeature E))]"

definition DeepCopyInto_ClusterFeatureList :: "ext_types \<Rightarrow> copier" where
  "DeepCopyInto_ClusterFeatureList E = copyStruct
     [(''TypeMeta'', assign), (''ListMeta'', xt_DeepCopyInto E ''ListMeta''),
      (''Items'', copySlice (DeepCopyInto_ClusterFeature E))]"

definition ty_ClusterFeatureMatch :: "ext_types \<Rightarrow> gtype" where
  "ty_ClusterFeatureMatch E = GStruct
     [(''FeatureName'', GFlat), (''MatchLabels'', GMap),
      (''MatchExpressions'', GSlice (xt_type E ''LabelSelectorRequirement''))]"

definition DeepCopyInto_ClusterFeatureMatch :: "ext_types \<Rightarrow> copier" where
  "DeepCopyInto_ClusterFeatureMatch E = copyStruct
     [(''MatchLabels'', copyMap),
      (''MatchExpressions'', copySlice (xt_DeepCopyInto E ''LabelSelectorRequirement''))]"

definition ty_AnnotationMutations :: "gtype" where
  "ty_AnnotationMutations = GStruct
     [(''Add'', GMap), (''Remove'', GSlice GFlat)]"

definition DeepCopyInto_AnnotationMutations :: "copier" where
  "DeepCopyInto_AnnotationMutations = copyStruct
     [(''Add'', copyMap), (''Remove'', copySlice assign)]"

definition ty_LabelMutations :: "gtype" where
  "ty_LabelMutations = GStruct
     [(''Add'', GMap), (''Remove'', GSlice GFlat)]"

definition DeepCopyInto_LabelMutations :: "copier" where
  "DeepCopyInto_LabelMutations = copyStruct
     [(''Add'', copyMap), (''Remove'', copySlice assign)]"

definition ty_Mutations :: "ext_types \<Rightarrow> gtype" where
  "ty_Mutations E = GStruct
     [(''Annotations'', GPtr ty_AnnotationMutations),
      (''GVK'', GPtr (xt_type E ''GroupVersionKind'')), (''Labels'', GPtr ty_LabelMutations),
      (''Overrides'', GSlice (xt_type E ''K8SResourceOverlayPatch'')),
      (''SyncStatus'', GFlat)]"

definition DeepCopyInto_Mutations :: "ext_types \<Rightarrow> copier" where
  "DeepCopyInto_Mutations E = copyStruct
     [(''Annotations'', copyPtr DeepCopyInto_AnnotationMutations), (''GVK'', copyPtr assign),
      (''Labels'', copyPtr DeepCopyInto_LabelMutations),
      (''Overrides'', copySlice (xt_DeepCopyInto E ''K8SResourceOverlayPatch''))]"

definition ty_AnnotationSelectorRequirement :: "gtype" where
  "ty_AnnotationSelectorRequirement = GStruct
     [(''Key'', GFlat), (''Operator'', GFlat), (''Values'', GSlice GFlat)]"

definition DeepCopyInto_AnnotationSelectorRequirement :: "copier" where
  "DeepCopyInto_AnnotationSelectorRequirement = copyStruct
     [(''Values'', copySlice assign)]"

definition ty_AnnotationSelector :: "gtype" where
  "ty_AnnotationSelector = GStruct
     [(''MatchAnnotations'', GMap),
      (''MatchExpressions'', GSlice ty_AnnotationSelectorRequirement)]"

definition DeepCopyInto_AnnotationSelector :: "copier" where
  "DeepCopyInto_AnnotationSelector = copyStruct
     [(''MatchAnnotations'', copyMap),
      (''MatchExpressions'', copySlice DeepCopyInto_AnnotationSelectorRequirement)]"

definition ty_ContentSelector :: "ext_types \<Rightarrow> gtype" where
  "ty_ContentSelector E = GStruct
     [(''Key'', GFlat), (''Value'', xt_type E ''IntOrString'')]"

definition DeepCopyInto_ContentSelector :: "ext_types \<Rightarrow> copier" where
  "DeepCopyInto_ContentSelector E = copyStruct
     [(''Value'', assign)]"

definition ty_SyncRuleMatch :: "ext_types \<Rightarrow> gtype" where
  "ty_SyncRuleMatch E = GStruct
     [(''Annotations'', GSlice ty_AnnotationSelector),
      (''Content'', GSlice (ty_ContentSelector E)),
      (''Labels'', GSlice (xt_type E ''LabelSelector'')), (''Namespaces'', GSlice GFlat),
      (''ObjectKey'', xt_type E ''ObjectKey'')]"

definition DeepCopyInto_SyncRuleMatch :: "ext_types \<Rightarrow> copier" where
  "DeepCopyInto_SyncRuleMatch E = copyStruct
     [(''Annotations'', copySlice DeepCopyInto_AnnotationSelector),
      (''Content'', copySlice assign),
      (''Labels'', copySlice (xt_DeepCopyInto E ''LabelSelector'')),
      (''Namespaces'', copySlice assign), (''ObjectKey'', assign)]"

definition ty_SyncRule :: "ext_types \<Rightarrow> gtype" where
  "ty_SyncRule E = GStruct
     [(''Matches'', GSlice (ty_SyncRuleMatch E)), (''Mutations'', ty_Mutations E)]"

definition DeepCopyInto_SyncRule :: "ext_types \<Rightarrow> copier" where
  "DeepCopyInto_SyncRule E = copyStruct
     [(''Matches'', copySlice (DeepCopyInto_SyncRuleMatch E)),
      (''Mutations'', DeepCopyInto_Mutations E)]"

definition ty_ResourceSyncRuleSpec :: "ext_types \<Rightarrow> gtype" where
  "ty_ResourceSyncRuleSpec E = GStruct
     [(''ClusterFeatureMatches'', GSlice (ty_ClusterFeatureMatch E)),
      (''GVK'', xt_type E ''GroupVersionKind''), (''Rules'', GSlice (ty_SyncRule E))]"

definition DeepCopyInto_ResourceSyncRuleSpec :: "ext_types \<Rightarrow> copier" where
  "DeepCopyInto_ResourceSyncRuleSpec E = copyStruct
     [(''ClusterFeatureMatches'', copySlice (DeepCopyInto_ClusterFeatureMatch E)),
      (''GVK'', assign), (''Rules'', copySlice (DeepCopyInto_SyncRule E))]"

definition ty_ResourceSyncRuleStatus :: "gtype" where
  "ty_ResourceSyncRuleStatus = GStruct
     []"

definition DeepCopyInto_ResourceSyncRuleStatus :: "copier" where
  "DeepCopyInto_ResourceSyncRuleStatus = copyStruct
     []"

definition ty_ResourceSyncRule :: "ext_types \<Rightarrow> gtype" where
  "ty_ResourceSyncRule E = GStruct
     [(''TypeMeta'', xt_type E ''TypeMeta''), (''ObjectMeta'', xt_type E ''ObjectMeta''),
      (''Spec'', ty_ResourceSyncRuleSpec E), (''Status'', ty_ResourceSyncRuleStatus)]"

definition DeepCopyInto_ResourceSyncRule :: "ext_types \<Rightarrow> copier" where
  "DeepCopyInto_ResourceSyncRule E = copyStruct
     [(''TypeMeta'', assign), (''ObjectMeta'', xt_DeepCopyInto E ''ObjectMeta''),
      (''Spec'', DeepCopyInto_ResourceSyncRuleSpec E), (''Status'', assign)]"

definition ty_ResourceSyncRuleList :: "ext_types \<Rightarrow> gtype" where
  "ty_ResourceSyncRuleList E = GStruct
     [(''TypeMeta'', xt_type E ''TypeMeta''), (''ListMeta'', xt_type E ''ListMeta''),
      (''Items'', GSlice (ty_ResourceSyncRule E))]"

definition DeepCopyInto_ResourceSyncRuleList :: "ext_types \<Rightarrow> copier" where
  "DeepCopyInto_ResourceSyncRuleList E = copyStruct
     [(''TypeMeta'', assign), (''ListMeta'', xt_DeepCopyInto E ''ListMeta''),
      (''Items'', copySlice (DeepCopyInto_ResourceSyncRule E))]"

text \<open>Matched rules are a slice; DeepCopyInto makes a new one also from nil, DeepCopy does not.\<close>

definition ty_MatchedRules :: "ext_types \<Rightarrow> gtype" where
  "ty_MatchedRules E = GSlice (ty_SyncRule E)"

definition DeepCopyInto_MatchedRules :: "ext_types \<Rightarrow> copier" where
  "DeepCopyInto_MatchedRules E h v =
     (case v of
        VSlice None \<Rightarrow> makeSlice (DeepCopyInto_SyncRule E) h []
      | _ \<Rightarrow> copySlice (DeepCopyInto_SyncRule E) h v)"

definition DeepCopy_MatchedRules :: "ext_types \<Rightarrow> copier" where
  "DeepCopy_MatchedRules E h v = (if v = VSlice None then (v, h) else DeepCopyInto_MatchedRules E h v)"

text \<open>The function DeepCopy of a type: nil for a nil pointer, otherwise a new value that is copied into.\<close>

definition DeepCopy :: "copier \<Rightarrow> copier" where
  "DeepCopy into h v = (if v = VPtr None then (VPtr None, h) else copyPtr into h v)"

definition generated :: "ext_types \<Rightarrow> (gtype \<times> copier) list" where
  "generated E =
     [(ty_NamespacedName, DeepCopyInto_NamespacedName), (ty_AuthInfo, DeepCopyInto_AuthInfo),
      (ty_KubernetesAPIEndpoint, DeepCopyInto_KubernetesAPIEndpoint),
      (ty_ClusterSpec, DeepCopyInto_ClusterSpec), (ty_Locality, DeepCopyInto_Locality),
      (ty_ClusterMetadata, DeepCopyInto_ClusterMetadata),
      (ty_ClusterCondition E, DeepCopyInto_ClusterCondition E),
      (ty_ClusterStatus E, DeepCopyInto_ClusterStatus E),
      (ty_Cluster E, DeepCopyInto_Cluster E), (ty_ClusterList E, DeepCopyInto_ClusterList E),
      (ty_ClusterFeatureSpec, DeepCopyInto_ClusterFeatureSpec),
      (ty_ClusterFeatureStatus, DeepCopyInto_ClusterFeatureStatus),
      (ty_ClusterFeature E, DeepCopyInto_ClusterFeature E),
      (ty_ClusterFeatureList E, DeepCopyInto_ClusterFeatureList E),
      (ty_ClusterFeatureMatch E, DeepCopyInto_ClusterFeatureMatch E),
      (ty_AnnotationMutations, DeepCopyInto_AnnotationMutations),
      (ty_LabelMutations, DeepCopyInto_LabelMutations),
      (ty_Mutations E, DeepCopyInto_Mutations E),
      (ty_AnnotationSelectorRequirement, DeepCopyInto_AnnotationSelectorRequirement),
      (ty_AnnotationSelector, DeepCopyInto_AnnotationSelector),
      (ty_ContentSelector E, DeepCopyInto_ContentSelector E),
      (ty_SyncRuleMatch E, DeepCopyInto_SyncRuleMatch E),
      (ty_SyncRule E, DeepCopyInto_SyncRule E),
      (ty_ResourceSyncRuleSpec E, DeepCopyInto_ResourceSyncRuleSpec E),
      (ty_ResourceSyncRuleStatus, DeepCopyInto_ResourceSyncRuleStatus),
      (ty_ResourceSyncRule E, DeepCopyInto_ResourceSyncRule E),
      (ty_ResourceSyncRuleList E, DeepCopyInto_ResourceSyncRuleList E)]"

subsection \<open>The copies are deep\<close>

lemma deep_structI:
  assumes "distinct (map fst ts)"
    and "list_all (\<lambda>(n, f). case map_of ts n of None \<Rightarrow> False | Some t \<Rightarrow> deep t f) ss"
    and "list_all (\<lambda>(n, t). n \<in> fst ` set ss \<or> flat t) ts"
  shows "deep (GStruct ts) (copyStruct ss)"
proof (rule deep_struct [OF assms(1)])
  show "\<forall>(n, f) \<in> set ss. \<exists>t. (n, t) \<in> set ts \<and> deep t f"
    using assms(2) by (fastforce simp: list_all_iff split: option.splits dest: map_of_SomeD)
  show "\<forall>(n, t) \<in> set ts. n \<in> fst ` set ss \<or> flat t" using assms(3) by (auto simp: list_all_iff)
qed

named_theorems deep_copies \<open>deep copies of the API types\<close>

lemmas deep_statements = deep_map deep_slice deep_ptr deep_assign

lemma flat_types:
  "flat ty_NamespacedName"
  "flat ty_AuthInfo"
  "flat ty_ClusterFeatureSpec"
  "flat ty_ClusterFeatureStatus"
  "ext_types_ok E \<Longrightarrow> flat (ty_ContentSelector E)"
  "flat ty_ResourceSyncRuleStatus"
  by (simp_all add: ty_NamespacedName_def ty_AuthInfo_def ty_ClusterFeatureSpec_def ty_ClusterFeatureStatus_def ty_ContentSelector_def ty_ResourceSyncRuleStatus_def ext_types_ok_def)

lemma deep_NamespacedName [deep_copies]: "deep ty_NamespacedName DeepCopyInto_NamespacedName"
  unfolding ty_NamespacedName_def DeepCopyInto_NamespacedName_def
  by (rule deep_structI) (simp_all add: deep_statements deep_copies ext_types_ok_def flat_types)

lemma deep_AuthInfo [deep_copies]: "deep ty_AuthInfo DeepCopyInto_AuthInfo"
  unfolding ty_AuthInfo_def DeepCopyInto_AuthInfo_def
  by (rule deep_structI) (simp_all add: deep_statements deep_copies ext_types_ok_def flat_types)

lemma deep_KubernetesAPIEndpoint [deep_copies]: "deep ty_KubernetesAPIEndpoint DeepCopyInto_KubernetesAPIEndpoint"
  unfolding ty_KubernetesAPIEndpoint_def DeepCopyInto_KubernetesAPIEndpoint_def
  by (rule deep_structI) (simp_all add: deep_statements deep_copies ext_types_ok_def flat_types)

lemma deep_ClusterSpec [deep_copies]: "deep ty_ClusterSpec DeepCopyInto_ClusterSpec"
  unfolding ty_ClusterSpec_def DeepCopyInto_ClusterSpec_def
  by (rule deep_structI) (simp_all add: deep_statements deep_copies ext_types_ok_def flat_types)

lemma deep_Locality [deep_copies]: "deep ty_Locality DeepCopyInto_Locality"
  unfolding ty_Locality_def DeepCopyInto_Locality_def
  by (rule deep_structI) (simp_all add: deep_statements deep_copies ext_types_ok_def flat_types)

lemma deep_ClusterMetadata [deep_copies]: "deep ty_ClusterMetadata DeepCopyInto_ClusterMetadata"
  unfolding ty_ClusterMetadata_def DeepCopyInto_ClusterMetadata_def
  by (rule deep_structI) (simp_all add: deep_statements deep_copies ext_types_ok_def flat_types)

lemma deep_ClusterCondition [deep_copies]: "ext_types_ok E \<Longrightarrow> deep (ty_ClusterCondition E) (DeepCopyInto_ClusterCondition E)"
  unfolding ty_ClusterCondition_def DeepCopyInto_ClusterCondition_def
  by (rule deep_structI) (simp_all add: deep_statements deep_copies ext_types_ok_def flat_types)

lemma deep_ClusterStatus [deep_copies]: "ext_types_ok E \<Longrightarrow> deep (ty_ClusterStatus E) (DeepCopyInto_ClusterStatus E)"
  unfolding ty_ClusterStatus_def DeepCopyInto_ClusterStatus_def
  by (rule deep_structI) (simp_all add: deep_statements deep_copies ext_types_ok_def flat_types)

lemma deep_Cluster [deep_copies]: "ext_types_ok E \<Longrightarrow> deep (ty_Cluster E) (DeepCopyInto_Cluster E)"
  unfolding ty_Cluster_def DeepCopyInto_Cluster_def
  by (rule deep_structI) (simp_all add: deep_statements deep_copies ext_types_ok_def flat_types)

lemma deep_ClusterList [deep_copies]: "ext_types_ok E \<Longrightarrow> deep (ty_ClusterList E) (DeepCopyInto_ClusterList E)"
  unfolding ty_ClusterList_def DeepCopyInto_ClusterList_def
  by (rule deep_structI) (simp_all add: deep_statements deep_copies ext_types_ok_def flat_types)

lemma deep_ClusterFeatureSpec [deep_copies]: "deep ty_ClusterFeatureSpec DeepCopyInto_ClusterFeatureSpec"
  unfolding ty_ClusterFeatureSpec_def DeepCopyInto_ClusterFeatureSpec_def
  by (rule deep_structI) (simp_all add: deep_statements deep_copies ext_types_ok_def flat_types)

lemma deep_ClusterFeatureStatus [deep_copies]: "deep ty_ClusterFeatureStatus DeepCopyInto_ClusterFeatureStatus"
  unfolding ty_ClusterFeatureStatus_def DeepCopyInto_ClusterFeatureStatus_def
  by (rule deep_structI) (simp_all add: deep_statements deep_copies ext_types_ok_def flat_types)

lemma deep_ClusterFeature [deep_copies]: "ext_types_ok E \<Longrightarrow> deep (ty_ClusterFeature E) (DeepCopyInto_ClusterFeature E)"
  unfolding ty_ClusterFeature_def DeepCopyInto_ClusterFeature_def
  by (rule deep_structI) (simp_all add: deep_statements deep_copies ext_types_ok_def flat_types)

lemma deep_ClusterFeatureList [deep_copies]: "ext_types_ok E \<Longrightarrow> deep (ty_ClusterFeatureList E) (DeepCopyInto_ClusterFeatureList E)"
  unfolding ty_ClusterFeatureList_def DeepCopyInto_ClusterFeatureList_def
  by (rule deep_structI) (simp_all add: deep_statements deep_copies ext_types_ok_def flat_types)

lemma deep_ClusterFeatureMatch [deep_copies]: "ext_types_ok E \<Longrightarrow> deep (ty_ClusterFeatureMatch E) (DeepCopyInto_ClusterFeatureMatch E)"
  unfolding ty_ClusterFeatureMatch_def DeepCopyInto_ClusterFeatureMatch_def
  by (rule deep_structI) (simp_all add: deep_statements deep_copies ext_types_ok_def flat_types)

lemma deep_AnnotationMutations [deep_copies]: "deep ty_AnnotationMutations DeepCopyInto_AnnotationMutations"
  unfolding ty_AnnotationMutations_def DeepCopyInto_AnnotationMutations_def
  by (rule deep_structI) (simp_all add: deep_statements deep_copies ext_types_ok_def flat_types)

lemma deep_LabelMutations [deep_copies]: "deep ty_LabelMutations DeepCopyInto_LabelMutations"
  unfolding ty_LabelMutations_def DeepCopyInto_LabelMutations_def
  by (rule deep_structI) (simp_all add: deep_statements deep_copies ext_types_ok_def flat_types)

lemma deep_Mutations [deep_copies]: "ext_types_ok E \<Longrightarrow> deep (ty_Mutations E) (DeepCopyInto_Mutations E)"
  unfolding ty_Mutations_def DeepCopyInto_Mutations_def
  by (rule deep_structI) (simp_all add: deep_statements deep_copies ext_types_ok_def flat_types)

lemma deep_AnnotationSelectorRequirement [deep_copies]: "deep ty_AnnotationSelectorRequirement DeepCopyInto_AnnotationSelectorRequirement"
  unfolding ty_AnnotationSelectorRequirement_def DeepCopyInto_AnnotationSelectorRequirement_def
  by (rule deep_structI) (simp_all add: deep_statements deep_copies ext_types_ok_def flat_types)

lemma deep_AnnotationSelector [deep_copies]: "deep ty_AnnotationSelector DeepCopyInto_AnnotationSelector"
  unfolding ty_AnnotationSelector_def DeepCopyInto_AnnotationSelector_def
  by (rule deep_structI) (simp_all add: deep_statements deep_copies ext_types_ok_def flat_types)

lemma deep_ContentSelector [deep_copies]: "ext_types_ok E \<Longrightarrow> deep (ty_ContentSelector E) (DeepCopyInto_ContentSelector E)"
  unfolding ty_ContentSelector_def DeepCopyInto_ContentSelector_def
  by (rule deep_structI) (simp_all add: deep_statements deep_copies ext_types_ok_def flat_types)

lemma deep_SyncRuleMatch [deep_copies]: "ext_types_ok E \<Longrightarrow> deep (ty_SyncRuleMatch E) (DeepCopyInto_SyncRuleMatch E)"
  unfolding ty_SyncRuleMatch_def DeepCopyInto_SyncRuleMatch_def
  by (rule deep_structI) (simp_all add: deep_statements deep_copies ext_types_ok_def flat_types)

lemma deep_SyncRule [deep_copies]: "ext_types_ok E \<Longrightarrow> deep (ty_SyncRule E) (DeepCopyInto_SyncRule E)"
  unfolding ty_SyncRule_def DeepCopyInto_SyncRule_def
  by (rule deep_structI) (simp_all add: deep_statements deep_copies ext_types_ok_def flat_types)

lemma deep_ResourceSyncRuleSpec [deep_copies]: "ext_types_ok E \<Longrightarrow> deep (ty_ResourceSyncRuleSpec E) (DeepCopyInto_ResourceSyncRuleSpec E)"
  unfolding ty_ResourceSyncRuleSpec_def DeepCopyInto_ResourceSyncRuleSpec_def
  by (rule deep_structI) (simp_all add: deep_statements deep_copies ext_types_ok_def flat_types)

lemma deep_ResourceSyncRuleStatus [deep_copies]: "deep ty_ResourceSyncRuleStatus DeepCopyInto_ResourceSyncRuleStatus"
  unfolding ty_ResourceSyncRuleStatus_def DeepCopyInto_ResourceSyncRuleStatus_def
  by (rule deep_structI) (simp_all add: deep_statements deep_copies ext_types_ok_def flat_types)

lemma deep_ResourceSyncRule [deep_copies]: "ext_types_ok E \<Longrightarrow> deep (ty_ResourceSyncRule E) (DeepCopyInto_ResourceSyncRule E)"
  unfolding ty_ResourceSyncRule_def DeepCopyInto_ResourceSyncRule_def
  by (rule deep_structI) (simp_all add: deep_statements deep_copies ext_types_ok_def flat_types)

lemma deep_ResourceSyncRuleList [deep_copies]: "ext_types_ok E \<Longrightarrow> deep (ty_ResourceSyncRuleList E) (DeepCopyInto_ResourceSyncRuleList E)"
  unfolding ty_ResourceSyncRuleList_def DeepCopyInto_ResourceSyncRuleList_def
  by (rule deep_structI) (simp_all add: deep_statements deep_copies ext_types_ok_def flat_types)

lemma deep_MatchedRules: "ext_types_ok E \<Longrightarrow> deep (ty_MatchedRules E) (DeepCopy_MatchedRules E)"
proof -
  assume "ext_types_ok E"
  then have "deep (ty_MatchedRules E) (copySlice (DeepCopyInto_SyncRule E))"
    unfolding ty_MatchedRules_def by (intro deep_slice deep_SyncRule)
  moreover have "DeepCopy_MatchedRules E h v = copySlice (DeepCopyInto_SyncRule E) h v" for h v
    by (simp add: DeepCopy_MatchedRules_def DeepCopyInto_MatchedRules_def copySlice_def split: gval.split option.split)
  ultimately show ?thesis by (simp add: deep_def)
qed

lemma MatchedRules_nil:
  "case DeepCopyInto_MatchedRules E h (VSlice None) of (v', h') \<Rightarrow>
     content (ty_MatchedRules E) h (VSlice None) = Some NilRef \<and> content (ty_MatchedRules E) h' v' = Some (ListOf [])"
  by (simp add: DeepCopyInto_MatchedRules_def ty_MatchedRules_def makeSlice_def elements_def cell_at_def)

lemma deep_DeepCopy: "deep t f \<Longrightarrow> deep (GPtr t) (DeepCopy f)"
proof -
  have "DeepCopy f h v = copyPtr f h v" for h v by (simp add: DeepCopy_def copyPtr_def)
  then show "deep t f \<Longrightarrow> deep (GPtr t) (DeepCopy f)" using deep_ptr by (simp add: deep_def)
qed

lemma generated_deep: "ext_types_ok E \<Longrightarrow> (t, f) \<in> set (generated E) \<Longrightarrow> deep t f"
  unfolding generated_def by (auto intro: deep_copies)

lemma deep_separate:
  assumes "deep t f" and "content t h v = Some c" and "f h v = (v', h')"
  shows "prefix h h'" and "content t h' v' = Some c" and "set (refs t h' v') \<inter> set (refs t h' v) = {}"
    and "a \<in> set (refs t h' v') \<Longrightarrow> content t (h'[a := x]) v = Some c"
    and "a \<in> set (refs t h' v) \<Longrightarrow> content t (h'[a := x]) v' = Some c"
proof -
  obtain k where k: "h' = h @ k" "content t (h @ k) v' = Some c" "\<forall>a \<in> set (refs t (h @ k) v'). length h \<le> a"
    using assms(1,2) by (rule deepE) (use assms(3) in auto)
  show "prefix h h'" "content t h' v' = Some c" using k by simp_all
  have o: "content t h' v = Some c" "refs t h' v = refs t h v" using content_append [OF assms(2), of k] k(1) by simp_all
  have "\<forall>a \<in> set (refs t h' v). a < length h" using content_refs(1) [OF assms(2)] o(2) by auto
  with k(1,3) show d: "set (refs t h' v') \<inter> set (refs t h' v) = {}" by fastforce
  show "a \<in> set (refs t h' v') \<Longrightarrow> content t (h'[a := x]) v = Some c"
    by (rule content_update(1) [OF o(1)]) (use d in auto)
  show "a \<in> set (refs t h' v) \<Longrightarrow> content t (h'[a := x]) v' = Some c"
    by (rule content_update(1)) (use k(1,2) d in auto)
qed

text \<open>
  C28. Every generated copy of an API type, into a given target or as a new value behind a pointer,
  and the copy of matched rules, is a deep one: the copy has the content of the original, existing
  memory is left as it was, the two share no map, array or pointer target, and whatever is written
  to memory of the one, the other keeps its content. The types from other packages are assumed to
  be without references where the code assigns them, and to have deep copies where it calls them.
\<close>

theorem generated_copies_separate:
  assumes "ext_types_ok E"
    and "(t, f) \<in> set (generated E) \<or> (t, f) = (ty_MatchedRules E, DeepCopy_MatchedRules E)
       \<or> (\<exists>t1 f1. (t1, f1) \<in> set (generated E) \<and> t = GPtr t1 \<and> f = DeepCopy f1)"
    and "content t h v = Some c" and "f h v = (v', h')"
  shows "content t h' v' = Some c \<and> prefix h h' \<and> set (refs t h' v') \<inter> set (refs t h' v) = {}
    \<and> (\<forall>a x. a \<in> set (refs t h' v') \<longrightarrow> content t (h'[a := x]) v = Some c)
    \<and> (\<forall>a x. a \<in> set (refs t h' v) \<longrightarrow> content t (h'[a := x]) v' = Some c)"
proof -
  have "deep t f"
    using assms(2) generated_deep [OF assms(1)] deep_MatchedRules [OF assms(1)] deep_DeepCopy by auto
  from deep_separate [OF this assms(3,4)] show ?thesis by blast
qed

definition sample_types :: ext_types where
  "sample_types =
     \<lparr>xt_type = (\<lambda>n. if n = ''ObjectMeta'' then GStruct [(''Name'', GFlat), (''Labels'', GMap)] else GFlat),
      xt_DeepCopyInto = (\<lambda>n. if n = ''ObjectMeta'' then copyStruct [(''Labels'', copyMap)] else assign)\<rparr>"

lemma sample_types_ok: "ext_types_ok sample_types"
proof -
  have "deep (GStruct [(''Name'', GFlat), (''Labels'', GMap)]) (copyStruct [(''Labels'', copyMap)])"
    by (rule deep_structI) (simp_all add: deep_map)
  then show ?thesis by (simp add: ext_types_ok_def sample_types_def deep_assign)
qed

theorem generated_copies_separate_witness:
  "let h = [CArr [VFlat ''eu'', VFlat ''us'']];
       v = VStruct [(''Region'', VFlat ''us''), (''Regions'', VSlice (Some (0, 1, 1))), (''Zones'', VSlice None)]
   in case DeepCopyInto_Locality h v of (v', h') \<Rightarrow>
        content ty_Locality h' v' = content ty_Locality h v
        \<and> content ty_Locality (h'[0 := CArr []]) v' = content ty_Locality h v"
proof -
  define h where "h = [CArr [VFlat ''eu'', VFlat ''us'']]"
  define v where "v = VStruct [(''Region'', VFlat ''us''), (''Regions'', VSlice (Some (0, 1, 1))), (''Zones'', VSlice None)]"
  have c: "content ty_Locality h v = Some (RecOf [(''Region'', Leaf ''us''), (''Regions'', ListOf [Leaf ''us'']), (''Zones'', NilRef)])"
    and r: "refs ty_Locality h v = [0]"
    by (simp_all add: ty_Locality_def h_def v_def elements_def cell_at_def)
  obtain v' h' where f: "DeepCopyInto_Locality h v = (v', h')" by fastforce
  have g: "(ty_Locality, DeepCopyInto_Locality) \<in> set (generated sample_types)" by (simp add: generated_def)
  note w = generated_copies_separate [OF sample_types_ok disjI1 [OF g] c f]
  then obtain k where "h' = h @ k" by (auto simp: prefix_def)
  with content_append(2) [OF c, of k] r have "0 \<in> set (refs ty_Locality h' v)" by simp
  with w c f show ?thesis unfolding Let_def h_def [symmetric] v_def [symmetric] by simp
qed

end
