(* ===== verification/Spec2Isabelle.thy ===== *)
theory Spec2Isabelle
  imports SyncCopies ControllerLife Startup DeepCopy
begin

text \<open>
  A verification of the cluster registry controller.

  \<^bold>\<open>The program.\<close> The controller runs in a Kubernetes cluster and keeps a registry of
  peer clusters. \<open>main\<close> reads the configuration, creates the cluster resource of the own
  cluster if asked to, sets up the validating webhook with its certificates, and runs two
  controllers: the rule reconciler and the cluster reconciler. The cluster reconciler turns every
  cluster resource into a peer in the registry (the cluster manager), with credentials from a
  secret, or removes it; for the own cluster it maintains the status, the reader secret that the
  peers need, and the core sync rules. A peer checks its liveness, starts a controller manager
  while it is alive, and runs managed controllers: one that keeps the status of its cluster
  resource, one that reads its features, and one sync controller for each resource sync rule
  whose required features the peer has. A sync controller copies the selected objects of the peer
  to the own cluster, with mutations, and marks them with their owner, which decides later who may
  change or delete the copy.

  \<^bold>\<open>How it is modelled.\<close> A struct is a record, a Go map a HOL map or an association list,
  an error a value of \<open>gerror\<close>, a fallible function returns \<open>gerror + 'a\<close>, and a nil
  dereference, which ends the process, is the result None of an additional option. A handler is a
  function of its state and of the history of the calls made so far, and returns both. The code
  outside this repository (API servers, the controller runtime, the error, template, selector,
  URL and X.509 packages, the file system) is the record \<open>ext\<close> of theory External: the
  answer to a call is a function of the history, so a theorem for all \<open>ext\<close> covers every
  behaviour of the services and of other writers. What a theorem needs of that code is a
  hypothesis of the theorem, with a witness on the concrete instance \<open>sample_ext\<close> or a
  variant of it. Where the order in which Go ranges over a map shows in a result, it is
  \<open>x_MapOrder\<close>, any permutation; the registries are association lists that are ranged over
  as they stand: the theorems hold for all of them, and along a run a list may be exchanged
  for another one of the same map at any time. Objects of the API have their Go type besides
  their TypeMeta, since the client goes by the one and the code by the other. Sections under a
  mutex are atomic; goroutines are rules of step relations.

  \<^bold>\<open>The theories\<close>, with the source files under src/:
  \<^item> Prelude, ApiTypes (api/v1alpha1/*\_types.go, cluster\_metadata.go), External, Samples:
    shared vocabulary, the resources, the external code, a concrete instance of it. The locale
    \<open>keyed_store\<close> is the interface of the registries.
  \<^item> Features (pkg/clusters/cluster\_features.go), Controllers (the part of
    managed\_controller.go that a cluster sees), ClusterCore and FeatureGate (features,
    controllers and their requirements in cluster.go), Lifecycle (liveness, callbacks, start and
    stop in cluster.go), ClusterManager (manager.go). The locale \<open>feature_gate\<close> states the
    contract: a registered controller is active exactly if its requirements are met. C5 is the
    refinement, C4 its invariance along all interleavings with the life cycle. C16 and C37 are
    the liveness checks: what an outage stops and what is started again, and a single check.
  \<^item> ControllerLife (managed\_controller.go, managed\_reconciler.go, and the set-up part of
    controllers/sync\_reconciler.go): the retry loop, the goroutine and the clean-up, over the
    locale \<open>managed_reconciler\<close> for what a controller relies on of its reconciler; C17 to
    C19. \<open>controller_view_refines\<close> links it to the smaller model of theory Controllers.
  \<^item> DeepCopy (api/v1alpha1/zz\_generated.deepcopy.go): the generated copies over an explicit
    store of maps, arrays and pointer targets. C28 says that a copy shares nothing with its
    original, which is what allows the other theories to treat resources as values.
  \<^item> RuleMatch (api/v1alpha1/resourcesyncrule\_match.go), GvkString (pkg/util/resources.go):
    which objects a rule selects (C32) and the text form of types (C36).
  \<^item> SyncPolicy, SyncReconciler, Mutation, Ownership, SyncChecks, SyncCopies
    (controllers/sync\_reconciler.go, pkg/util/overlaypatchtemplate.go): the sync controller. The
    locales \<open>exclusive_writer\<close> and \<open>owned_writer\<close> state who may write an object, and
    are interpreted on the predicates for creation, update and deletion; C1, C2 and C9 rest on
    them; status updates are the exception that these theorems spell out. C3 says which objects
    are copied, C11 when a copy is deleted. C10 and C33 to C35 are the mutation, the event
    filters, the permission checks and the way back from a copy to its original.
  \<^item> Conditions, Common (controllers/cluster\_conditions.go, common.go, errors.go): conditions
    and status updates (C38).
  \<^item> Url, KubeconfigUtil, KubeconfigChecks (pkg/util/kubeconfig.go, cluster\_secret.go,
    provision\_local\_cluster.go): addresses, endpoints (C31), the reader secret, and
    provisioning.
  \<^item> ClusterMeta (pkg/clustermeta): provider, distribution and metadata of a cluster (C29,
    C30); the locale \<open>detection\<close> treats both chains of detectors.
  \<^item> ClusterCtl, ClusterChecks (controllers/cluster\_reconciler.go,
    cluster\_reconciler\_watches.go, core\_syncers.go): the cluster reconciler: who is
    registered as a peer and with which credentials (C13 to C15), conflicts (C24) and the reader
    secret (C25).
  \<^item> RuleCtl (controllers/resource\_sync\_rule\_reconciler.go, pkg/ratelimit): C7, C8.
    RemoteCtl (controllers/remote\_cluster\_reconciler.go,
    remote\_cluster\_feature\_reconciler.go): C20, C21, C40.
  \<^item> Validator (pkg/webhooks/cluster\_validator.go): C22, C23. Cert, Renewal, Certifier
    (pkg/cert): C26, C27.
  \<^item> Settings (internal/config, the flags of cmd/manager/config.go), Startup
    (cmd/manager/main.go, configure, pkg/signals): C39.
  \<^item> This theory: what several components do together, C6 (from the start of the program over
    the resource of a peer to the rules on it) and C12 (from provisioning to the status of the
    own cluster).

  \<^bold>\<open>Bounds.\<close> All functions but one are total by structural recursion or by recursion on a
  list of events. The retry loop of a controller, which may run forever, is a partial function
  whose result None means that it does not return; C18 says when it returns. Polling for the
  token of the reader account has the number of steps of the code's back-off. Integers are
  mathematical except the log verbosity, an int8.

  \<^bold>\<open>Not modelled.\<close> Logging, metrics and event texts of the controller runtime. The
  registration of types with a scheme, the embedded chart files and the build variables, which
  have no behaviour. Data races: sections that the code does not protect by a mutex are taken
  as atomic, too. Timers: a tick is an event, or the iteration of a loop. How viper looks up a
  setting. The difference between a nil and an empty slice or map in a resource, which
  reflect.DeepEqual sees, and what an accepted update of a resource writes back into the object
  that was sent.

  Theorems that are not numbered show where the code does not do what it seems meant to do, such
  as \<open>AddFeature_keeps_active\<close>, \<open>manager_never_restarts\<close>,
  \<open>ready_despite_error\<close>, \<open>restart_ignored\<close>,
  \<open>early_return_without_manager\<close>, \<open>registered_type_not_mutated\<close>,
  \<open>untyped_rival_admitted\<close> or \<open>rate_ends_process\<close>.
\<close>

section \<open>From the start of the program to a running rule\<close>

lemma queue_rules_queued:
  "set h \<subseteq> set (queue_rules rs h) \<and> list_all (\<lambda>r. QueueAdd (by_name (m_Name r)) \<in> set (queue_rules rs h)) rs"
proof (induction rs arbitrary: h)
  case (Cons r rs)
  let ?h = "queueAdd \<lparr>nn_Name = m_Name r, nn_Namespace = ''''\<rparr> h"
  have "QueueAdd (by_name (m_Name r)) \<in> set ?h" by (simp add: queueAdd_def by_name_def)
  moreover have "set h \<subseteq> set ?h" by (auto simp: queueAdd_def)
  ultimately show ?case using Cons.IH [of ?h] by auto
qed simp

lemma Manager_Add_triggers:
  assumes "mg_clusters m = []" "mg_onBeforeAddFuncs m = []" "mg_onAfterAddFuncs m = [(i, trigger_rules X True)]"
    and "x_ListRules X k = Inr rs" and "Manager_Add c m k = (m2, k2)"
  shows "GetAll m2 = [(cl_name c, c)]" and "list_all (\<lambda>r. QueueAdd (by_name (m_Name r)) \<in> set k2) rs"
proof -
  have "(m2, k2) = (m\<lparr>mg_clusters := [(cl_name c, c)]\<rparr>, queue_rules rs (k @ [ListRules]))"
    unfolding assms(5) [symmetric]
    by (simp add: Manager_Add_def assms(1-4) trigger_rules_def listRules_def)
  then show "GetAll m2 = [(cl_name c, c)]" "list_all (\<lambda>r. QueueAdd (by_name (m_Name r)) \<in> set k2) rs"
    using queue_rules_queued [of "k @ [ListRules]" rs] by (simp_all add: GetAll_def)
qed

lemma new_cluster_gets_rules:
  assumes start: "main X cmd now h = (Returned p, h')"
    and add: "Manager_Add c (pr_clusters p) k = (m2, k2)" and rules: "x_ListRules X k = Inr rs" "sr \<in> set rs"
    and peer: "peer_ok X c" "controllers_started c"
    and lim: "limiter_ok X (rr_config (pr_rules p))" and spec: "rsr_Spec sr \<noteq> rsr_Spec rule_zero"
  shows "QueueAdd (by_name (m_Name sr)) \<in> set k2 \<and>
    (\<forall>k3. x_GetRule X k3 (by_name (m_Name sr)) = Inr sr \<longrightarrow>
      (\<exists>m3 k4 c3. rule_Reconcile X (pr_rules p) (by_name (m_Name sr)) m2 k3 = Some ((result_zero, None), m3, k4)
       \<and> GetAll m3 = [(cl_name c, c3)] \<and> runs_rule c3 sr
       \<and> (HasController c3 (m_Name sr) \<longleftrightarrow>
            features_meet X (requiredClusterFeatures sr) (map_of (cl_features c3)))))"
proof (intro conjI allI impI)
  obtain cfg h3 where r: "run_step X cfg now h3 = (None, pr_clusters p, h')" using start by (rule main_steps)
  note M = Manager_Add_triggers [OF run_step_Manager(1-3) [OF r] rules(1) add]
  show "QueueAdd (by_name (m_Name sr)) \<in> set k2" using M(2) rules(2) by (simp add: list_all_iff)
  fix k3 assume get: "x_GetRule X k3 (by_name (m_Name sr)) = Inr sr"
  have ok: "\<forall>c \<in> snd ` set (GetAll m2). peer_ok X c \<and> controllers_started c" using peer M(1) by simp
  obtain m3 k4 where 3: "rule_Reconcile X (pr_rules p) (by_name (m_Name sr)) m2 k3 = Some ((result_zero, None), m3, k4)"
    "map fst (GetAll m3) = map fst (GetAll m2)"
    "\<forall>c \<in> snd ` set (GetAll m3). peer_ok X c \<and> runs_rule c sr \<and>
         (HasController c (m_Name sr) \<longleftrightarrow>
            features_meet X (requiredClusterFeatures sr) (map_of (cl_features c)))"
    using rule_installs [OF lim spec ok get] by blast
  obtain c3 where "GetAll m3 = [(cl_name c, c3)]" using 3(2) M(1) by (cases "GetAll m3") auto
  with 3 show "\<exists>m3 k4 c3. rule_Reconcile X (pr_rules p) (by_name (m_Name sr)) m2 k3 = Some ((result_zero, None), m3, k4)
       \<and> GetAll m3 = [(cl_name c, c3)] \<and> runs_rule c3 sr
       \<and> (HasController c3 (m_Name sr) \<longleftrightarrow>
            features_meet X (requiredClusterFeatures sr) (map_of (cl_features c3)))" by auto
qed

text \<open>A peer as the cluster reconciler registers it fulfils what the rule reconciler relies on.\<close>

lemma fresh_peer_ok:
  assumes "fresh_peer cluster k c"
  shows "peer_ok X c" and "controllers_started c"
proof -
  have m: "map_of (cl_controllers c) n = Some p \<Longrightarrow>
      mc_name p = n \<and> mc_rule p = None \<and> mc_requiredClusterFeatures p = [] \<and> mc_contextSet p" for n p
    using assms by (auto simp: fresh_peer_def own_controllers_def NewManagedController_def split: if_splits)
  have f: "cl_features c = []" "cl_pendingControllers c = []" "alist_wf (cl_controllers c)"
    using assms by (simp_all add: fresh_peer_def own_controllers_def alist_wf_def)
  show "controllers_started c" using m by (simp add: controllers_started_def)
  have "registries_wf c" using m f by (simp add: registries_wf_def alist_wf_def)
  then show "peer_ok X c"
    using m f by (auto simp: peer_ok_def gate_inv_def active_met_def pending_unmet_def ctrl_met_def features_meet_def
        rules_registered_def gate_abs_def registration_def split: option.splits)
qed

lemma main_passive:
  assumes "main X cmd now h = (Returned p, h')"
  shows "passive_callbacks (pr_clusters p)" and "Get (pr_clusters p) n = Inl ErrClusterNotFound"
proof -
  obtain cfg h3 where r: "run_step X cfg now h3 = (None, pr_clusters p, h')" using assms by (rule main_steps)
  have "fst (trigger_rules X True c h) = c" for c h
    by (simp add: trigger_rules_def split: prod.split sum.split)
  then show "passive_callbacks (pr_clusters p)" "Get (pr_clusters p) n = Inl ErrClusterNotFound"
    using run_step_Manager(1-3) [OF r] by (simp_all add: passive_callbacks_def Get_def)
qed

text \<open>
  C6. From the resource of a peer to its rules: when main has set up the controllers and the
  first resource of a peer with a reachable server is reconciled, the peer is registered, every
  existing rule is put on the queue of the rule reconciler, and reconciling any of them ends
  normally with a controller for the rule on this peer, active exactly if the peer's features
  meet the rule's requirements. The configured rate limiter can be made, and the rule's
  specification is not empty.
\<close>

theorem peer_resource_gets_rules:
  assumes start: "main X cmd now h = (Returned p, h')"
    and peer: "peer_resource X r1 cluster kubeconfig" "cluster_setClusterID X r k = (None, r1, k1)"
      "x_GetCluster X k1 LocalSite req = Inr cluster"
    and rules: "\<And>k. x_ListRules X k = Inr rs" "sr \<in> set rs" "rsr_Spec sr \<noteq> rsr_Spec rule_zero"
    and lim: "limiter_ok X (rr_config (pr_rules p))"
  shows "\<exists>m2 k2. cluster_Reconcile X r req (pr_clusters p) k = ((requeue r1, None), r1, m2, k2) \<and>
    QueueAdd (by_name (m_Name sr)) \<in> set k2 \<and>
    (\<forall>k3. x_GetRule X k3 (by_name (m_Name sr)) = Inr sr \<longrightarrow>
      (\<exists>m3 k4 c3. rule_Reconcile X (pr_rules p) (by_name (m_Name sr)) m2 k3 = Some ((result_zero, None), m3, k4)
       \<and> GetAll m3 = [(m_Name cluster, c3)] \<and> runs_rule c3 sr
       \<and> (HasController c3 (m_Name sr) \<longleftrightarrow>
            features_meet X (requiredClusterFeatures sr) (map_of (cl_features c3)))))"
proof (rule Reconcile_registers [OF main_passive(1) [OF start] peer(1) main_passive(2) [OF start] peer(2,3)])
  fix c h2 m' h3 k2
  assume rec: "cluster_Reconcile X r req (pr_clusters p) k = ((requeue r1, None), r1, m', k2)"
    and add: "Manager_Add c (pr_clusters p) h2 = (m', h3)" and f: "fresh_peer cluster kubeconfig c"
    and later: "extends (\<lambda>_. True) h3 k2"
  have n: "cl_name c = m_Name cluster" using f by (simp add: fresh_peer_def)
  note R = new_cluster_gets_rules [OF start add rules(1,2) fresh_peer_ok [OF f] lim rules(3), unfolded n]
  have "QueueAdd (by_name (m_Name sr)) \<in> set k2" using R later by (auto simp: extends_def)
  with rec R show ?thesis by blast
qed

section \<open>The provisioned cluster is the local one\<close>

lemma reconcileLocalCluster_type:
  assumes "reconcileLocalCluster X r c conds h = (e, c', conds', h')"
  shows "st_Type (c_Status c') = st_Type (c_Status c)"
proof -
  obtain conds1 h1 where s: "SetCondition X conds (LocalClusterCondition True) h = (conds1, h1)" by fastforce
  obtain e2 conds2 h2 where k: "checkLocalClusterConflict X r c conds1 h1 = (e2, conds2, h2)" by (metis prod_cases3)
  show ?thesis
    using assms unfolding reconcileLocalCluster_def s
    by (auto simp: k Let_def split: prod.splits option.splits sum.splits)
qed

lemma UpdateCluster_writes:
  assumes "UpdateCluster X e s c conds h = (e', c', h')"
  shows "\<exists>d. UpdateClusterStatusCall s d \<in> set h' \<and> st_Type (c_Status d) = st_Type (c_Status c)"
proof -
  have w: "UpdateClusterStatusCall s d \<in> set (snd (UpdateClusterStatus X s d k))" for d k
    by (auto simp: UpdateClusterStatus_def updateClusterStatusCall_def getCluster_def
        split: option.split sum.split)
  obtain d where d: "h' = snd (UpdateClusterStatus X s d h)" "st_Type (c_Status d) = st_Type (c_Status c)"
  proof (cases e)
    case None
    with assms that [of "c\<lparr>c_Status := (c_Status c)\<lparr>st_Conditions := status_conditions (st_Type (c_Status c)) conds\<rparr>\<rparr>"]
    show thesis by (auto simp: UpdateCluster_def Let_def split: prod.splits option.splits)
  next
    case (Some x)
    with assms that show thesis by (auto simp: UpdateCluster_def Let_def split: if_splits)
  qed
  then show ?thesis using w [of d h] by auto
qed

lemma cluster_enabled_local_writes:
  assumes "cluster_enabled X r True c m h = (res, m', h')"
  shows "\<exists>d. UpdateClusterStatusCall LocalSite d \<in> set h' \<and> st_Type (c_Status d) = st_Type (c_Status c)"
proof -
  obtain e c1 conds1 h1 where l: "reconcileLocalCluster X r c (GetCurrentConditions c) h = (e, c1, conds1, h1)"
    by (metis prod_cases4)
  obtain conds2 h2 where s: "SetCondition X conds1 (ClusterReadyCondition X None) h1 = (conds2, h2)" by fastforce
  obtain e3 c3 h3 where u: "UpdateCluster X e LocalSite c1 conds2 h2 = (e3, c3, h3)" by (metis prod_cases3)
  have "h' = h3"
    using assms by (auto simp: cluster_enabled_def l s u write_status_def fail_with_def Let_def split: option.splits)
  then show ?thesis using UpdateCluster_writes [OF u] reconcileLocalCluster_type [OF l] by simp
qed

lemma cluster_found_local_writes:
  assumes "manager_wf m" "cause_of_plain X" "sp_ClusterID (c_Spec c) = cr_clusterID r"
    and "m_Annotations c ClusterDisabledAnnotation = None"
    and "cluster_found X r c m h = (res, m', h')"
  shows "\<exists>d. UpdateClusterStatusCall LocalSite d \<in> set h' \<and> st_Type (c_Status d) = ClusterTypeLocal"
proof -
  obtain e m1 h1 where r: "removeRemoteCluster (m_Name c) m h = (e, m1, h1)" by (metis prod_cases3)
  note rem = remove_failed_None [OF assms(2) removeRemoteCluster_removed(2) [OF assms(1) r]]
  have "cluster_enabled X r True (set_type ClusterTypeLocal (reset_status c)) m1 h1 = (res, m', h')"
    using assms(3-5) by (simp add: cluster_found_def Let_def r rem)
  from cluster_enabled_local_writes [OF this] show ?thesis by (simp add: set_type_def)
qed

lemma provision_writes_no_status:
  assumes "extends (provision_call c) [] h"
  shows "UpdateClusterStatusCall s d \<notin> set h"
  using assms by (auto simp: extends_def list_all_iff provision_call_def is_write_def)

text \<open>
  C12. The cluster that provisioning creates is recognised as the own one. Provisioning writes no
  status; when the cluster reconciler then finds the created resource, not disabled, it writes a
  status of type Local, whatever the rest of the reconciliation comes to. The UID of the
  namespace kube-system does not change, and the stored resource has the specification it was
  created with.
\<close>

theorem provisioned_cluster_is_local:
  assumes uid: "\<And>k. x_GetNamespace X k LocalSite NamespaceSystem = Inr uid"
    and prov: "ProvisionLocalClusterObject X cfg [] = (None, h)"
    and none: "x_GetCluster X [] LocalSite
       \<lparr>nn_Name = cfg_ProvisionLocalCluster cfg, nn_Namespace = cfg_Namespace cfg\<rparr> = Inl e"
    and last: "last h = CreateCluster d"
    and stored: "x_GetCluster X (h @ [GetNamespace LocalSite NamespaceSystem]) LocalSite (by_name (m_Name d)) = Inr c"
      "c_Spec c = c_Spec d" "m_Annotations c ClusterDisabledAnnotation = None"
    and m: "manager_wf m" "cause_of_plain X"
    and rec: "cluster_Reconcile X (NewClusterReconciler cfg) (by_name (m_Name d)) m h = (res, r', m', h')"
  shows "m_Name d = cfg_ProvisionLocalCluster cfg
    \<and> (\<forall>s. UpdateClusterStatusCall LocalSite s \<notin> set h)
    \<and> (\<exists>s. UpdateClusterStatusCall LocalSite s \<in> set h' \<and> st_Type (c_Status s) = ClusterTypeLocal)"
  using prov none
proof (rule provision_cases)
  fix h1 h2 c1
  assume e: "extends (provision_call c1) [] h1" and h: "h = h2 @ [CreateCluster c1]"
    and n: "NewLocalCluster X (cfg_Namespace cfg) (cfg_ProvisionLocalCluster cfg)
        (cfg_APIServerEndpointAddress cfg) h1 = (Inr c1, h2)"
  have d: "d = c1" using last h by simp
  have id: "sp_ClusterID (c_Spec c) = uid" using NewLocalCluster_spec(1) [OF n] uid stored(2) d by simp
  have "extends (provision_call c1) h1 h2"
    using NewLocalCluster_spec(4) [OF n] by (rule extends_mono) (auto simp: provision_call_def is_write_def split: call.split)
  with e have "extends (provision_call c1) [] h2" by (rule extends_trans)
  then have "\<forall>s. UpdateClusterStatusCall LocalSite s \<notin> set h"
    using provision_writes_no_status h by simp
  moreover
  let ?r = "(NewClusterReconciler cfg)\<lparr>cr_clusterID := uid\<rparr>"
  have "cluster_setClusterID X (NewClusterReconciler cfg) h = (None, ?r, h @ [GetNamespace LocalSite NamespaceSystem])"
    by (simp add: cluster_setClusterID_def NewClusterReconciler_def GetClusterID_def getNamespace_def uid)
  then have "cluster_found X ?r c m (h @ [GetNamespace LocalSite NamespaceSystem,
        GetCluster LocalSite (by_name (m_Name d))]) = (res, m', h')"
    using rec stored(1) by (simp add: cluster_Reconcile_def getCluster_def split: prod.splits)
  from cluster_found_local_writes [OF m _ stored(3) this] id
  have "\<exists>s. UpdateClusterStatusCall LocalSite s \<in> set h' \<and> st_Type (c_Status s) = ClusterTypeLocal" by simp
  ultimately show ?thesis using NewLocalCluster_spec(2) [OF n] d by simp
qed

section \<open>Witnesses\<close>

text \<open>A server with one rule, the resource of one peer and its secret.\<close>

definition rule_server :: ext where
  "rule_server = with_secret\<lparr>
     x_GetCluster := \<lambda>_ _ n. if nn_Name n = ''demo'' then Inr sample_cluster else Inl not_found,
     x_ListRules := \<lambda>_. Inr [sample_rule ''r''], x_GetRule := \<lambda>_ _. Inr (sample_rule ''r'')\<rparr>"

lemma rule_server_fields:
  "x_GetCluster rule_server = (\<lambda>_ _ n. if nn_Name n = ''demo'' then Inr sample_cluster else Inl not_found)"
  "x_CreateCluster rule_server = (\<lambda>_ _. None)"
  "x_GetNamespace rule_server = (\<lambda>_ _ n. Inr n)" "x_ManagerCall rule_server = (\<lambda>_ _. None)"
  "x_SetupController rule_server = (\<lambda>_ _ _. None)" "x_NewClient rule_server = (\<lambda>_. None)"
  "x_NewMemStore rule_server = (\<lambda>_. None)" "x_NewGCRARateLimiter rule_server = (\<lambda>_ _. None)"
  "x_ListRules rule_server = (\<lambda>_. Inr [sample_rule ''r''])" "x_GetRule rule_server = (\<lambda>_ _. Inr (sample_rule ''r''))"
  "x_IsNotFound rule_server not_found" "x_PerSec rule_server = (\<lambda>n. n \<noteq> 0)"
  by (simp_all add: rule_server_def with_secret_def sample_ext_def not_found_def)

lemma rule_server_peer:
  "peer_resource rule_server (sample_reconciler\<lparr>cr_clusterID := NamespaceSystem\<rparr>) sample_cluster ''kubeconfig-1''"
  by (rule sample_peer_resource [OF rule_server_def])

lemma rule_server_starts:
  "\<exists>p h. main rule_server sample_cli ''now'' [] = (Returned p, h) \<and> rr_config (pr_rules p) = quiet_config"
proof -
  have q: "cfg_ProvisionLocalCluster quiet_config = ''local''" "\<not> cvw_Enabled (cfg_ClusterValidatorWebhook quiet_config)"
    by (simp_all add: quiet_config_def)
  obtain h1 where p: "provision_step rule_server quiet_config [] = (None, h1)"
    using q by (simp add: provision_step_def ProvisionLocalClusterObject_def getCluster_def NewLocalCluster_def
        getNamespace_def rule_server_fields)
  obtain m h where r: "run_step rule_server quiet_config ''now'' (h1 @ [ManagerCall ''NewManager'']) = (None, m, h)"
    by (simp add: run_step_def rule_SetupWithManager_def rule_SetupWithController_def cluster_SetupWithManager_def
        cluster_SetupWithController_def setupController_def managerCall_def rule_server_fields)
  show ?thesis
    using p r q(2)
    by (simp add: main_def sample_configure managerCall_def rule_server_fields webhook_step_def Let_def
        running_rules_def InMemorySource_Start_def rule_setQueue_def NewResourceSyncRuleReconciler_def)
qed

theorem peer_resource_gets_rules_witness:
  "\<exists>p h m2 k2 m3 k4 c3. main rule_server sample_cli ''now'' [] = (Returned p, h) \<and>
     snd (snd (cluster_Reconcile rule_server sample_reconciler (by_name ''demo'') (pr_clusters p) h)) = (m2, k2) \<and>
     QueueAdd (by_name ''r'') \<in> set k2 \<and>
     rule_Reconcile rule_server (pr_rules p) (by_name ''r'') m2 k2 = Some ((result_zero, None), m3, k4) \<and>
     GetAll m3 = [(''demo'', c3)] \<and> runs_rule c3 (sample_rule ''r'')"
proof -
  obtain p h where s: "main rule_server sample_cli ''now'' [] = (Returned p, h)"
    and q: "rr_config (pr_rules p) = quiet_config"
    using rule_server_starts by blast
  have n: "m_Name (sample_rule ''r'') = ''r''" "m_Name sample_cluster = ''demo''"
    by (simp_all add: sample_rule_def sample_cluster_def)
  have l: "limiter_ok rule_server (rr_config (pr_rules p))"
    by (rule sample_limiter) (simp_all add: rule_server_fields q quiet_config_def sample_config_def)
  have id: "cluster_setClusterID rule_server sample_reconciler h =
      (None, sample_reconciler\<lparr>cr_clusterID := NamespaceSystem\<rparr>, h @ [GetNamespace LocalSite NamespaceSystem])"
    by (simp add: cluster_setClusterID_def sample_reconciler_def cluster_setQueue_def NewClusterReconciler_def
        GetClusterID_def getNamespace_def rule_server_fields)
  have x: "x_GetCluster rule_server k LocalSite (by_name ''demo'') = Inr sample_cluster"
    "x_ListRules rule_server k = Inr [sample_rule ''r'']" "x_GetRule rule_server k n = Inr (sample_rule ''r'')"
    "sample_rule ''r'' \<in> set [sample_rule ''r'']" for k n
    by (simp_all add: rule_server_fields by_name_def)
  from peer_resource_gets_rules [OF s rule_server_peer id x(1,2,4) sample_rule_spec l] x(3)
  obtain m2 k2 where r: "cluster_Reconcile rule_server sample_reconciler (by_name ''demo'') (pr_clusters p) h =
      ((requeue (sample_reconciler\<lparr>cr_clusterID := NamespaceSystem\<rparr>), None),
       sample_reconciler\<lparr>cr_clusterID := NamespaceSystem\<rparr>, m2, k2)" "QueueAdd (by_name ''r'') \<in> set k2"
    "\<exists>m3 k4 c3. rule_Reconcile rule_server (pr_rules p) (by_name ''r'') m2 k2 = Some ((result_zero, None), m3, k4)
       \<and> GetAll m3 = [(''demo'', c3)] \<and> runs_rule c3 (sample_rule ''r'')"
    unfolding n by blast
  have "snd (snd (cluster_Reconcile rule_server sample_reconciler (by_name ''demo'') (pr_clusters p) h)) = (m2, k2)"
    using r(1) by simp
  with s r(2,3) show ?thesis by blast
qed

text \<open>A server that returns the cluster it was last asked to create.\<close>

fun last_created :: "history \<Rightarrow> Cluster result" where
  "last_created [] = Inl not_found"
| "last_created (c # cs) =
     (case last_created cs of
        Inr d \<Rightarrow> Inr d
      | Inl e \<Rightarrow> (case c of CreateCluster d \<Rightarrow> Inr d | _ \<Rightarrow> Inl e))"

lemma last_created_snoc:
  "last_created (h @ [CreateCluster d]) = Inr d"
  "\<forall>d. c \<noteq> CreateCluster d \<Longrightarrow> last_created (h @ [c]) = last_created h"
  by (induction h) (auto split: sum.split call.split)

definition storing_server :: ext where
  "storing_server = sample_ext\<lparr>x_GetCluster := \<lambda>h _ _. last_created h\<rparr>"

theorem provisioned_cluster_is_local_witness:
  "\<exists>h d. ProvisionLocalClusterObject storing_server quiet_config [] = (None, h @ [CreateCluster d]) \<and>
     (case cluster_Reconcile storing_server (NewClusterReconciler quiet_config) (by_name ''local'')
             (NewManager []) (h @ [CreateCluster d]) of
        (res, r', m', h') \<Rightarrow>
          \<exists>s. UpdateClusterStatusCall LocalSite s \<in> set h' \<and> st_Type (c_Status s) = ClusterTypeLocal)"
proof -
  let ?X = storing_server
  have X: "x_GetCluster ?X = (\<lambda>h _ _. last_created h)" "x_CreateCluster ?X = (\<lambda>_ _. None)"
    "x_GetNamespace ?X = (\<lambda>_ _ n. Inr n)" "cause_of_plain ?X"
    by (simp_all add: storing_server_def sample_ext_def cause_of_plain_def)
  have q: "cfg_ProvisionLocalCluster quiet_config = ''local''" "\<not> cvw_Enabled (cfg_ClusterValidatorWebhook quiet_config)"
    by (simp_all add: quiet_config_def)
  obtain h d where p: "ProvisionLocalClusterObject ?X quiet_config [] = (None, h @ [CreateCluster d])"
    and d: "m_Name d = ''local''" "m_Annotations d ClusterDisabledAnnotation = None"
  proof -
    obtain h' where p: "ProvisionLocalClusterObject ?X quiet_config [] = (None, h')"
      using q by (simp add: ProvisionLocalClusterObject_def getCluster_def NewLocalCluster_def getNamespace_def X)
    moreover have "x_GetCluster ?X [] LocalSite
       \<lparr>nn_Name = cfg_ProvisionLocalCluster quiet_config, nn_Namespace = cfg_Namespace quiet_config\<rparr> = Inl not_found"
      by (simp add: X)
    ultimately show thesis
      by (rule provision_cases) (use that p q in \<open>auto simp: NewLocalCluster_def getNamespace_def X\<close>)
  qed
  have m: "manager_wf (NewManager [])" by (simp add: manager_wf_def NewManager_def alist_wf_def)
  obtain res r' m' h' where r: "cluster_Reconcile ?X (NewClusterReconciler quiet_config) (by_name (m_Name d))
      (NewManager []) (h @ [CreateCluster d]) = (res, r', m', h')" by (metis prod_cases4)
  have g: "last_created ((h @ [CreateCluster d]) @ [GetNamespace LocalSite NamespaceSystem]) = Inr d"
    by (simp only: last_created_snoc call.distinct simp_thms)
  from provisioned_cluster_is_local [OF _ p _ _ _ refl d(2) m X(4) r, of NamespaceSystem not_found]
  have "\<exists>s. UpdateClusterStatusCall LocalSite s \<in> set h' \<and> st_Type (c_Status s) = ClusterTypeLocal"
    using g by (simp add: X)
  with p r d(1) show ?thesis by auto
qed

end
